(* ===== verification/Prelude.thy ===== *)
theory Prelude
  imports Main
begin

text \<open>
  Shared vocabulary of the development: the types that stand for Go's
  \<open>time.Time\<close> and \<open>time.Duration\<close>, Go's error values, the outcome of a call to an
  external service, the row operations that the SQL statements of the repositories are
  written in, and the generic lemmas that the component theories use.
\<close>

named_theorems row_simps \<open>rewriting of the row operations (find, update, delete)\<close>
named_theorems handler_simps \<open>definitions unfolded when a handler is evaluated\<close>
named_theorems keeps \<open>integrity of the database after an operation\<close>
named_theorems codec_simps \<open>definitions unfolded when a message is encoded or decoded\<close>

section \<open>Time\<close>

text \<open>
  A \<open>time.Time\<close> is the number of nanoseconds since Go's zero time, so that \<open>IsZero\<close>
  is equality with 0; a \<open>time.Duration\<close> is a number of nanoseconds.
\<close>

type_synonym gotime = int
type_synonym duration = int

abbreviation second :: duration where "second \<equiv> 1000000000"
abbreviation minute :: duration where "minute \<equiv> 60 * second"
abbreviation hour :: duration where "hour \<equiv> 60 * minute"

definition is_zero_time :: "gotime \<Rightarrow> bool" where
  "is_zero_time t \<longleftrightarrow> t = 0"

text \<open>\<open>Time.Sub\<close> saturates at the bounds of the 64-bit \<open>Duration\<close>.\<close>

definition time_sub :: "gotime \<Rightarrow> gotime \<Rightarrow> duration" where
  "time_sub a b = max (- (2 ^ 63)) (min (2 ^ 63 - 1) (a - b))"

lemma time_sub_exact:
  "\<bar>a - b\<bar> < 2 ^ 63 \<Longrightarrow> time_sub a b = a - b"
  by (auto simp: time_sub_def)

lemma time_sub_bounds: "- (2 ^ 63) \<le> time_sub a b" "time_sub a b < 2 ^ 63"
  by (auto simp: time_sub_def)

section \<open>Errors\<close>

text \<open>
  Go error values: the two sentinels of the repository (\<open>db.ErrNotFound\<close>,
  \<open>auth.ErrUnauthorized\<close>), an error with a text of its own, and the wrapping that
  \<open>fmt.Errorf("...: %w", err)\<close> builds, which \<open>errors.Is\<close> looks through.
\<close>

datatype error =
    ErrNotFound
  | ErrUnauthorized
  | ErrText string
  | Wrapped string error

fun err_text :: "error \<Rightarrow> string" where
  "err_text ErrNotFound = ''not found''"
| "err_text ErrUnauthorized = ''unauthorized''"
| "err_text (ErrText s) = s"
| "err_text (Wrapped s e) = s @ '': '' @ err_text e"

fun is_not_found :: "error \<Rightarrow> bool" where
  "is_not_found ErrNotFound = True"
| "is_not_found (Wrapped s e) = is_not_found e"
| "is_not_found _ = False"

section \<open>Calls to external services\<close>

text \<open>
  What a call to a service outside the process did, as the caller can be told: the
  request was carried out and acknowledged, it was not carried out and an error came
  back, or it was carried out and the acknowledgement was lost, so an error came back.
\<close>

datatype outcome = Done | Refused | Ack_Lost

section \<open>Rows\<close>

text \<open>
  A table is the list of its rows in insertion order. \<open>find_row p\<close> is a \<open>SELECT\<close> of at
  most one row, \<open>update_where p f\<close> an \<open>UPDATE ... SET f WHERE p\<close>, \<open>delete_where p\<close> a
  \<open>DELETE ... WHERE p\<close>, \<open>order_desc k\<close> an \<open>ORDER BY k DESC\<close> and \<open>take\<close> a \<open>LIMIT\<close>.
\<close>

definition find_row :: "('a \<Rightarrow> bool) \<Rightarrow> 'a list \<Rightarrow> 'a option" where
  "find_row p rows = List.find p rows"

definition update_where :: "('a \<Rightarrow> bool) \<Rightarrow> ('a \<Rightarrow> 'a) \<Rightarrow> 'a list \<Rightarrow> 'a list" where
  "update_where p f rows = map (\<lambda>r. if p r then f r else r) rows"

definition delete_where :: "('a \<Rightarrow> bool) \<Rightarrow> 'a list \<Rightarrow> 'a list" where
  "delete_where p rows = filter (\<lambda>r. \<not> p r) rows"

definition order_desc :: "('a \<Rightarrow> int) \<Rightarrow> 'a list \<Rightarrow> 'a list" where
  "order_desc k rows = sort_key (\<lambda>r. - k r) rows"

lemma find_row_Nil [simp, row_simps]: "find_row p [] = None"
  by (simp add: find_row_def)

lemma find_row_Cons [simp, row_simps]:
  "find_row p (x # xs) = (if p x then Some x else find_row p xs)"
  by (simp add: find_row_def)

lemma find_row_SomeD: "find_row p xs = Some x \<Longrightarrow> p x \<and> x \<in> set xs"
  by (induction xs) (auto split: if_splits)

lemma find_row_None_iff: "find_row p xs = None \<longleftrightarrow> (\<forall>x\<in>set xs. \<not> p x)"
  by (induction xs) auto

lemma find_row_append:
  "find_row p (xs @ ys) = (case find_row p xs of None \<Rightarrow> find_row p ys | Some x \<Rightarrow> Some x)"
  by (induction xs) auto

lemma update_where_Nil [simp, row_simps]: "update_where p f [] = []"
  by (simp add: update_where_def)

lemma update_where_Cons [simp, row_simps]:
  "update_where p f (x # xs) = (if p x then f x else x) # update_where p f xs"
  by (simp add: update_where_def)

lemma update_where_cong_id:
  "(\<And>x. x \<in> set xs \<Longrightarrow> p x \<Longrightarrow> f x = x) \<Longrightarrow> update_where p f xs = xs"
  by (induction xs) auto

lemma update_where_twice:
  "(\<And>x. x \<in> set xs \<Longrightarrow> p x \<Longrightarrow> p (f x) \<Longrightarrow> f (f x) = f x) \<Longrightarrow>
    update_where p f (update_where p f xs) = update_where p f xs"
  by (induction xs) auto

lemma length_update_where [simp]: "length (update_where p f xs) = length xs"
  by (simp add: update_where_def)

lemma map_update_where:
  "(\<And>x. g (f x) = g x) \<Longrightarrow> map g (update_where p f xs) = map g xs"
  by (induction xs) auto

lemma set_update_where:
  "set (update_where p f xs) = f ` {x \<in> set xs. p x} \<union> {x \<in> set xs. \<not> p x}"
  by (induction xs) auto

lemma find_row_update_where:
  assumes "\<And>x. q (f x) = q x"
  shows "find_row q (update_where p f xs) =
    map_option (\<lambda>x. if p x then f x else x) (find_row q xs)"
  using assms by (induction xs) auto

lemma find_row_update_other:
  assumes "\<And>x. p x \<Longrightarrow> \<not> q x" and "\<And>x. p x \<Longrightarrow> \<not> q (f x)"
  shows "find_row q (update_where p f xs) = find_row q xs"
  using assms by (induction xs) auto

lemma delete_where_Nil [simp, row_simps]: "delete_where p [] = []"
  by (simp add: delete_where_def)

lemma delete_where_Cons [simp, row_simps]:
  "delete_where p (x # xs) = (if p x then delete_where p xs else x # delete_where p xs)"
  by (simp add: delete_where_def)

lemma set_delete_where [simp]: "set (delete_where p xs) = {x \<in> set xs. \<not> p x}"
  by (auto simp: delete_where_def)

lemma length_delete_where:
  "length (delete_where p xs) = length xs \<longleftrightarrow> (\<forall>x\<in>set xs. \<not> p x)"
proof (induction xs)
  case (Cons x xs)
  have "length (delete_where p xs) \<le> length xs" by (simp add: delete_where_def)
  with Cons show ?case by auto
qed simp

lemma set_order_desc [simp]: "set (order_desc k xs) = set xs"
  by (simp add: order_desc_def)

lemma distinct_map_eqD:
  "distinct (map f xs) \<Longrightarrow> x \<in> set xs \<Longrightarrow> y \<in> set xs \<Longrightarrow> f x = f y \<Longrightarrow> x = y"
  by (auto simp: distinct_map inj_on_def)

lemma filter_update_unique:
  assumes "distinct (map k xs)" and "find_row (\<lambda>x. k x = v) xs = Some r" and "\<And>x. k (f x) = k x"
  shows "filter (\<lambda>x. k x = v) (update_where (\<lambda>x. k x = v) f xs) = [f r]"
  using assms(1,2)
proof (induction xs)
  case (Cons x xs)
  have "filter (\<lambda>y. k y = v) (update_where (\<lambda>y. k y = v) f xs) = []" if "k x = v"
  proof -
    have "k y \<noteq> v" if "y \<in> set xs" for y
      using Cons.prems(1) \<open>k x = v\<close> that by (metis distinct.simps(2) imageI list.set_map list.simps(9))
    then show ?thesis by (auto simp: filter_empty_conv set_update_where)
  qed
  with Cons assms(3) show ?case by auto
qed simp

section \<open>Association lists as Go maps\<close>

lemma map_of_map_snd:
  "map_of (map (\<lambda>(k, v). (k, f v)) xs) k = map_option f (map_of xs k)"
  by (induction xs) auto

end
