(* ===== verification/Json_Wire.thy ===== *)
theory Json_Wire
  imports Go_Strings
begin

text \<open>
  JSON documents as \<open>encoding/json\<close> reads and writes them: the document type, the
  decoding of an object into a record field by field (a key selects a field exactly or,
  failing that, ignoring case; unknown keys are skipped; \<open>null\<close> leaves a field as it is; a
  value of the wrong type is an error; a later key overwrites an earlier one), and
  \<open>omitempty\<close>. The bytes of a message are a document or, when they do not parse, \<open>None\<close>.
  A timestamp in RFC 3339 form is a constructor of its own; a Go map is the list of its
  entries in the key order that \<open>Marshal\<close> writes.
\<close>

datatype json =
    JNull
  | JBool bool
  | JInt int
  | JFrac string
  | JStr string
  | JTime gotime
  | JArr "json list"
  | JObj "(string \<times> json) list"

type_synonym json_obj = "(string \<times> json) list"
type_synonym wire = "json option"

section \<open>Encoding\<close>

text \<open>A field that is always written, and a field tagged \<open>omitempty\<close>.\<close>

definition always :: "string \<Rightarrow> json \<Rightarrow> json_obj" where
  "always k v = [(k, v)]"

definition omit_str :: "string \<Rightarrow> string \<Rightarrow> json_obj" where
  "omit_str k s = (if s = [] then [] else [(k, JStr s)])"

definition omit_none :: "string \<Rightarrow> ('a \<Rightarrow> json) \<Rightarrow> 'a option \<Rightarrow> json_obj" where
  "omit_none k f x = (case x of None \<Rightarrow> [] | Some a \<Rightarrow> [(k, f a)])"

text \<open>A map field tagged \<open>omitempty\<close>: dropped when it is nil or has no entry.\<close>

definition omit_map :: "string \<Rightarrow> ('a \<Rightarrow> json) \<Rightarrow> (string \<times> 'a) list option \<Rightarrow> json_obj" where
  "omit_map k f m =
     (case m of None \<Rightarrow> [] | Some [] \<Rightarrow> []
      | Some es \<Rightarrow> [(k, JObj (map (\<lambda>(n, v). (n, f v)) es))])"

text \<open>A map field that is always written: \<open>null\<close> for a nil map.\<close>

definition obj_or_null :: "json_obj option \<Rightarrow> json" where
  "obj_or_null m = (case m of None \<Rightarrow> JNull | Some es \<Rightarrow> JObj es)"

section \<open>Decoding\<close>

type_synonym 'r setter = "json \<Rightarrow> 'r \<Rightarrow> 'r option"

definition set_str :: "(string \<Rightarrow> 'r \<Rightarrow> 'r) \<Rightarrow> 'r setter" where
  "set_str put j r =
     (case j of JNull \<Rightarrow> Some r | JStr s \<Rightarrow> Some (put s r) | _ \<Rightarrow> None)"

definition set_int :: "int \<Rightarrow> (int \<Rightarrow> 'r \<Rightarrow> 'r) \<Rightarrow> 'r setter" where
  "set_int bound put j r =
     (case j of JNull \<Rightarrow> Some r
      | JInt i \<Rightarrow> if - bound \<le> i \<and> i < bound then Some (put i r) else None
      | _ \<Rightarrow> None)"

definition set_time :: "(gotime \<Rightarrow> 'r \<Rightarrow> 'r) \<Rightarrow> 'r setter" where
  "set_time put j r =
     (case j of JNull \<Rightarrow> Some r | JTime t \<Rightarrow> Some (put t r) | _ \<Rightarrow> None)"

definition set_any_map :: "(json_obj option \<Rightarrow> 'r \<Rightarrow> 'r) \<Rightarrow> 'r setter" where
  "set_any_map put j r =
     (case j of JNull \<Rightarrow> Some (put None r) | JObj es \<Rightarrow> Some (put (Some es) r) | _ \<Rightarrow> None)"

fun str_entries :: "json_obj \<Rightarrow> (string \<times> string) list option" where
  "str_entries [] = Some []"
| "str_entries ((k, JStr s) # es) = map_option (\<lambda>r. (k, s) # r) (str_entries es)"
| "str_entries ((k, JNull) # es) = map_option (\<lambda>r. (k, []) # r) (str_entries es)"
| "str_entries _ = None"

definition set_str_map :: "((string \<times> string) list option \<Rightarrow> 'r \<Rightarrow> 'r) \<Rightarrow> 'r setter" where
  "set_str_map put j r =
     (case j of JNull \<Rightarrow> Some (put None r)
      | JObj es \<Rightarrow> map_option (\<lambda>m. put (Some m) r) (str_entries es)
      | _ \<Rightarrow> None)"

text \<open>Pointer fields, and \<open>json.RawMessage\<close>, which keeps any value as it is.\<close>

definition set_opt_str :: "(string option \<Rightarrow> 'r \<Rightarrow> 'r) \<Rightarrow> 'r setter" where
  "set_opt_str put j r = (case j of JNull \<Rightarrow> Some (put None r) | JStr s \<Rightarrow> Some (put (Some s) r) | _ \<Rightarrow> None)"

definition set_opt_time :: "(gotime option \<Rightarrow> 'r \<Rightarrow> 'r) \<Rightarrow> 'r setter" where
  "set_opt_time put j r = (case j of JNull \<Rightarrow> Some (put None r) | JTime t \<Rightarrow> Some (put (Some t) r) | _ \<Rightarrow> None)"

definition set_opt_int :: "int \<Rightarrow> (int option \<Rightarrow> 'r \<Rightarrow> 'r) \<Rightarrow> 'r setter" where
  "set_opt_int bound put j r =
     (case j of JNull \<Rightarrow> Some (put None r)
      | JInt i \<Rightarrow> if - bound \<le> i \<and> i < bound then Some (put (Some i) r) else None
      | _ \<Rightarrow> None)"

definition set_raw :: "(json option \<Rightarrow> 'r \<Rightarrow> 'r) \<Rightarrow> 'r setter" where
  "set_raw put j r = Some (put (Some j) r)"

definition field_for :: "(string \<times> 'r setter) list \<Rightarrow> string \<Rightarrow> 'r setter option" where
  "field_for fields k =
     (case map_of fields k of
        Some f \<Rightarrow> Some f
      | None \<Rightarrow> map_option snd (find_row (\<lambda>(n, f). to_lower n = to_lower k) fields))"

fun decode_fields :: "(string \<times> 'r setter) list \<Rightarrow> json_obj \<Rightarrow> 'r \<Rightarrow> 'r option" where
  "decode_fields fields [] r = Some r"
| "decode_fields fields ((k, v) # es) r =
     (case field_for fields k of
        None \<Rightarrow> decode_fields fields es r
      | Some f \<Rightarrow> (case f v r of None \<Rightarrow> None | Some r' \<Rightarrow> decode_fields fields es r'))"

text \<open>\<open>json.Unmarshal\<close> into a struct whose zero value is \<open>r\<close>.\<close>

fun unmarshal :: "(string \<times> 'r setter) list \<Rightarrow> 'r \<Rightarrow> wire \<Rightarrow> 'r option" where
  "unmarshal fields r (Some (JObj es)) = decode_fields fields es r"
| "unmarshal fields r (Some JNull) = Some r"
| "unmarshal fields r _ = None"

text \<open>A map of strings (a trace context) survives encoding unless it is empty.\<close>

definition str_map :: "(string \<times> string) list \<Rightarrow> json_obj" where
  "str_map m = map (\<lambda>(n, v). (n, JStr v)) m"

lemma str_entries_str_map [simp]: "str_entries (str_map m) = Some m"
  by (induction m) (auto simp: str_map_def)

lemma decode_fields_append:
  "decode_fields fs (xs @ ys) r =
     (case decode_fields fs xs r of None \<Rightarrow> None | Some r' \<Rightarrow> decode_fields fs ys r')"
  by (induction fs xs r rule: decode_fields.induct) (auto split: option.splits)

lemma decode_always:
  "map_of fs k = Some f \<Longrightarrow> decode_fields fs (always k v) r = f v r"
  by (auto simp: always_def field_for_def split: option.splits)

lemma decode_omit_str:
  "map_of fs k = Some (set_str put) \<Longrightarrow> (s = [] \<Longrightarrow> put [] r = r) \<Longrightarrow>
    decode_fields fs (omit_str k s) r = Some (put s r)"
  by (auto simp: omit_str_def field_for_def set_str_def)

lemma decode_omit_none:
  "map_of fs k = Some f \<Longrightarrow>
    decode_fields fs (omit_none k e x) r = (case x of None \<Rightarrow> Some r | Some a \<Rightarrow> f (e a) r)"
  by (auto simp: omit_none_def field_for_def split: option.splits)

lemma decode_omit_map:
  assumes "map_of fs k = Some (set_str_map put)" and "m \<noteq> Some []" and "put None r = r"
  shows "decode_fields fs (omit_map k JStr m) r = Some (put m r)"
proof (cases m)
  case (Some es)
  with assms have "es \<noteq> []" by simp
  with Some assms str_entries_str_map [of es] show ?thesis
    by (cases es) (auto simp: omit_map_def field_for_def set_str_map_def str_map_def)
qed (use assms in \<open>simp add: omit_map_def\<close>)

lemma decode_omit_any_map:
  assumes "map_of fs k = Some (set_any_map put)" and "m \<noteq> Some []" and "put None r = r"
  shows "decode_fields fs (omit_map k (\<lambda>j. j) m) r = Some (put m r)"
  using assms
  by (auto simp: omit_map_def field_for_def set_any_map_def split: option.splits list.splits)

lemmas decode_rules = decode_fields_append decode_always decode_omit_str decode_omit_none
  decode_omit_map decode_omit_any_map

end
