(* ===== verification/Manifest.thy ===== *)
theory Manifest
  imports Json_Wire
begin

text \<open>
  \<open>pkg/manifest/manifest.go\<close>: the manifest that users author and its validation.
  \<open>validate\<close> follows \<open>Manifest.Validate\<close> check by check and returns the first violation;
  \<open>well_formed\<close> is the contract it enforces, stated without order. The string types
  \<open>Mode\<close>, \<open>Runtime\<close> and \<open>TriggerKind\<close> accept any text, as in Go.
\<close>

definition SchemaVersion :: string where "SchemaVersion = ''v1''"
definition ModeJob :: string where "ModeJob = ''job''"
definition ModeServer :: string where "ModeServer = ''server''"
definition RuntimePython :: string where "RuntimePython = ''python''"
definition RuntimeTypeScript :: string where "RuntimeTypeScript = ''typescript''"
definition RuntimeContainer :: string where "RuntimeContainer = ''container''"
definition TriggerManual :: string where "TriggerManual = ''manual''"
definition TriggerWebhook :: string where "TriggerWebhook = ''webhook''"
definition TriggerCron :: string where "TriggerCron = ''cron''"

lemmas manifest_consts = SchemaVersion_def ModeJob_def ModeServer_def RuntimePython_def
  RuntimeTypeScript_def RuntimeContainer_def TriggerManual_def TriggerWebhook_def TriggerCron_def

record env_var =
  ev_name :: string
  ev_value :: string

record resources =
  res_cpu :: string
  res_memory :: string
  res_timeout :: string
  res_disk :: string

record manifest_trigger =
  mt_kind :: string
  mt_name :: string
  mt_cron :: string
  mt_webhook :: "string option"

record server =
  srv_port :: int
  srv_health_path :: string
  srv_idle_timeout :: string

record manifest =
  m_schema :: string
  m_name :: string
  m_mode :: string
  m_runtime :: string
  m_image :: string
  m_entrypoint :: "string list"
  m_inputs :: "json_obj option"
  m_outputs :: "json_obj option"
  m_env :: "env_var list"
  m_secrets :: "string list"
  m_resources :: resources
  m_triggers :: "manifest_trigger list"
  m_server :: "server option"

section \<open>The name syntax\<close>

text \<open>\<open>nameRe\<close> is \<open>^[a-z0-9]([-a-z0-9]{0,61}[a-z0-9])?$\<close>, read left to right.\<close>

definition alnum :: "char \<Rightarrow> bool" where
  "alnum c \<longleftrightarrow> (let n = (of_char c :: nat) in (97 \<le> n \<and> n \<le> 122) \<or> (48 \<le> n \<and> n \<le> 57))"

definition label_char :: "char \<Rightarrow> bool" where
  "label_char c \<longleftrightarrow> c = CHR ''-'' \<or> alnum c"

fun name_re :: "string \<Rightarrow> bool" where
  "name_re [] = False"
| "name_re (c # rest) =
     (alnum c \<and>
      (rest = [] \<or>
       (length (butlast rest) \<le> 61 \<and> list_all label_char (butlast rest) \<and> alnum (last rest))))"

text \<open>A DNS-1123 label: 1 to 63 letters, digits and dashes, no dash at either end.\<close>

definition dns_label :: "string \<Rightarrow> bool" where
  "dns_label s \<longleftrightarrow>
     1 \<le> length s \<and> length s \<le> 63 \<and> list_all label_char s \<and>
     hd s \<noteq> CHR ''-'' \<and> last s \<noteq> CHR ''-''"

lemma not_alnum_dash [simp]: "\<not> alnum (CHR ''-'')"
  by (simp add: alnum_def)

lemma alnum_iff: "alnum c \<longleftrightarrow> label_char c \<and> c \<noteq> CHR ''-''"
  by (auto simp: label_char_def)

lemma name_re_dns_label: "name_re s \<longleftrightarrow> dns_label s"
proof (cases s)
  case (Cons c rest)
  show ?thesis
  proof (cases rest rule: rev_cases)
    case Nil
    with Cons show ?thesis by (auto simp: dns_label_def alnum_iff)
  next
    case (snoc mid d)
    with Cons show ?thesis by (auto simp: dns_label_def alnum_iff)
  qed
qed (simp add: dns_label_def)

section \<open>Validation\<close>

datatype manifest_error =
    Nil_Manifest
  | Bad_Schema string
  | Bad_Name string
  | Bad_Mode string
  | Bad_Runtime string
  | Image_Required
  | Image_Forbidden
  | Server_Required
  | Bad_Port int
  | Cron_Required nat
  | Unknown_Kind nat string

text \<open>The loop over the triggers, with the index it reports.\<close>

fun validate_triggers :: "nat \<Rightarrow> manifest_trigger list \<Rightarrow> manifest_error option" where
  "validate_triggers i [] = None"
| "validate_triggers i (t # ts) =
     (if mt_kind t = TriggerManual \<or> mt_kind t = TriggerWebhook then validate_triggers (Suc i) ts
      else if mt_kind t = TriggerCron then
        (if mt_cron t = [] then Some (Cron_Required i) else validate_triggers (Suc i) ts)
      else Some (Unknown_Kind i (mt_kind t)))"

definition validate_server :: "manifest \<Rightarrow> manifest_error option" where
  "validate_server m =
     (if m_mode m = ModeServer then
        (case m_server m of
           None \<Rightarrow> Some Server_Required
         | Some s \<Rightarrow> if srv_port s \<le> 0 \<or> srv_port s > 65535 then Some (Bad_Port (srv_port s)) else None)
      else None)"

definition validate :: "manifest option \<Rightarrow> manifest_error option" where
  "validate mo =
     (case mo of
        None \<Rightarrow> Some Nil_Manifest
      | Some m \<Rightarrow>
          if m_schema m \<noteq> SchemaVersion then Some (Bad_Schema (m_schema m))
          else if \<not> name_re (m_name m) then Some (Bad_Name (m_name m))
          else if m_mode m \<noteq> ModeJob \<and> m_mode m \<noteq> ModeServer then Some (Bad_Mode (m_mode m))
          else if m_runtime m \<noteq> RuntimePython \<and> m_runtime m \<noteq> RuntimeTypeScript
            \<and> m_runtime m \<noteq> RuntimeContainer then Some (Bad_Runtime (m_runtime m))
          else if m_runtime m = RuntimeContainer \<and> m_image m = [] then Some Image_Required
          else if m_runtime m \<noteq> RuntimeContainer \<and> m_image m \<noteq> [] then Some Image_Forbidden
          else (case validate_server m of
                  Some e \<Rightarrow> Some e
                | None \<Rightarrow> validate_triggers 0 (m_triggers m)))"

text \<open>
  The texts of the errors, as the API reports them (\<open>%q\<close> on a text that needs no escapes).
\<close>

definition quoted :: "string \<Rightarrow> string" where
  "quoted s = CHR 0x22 # s @ [CHR 0x22]"

fun manifest_error_text :: "manifest_error \<Rightarrow> string" where
  "manifest_error_text Nil_Manifest = ''manifest is nil''"
| "manifest_error_text (Bad_Schema v) =
     ''schemaVersion must be '' @ quoted SchemaVersion @ '', got '' @ quoted v"
| "manifest_error_text (Bad_Name n) = ''name '' @ quoted n @ '' must be a DNS-1123 label''"
| "manifest_error_text (Bad_Mode v) = ''mode must be one of [job, server], got '' @ quoted v"
| "manifest_error_text (Bad_Runtime v) =
     ''runtime must be one of [python, typescript, container], got '' @ quoted v"
| "manifest_error_text Image_Required = ''runtime: container requires image to be set''"
| "manifest_error_text Image_Forbidden = ''image may only be set when runtime: container''"
| "manifest_error_text Server_Required = ''mode: server requires a server block''"
| "manifest_error_text (Bad_Port p) = ''server.port must be in 1..65535, got '' @ show_int p"
| "manifest_error_text (Cron_Required i) =
     ''triggers['' @ show_nat i @ '']: cron required for kind=cron''"
| "manifest_error_text (Unknown_Kind i k) =
     ''triggers['' @ show_nat i @ '']: unknown kind '' @ quoted k"

section \<open>The contract\<close>

definition trigger_ok :: "manifest_trigger \<Rightarrow> bool" where
  "trigger_ok t \<longleftrightarrow>
     mt_kind t \<in> {TriggerManual, TriggerWebhook} \<or> (mt_kind t = TriggerCron \<and> mt_cron t \<noteq> [])"

definition server_ok :: "manifest \<Rightarrow> bool" where
  "server_ok m \<longleftrightarrow>
     (m_mode m = ModeServer \<longrightarrow> (\<exists>s. m_server m = Some s \<and> 1 \<le> srv_port s \<and> srv_port s \<le> 65535))"

definition well_formed :: "manifest \<Rightarrow> bool" where
  "well_formed m \<longleftrightarrow>
     m_schema m = SchemaVersion \<and> dns_label (m_name m) \<and>
     m_mode m \<in> {ModeJob, ModeServer} \<and>
     m_runtime m \<in> {RuntimePython, RuntimeTypeScript, RuntimeContainer} \<and>
     (m_runtime m = RuntimeContainer \<longleftrightarrow> m_image m \<noteq> []) \<and>
     server_ok m \<and> (\<forall>t\<in>set (m_triggers m). trigger_ok t)"

lemma validate_triggers_None:
  "validate_triggers i ts = None \<longleftrightarrow> (\<forall>t\<in>set ts. trigger_ok t)"
  by (induction i ts rule: validate_triggers.induct)
    (auto simp: trigger_ok_def manifest_consts)

lemma validate_server_None: "validate_server m = None \<longleftrightarrow> server_ok m"
  by (auto simp: validate_server_def server_ok_def split: option.splits)

lemma validate_iff: "validate (Some m) = None \<longleftrightarrow> well_formed m"
  by (cases "validate_server m")
    (auto simp: validate_def well_formed_def name_re_dns_label validate_server_None [symmetric]
      validate_triggers_None manifest_consts)

text \<open>
  C20: validation accepts exactly the well-formed manifests: the schema version, a DNS-1123
  name, a known mode and runtime, an image exactly for container agents, a server block
  with a port in 1..65535 in server mode, and triggers that carry what their kind needs.
\<close>

theorem validate_accepts_iff_well_formed:
  "validate (Some m) = None \<longleftrightarrow> well_formed m"
  by (rule validate_iff)

text \<open>The trigger that is reported is the first bad one.\<close>

lemma validate_triggers_first:
  "validate_triggers i ts = Some e \<Longrightarrow>
    \<exists>pre t post. ts = pre @ t # post \<and> (\<forall>u\<in>set pre. trigger_ok u) \<and> \<not> trigger_ok t \<and>
      e = (if mt_kind t = TriggerCron then Cron_Required (i + length pre)
           else Unknown_Kind (i + length pre) (mt_kind t))"
proof (induction i ts rule: validate_triggers.induct)
  case (2 i t ts)
  show ?case
  proof (cases "trigger_ok t")
    case True
    with "2.prems" have "validate_triggers (Suc i) ts = Some e"
      by (auto simp: trigger_ok_def manifest_consts split: if_splits)
    with True "2.IH" obtain pre u post where "ts = pre @ u # post" "\<forall>v\<in>set pre. trigger_ok v"
      "\<not> trigger_ok u"
      "e = (if mt_kind u = TriggerCron then Cron_Required (Suc i + length pre)
           else Unknown_Kind (Suc i + length pre) (mt_kind u))"
      by (auto simp: trigger_ok_def manifest_consts split: if_splits)
    with True show ?thesis by (intro exI [of _ "t # pre"] exI [of _ u] exI [of _ post]) auto
  next
    case False
    with "2.prems" have "e = (if mt_kind t = TriggerCron then Cron_Required i
           else Unknown_Kind i (mt_kind t))"
      by (auto simp: trigger_ok_def manifest_consts split: if_splits)
    with False show ?thesis by (intro exI [of _ "[]"] exI [of _ t] exI [of _ ts]) auto
  qed
qed simp

end
