(* ===== verification/Manifest_Json.thy ===== *)
theory Manifest_Json
  imports Manifest
begin

text \<open>
  The JSON form of a manifest, by the \<open>json\<close> tags of \<open>pkg/manifest/manifest.go\<close>: what
  \<open>POST /v1/agents\<close> decodes, what \<open>internal/agents/repo.go\<close> stores in the manifest column and
  what it reads back. \<open>omitempty\<close> has no effect on the struct field \<open>resources\<close>.
\<close>

section \<open>Nested values\<close>

definition set_nested ::
  "(string \<times> 'a setter) list \<Rightarrow> ('r \<Rightarrow> 'a) \<Rightarrow> ('a \<Rightarrow> 'r \<Rightarrow> 'r) \<Rightarrow> 'r setter" where
  "set_nested flds sel put j r =
     (case j of JNull \<Rightarrow> Some r
      | JObj es \<Rightarrow> map_option (\<lambda>x. put x r) (decode_fields flds es (sel r))
      | _ \<Rightarrow> None)"

text \<open>A pointer field: \<open>null\<close> makes it nil, an object is decoded into the value it has or a new one.\<close>

definition set_pointer ::
  "(string \<times> 'a setter) list \<Rightarrow> 'a \<Rightarrow> ('r \<Rightarrow> 'a option) \<Rightarrow> ('a option \<Rightarrow> 'r \<Rightarrow> 'r) \<Rightarrow> 'r setter" where
  "set_pointer flds zero sel put j r =
     (case j of JNull \<Rightarrow> Some (put None r)
      | JObj es \<Rightarrow>
          map_option (\<lambda>x. put (Some x) r)
            (decode_fields flds es (case sel r of None \<Rightarrow> zero | Some x \<Rightarrow> x))
      | _ \<Rightarrow> None)"

fun decode_all :: "(json \<Rightarrow> 'a option) \<Rightarrow> json list \<Rightarrow> 'a list option" where
  "decode_all f [] = Some []"
| "decode_all f (j # js) =
     (case f j of None \<Rightarrow> None | Some x \<Rightarrow> map_option (\<lambda>xs. x # xs) (decode_all f js))"

definition set_list :: "(json \<Rightarrow> 'a option) \<Rightarrow> ('a list \<Rightarrow> 'r \<Rightarrow> 'r) \<Rightarrow> 'r setter" where
  "set_list f put j r =
     (case j of JNull \<Rightarrow> Some (put [] r)
      | JArr js \<Rightarrow> map_option (\<lambda>xs. put xs r) (decode_all f js)
      | _ \<Rightarrow> None)"

definition str_elem :: "json \<Rightarrow> string option" where
  "str_elem j = (case j of JNull \<Rightarrow> Some [] | JStr s \<Rightarrow> Some s | _ \<Rightarrow> None)"

definition omit_list :: "string \<Rightarrow> ('a \<Rightarrow> json) \<Rightarrow> 'a list \<Rightarrow> json_obj" where
  "omit_list k f xs = (if xs = [] then [] else [(k, JArr (map f xs))])"

lemma decode_all_map:
  "(\<And>x. x \<in> set xs \<Longrightarrow> f (e x) = Some x) \<Longrightarrow> decode_all f (map e xs) = Some xs"
  by (induction xs) auto

lemma decode_omit_list:
  assumes "map_of fs k = Some (set_list f put)" and "\<And>x. x \<in> set xs \<Longrightarrow> f (e x) = Some x"
    and "put [] r = r"
  shows "decode_fields fs (omit_list k e xs) r = Some (put xs r)"
  using assms by (simp add: omit_list_def field_for_def set_list_def decode_all_map)

section \<open>Encoding\<close>

definition marshal_env_var :: "env_var \<Rightarrow> json" where
  "marshal_env_var e = JObj (always ''name'' (JStr (ev_name e)) @ always ''value'' (JStr (ev_value e)))"

definition marshal_resources :: "resources \<Rightarrow> json_obj" where
  "marshal_resources r =
     omit_str ''cpu'' (res_cpu r) @ omit_str ''memory'' (res_memory r) @
     omit_str ''timeout'' (res_timeout r) @ omit_str ''diskSize'' (res_disk r)"

definition marshal_trigger :: "manifest_trigger \<Rightarrow> json" where
  "marshal_trigger t = JObj (
     always ''kind'' (JStr (mt_kind t)) @
     omit_str ''name'' (mt_name t) @
     omit_str ''cron'' (mt_cron t) @
     omit_none ''webhook'' (\<lambda>h. JObj (omit_str ''signatureHeader'' h)) (mt_webhook t))"

definition marshal_server :: "server \<Rightarrow> json_obj" where
  "marshal_server s =
     always ''port'' (JInt (srv_port s)) @
     omit_str ''healthPath'' (srv_health_path s) @
     omit_str ''idleTimeout'' (srv_idle_timeout s)"

definition marshal_manifest :: "manifest \<Rightarrow> json" where
  "marshal_manifest m = JObj (
     always ''schemaVersion'' (JStr (m_schema m)) @
     always ''name'' (JStr (m_name m)) @
     always ''mode'' (JStr (m_mode m)) @
     always ''runtime'' (JStr (m_runtime m)) @
     omit_str ''image'' (m_image m) @
     omit_list ''entrypoint'' JStr (m_entrypoint m) @
     omit_map ''inputs'' (\<lambda>j. j) (m_inputs m) @
     omit_map ''outputs'' (\<lambda>j. j) (m_outputs m) @
     omit_list ''env'' marshal_env_var (m_env m) @
     omit_list ''secrets'' JStr (m_secrets m) @
     always ''resources'' (JObj (marshal_resources (m_resources m))) @
     omit_list ''triggers'' marshal_trigger (m_triggers m) @
     omit_none ''server'' (\<lambda>s. JObj (marshal_server s)) (m_server m))"

section \<open>Decoding\<close>

definition env_var_fields :: "(string \<times> env_var setter) list" where
  "env_var_fields =
    [(''name'', set_str (\<lambda>x r. r\<lparr>ev_name := x\<rparr>)), (''value'', set_str (\<lambda>x r. r\<lparr>ev_value := x\<rparr>))]"

definition resources_fields :: "(string \<times> resources setter) list" where
  "resources_fields =
    [(''cpu'', set_str (\<lambda>x r. r\<lparr>res_cpu := x\<rparr>)), (''memory'', set_str (\<lambda>x r. r\<lparr>res_memory := x\<rparr>)),
     (''timeout'', set_str (\<lambda>x r. r\<lparr>res_timeout := x\<rparr>)),
     (''diskSize'', set_str (\<lambda>x r. r\<lparr>res_disk := x\<rparr>))]"

definition webhook_fields :: "(string \<times> string setter) list" where
  "webhook_fields = [(''signatureHeader'', set_str (\<lambda>x r. x))]"

definition trigger_fields :: "(string \<times> manifest_trigger setter) list" where
  "trigger_fields =
    [(''kind'', set_str (\<lambda>x r. r\<lparr>mt_kind := x\<rparr>)), (''name'', set_str (\<lambda>x r. r\<lparr>mt_name := x\<rparr>)),
     (''cron'', set_str (\<lambda>x r. r\<lparr>mt_cron := x\<rparr>)),
     (''webhook'', set_pointer webhook_fields [] mt_webhook (\<lambda>x r. r\<lparr>mt_webhook := x\<rparr>))]"

definition server_fields :: "(string \<times> server setter) list" where
  "server_fields =
    [(''port'', set_int (2 ^ 63) (\<lambda>x r. r\<lparr>srv_port := x\<rparr>)),
     (''healthPath'', set_str (\<lambda>x r. r\<lparr>srv_health_path := x\<rparr>)),
     (''idleTimeout'', set_str (\<lambda>x r. r\<lparr>srv_idle_timeout := x\<rparr>))]"

definition zero_env_var :: env_var where "zero_env_var = \<lparr>ev_name = [], ev_value = []\<rparr>"

definition zero_manifest_trigger :: manifest_trigger where
  "zero_manifest_trigger = \<lparr>mt_kind = [], mt_name = [], mt_cron = [], mt_webhook = None\<rparr>"

definition zero_server :: server where
  "zero_server = \<lparr>srv_port = 0, srv_health_path = [], srv_idle_timeout = []\<rparr>"

definition zero_manifest :: manifest where
  "zero_manifest =
     \<lparr>m_schema = [], m_name = [], m_mode = [], m_runtime = [], m_image = [], m_entrypoint = [],
      m_inputs = None, m_outputs = None, m_env = [], m_secrets = [],
      m_resources = \<lparr>res_cpu = [], res_memory = [], res_timeout = [], res_disk = []\<rparr>,
      m_triggers = [], m_server = None\<rparr>"

definition env_var_elem :: "json \<Rightarrow> env_var option" where
  "env_var_elem j = unmarshal env_var_fields zero_env_var (Some j)"

definition trigger_elem :: "json \<Rightarrow> manifest_trigger option" where
  "trigger_elem j = unmarshal trigger_fields zero_manifest_trigger (Some j)"

definition manifest_fields :: "(string \<times> manifest setter) list" where
  "manifest_fields =
    [(''schemaVersion'', set_str (\<lambda>x r. r\<lparr>m_schema := x\<rparr>)),
     (''name'', set_str (\<lambda>x r. r\<lparr>m_name := x\<rparr>)),
     (''mode'', set_str (\<lambda>x r. r\<lparr>m_mode := x\<rparr>)),
     (''runtime'', set_str (\<lambda>x r. r\<lparr>m_runtime := x\<rparr>)),
     (''image'', set_str (\<lambda>x r. r\<lparr>m_image := x\<rparr>)),
     (''entrypoint'', set_list str_elem (\<lambda>x r. r\<lparr>m_entrypoint := x\<rparr>)),
     (''inputs'', set_any_map (\<lambda>x r. r\<lparr>m_inputs := x\<rparr>)),
     (''outputs'', set_any_map (\<lambda>x r. r\<lparr>m_outputs := x\<rparr>)),
     (''env'', set_list env_var_elem (\<lambda>x r. r\<lparr>m_env := x\<rparr>)),
     (''secrets'', set_list str_elem (\<lambda>x r. r\<lparr>m_secrets := x\<rparr>)),
     (''resources'', set_nested resources_fields m_resources (\<lambda>x r. r\<lparr>m_resources := x\<rparr>)),
     (''triggers'', set_list trigger_elem (\<lambda>x r. r\<lparr>m_triggers := x\<rparr>)),
     (''server'', set_pointer server_fields zero_server m_server (\<lambda>x r. r\<lparr>m_server := x\<rparr>))]"

definition unmarshal_manifest :: "wire \<Rightarrow> manifest option" where
  "unmarshal_manifest w = unmarshal manifest_fields zero_manifest w"

section \<open>Round trip\<close>

lemma str_elem_JStr [simp]: "str_elem (JStr s) = Some s"
  by (simp add: str_elem_def)

lemma env_var_round: "env_var_elem (marshal_env_var e) = Some e"
  by (cases e) (simp add: env_var_elem_def marshal_env_var_def env_var_fields_def zero_env_var_def
      decode_rules set_str_def)

lemma resources_round:
  "decode_fields resources_fields (marshal_resources r) (m_resources zero_manifest) = Some r"
  by (cases r) (simp add: marshal_resources_def resources_fields_def zero_manifest_def decode_rules)

lemma trigger_round: "trigger_elem (marshal_trigger t) = Some t"
  by (cases t) (simp add: trigger_elem_def marshal_trigger_def trigger_fields_def
      zero_manifest_trigger_def decode_rules set_str_def set_pointer_def webhook_fields_def
      split: option.splits)

lemma server_round:
  "- (2 ^ 63) \<le> srv_port s \<Longrightarrow> srv_port s < 2 ^ 63 \<Longrightarrow>
    decode_fields server_fields (marshal_server s) zero_server = Some s"
  by (cases s) (simp add: marshal_server_def server_fields_def zero_server_def decode_rules
      set_int_def)

text \<open>What \<open>Marshal\<close> keeps: an empty schema becomes nil, and the port must be a 64-bit integer.\<close>

definition manifest_storable :: "manifest \<Rightarrow> bool" where
  "manifest_storable m \<longleftrightarrow> m_inputs m \<noteq> Some [] \<and> m_outputs m \<noteq> Some [] \<and>
     (case m_server m of None \<Rightarrow> True | Some s \<Rightarrow> - (2 ^ 63) \<le> srv_port s \<and> srv_port s < 2 ^ 63)"

lemma manifest_wire:
  assumes "manifest_storable m"
  shows "unmarshal_manifest (Some (marshal_manifest m)) = Some m"
proof -
  have "decode_fields resources_fields (marshal_resources (m_resources m))
      \<lparr>res_cpu = [], res_memory = [], res_timeout = [], res_disk = []\<rparr> = Some (m_resources m)"
    using resources_round [of "m_resources m"] by (simp add: zero_manifest_def)
  then show ?thesis
    using assms
    by (cases m) (simp add: manifest_storable_def unmarshal_manifest_def marshal_manifest_def
        manifest_fields_def zero_manifest_def decode_rules decode_omit_list env_var_round
        trigger_round set_str_def set_nested_def set_pointer_def server_round
        split: option.splits)
qed

end
