(* ===== verification/Sdk.thy ===== *)
theory Sdk
  imports Manifest_Json
begin

text \<open>
  The Go client of \<open>pkg/sdk-go/client.go\<close>: the requests it makes and how it reads the answers.
  The HTTP round trip is a parameter over a state of its own: a request is answered with an
  error or with a status, the text that could be read, its JSON document and the error that cut
  the reading short. Where a method of the code returns a zero or half-filled value together
  with an error, the model returns the error.
\<close>

section \<open>The client\<close>

record sdk_client =
  sd_base :: string
  sd_token :: string

definition sdk_new :: "string \<Rightarrow> string \<Rightarrow> sdk_client" where
  "sdk_new base token = \<lparr>sd_base = trim_right_char CHR ''/'' base, sd_token = token\<rparr>"

record sdk_request =
  sq_method :: string
  sq_url :: string
  sq_authorization :: "string option"
  sq_json :: "json option"

record http_answer =
  ha_status :: nat
  ha_text :: string
  ha_json :: wire
  ha_cut :: "error option"

type_synonym 's sdk_http = "sdk_request \<Rightarrow> 's \<Rightarrow> (error + http_answer) \<times> 's"

datatype sdk_error = Api_Error nat string | Sdk_Error error

definition sdk_error_text :: "sdk_error \<Rightarrow> string" where
  "sdk_error_text e =
     (case e of Api_Error status body \<Rightarrow> ''api '' @ show_nat status @ '': '' @ body | Sdk_Error x \<Rightarrow> err_text x)"

definition sdk_request_for :: "sdk_client \<Rightarrow> string \<Rightarrow> string \<Rightarrow> json option \<Rightarrow> sdk_request" where
  "sdk_request_for c meth path body =
     \<lparr>sq_method = meth, sq_url = sd_base c @ path,
       sq_authorization = (if sd_token c = [] then None else Some (''Bearer '' @ sd_token c)),
       sq_json = body\<rparr>"

text \<open>The part of \<open>do\<close> that all methods share, and \<open>do\<close> without and with a value to fill.\<close>

definition sdk_send ::
  "'s sdk_http \<Rightarrow> sdk_client \<Rightarrow> string \<Rightarrow> string \<Rightarrow> json option \<Rightarrow> 's \<Rightarrow> (sdk_error + http_answer) \<times> 's" where
  "sdk_send http c meth path body s =
     (case http (sdk_request_for c meth path body) s of
        (Inl e, s1) \<Rightarrow> (Inl (Sdk_Error e), s1)
      | (Inr r, s1) \<Rightarrow>
          if ha_status r \<ge> 400 then (Inl (Api_Error (ha_status r) (trim_space (ha_text r))), s1)
          else (Inr r, s1))"

definition sdk_do ::
  "'s sdk_http \<Rightarrow> sdk_client \<Rightarrow> string \<Rightarrow> string \<Rightarrow> json option \<Rightarrow> 's \<Rightarrow> (sdk_error + unit) \<times> 's" where
  "sdk_do http c meth path body s =
     (case sdk_send http c meth path body s of (Inl e, s1) \<Rightarrow> (Inl e, s1) | (Inr _, s1) \<Rightarrow> (Inr (), s1))"

definition sdk_do_into ::
  "(string \<times> 'o setter) list \<Rightarrow> 'o \<Rightarrow> 's sdk_http \<Rightarrow> sdk_client \<Rightarrow> string \<Rightarrow> string \<Rightarrow> json option \<Rightarrow> 's
    \<Rightarrow> (sdk_error + 'o) \<times> 's" where
  "sdk_do_into flds zero http c meth path body s =
     (case sdk_send http c meth path body s of
        (Inl e, s1) \<Rightarrow> (Inl e, s1)
      | (Inr r, s1) \<Rightarrow>
          if ha_text r = [] then (Inr zero, s1)
          else (case unmarshal flds zero (ha_json r) of
                  None \<Rightarrow> (Inl (Sdk_Error (ErrText ''decode response'')), s1)
                | Some x \<Rightarrow> (Inr x, s1)))"

section \<open>The types of the API\<close>

text \<open>An element of a list of structs.\<close>

definition struct_elem :: "(string \<times> 'r setter) list \<Rightarrow> 'r \<Rightarrow> json \<Rightarrow> 'r option" where
  "struct_elem flds zero j = unmarshal flds zero (Some j)"

record sdk_agent =
  xa_id :: string
  xa_name :: string
  xa_mode :: string
  xa_runtime :: string
  xa_image :: "string option"
  xa_created :: gotime

definition zero_sdk_agent :: sdk_agent where
  "zero_sdk_agent = \<lparr>xa_id = [], xa_name = [], xa_mode = [], xa_runtime = [], xa_image = None, xa_created = 0\<rparr>"

definition sdk_agent_fields :: "(string \<times> sdk_agent setter) list" where
  "sdk_agent_fields =
     [(''id'', set_str (\<lambda>x r. r\<lparr>xa_id := x\<rparr>)), (''name'', set_str (\<lambda>x r. r\<lparr>xa_name := x\<rparr>)),
      (''mode'', set_str (\<lambda>x r. r\<lparr>xa_mode := x\<rparr>)), (''runtime'', set_str (\<lambda>x r. r\<lparr>xa_runtime := x\<rparr>)),
      (''image'', set_opt_str (\<lambda>x r. r\<lparr>xa_image := x\<rparr>)),
      (''createdAt'', set_time (\<lambda>x r. r\<lparr>xa_created := x\<rparr>))]"

record sdk_run =
  xr_id :: string
  xr_agent :: string
  xr_status :: string
  xr_inputs :: "json option"
  xr_outputs :: "json option"
  xr_exit :: "int option"
  xr_trace :: string
  xr_created :: gotime
  xr_started :: "gotime option"
  xr_ended :: "gotime option"

definition zero_sdk_run :: sdk_run where
  "zero_sdk_run = \<lparr>xr_id = [], xr_agent = [], xr_status = [], xr_inputs = None, xr_outputs = None,
     xr_exit = None, xr_trace = [], xr_created = 0, xr_started = None, xr_ended = None\<rparr>"

definition sdk_run_fields :: "(string \<times> sdk_run setter) list" where
  "sdk_run_fields =
     [(''id'', set_str (\<lambda>x r. r\<lparr>xr_id := x\<rparr>)), (''agentId'', set_str (\<lambda>x r. r\<lparr>xr_agent := x\<rparr>)),
      (''status'', set_str (\<lambda>x r. r\<lparr>xr_status := x\<rparr>)),
      (''inputs'', set_raw (\<lambda>x r. r\<lparr>xr_inputs := x\<rparr>)), (''outputs'', set_raw (\<lambda>x r. r\<lparr>xr_outputs := x\<rparr>)),
      (''exitCode'', set_opt_int (2 ^ 63) (\<lambda>x r. r\<lparr>xr_exit := x\<rparr>)),
      (''traceId'', set_str (\<lambda>x r. r\<lparr>xr_trace := x\<rparr>)),
      (''createdAt'', set_time (\<lambda>x r. r\<lparr>xr_created := x\<rparr>)),
      (''startedAt'', set_opt_time (\<lambda>x r. r\<lparr>xr_started := x\<rparr>)),
      (''endedAt'', set_opt_time (\<lambda>x r. r\<lparr>xr_ended := x\<rparr>))]"

record sdk_trigger =
  xt_id :: string
  xt_agent :: string
  xt_kind :: string
  xt_name :: string
  xt_cron :: string
  xt_created :: gotime
  xt_secret :: string

definition zero_sdk_trigger :: sdk_trigger where
  "zero_sdk_trigger = \<lparr>xt_id = [], xt_agent = [], xt_kind = [], xt_name = [], xt_cron = [], xt_created = 0,
     xt_secret = []\<rparr>"

definition sdk_trigger_fields :: "(string \<times> sdk_trigger setter) list" where
  "sdk_trigger_fields =
     [(''id'', set_str (\<lambda>x r. r\<lparr>xt_id := x\<rparr>)), (''agentId'', set_str (\<lambda>x r. r\<lparr>xt_agent := x\<rparr>)),
      (''kind'', set_str (\<lambda>x r. r\<lparr>xt_kind := x\<rparr>)), (''name'', set_str (\<lambda>x r. r\<lparr>xt_name := x\<rparr>)),
      (''cron'', set_str (\<lambda>x r. r\<lparr>xt_cron := x\<rparr>)), (''createdAt'', set_time (\<lambda>x r. r\<lparr>xt_created := x\<rparr>)),
      (''webhookSecret'', set_str (\<lambda>x r. r\<lparr>xt_secret := x\<rparr>))]"

record sdk_build =
  xb_id :: string
  xb_agent :: string
  xb_status :: string
  xb_image :: string
  xb_created :: gotime
  xb_ended :: "gotime option"

definition zero_sdk_build :: sdk_build where
  "zero_sdk_build = \<lparr>xb_id = [], xb_agent = [], xb_status = [], xb_image = [], xb_created = 0, xb_ended = None\<rparr>"

definition sdk_build_fields :: "(string \<times> sdk_build setter) list" where
  "sdk_build_fields =
     [(''id'', set_str (\<lambda>x r. r\<lparr>xb_id := x\<rparr>)), (''agentId'', set_str (\<lambda>x r. r\<lparr>xb_agent := x\<rparr>)),
      (''status'', set_str (\<lambda>x r. r\<lparr>xb_status := x\<rparr>)), (''image'', set_str (\<lambda>x r. r\<lparr>xb_image := x\<rparr>)),
      (''createdAt'', set_time (\<lambda>x r. r\<lparr>xb_created := x\<rparr>)), (''endedAt'', set_opt_time (\<lambda>x r. r\<lparr>xb_ended := x\<rparr>))]"

record sdk_secret =
  xs_name :: string
  xs_created :: gotime
  xs_updated :: gotime

definition zero_sdk_secret :: sdk_secret where
  "zero_sdk_secret = \<lparr>xs_name = [], xs_created = 0, xs_updated = 0\<rparr>"

definition sdk_secret_fields :: "(string \<times> sdk_secret setter) list" where
  "sdk_secret_fields =
     [(''name'', set_str (\<lambda>x r. r\<lparr>xs_name := x\<rparr>)), (''createdAt'', set_time (\<lambda>x r. r\<lparr>xs_created := x\<rparr>)),
      (''updatedAt'', set_time (\<lambda>x r. r\<lparr>xs_updated := x\<rparr>))]"

record sdk_tenant =
  xn_id :: string
  xn_slug :: string
  xn_name :: string
  xn_created :: gotime

record sdk_me =
  xm_user :: string
  xm_seats :: int
  xm_tenant :: sdk_tenant

definition zero_sdk_me :: sdk_me where
  "zero_sdk_me = \<lparr>xm_user = [], xm_seats = 0, xm_tenant = \<lparr>xn_id = [], xn_slug = [], xn_name = [], xn_created = 0\<rparr>\<rparr>"

definition sdk_me_fields :: "(string \<times> sdk_me setter) list" where
  "sdk_me_fields =
     [(''userId'', set_str (\<lambda>x r. r\<lparr>xm_user := x\<rparr>)), (''seatCount'', set_int (2 ^ 63) (\<lambda>x r. r\<lparr>xm_seats := x\<rparr>)),
      (''tenant'', set_nested
        [(''id'', set_str (\<lambda>x r. r\<lparr>xn_id := x\<rparr>)), (''slug'', set_str (\<lambda>x r. r\<lparr>xn_slug := x\<rparr>)),
         (''name'', set_str (\<lambda>x r. r\<lparr>xn_name := x\<rparr>)), (''createdAt'', set_time (\<lambda>x r. r\<lparr>xn_created := x\<rparr>))]
        xm_tenant (\<lambda>x r. r\<lparr>xm_tenant := x\<rparr>))]"

section \<open>The methods\<close>

text \<open>The list answers are an object with one list field.\<close>

definition list_field :: "string \<Rightarrow> (string \<times> 'r setter) list \<Rightarrow> 'r \<Rightarrow> (string \<times> ('r list) setter) list" where
  "list_field name flds zero = [(name, set_list (struct_elem flds zero) (\<lambda>x r. x))]"

definition sdk_list_agents :: "'s sdk_http \<Rightarrow> sdk_client \<Rightarrow> 's \<Rightarrow> (sdk_error + sdk_agent list) \<times> 's" where
  "sdk_list_agents http c =
     sdk_do_into (list_field ''agents'' sdk_agent_fields zero_sdk_agent) [] http c ''GET'' ''/v1/agents'' None"

definition sdk_create_agent :: "'s sdk_http \<Rightarrow> sdk_client \<Rightarrow> json_obj option \<Rightarrow> 's \<Rightarrow> (sdk_error + sdk_agent) \<times> 's" where
  "sdk_create_agent http c man =
     sdk_do_into sdk_agent_fields zero_sdk_agent http c ''POST'' ''/v1/agents'' (Some (JObj [(''manifest'', obj_or_null man)]))"

definition sdk_get_agent :: "'s sdk_http \<Rightarrow> sdk_client \<Rightarrow> string \<Rightarrow> 's \<Rightarrow> (sdk_error + sdk_agent) \<times> 's" where
  "sdk_get_agent http c i = sdk_do_into sdk_agent_fields zero_sdk_agent http c ''GET'' (''/v1/agents/'' @ i) None"

definition sdk_delete_agent :: "'s sdk_http \<Rightarrow> sdk_client \<Rightarrow> string \<Rightarrow> 's \<Rightarrow> (sdk_error + unit) \<times> 's" where
  "sdk_delete_agent http c i = sdk_do http c ''DELETE'' (''/v1/agents/'' @ i) None"

definition sdk_list_runs :: "'s sdk_http \<Rightarrow> sdk_client \<Rightarrow> string \<Rightarrow> 's \<Rightarrow> (sdk_error + sdk_run list) \<times> 's" where
  "sdk_list_runs http c agent =
     sdk_do_into (list_field ''runs'' sdk_run_fields zero_sdk_run) [] http c ''GET''
       (''/v1/agents/'' @ agent @ ''/runs'') None"

definition sdk_trigger_run ::
  "'s sdk_http \<Rightarrow> sdk_client \<Rightarrow> string \<Rightarrow> json_obj option \<Rightarrow> 's \<Rightarrow> (sdk_error + sdk_run) \<times> 's" where
  "sdk_trigger_run http c agent inputs =
     sdk_do_into sdk_run_fields zero_sdk_run http c ''POST'' (''/v1/agents/'' @ agent @ ''/runs'')
       (Some (JObj [(''inputs'', obj_or_null inputs)]))"

definition sdk_get_run :: "'s sdk_http \<Rightarrow> sdk_client \<Rightarrow> string \<Rightarrow> 's \<Rightarrow> (sdk_error + sdk_run) \<times> 's" where
  "sdk_get_run http c i = sdk_do_into sdk_run_fields zero_sdk_run http c ''GET'' (''/v1/runs/'' @ i) None"

definition sdk_list_triggers :: "'s sdk_http \<Rightarrow> sdk_client \<Rightarrow> string \<Rightarrow> 's \<Rightarrow> (sdk_error + sdk_trigger list) \<times> 's" where
  "sdk_list_triggers http c agent =
     sdk_do_into (list_field ''triggers'' sdk_trigger_fields zero_sdk_trigger) [] http c ''GET''
       (''/v1/agents/'' @ agent @ ''/triggers'') None"

definition sdk_create_webhook_trigger ::
  "'s sdk_http \<Rightarrow> sdk_client \<Rightarrow> string \<Rightarrow> string \<Rightarrow> 's \<Rightarrow> (sdk_error + sdk_trigger) \<times> 's" where
  "sdk_create_webhook_trigger http c agent name =
     sdk_do_into sdk_trigger_fields zero_sdk_trigger http c ''POST'' (''/v1/agents/'' @ agent @ ''/triggers'')
       (Some (JObj [(''kind'', JStr ''webhook''), (''name'', JStr name)]))"

definition sdk_create_cron_trigger ::
  "'s sdk_http \<Rightarrow> sdk_client \<Rightarrow> string \<Rightarrow> string \<Rightarrow> string \<Rightarrow> 's \<Rightarrow> (sdk_error + sdk_trigger) \<times> 's" where
  "sdk_create_cron_trigger http c agent name cron =
     sdk_do_into sdk_trigger_fields zero_sdk_trigger http c ''POST'' (''/v1/agents/'' @ agent @ ''/triggers'')
       (Some (JObj [(''cron'', JStr cron), (''kind'', JStr ''cron''), (''name'', JStr name)]))"

definition sdk_deploy :: "'s sdk_http \<Rightarrow> sdk_client \<Rightarrow> string \<Rightarrow> 's \<Rightarrow> (sdk_error + unit) \<times> 's" where
  "sdk_deploy http c agent = sdk_do http c ''POST'' (''/v1/agents/'' @ agent @ ''/deploy'') None"

definition sdk_undeploy :: "'s sdk_http \<Rightarrow> sdk_client \<Rightarrow> string \<Rightarrow> 's \<Rightarrow> (sdk_error + unit) \<times> 's" where
  "sdk_undeploy http c agent = sdk_do http c ''DELETE'' (''/v1/agents/'' @ agent @ ''/deploy'') None"

definition sdk_create_build :: "'s sdk_http \<Rightarrow> sdk_client \<Rightarrow> string \<Rightarrow> string \<Rightarrow> 's \<Rightarrow> (sdk_error + sdk_build) \<times> 's" where
  "sdk_create_build http c agent source =
     sdk_do_into sdk_build_fields zero_sdk_build http c ''POST'' (''/v1/agents/'' @ agent @ ''/builds'')
       (Some (JObj [(''sourceUrl'', JStr source)]))"

definition sdk_list_secrets :: "'s sdk_http \<Rightarrow> sdk_client \<Rightarrow> 's \<Rightarrow> (sdk_error + sdk_secret list) \<times> 's" where
  "sdk_list_secrets http c =
     sdk_do_into (list_field ''secrets'' sdk_secret_fields zero_sdk_secret) [] http c ''GET'' ''/v1/secrets'' None"

definition sdk_set_secret :: "'s sdk_http \<Rightarrow> sdk_client \<Rightarrow> string \<Rightarrow> string \<Rightarrow> 's \<Rightarrow> (sdk_error + sdk_secret) \<times> 's" where
  "sdk_set_secret http c name val =
     sdk_do_into sdk_secret_fields zero_sdk_secret http c ''POST'' ''/v1/secrets''
       (Some (JObj [(''name'', JStr name), (''value'', JStr val)]))"

definition sdk_delete_secret :: "'s sdk_http \<Rightarrow> sdk_client \<Rightarrow> string \<Rightarrow> 's \<Rightarrow> (sdk_error + unit) \<times> 's" where
  "sdk_delete_secret http c name = sdk_do http c ''DELETE'' (''/v1/secrets/'' @ name) None"

definition sdk_who :: "'s sdk_http \<Rightarrow> sdk_client \<Rightarrow> 's \<Rightarrow> (sdk_error + sdk_me) \<times> 's" where
  "sdk_who http c = sdk_do_into sdk_me_fields zero_sdk_me http c ''GET'' ''/v1/me'' None"

section \<open>The log stream\<close>

text \<open>
  \<open>bufio.Scanner\<close> with a buffer of one MiB: the lines of a text, each without its carriage
  return; the last one may lack its newline; a line that fills the buffer ends the scan.
\<close>

definition scan_limit :: nat where "scan_limit = 1024 * 1024"

definition raw_lines :: "string \<Rightarrow> string list" where
  "raw_lines text = (let ps = split_on CHR 0x0A text in if last ps = [] then butlast ps else ps)"

definition drop_cr :: "string \<Rightarrow> string" where
  "drop_cr l = (if l \<noteq> [] \<and> last l = CHR 0x0D then butlast l else l)"

fun scan_lines :: "string list \<Rightarrow> string list \<times> error option" where
  "scan_lines [] = ([], None)"
| "scan_lines (l # ls) =
     (if length l \<ge> scan_limit then ([], Some (ErrText ''bufio.Scanner: token too long''))
      else (case scan_lines ls of (xs, e) \<Rightarrow> (drop_cr l # xs, e)))"

text \<open>The lines \<open>onLine\<close> is called with.\<close>

definition data_lines :: "string list \<Rightarrow> string list" where
  "data_lines ls = map (\<lambda>l. trim_prefix l ''data: '') (filter (\<lambda>l. has_prefix l ''data: '') ls)"

text \<open>What was passed to \<open>onLine\<close>, and the error; a cancelled context is none.\<close>

definition sdk_stream_logs ::
  "'s sdk_http \<Rightarrow> sdk_client \<Rightarrow> string \<Rightarrow> 's \<Rightarrow> (string list \<times> sdk_error option) \<times> 's" where
  "sdk_stream_logs http c run s =
     (case http (sdk_request_for c ''GET'' (''/v1/runs/'' @ run @ ''/logs'') None) s of
        (Inl e, s1) \<Rightarrow> (([], Some (Sdk_Error e)), s1)
      | (Inr r, s1) \<Rightarrow>
          if ha_status r \<ge> 400 then (([], Some (Api_Error (ha_status r) (trim_space (ha_text r)))), s1)
          else (case scan_lines (raw_lines (ha_text r)) of
                  (ls, Some e) \<Rightarrow> ((data_lines ls, Some (Sdk_Error e)), s1)
                | (ls, None) \<Rightarrow> ((data_lines ls, map_option Sdk_Error (ha_cut r)), s1)))"

end
