(* ===== verification/Auth.thy ===== *)
theory Auth
  imports Json_Wire
begin

text \<open>
  \<open>internal/auth\<close>: identities, the bearer-token middleware, the development verifier, the
  WorkOS verifier (the JWKS cache and \<open>jwt.Parse\<close> are third-party code and parameters of it)
  and the CORS middleware; and the HTTP responses every handler of the model returns.
\<close>

section \<open>Responses\<close>

datatype body = No_Body | Text string | Payload json

type_synonym response = "nat \<times> body"

definition http_error :: "string \<Rightarrow> nat \<Rightarrow> response" where
  "http_error msg code = (code, Text msg)"

definition write_json :: "nat \<Rightarrow> json \<Rightarrow> response" where
  "write_json code j = (code, Payload j)"

definition unauthorized :: response where
  "unauthorized = http_error ''unauthorized'' 401"

lemma http_error_code [simp]: "fst (http_error m c) = c"
  by (simp add: http_error_def)

lemma write_json_code [simp]: "fst (write_json c j) = c"
  by (simp add: write_json_def)

lemma unauthorized_code [simp]: "fst unauthorized = 401"
  by (simp add: unauthorized_def)

section \<open>Identities\<close>

record identity =
  id_tenant :: string
  id_user :: string

text \<open>The identity a request context carries: none before authentication.\<close>

type_synonym ctx = "identity option"

definition from_context :: "ctx \<Rightarrow> identity option" where
  "from_context c = c"

definition with_identity :: "ctx \<Rightarrow> identity \<Rightarrow> ctx" where
  "with_identity c i = Some i"

lemma from_with_identity [simp]: "from_context (with_identity c i) = Some i"
  by (simp add: from_context_def with_identity_def)

text \<open>What every verifier promises: an identity it returns names a tenant and a user.\<close>

locale verifier =
  fixes verify :: "string \<Rightarrow> error + identity"
  assumes verify_names: "verify tok = Inr i \<Longrightarrow> id_tenant i \<noteq> [] \<and> id_user i \<noteq> []"

text \<open>
  \<open>Middleware\<close>: \<open>next\<close> runs only under an identity the verifier returned. \<open>reply\<close> makes the
  401 a reply of the kind the handlers give.
\<close>

definition middleware ::
  "(response \<Rightarrow> 'r) \<Rightarrow> (string \<Rightarrow> error + identity) \<Rightarrow> string \<Rightarrow> (ctx \<Rightarrow> 'w \<Rightarrow> 'r \<times> 'w) \<Rightarrow> ctx \<Rightarrow> 'w \<Rightarrow> 'r \<times> 'w"
where
  "middleware reply verify header nxt c w =
     (if \<not> has_prefix header ''Bearer '' then (reply unauthorized, w)
      else (case verify (trim_prefix header ''Bearer '') of
              Inl e \<Rightarrow> (reply unauthorized, w)
            | Inr i \<Rightarrow> nxt (with_identity c i) w))"

context verifier
begin

lemma middleware_cases:
  "middleware reply verify header nxt c w = (reply unauthorized, w) \<or>
   (\<exists>tok i. header = ''Bearer '' @ tok \<and> verify tok = Inr i \<and> id_tenant i \<noteq> [] \<and> id_user i \<noteq> [] \<and>
     middleware reply verify header nxt c w = nxt (Some i) w)"
proof (cases "has_prefix header ''Bearer ''")
  case True
  then obtain tok where h: "header = ''Bearer '' @ tok" by (auto simp: has_prefix_iff)
  then have t: "trim_prefix header ''Bearer '' = tok" by (simp only: trim_prefix_append)
  show ?thesis
  proof (cases "verify tok")
    case (Inl e)
    with True t show ?thesis by (simp add: middleware_def)
  next
    case (Inr i)
    with True t verify_names [OF Inr] h show ?thesis
      by (auto simp: middleware_def with_identity_def)
  qed
qed (simp add: middleware_def)

end

section \<open>The development verifier\<close>

definition dev_verify :: "string \<Rightarrow> error + identity" where
  "dev_verify token =
     (case split_n (CHR '':'') 3 token of
        [d, t, u] \<Rightarrow>
          if d \<noteq> ''dev'' \<or> t = [] \<or> u = [] then Inl ErrUnauthorized
          else Inr \<lparr>id_tenant = t, id_user = u\<rparr>
      | _ \<Rightarrow> Inl ErrUnauthorized)"

lemma dev_verify_Inr:
  "dev_verify tok = Inr i \<longleftrightarrow>
     (\<exists>t u. split_n (CHR '':'') 3 tok = [''dev'', t, u] \<and> t \<noteq> [] \<and> u \<noteq> [] \<and>
       i = \<lparr>id_tenant = t, id_user = u\<rparr>)"
  by (auto simp: dev_verify_def split: list.splits)

interpretation dev: verifier dev_verify
  by unfold_locales (auto simp: dev_verify_Inr)

lemma split_n_3: "CHR '':'' \<notin> set t \<Longrightarrow>
    split_n (CHR '':'') 3 (''dev:'' @ t @ '':'' @ u) = [''dev'', t, u]"
  using cut_append [of "CHR '':''" t u] by (simp add: numeral_3_eq_3)

lemma dev_verify_token:
  "CHR '':'' \<notin> set t \<Longrightarrow> t \<noteq> [] \<Longrightarrow> u \<noteq> [] \<Longrightarrow>
    dev_verify (''dev:'' @ t @ '':'' @ u) = Inr \<lparr>id_tenant = t, id_user = u\<rparr>"
  unfolding dev_verify_Inr using split_n_3 [of t u] by blast

section \<open>The WorkOS verifier\<close>

record jwt_token =
  tok_subject :: string
  tok_claims :: "string \<Rightarrow> json option"

definition read_string_claim :: "jwt_token \<Rightarrow> string \<Rightarrow> string \<times> bool" where
  "read_string_claim tok name =
     (case tok_claims tok name of Some (JStr s) \<Rightarrow> (s, True) | _ \<Rightarrow> ([], False))"

text \<open>
  \<open>jwks\<close> is the cached key set (or the error of fetching it) and \<open>parse\<close> the verification of
  a token against it: signature, standard claims with 60 seconds of skew, and the audience
  when one is configured.
\<close>

definition workos_verify ::
  "(error + 'keys) \<Rightarrow> ('keys \<Rightarrow> string option \<Rightarrow> string \<Rightarrow> jwt_token option) \<Rightarrow> string \<Rightarrow> string
    \<Rightarrow> error + identity" where
  "workos_verify jwks parse audience token =
     (case jwks of
        Inl e \<Rightarrow> Inl (Wrapped ''jwks fetch'' e)
      | Inr keys \<Rightarrow>
          (case parse keys (if audience = [] then None else Some audience) token of
             None \<Rightarrow> Inl ErrUnauthorized
           | Some tok \<Rightarrow>
               (let org = fst (read_string_claim tok ''org_id'');
                    tenant = (if org = [] then fst (read_string_claim tok ''organization_id'') else org)
                in if tenant = [] then Inl ErrUnauthorized
                   else if tok_subject tok = [] then Inl ErrUnauthorized
                   else Inr \<lparr>id_tenant = tenant, id_user = tok_subject tok\<rparr>)))"

interpretation workos: verifier "workos_verify jwks parse audience" for jwks parse audience
  by unfold_locales (auto simp: workos_verify_def Let_def split: sum.splits option.splits if_splits)

lemma workos_verify_parsed:
  "workos_verify jwks parse audience token = Inr i \<Longrightarrow>
    \<exists>keys tok. jwks = Inr keys \<and>
      parse keys (if audience = [] then None else Some audience) token = Some tok \<and>
      id_user i = tok_subject tok \<and>
      (tok_claims tok ''org_id'' = Some (JStr (id_tenant i)) \<or>
       tok_claims tok ''organization_id'' = Some (JStr (id_tenant i)))"
  by (auto simp: workos_verify_def Let_def read_string_claim_def
      split: sum.splits option.splits if_splits json.splits)

text \<open>
  A handler behind the middleware runs only for a bearer token its verifier accepted,
  and then under the identity of that token, with a tenant and a user; every other request
  is answered 401 and changes nothing. It holds for both verifiers of the repository.
\<close>

lemma middleware_admits_only_verified:
  assumes "verify \<in> {dev_verify, workos_verify jwks parse audience}"
  shows "middleware reply verify header nxt c w = (reply unauthorized, w) \<or>
    (\<exists>tok i. header = ''Bearer '' @ tok \<and> verify tok = Inr i \<and> id_tenant i \<noteq> [] \<and> id_user i \<noteq> [] \<and>
      middleware reply verify header nxt c w = nxt (Some i) w)"
proof (cases "verify = dev_verify")
  case True
  show ?thesis unfolding True by (rule dev.middleware_cases)
next
  case False
  with assms have v: "verify = workos_verify jwks parse audience" by simp
  show ?thesis unfolding v by (rule workos.middleware_cases)
qed

section \<open>CORS\<close>

definition parse_origins :: "string \<Rightarrow> string list" where
  "parse_origins csv = filter (\<lambda>s. s \<noteq> []) (map trim_space (split_on (CHR '','') csv))"

definition origin_allowed :: "string list \<Rightarrow> string \<Rightarrow> bool" where
  "origin_allowed allowed origin \<longleftrightarrow> list_ex (\<lambda>a. a = ''*'' \<or> a = origin) allowed"

definition default_cors_origins :: "string option \<Rightarrow> string" where
  "default_cors_origins envv =
     (case envv of Some v \<Rightarrow> if v \<noteq> [] then v else ''http://localhost:3000''
      | None \<Rightarrow> ''http://localhost:3000'')"

text \<open>
  The response headers the middleware sets, and the response: an \<open>OPTIONS\<close> request is
  answered here, any other goes on to the handler.
\<close>

definition cors_headers :: "string \<Rightarrow> string \<Rightarrow> (string \<times> string) list" where
  "cors_headers origins origin =
     (if origin \<noteq> [] \<and> origin_allowed (parse_origins origins) origin then
        [(''Access-Control-Allow-Origin'', origin), (''Vary'', ''Origin''),
         (''Access-Control-Allow-Methods'', ''GET, POST, PUT, DELETE, OPTIONS''),
         (''Access-Control-Allow-Headers'', ''Authorization, Content-Type, X-AiLab-Signature''),
         (''Access-Control-Max-Age'', ''600'')]
      else [])"

definition cors ::
  "(response \<Rightarrow> 'r) \<Rightarrow> string \<Rightarrow> string \<Rightarrow> string \<Rightarrow> ('w \<Rightarrow> 'r \<times> 'w) \<Rightarrow> 'w
    \<Rightarrow> ((string \<times> string) list \<times> 'r) \<times> 'w" where
  "cors reply origins meth origin nxt w =
     (let hs = cors_headers origins origin
      in if meth = ''OPTIONS'' then ((hs, reply (204, No_Body)), w)
         else (case nxt w of (r, w') \<Rightarrow> ((hs, r), w')))"

lemma cors_origin_listed:
  "(''Access-Control-Allow-Origin'', x) \<in> set (cors_headers origins origin) \<Longrightarrow>
    x = origin \<and> (''*'' \<in> set (parse_origins origins) \<or> origin \<in> set (parse_origins origins))"
  by (auto simp: cors_headers_def origin_allowed_def list_ex_iff split: if_splits)

end
