(* ===== verification/Agentctl.thy ===== *)
theory Agentctl
  imports Sdk Config
begin

text \<open>
  The command line client of \<open>cmd/agentctl\<close>: its configuration, the client it builds from flags,
  environment and configuration file, and what each command sends and prints. Flag parsing
  (cobra), the layout of tables and the text of times and durations are parameters or left out:
  a command returns the error it fails with or the value it prints, a table being its rows.
  \<open>init\<close>, which copies a directory, is in \<open>Scaffold\<close>, the command tree and the process in
  \<open>Agentctl_Main\<close>.
\<close>

section \<open>Configuration\<close>

record cli_config =
  lc_api :: string
  lc_token :: string

text \<open>What is found at the path of the configuration file, and the file as \<open>SaveConfig\<close> writes it.\<close>

datatype config_file = No_Path error | No_File | Unreadable error | Stored wire

definition cli_config_fields :: "(string \<times> cli_config setter) list" where
  "cli_config_fields = [(''api'', set_str (\<lambda>x r. r\<lparr>lc_api := x\<rparr>)), (''token'', set_str (\<lambda>x r. r\<lparr>lc_token := x\<rparr>))]"

definition no_cli_config :: cli_config where
  "no_cli_config = \<lparr>lc_api = [], lc_token = []\<rparr>"

definition load_config :: "config_file \<Rightarrow> cli_config \<times> error option" where
  "load_config f =
     (case f of
        No_Path e \<Rightarrow> (no_cli_config, Some e)
      | No_File \<Rightarrow> (no_cli_config, None)
      | Unreadable e \<Rightarrow> (no_cli_config, Some e)
      | Stored w \<Rightarrow>
          (case unmarshal cli_config_fields no_cli_config w of
             None \<Rightarrow> (no_cli_config, Some (ErrText ''json'')) | Some c \<Rightarrow> (c, None)))"

text \<open>\<open>write\<close> is the outcome of making the directory and writing the file.\<close>

definition save_config :: "(wire \<Rightarrow> config_file \<Rightarrow> error + config_file) \<Rightarrow> cli_config \<Rightarrow> config_file \<Rightarrow> error option \<times> config_file" where
  "save_config write c f =
     (case f of
        No_Path e \<Rightarrow> (Some e, f)
      | _ \<Rightarrow>
          (case write (Some (JObj (always ''api'' (JStr (lc_api c)) @ always ''token'' (JStr (lc_token c))))) f of
             Inl e \<Rightarrow> (Some e, f) | Inr f' \<Rightarrow> (None, f')))"

definition login_cmd ::
  "(wire \<Rightarrow> config_file \<Rightarrow> error + config_file) \<Rightarrow> string \<Rightarrow> string \<Rightarrow> config_file \<Rightarrow> error option \<times> config_file" where
  "login_cmd write api token f =
     (if token = [] then (Some (ErrText ''--token is required''), f)
      else save_config write \<lparr>lc_api = (if api = [] then ''http://localhost:8080'' else api), lc_token = token\<rparr> f)"

fun first_non_empty :: "string list \<Rightarrow> string" where
  "first_non_empty [] = []"
| "first_non_empty (v # vs) = (if v \<noteq> [] then v else first_non_empty vs)"

text \<open>The flags every command has, the environment and the configuration file.\<close>

record cli =
  cl_api :: string
  cl_token :: string
  cl_environ :: environ
  cl_file :: config_file

definition client_from_flags :: "cli \<Rightarrow> string + sdk_client" where
  "client_from_flags f =
     (let cfg = fst (load_config (cl_file f));
          api = first_non_empty [cl_api f, getenv (cl_environ f) ''AILAB_API'', lc_api cfg, ''http://localhost:8080''];
          token = first_non_empty [cl_token f, getenv (cl_environ f) ''AILAB_TOKEN'', lc_token cfg]
      in if token = [] then Inl ''no token: run 'agentctl login' or set AILAB_TOKEN''
         else Inr (sdk_new api token))"

section \<open>Commands\<close>

text \<open>The shape of a command: build the client, call a method, print what it returned.\<close>

definition cli_call ::
  "cli \<Rightarrow> (sdk_client \<Rightarrow> 's \<Rightarrow> (sdk_error + 'a) \<times> 's) \<Rightarrow> ('a \<Rightarrow> 'b) \<Rightarrow> 's \<Rightarrow> (string + 'b) \<times> 's" where
  "cli_call f call show_it s =
     (case client_from_flags f of
        Inl e \<Rightarrow> (Inl e, s)
      | Inr c \<Rightarrow>
          (case call c s of
             (Inl e, s1) \<Rightarrow> (Inl (sdk_error_text e), s1)
           | (Inr x, s1) \<Rightarrow> (Inr (show_it x), s1)))"

type_synonym table = "string list list"

definition agents_table :: "(gotime \<Rightarrow> string) \<Rightarrow> sdk_agent list \<Rightarrow> table" where
  "agents_table rfc3339 xs =
     [''ID'', ''NAME'', ''MODE'', ''RUNTIME'', ''IMAGE'', ''CREATED''] #
     map (\<lambda>a. [xa_id a, xa_name a, xa_mode a, xa_runtime a,
                case xa_image a of None \<Rightarrow> ''-'' | Some i \<Rightarrow> i, rfc3339 (xa_created a)]) xs"

definition agents_list_cmd :: "(gotime \<Rightarrow> string) \<Rightarrow> 's sdk_http \<Rightarrow> cli \<Rightarrow> 's \<Rightarrow> (string + table) \<times> 's" where
  "agents_list_cmd rfc3339 http f = cli_call f (sdk_list_agents http) (agents_table rfc3339)"

definition agents_get_cmd :: "'s sdk_http \<Rightarrow> cli \<Rightarrow> string \<Rightarrow> 's \<Rightarrow> (string + sdk_agent) \<times> 's" where
  "agents_get_cmd http f i = cli_call f (\<lambda>c. sdk_get_agent http c i) (\<lambda>a. a)"

text \<open>The manifest of \<open>agents create\<close>: a JSON file when one is named, else the flags.\<close>

record create_flags =
  cf_name :: string
  cf_mode :: string
  cf_runtime :: string
  cf_image :: string
  cf_file :: "(error + wire) option"

definition manifest_from_flags :: "create_flags \<Rightarrow> string + json_obj option" where
  "manifest_from_flags f =
     (case cf_file f of
        Some (Inl e) \<Rightarrow> Inl (err_text e)
      | Some (Inr w) \<Rightarrow>
          (case w of
             Some (JObj es) \<Rightarrow> Inr (Some es)
           | Some JNull \<Rightarrow> Inr None
           | _ \<Rightarrow> Inl ''manifest must be JSON'')
      | None \<Rightarrow>
          Inr (Some ((if cf_image f = [] then [] else [(''image'', JStr (cf_image f))]) @
            [(''mode'', JStr (cf_mode f)), (''name'', JStr (cf_name f)), (''runtime'', JStr (cf_runtime f)),
             (''schemaVersion'', JStr ''v1'')])))"

text \<open>\<open>fmt.Sprintf("%v", manifest["name"])\<close>; \<open>print\<close> is the text of a value that is no string.\<close>

definition manifest_name_text :: "(json \<Rightarrow> string) \<Rightarrow> json_obj option \<Rightarrow> string" where
  "manifest_name_text print m =
     (case map_of (rev (case m of None \<Rightarrow> [] | Some es \<Rightarrow> es)) ''name'' of
        None \<Rightarrow> ''<nil>'' | Some JNull \<Rightarrow> ''<nil>'' | Some (JStr s) \<Rightarrow> s | Some j \<Rightarrow> print j)"

definition agents_create_cmd ::
  "(json \<Rightarrow> string) \<Rightarrow> 's sdk_http \<Rightarrow> cli \<Rightarrow> create_flags \<Rightarrow> 's \<Rightarrow> (string + sdk_agent) \<times> 's" where
  "agents_create_cmd print http f cf s =
     (case client_from_flags f of
        Inl e \<Rightarrow> (Inl e, s)
      | Inr _ \<Rightarrow>
          (case manifest_from_flags cf of
             Inl e \<Rightarrow> (Inl e, s)
           | Inr m \<Rightarrow>
               if trim_space (manifest_name_text print m) = [] then (Inl ''manifest name is required'', s)
               else cli_call f (\<lambda>c. sdk_create_agent http c m) (\<lambda>a. a) s))"

definition agents_delete_cmd :: "'s sdk_http \<Rightarrow> cli \<Rightarrow> string \<Rightarrow> 's \<Rightarrow> (string + string) \<times> 's" where
  "agents_delete_cmd http f i = cli_call f (\<lambda>c. sdk_delete_agent http c i) (\<lambda>_. ''deleted'')"

definition opt_time :: "(gotime \<Rightarrow> string) \<Rightarrow> gotime option \<Rightarrow> string" where
  "opt_time rfc3339 t = (case t of None \<Rightarrow> ''-'' | Some x \<Rightarrow> rfc3339 x)"

definition runs_list_cmd :: "(gotime \<Rightarrow> string) \<Rightarrow> 's sdk_http \<Rightarrow> cli \<Rightarrow> string \<Rightarrow> 's \<Rightarrow> (string + table) \<times> 's" where
  "runs_list_cmd rfc3339 http f agent = cli_call f (\<lambda>c. sdk_list_runs http c agent)
     (\<lambda>rs. [''ID'', ''STATUS'', ''CREATED'', ''STARTED'', ''ENDED''] #
        map (\<lambda>r. [xr_id r, xr_status r, rfc3339 (xr_created r), opt_time rfc3339 (xr_started r),
                   opt_time rfc3339 (xr_ended r)]) rs)"

definition parse_inputs :: "(string \<Rightarrow> wire) \<Rightarrow> string \<Rightarrow> string + json_obj option" where
  "parse_inputs parse inputs =
     (if inputs = [] then Inr None
      else (case parse inputs of
              Some (JObj es) \<Rightarrow> Inr (Some es)
            | Some JNull \<Rightarrow> Inr None
            | _ \<Rightarrow> Inl ''invalid --inputs JSON''))"

definition runs_trigger_cmd ::
  "(string \<Rightarrow> wire) \<Rightarrow> 's sdk_http \<Rightarrow> cli \<Rightarrow> string \<Rightarrow> string \<Rightarrow> 's \<Rightarrow> (string + sdk_run) \<times> 's" where
  "runs_trigger_cmd parse http f agent inputs s =
     (case client_from_flags f of
        Inl e \<Rightarrow> (Inl e, s)
      | Inr _ \<Rightarrow>
          (case parse_inputs parse inputs of
             Inl e \<Rightarrow> (Inl e, s)
           | Inr m \<Rightarrow> cli_call f (\<lambda>c. sdk_trigger_run http c agent m) (\<lambda>r. r) s))"

definition runs_get_cmd :: "'s sdk_http \<Rightarrow> cli \<Rightarrow> string \<Rightarrow> 's \<Rightarrow> (string + sdk_run) \<times> 's" where
  "runs_get_cmd http f i = cli_call f (\<lambda>c. sdk_get_run http c i) (\<lambda>r. r)"

text \<open>\<open>runs logs\<close> and its alias \<open>logs\<close>: the lines printed, and the error.\<close>

definition runs_logs_cmd :: "'s sdk_http \<Rightarrow> cli \<Rightarrow> string \<Rightarrow> 's \<Rightarrow> (string list \<times> string option) \<times> 's" where
  "runs_logs_cmd http f i s =
     (case client_from_flags f of
        Inl e \<Rightarrow> (([], Some e), s)
      | Inr c \<Rightarrow>
          (case sdk_stream_logs http c i s of ((ls, e), s1) \<Rightarrow> ((ls, map_option sdk_error_text e), s1)))"

definition dash_if_empty :: "string \<Rightarrow> string" where
  "dash_if_empty s = (if s = [] then ''-'' else s)"

definition triggers_list_cmd :: "(gotime \<Rightarrow> string) \<Rightarrow> 's sdk_http \<Rightarrow> cli \<Rightarrow> string \<Rightarrow> 's \<Rightarrow> (string + table) \<times> 's" where
  "triggers_list_cmd rfc3339 http f agent = cli_call f (\<lambda>c. sdk_list_triggers http c agent)
     (\<lambda>ts. [''ID'', ''KIND'', ''NAME'', ''CRON'', ''CREATED''] #
        map (\<lambda>t. [xt_id t, xt_kind t, xt_name t, dash_if_empty (xt_cron t), rfc3339 (xt_created t)]) ts)"

definition triggers_create_webhook_cmd ::
  "'s sdk_http \<Rightarrow> cli \<Rightarrow> string \<Rightarrow> string \<Rightarrow> 's \<Rightarrow> (string + sdk_trigger) \<times> 's" where
  "triggers_create_webhook_cmd http f agent name s =
     (if name = [] then (Inl ''--name is required'', s)
      else cli_call f (\<lambda>c. sdk_create_webhook_trigger http c agent name) (\<lambda>t. t) s)"

definition triggers_create_cron_cmd ::
  "'s sdk_http \<Rightarrow> cli \<Rightarrow> string \<Rightarrow> string \<Rightarrow> string \<Rightarrow> 's \<Rightarrow> (string + sdk_trigger) \<times> 's" where
  "triggers_create_cron_cmd http f agent name cron s =
     (if name = [] \<or> cron = [] then (Inl ''--name and --cron are required'', s)
      else cli_call f (\<lambda>c. sdk_create_cron_trigger http c agent name cron) (\<lambda>t. t) s)"

definition deploy_cmd :: "'s sdk_http \<Rightarrow> cli \<Rightarrow> string \<Rightarrow> 's \<Rightarrow> (string + string) \<times> 's" where
  "deploy_cmd http f agent = cli_call f (\<lambda>c. sdk_deploy http c agent) (\<lambda>_. ''queued'')"

definition undeploy_cmd :: "'s sdk_http \<Rightarrow> cli \<Rightarrow> string \<Rightarrow> 's \<Rightarrow> (string + string) \<times> 's" where
  "undeploy_cmd http f agent = cli_call f (\<lambda>c. sdk_undeploy http c agent) (\<lambda>_. ''queued'')"

definition builds_create_cmd :: "'s sdk_http \<Rightarrow> cli \<Rightarrow> string \<Rightarrow> string \<Rightarrow> 's \<Rightarrow> (string + sdk_build) \<times> 's" where
  "builds_create_cmd http f agent source s =
     (if source = [] then (Inl ''--source is required'', s)
      else cli_call f (\<lambda>c. sdk_create_build http c agent source) (\<lambda>b. b) s)"

definition secrets_list_cmd :: "(gotime \<Rightarrow> string) \<Rightarrow> 's sdk_http \<Rightarrow> cli \<Rightarrow> 's \<Rightarrow> (string + table) \<times> 's" where
  "secrets_list_cmd rfc3339 http f = cli_call f (sdk_list_secrets http)
     (\<lambda>xs. [''NAME'', ''CREATED'', ''UPDATED''] #
        map (\<lambda>x. [xs_name x, rfc3339 (xs_created x), rfc3339 (xs_updated x)]) xs)"

definition secrets_set_cmd :: "'s sdk_http \<Rightarrow> cli \<Rightarrow> string \<Rightarrow> string \<Rightarrow> 's \<Rightarrow> (string + sdk_secret) \<times> 's" where
  "secrets_set_cmd http f name val = cli_call f (\<lambda>c. sdk_set_secret http c name val) (\<lambda>x. x)"

definition secrets_delete_cmd :: "'s sdk_http \<Rightarrow> cli \<Rightarrow> string \<Rightarrow> 's \<Rightarrow> (string + string) \<times> 's" where
  "secrets_delete_cmd http f name = cli_call f (\<lambda>c. sdk_delete_secret http c name) (\<lambda>_. ''deleted'')"

definition whoami_cmd :: "'s sdk_http \<Rightarrow> cli \<Rightarrow> 's \<Rightarrow> (string + sdk_me) \<times> 's" where
  "whoami_cmd http f = cli_call f (sdk_who http) (\<lambda>x. x)"

section \<open>Waiting for a run\<close>

datatype wait_result =
    Run_Succeeded sdk_run
  | Run_Ended sdk_run
  | Wait_Timeout sdk_run
  | Wait_Failed string

text \<open>
  The loop of \<open>runs wait\<close>. A request that is sent at \<open>now\<close> is answered \<open>lat now\<close> later;
  \<open>stop\<close> is the moment the user interrupts, if any. Nothing in the code bounds the pause from
  below, so the loop is a partial function.
\<close>

partial_function (option) wait_loop ::
  "'s sdk_http \<Rightarrow> sdk_client \<Rightarrow> string \<Rightarrow> (gotime \<Rightarrow> nat) \<Rightarrow> duration \<Rightarrow> gotime \<Rightarrow> gotime option
    \<Rightarrow> gotime \<Rightarrow> 's \<Rightarrow> (wait_result \<times> gotime \<times> 's) option" where
  "wait_loop http c run lat pause deadline stop now s =
     (let t = now + int (lat now) in
      case sdk_get_run http c run s of
        (Inl e, s1) \<Rightarrow> Some (Wait_Failed (sdk_error_text e), t, s1)
      | (Inr r, s1) \<Rightarrow>
          if xr_status r = ''succeeded'' then Some (Run_Succeeded r, t, s1)
          else if xr_status r \<in> {''failed'', ''timed_out'', ''cancelled''} then Some (Run_Ended r, t, s1)
          else if t > deadline then Some (Wait_Timeout r, t, s1)
          else (case stop of
                  Some x \<Rightarrow>
                    if x \<le> t + pause then Some (Wait_Failed ''context canceled'', max t x, s1)
                    else wait_loop http c run lat pause deadline stop (t + pause) s1
                | None \<Rightarrow> wait_loop http c run lat pause deadline stop (t + pause) s1))"

definition runs_wait_cmd ::
  "'s sdk_http \<Rightarrow> cli \<Rightarrow> string \<Rightarrow> duration \<Rightarrow> duration \<Rightarrow> (gotime \<Rightarrow> nat) \<Rightarrow> gotime option \<Rightarrow> gotime \<Rightarrow> 's
    \<Rightarrow> (wait_result \<times> gotime \<times> 's) option" where
  "runs_wait_cmd http f run timeout pause lat stop now s =
     (case client_from_flags f of
        Inl e \<Rightarrow> Some (Wait_Failed e, now, s)
      | Inr c \<Rightarrow> wait_loop http c run lat pause (now + timeout) stop now s)"

section \<open>Lemmas\<close>

lemma first_non_empty_Nil: "first_non_empty vs = [] \<longleftrightarrow> set vs \<subseteq> {[]}"
  by (induction vs) auto

lemma first_non_empty_first: "(\<forall>v\<in>set us. v = []) \<Longrightarrow> v \<noteq> [] \<Longrightarrow> first_non_empty (us @ v # vs) = v"
  by (induction us) auto

text \<open>A saved configuration is read back.\<close>

lemma load_saved_config:
  "load_config (Stored (Some (JObj (always ''api'' (JStr (lc_api c)) @ always ''token'' (JStr (lc_token c)))))) = (c, None)"
  by (simp add: load_config_def cli_config_fields_def no_cli_config_def decode_rules set_str_def)

text \<open>The name of a manifest file is required only when it is the empty string: without the key it is \<open><nil>\<close>.\<close>

lemma nameless_manifest_is_sent:
  assumes "client_from_flags f = Inr c" and "cf_file cf = Some (Inr (Some (JObj [])))"
  shows "agents_create_cmd print http f cf = cli_call f (\<lambda>c. sdk_create_agent http c (Some [])) (\<lambda>a. a)"
proof -
  have "trim_space ''<nil>'' \<noteq> []" by code_simp
  with assms show ?thesis
    by (intro ext) (simp add: agents_create_cmd_def manifest_from_flags_def manifest_name_text_def)
qed

text \<open>What a wait reports, given the answers of the API.\<close>

definition wait_truthful :: "'s sdk_http \<Rightarrow> sdk_client \<Rightarrow> string \<Rightarrow> gotime \<Rightarrow> wait_result \<Rightarrow> gotime \<Rightarrow> bool" where
  "wait_truthful http c run deadline res t \<longleftrightarrow>
     (case res of
        Run_Succeeded r \<Rightarrow> xr_status r = ''succeeded'' \<and> (\<exists>s. fst (sdk_get_run http c run s) = Inr r)
      | Run_Ended r \<Rightarrow> xr_status r \<in> {''failed'', ''timed_out'', ''cancelled''} \<and> (\<exists>s. fst (sdk_get_run http c run s) = Inr r)
      | Wait_Timeout r \<Rightarrow> xr_status r \<notin> {''succeeded'', ''failed'', ''timed_out'', ''cancelled''} \<and> t > deadline
      | Wait_Failed e \<Rightarrow> e = ''context canceled'' \<or> (\<exists>s x. fst (sdk_get_run http c run s) = Inl x \<and> e = sdk_error_text x))"

lemma wait_loop_last:
  assumes g: "sdk_get_run http c run s = (Inr r, s1)"
    and e: "xr_status r \<in> {''succeeded'', ''failed'', ''timed_out'', ''cancelled''} \<or> now + int (lat now) > deadline"
  shows "\<exists>res. wait_loop http c run lat pause deadline stop now s = Some (res, now + int (lat now), s1) \<and>
    wait_truthful http c run deadline res (now + int (lat now))"
proof -
  have f: "\<exists>s. fst (sdk_get_run http c run s) = Inr r" using g by (metis fst_conv)
  consider "xr_status r = ''succeeded''"
    | "xr_status r \<noteq> ''succeeded''" "xr_status r \<in> {''failed'', ''timed_out'', ''cancelled''}"
    | "xr_status r \<notin> {''succeeded'', ''failed'', ''timed_out'', ''cancelled''}" "now + int (lat now) > deadline"
    using e by blast
  then show ?thesis
  proof cases
    case 1
    then have "wait_loop http c run lat pause deadline stop now s = Some (Run_Succeeded r, now + int (lat now), s1)"
      using g by (simp add: wait_loop.simps)
    with 1 f show ?thesis by (auto simp: wait_truthful_def)
  next
    case 2
    then have "wait_loop http c run lat pause deadline stop now s = Some (Run_Ended r, now + int (lat now), s1)"
      using g by (subst wait_loop.simps) simp
    with 2 f show ?thesis by (auto simp: wait_truthful_def)
  next
    case 3
    then have "wait_loop http c run lat pause deadline stop now s = Some (Wait_Timeout r, now + int (lat now), s1)"
      using g by (subst wait_loop.simps) simp
    with 3 show ?thesis by (auto simp: wait_truthful_def)
  qed
qed

lemma wait_loop_returns:
  assumes "0 < pause" and "\<And>t. int (lat t) \<le> slack"
  shows "\<exists>res t s'. wait_loop http c run lat pause deadline stop now s = Some (res, t, s') \<and>
    now \<le> t \<and> t \<le> max (now + slack) (deadline + pause + slack) \<and> wait_truthful http c run deadline res t"
proof (induction "nat (deadline + 1 - now)" arbitrary: now s rule: less_induct)
  case less
  let ?t = "now + int (lat now)"
  have t: "now \<le> ?t" "?t \<le> now + slack" "0 \<le> slack" using assms(2) [of now] by auto
  obtain x s1 where g: "sdk_get_run http c run s = (x, s1)" by fastforce
  show ?case
  proof (cases x)
    case (Inl e)
    then have "wait_loop http c run lat pause deadline stop now s = Some (Wait_Failed (sdk_error_text e), ?t, s1)"
      using g by (simp add: wait_loop.simps)
    then show ?thesis using t g Inl by (auto simp: wait_truthful_def intro: exI [of _ s])
  next
    case (Inr r)
    have fst_g: "fst (sdk_get_run http c run s) = Inr r" using g Inr by simp
    show ?thesis
    proof (cases "xr_status r \<in> {''succeeded'', ''failed'', ''timed_out'', ''cancelled''} \<or> ?t > deadline")
      case True
      then have "\<exists>res. wait_loop http c run lat pause deadline stop now s = Some (res, ?t, s1) \<and>
          wait_truthful http c run deadline res ?t"
        using wait_loop_last [OF g [unfolded Inr], where lat = lat and deadline = deadline and now = now] by blast
      then show ?thesis using t by fastforce
    next
      case False
      let ?next = "wait_loop http c run lat pause deadline stop (?t + pause) s1"
      have eq: "wait_loop http c run lat pause deadline stop now s =
          (case stop of Some x \<Rightarrow> if x \<le> ?t + pause then Some (Wait_Failed ''context canceled'', max ?t x, s1) else ?next
           | None \<Rightarrow> ?next)"
        using False g Inr by (subst wait_loop.simps) (auto simp: Let_def)
      have less_measure: "nat (deadline + 1 - (?t + pause)) < nat (deadline + 1 - now)"
        using False t assms(1) by auto
      obtain res t' s' where n: "?next = Some (res, t', s')" "?t + pause \<le> t'"
        "t' \<le> max (?t + pause + slack) (deadline + pause + slack)" "wait_truthful http c run deadline res t'"
        using less [OF less_measure, of s1] by blast
      have bound: "t' \<le> max (now + slack) (deadline + pause + slack)" "now \<le> t'"
        using n(2,3) False t assms(1) by auto
      show ?thesis
      proof (cases "\<exists>x. stop = Some x \<and> x \<le> ?t + pause")
        case True
        then obtain x where x: "stop = Some x" "x \<le> ?t + pause" by blast
        then have "wait_loop http c run lat pause deadline stop now s = Some (Wait_Failed ''context canceled'', max ?t x, s1)"
          using eq by simp
        moreover have "now \<le> max ?t x" "max ?t x \<le> max (now + slack) (deadline + pause + slack)"
          using x(2) False t by auto
        ultimately show ?thesis by (auto simp: wait_truthful_def)
      next
        case go: False
        then have "wait_loop http c run lat pause deadline stop now s = ?next"
          using eq by (auto split: option.splits)
        with n bound show ?thesis by auto
      qed
    qed
  qed
qed

section \<open>Properties\<close>

text \<open>
  C38: waiting for a run ends: with a positive pause \<open>runs wait\<close> returns whatever the API answers,
  no later than one pause and one request after the deadline, and what it reports is true:
  success or another end only for a run the API showed in that status, a timeout only past
  the deadline and for a run last seen unfinished.
\<close>

theorem runs_wait_returns:
  assumes "client_from_flags f = Inr c" and "0 < pause" and "\<forall>t. int (lat t) \<le> slack" and "0 \<le> timeout"
  shows "\<exists>res t s'. runs_wait_cmd http f run timeout pause lat stop now s = Some (res, t, s') \<and>
    now \<le> t \<and> t \<le> now + timeout + pause + slack \<and> wait_truthful http c run (now + timeout) res t"
proof -
  obtain res t s' where "wait_loop http c run lat pause (now + timeout) stop now s = Some (res, t, s')" "now \<le> t"
    "t \<le> max (now + slack) (now + timeout + pause + slack)" "wait_truthful http c run (now + timeout) res t"
    using wait_loop_returns [of pause lat slack http c run "now + timeout" stop now s] assms(2,3) by blast
  with assms show ?thesis by (auto simp: runs_wait_cmd_def)
qed

definition sample_cli :: cli where
  "sample_cli = \<lparr>cl_api = [], cl_token = ''dev:t:u'', cl_environ = (\<lambda>_. None), cl_file = No_File\<rparr>"

text \<open>An API that shows the run running twice and then succeeded.\<close>

definition third_time :: "nat sdk_http" where
  "third_time q n = (Inr \<lparr>ha_status = 200, ha_text = ''{}'',
     ha_json = Some (JObj [(''status'', JStr (if n < 2 then ''running'' else ''succeeded''))]), ha_cut = None\<rparr>, Suc n)"

theorem runs_wait_returns_witness:
  "\<exists>res t s'. runs_wait_cmd third_time sample_cli ''r1'' 60 2 (\<lambda>_. 1) None 100 0 = Some (res, t, s') \<and>
    100 \<le> t \<and> t \<le> 100 + 60 + 2 + 1 \<and>
    wait_truthful third_time \<lparr>sd_base = ''http://localhost:8080'', sd_token = ''dev:t:u''\<rparr> ''r1'' (100 + 60) res t"
proof (rule runs_wait_returns)
  show "client_from_flags sample_cli = Inr \<lparr>sd_base = ''http://localhost:8080'', sd_token = ''dev:t:u''\<rparr>"
    by code_simp
qed simp_all

end
