(* ===== verification/Scaffold.thy ===== *)
theory Scaffold
  imports Config Manifest "HOL-Library.Word" "HOL-Library.Sublist" "HOL-Library.List_Lexorder" "HOL-Library.Char_ord"
begin

text \<open>
  \<open>agentctl init\<close> (\<open>cmd/agentctl/cmd/init.go\<close>): the path arithmetic of \<open>path/filepath\<close> that it
  uses, a file tree without symbolic links, the walk over the template and the copy. Every
  call of the operating system may fail; a copy that fails may have written a prefix.
\<close>

unbundle bit_operations_syntax

section \<open>The file tree\<close>

type_synonym path = "string list"

datatype node = Dir "32 word" | Regular "32 word" string

text \<open>
  Paths from the root; the first entry of a path counts. A fault is the error of the next
  call that may fail and the number of bytes it wrote before.
\<close>

type_synonym tree = "(path \<times> node) list"

record disk =
  dk_tree :: tree
  dk_cwd :: path
  dk_umask :: "32 word"
  dk_faults :: "(error \<times> nat) option list"

definition enoent :: error where "enoent = ErrText ''no such file or directory''"
definition enotdir :: error where "enotdir = ErrText ''not a directory''"
definition eisdir :: error where "eisdir = ErrText ''is a directory''"

abbreviation node_at :: "disk \<Rightarrow> path \<Rightarrow> node option" where
  "node_at k \<equiv> map_of (dk_tree k)"

definition put_node :: "path \<Rightarrow> node \<Rightarrow> disk \<Rightarrow> disk" where
  "put_node p n k = k\<lparr>dk_tree := (p, n) # dk_tree k\<rparr>"

definition take_fault :: "disk \<Rightarrow> (error \<times> nat) option \<times> disk" where
  "take_fault k = (case dk_faults k of [] \<Rightarrow> (None, k) | f # fs \<Rightarrow> (f, k\<lparr>dk_faults := fs\<rparr>))"

section \<open>Paths\<close>

text \<open>\<open>filepath.Clean\<close>, on the elements of the path, the result reversed.\<close>

fun clean_elems :: "bool \<Rightarrow> string list \<Rightarrow> string list \<Rightarrow> string list" where
  "clean_elems rooted out [] = rev out"
| "clean_elems rooted out (c # cs) =
     (if c = [] \<or> c = ''.'' then clean_elems rooted out cs
      else if c = ''..'' then
        (case out of
           [] \<Rightarrow> clean_elems rooted (if rooted then [] else [''..'']) cs
         | d # ds \<Rightarrow> if d = ''..'' then clean_elems rooted (''..'' # out) cs else clean_elems rooted ds cs)
      else clean_elems rooted (c # out) cs)"

definition clean :: "string \<Rightarrow> string" where
  "clean p =
     (let rooted = has_prefix p ''/'';
          s = join (CHR ''/'') (clean_elems rooted [] (split_on (CHR ''/'') p))
      in if rooted then ''/'' @ s else if s = [] then ''.'' else s)"

definition join_path :: "string \<Rightarrow> string \<Rightarrow> string" where
  "join_path a b = (if a \<noteq> [] then clean (a @ ''/'' @ b) else if b \<noteq> [] then clean b else [])"

definition base_of :: "disk \<Rightarrow> string \<Rightarrow> path" where
  "base_of k p = (if has_prefix p ''/'' then [] else dk_cwd k)"

text \<open>Where a path leads by its elements alone.\<close>

fun descend :: "path \<Rightarrow> string list \<Rightarrow> path" where
  "descend at [] = at"
| "descend at (c # cs) =
     descend (if c = [] \<or> c = ''.'' then at else if c = ''..'' then butlast at else at @ [c]) cs"

definition place :: "disk \<Rightarrow> string \<Rightarrow> path" where
  "place k p = descend (base_of k p) (split_on (CHR ''/'') p)"

text \<open>Where the operating system finds it: every element but the last must be a directory.\<close>

fun locate :: "tree \<Rightarrow> path \<Rightarrow> string list \<Rightarrow> error + path" where
  "locate t at [] = Inr at"
| "locate t at (c # cs) =
     (case map_of t at of
        None \<Rightarrow> Inl enoent
      | Some (Regular m x) \<Rightarrow> Inl enotdir
      | Some (Dir m) \<Rightarrow>
          locate t (if c = [] \<or> c = ''.'' then at else if c = ''..'' then butlast at else at @ [c]) cs)"

definition stat_at :: "string \<Rightarrow> disk \<Rightarrow> error + node" where
  "stat_at p k =
     (if p = [] then Inl enoent
      else (case locate (dk_tree k) (base_of k p) (split_on (CHR ''/'') p) of
              Inl e \<Rightarrow> Inl e
            | Inr q \<Rightarrow> (case node_at k q of None \<Rightarrow> Inl enoent | Some n \<Rightarrow> Inr n)))"

section \<open>Calls of the operating system\<close>

definition stat :: "string \<Rightarrow> disk \<Rightarrow> (error + node) \<times> disk" where
  "stat p k =
     (case take_fault k of (Some (e, _), k1) \<Rightarrow> (Inl e, k1) | (None, k1) \<Rightarrow> (stat_at p k1, k1))"

definition lstat :: "path \<Rightarrow> disk \<Rightarrow> (error + node) \<times> disk" where
  "lstat p k =
     (case take_fault k of
        (Some (e, _), k1) \<Rightarrow> (Inl e, k1)
      | (None, k1) \<Rightarrow> (case node_at k1 p of None \<Rightarrow> (Inl enoent, k1) | Some n \<Rightarrow> (Inr n, k1)))"

text \<open>The names in a directory, in lexical order.\<close>

definition names_in :: "path \<Rightarrow> tree \<Rightarrow> string list" where
  "names_in p t = sort (remdups (map last (filter (\<lambda>q. q \<noteq> [] \<and> butlast q = p) (map fst t))))"

definition read_dir :: "path \<Rightarrow> disk \<Rightarrow> (error + string list) \<times> disk" where
  "read_dir p k =
     (case take_fault k of
        (Some (e, _), k1) \<Rightarrow> (Inl e, k1) | (None, k1) \<Rightarrow> (Inr (names_in p (dk_tree k1)), k1))"

definition make_dir :: "32 word \<Rightarrow> path \<Rightarrow> disk \<Rightarrow> error option \<times> disk" where
  "make_dir mode p k =
     (case node_at k p of
        Some (Dir m) \<Rightarrow> (None, k)
      | Some (Regular m x) \<Rightarrow> (Some enotdir, k)
      | None \<Rightarrow>
          (case take_fault k of
             (Some (e, _), k1) \<Rightarrow> (Some e, k1)
           | (None, k1) \<Rightarrow> (None, put_node p (Dir (mode AND NOT (dk_umask k1))) k1)))"

text \<open>\<open>os.MkdirAll\<close>, for the elements below a directory.\<close>

fun mkdir_below :: "32 word \<Rightarrow> path \<Rightarrow> string list \<Rightarrow> disk \<Rightarrow> error option \<times> disk" where
  "mkdir_below mode at [] k = (None, k)"
| "mkdir_below mode at (c # cs) k =
     (case make_dir mode (at @ [c]) k of
        (Some e, k1) \<Rightarrow> (Some e, k1) | (None, k1) \<Rightarrow> mkdir_below mode (at @ [c]) cs k1)"

definition mkdir_all :: "32 word \<Rightarrow> path \<Rightarrow> disk \<Rightarrow> error option \<times> disk" where
  "mkdir_all mode p = mkdir_below mode [] p"

text \<open>\<open>os.OpenFile\<close> with \<open>O_WRONLY|O_CREATE|O_TRUNC\<close>.\<close>

definition open_truncated :: "path \<Rightarrow> 32 word \<Rightarrow> disk \<Rightarrow> error option \<times> disk" where
  "open_truncated p mode k =
     (case take_fault k of
        (Some (e, _), k1) \<Rightarrow> (Some e, k1)
      | (None, k1) \<Rightarrow>
          (case node_at k1 p of
             Some (Dir m) \<Rightarrow> (Some eisdir, k1)
           | Some (Regular m x) \<Rightarrow> (None, put_node p (Regular m []) k1)
           | None \<Rightarrow> (None, put_node p (Regular (mode AND NOT (dk_umask k1)) []) k1)))"

definition contents :: "path \<Rightarrow> disk \<Rightarrow> string" where
  "contents p k = (case node_at k p of Some (Regular m x) \<Rightarrow> x | _ \<Rightarrow> [])"

definition write_contents :: "path \<Rightarrow> string \<Rightarrow> disk \<Rightarrow> disk" where
  "write_contents p x k =
     (case node_at k p of Some (Regular m _) \<Rightarrow> put_node p (Regular m x) k | _ \<Rightarrow> k)"

definition io_copy :: "path \<Rightarrow> path \<Rightarrow> disk \<Rightarrow> error option \<times> disk" where
  "io_copy src dst k =
     (case take_fault k of
        (Some (e, n), k1) \<Rightarrow> (Some e, write_contents dst (take n (contents src k1)) k1)
      | (None, k1) \<Rightarrow> (None, write_contents dst (contents src k1) k1))"

section \<open>The command\<close>

text \<open>The mode \<open>0o755\<close>.\<close>

definition dir_mode :: "32 word" where "dir_mode = 493"

definition copy_file :: "path \<Rightarrow> path \<Rightarrow> 32 word \<Rightarrow> disk \<Rightarrow> error option \<times> disk" where
  "copy_file src dst mode k =
     (case take_fault k of
        (Some (e, _), k1) \<Rightarrow> (Some e, k1)
      | (None, k1) \<Rightarrow>
          (case mkdir_all dir_mode (butlast dst) k1 of
             (Some e, k2) \<Rightarrow> (Some e, k2)
           | (None, k2) \<Rightarrow>
               (case open_truncated dst mode k2 of
                  (Some e, k3) \<Rightarrow> (Some e, k3)
                | (None, k3) \<Rightarrow> io_copy src dst k3)))"

text \<open>
  \<open>filepath.Walk\<close> with the function of \<open>copyTree\<close>, on the paths still to be visited, relative to
  \<open>src\<close>, in their order: a directory is read before the function is called on it, and any error
  ends the walk. The tree changes while it is walked; \<open>None\<close> is a walk that is not at its end.
\<close>

fun copy_walk :: "nat \<Rightarrow> path \<Rightarrow> path \<Rightarrow> path list \<Rightarrow> disk \<Rightarrow> error option option \<times> disk" where
  "copy_walk n src dst [] k = (Some None, k)"
| "copy_walk 0 src dst (r # rs) k = (None, k)"
| "copy_walk (Suc n) src dst (r # rs) k =
     (case lstat (src @ r) k of
        (Inl e, k1) \<Rightarrow> (Some (Some e), k1)
      | (Inr (Regular mode _), k1) \<Rightarrow>
          (case copy_file (src @ r) (dst @ r) mode k1 of
             (Some e, k2) \<Rightarrow> (Some (Some e), k2) | (None, k2) \<Rightarrow> copy_walk n src dst rs k2)
      | (Inr (Dir _), k1) \<Rightarrow>
          (case read_dir (src @ r) k1 of
             (Inl e, k2) \<Rightarrow> (Some (Some e), k2)
           | (Inr names, k2) \<Rightarrow>
               (case mkdir_all dir_mode (dst @ r) k2 of
                  (Some e, k3) \<Rightarrow> (Some (Some e), k3)
                | (None, k3) \<Rightarrow> copy_walk n src dst (map (\<lambda>x. r @ [x]) names @ rs) k3)))"

definition copy_tree :: "nat \<Rightarrow> path \<Rightarrow> path \<Rightarrow> disk \<Rightarrow> error option option \<times> disk" where
  "copy_tree n src dst = copy_walk n src dst [[]]"

definition templates_dir :: "environ \<Rightarrow> string \<Rightarrow> string" where
  "templates_dir env flag =
     (if flag = [] then
        (if getenv env ''AILAB_TEMPLATES_DIR'' \<noteq> [] then getenv env ''AILAB_TEMPLATES_DIR'' else ''templates'')
      else flag)"

definition template_path :: "environ \<Rightarrow> string \<Rightarrow> string \<Rightarrow> string" where
  "template_path env flag tmpl = join_path (templates_dir env flag) tmpl"

definition destination :: "string \<Rightarrow> string \<Rightarrow> string" where
  "destination tmpl flag = (if flag = [] then tmpl else flag)"

definition init_cmd ::
  "nat \<Rightarrow> environ \<Rightarrow> string \<Rightarrow> string \<Rightarrow> string \<Rightarrow> disk \<Rightarrow> (string + string) option \<times> disk" where
  "init_cmd n env templates dest_flag tmpl k =
     (let src = template_path env templates tmpl;
          dest = destination tmpl dest_flag
      in case stat src k of
           (Inl _, k1) \<Rightarrow>
             (Some (Inl (''template '' @ quoted tmpl @ '' not found at '' @ src @
                ''; set --templates-dir or AILAB_TEMPLATES_DIR'')), k1)
         | (Inr _, k1) \<Rightarrow>
             (case stat dest k1 of
                (Inr _, k2) \<Rightarrow> (Some (Inl (''destination '' @ dest @ '' already exists'')), k2)
              | (Inl e, k2) \<Rightarrow>
                  if e \<noteq> enoent then (Some (Inl (err_text e)), k2)
                  else (case copy_tree n (place k src) (place k dest) k2 of
                          (None, k3) \<Rightarrow> (None, k3)
                        | (Some (Some e), k3) \<Rightarrow> (Some (Inl (err_text e)), k3)
                        | (Some None, k3) \<Rightarrow> (Some (Inr (''scaffolded '' @ tmpl @ '' -> '' @ dest)), k3))))"

section \<open>Lemmas\<close>

lemma take_fault_none [simp]: "dk_faults k = [] \<Longrightarrow> take_fault k = (None, k)"
  by (simp add: take_fault_def)

lemma put_node_simps [simp]:
  "node_at (put_node p n k) = (node_at k)(p \<mapsto> n)" "dk_faults (put_node p n k) = dk_faults k"
  "dk_umask (put_node p n k) = dk_umask k" "dk_cwd (put_node p n k) = dk_cwd k"
  by (auto simp: put_node_def)

lemma locate_descend: "locate t at cs = Inr q \<Longrightarrow> descend at cs = q"
  by (induction t at cs rule: locate.induct) (auto split: option.splits node.splits)

lemma stat_at_place: "stat_at p k = Inr n \<Longrightarrow> node_at k (place k p) = Some n"
  by (auto simp: stat_at_def place_def dest!: locate_descend split: if_splits sum.splits option.splits)

text \<open>A tree: the root and the parent of every entry are directories.\<close>

definition tree_ok :: "tree \<Rightarrow> bool" where
  "tree_ok t \<longleftrightarrow> (\<exists>m. map_of t [] = Some (Dir m)) \<and>
     (\<forall>(p, n)\<in>set t. p \<noteq> [] \<longrightarrow> (\<exists>m. map_of t (butlast p) = Some (Dir m)))"

lemma tree_parent:
  assumes "tree_ok t" and "map_of t (p @ [x]) = Some n"
  shows "\<exists>m. map_of t p = Some (Dir m)"
  using assms map_of_SomeD [OF assms(2)] by (force simp: tree_ok_def)

lemma tree_ancestor:
  assumes "tree_ok t" and "map_of t q = Some n" and "strict_prefix p q"
  shows "\<exists>m. map_of t p = Some (Dir m)"
  using assms(2,3)
proof (induction q arbitrary: n rule: rev_induct)
  case (snoc x q)
  obtain m where m: "map_of t q = Some (Dir m)" using tree_parent [OF assms(1) snoc.prems(1)] by blast
  show ?case
  proof (cases "p = q")
    case False
    then have "strict_prefix p q" using snoc.prems(2) by (auto simp: strict_prefix_def)
    then show ?thesis using snoc.IH m by blast
  qed (use m in blast)
qed simp

lemma names_in_set: "set (names_in p t) = {x. \<exists>n. map_of t (p @ [x]) = Some n}"
proof -
  have "x \<in> set (names_in p t) \<longleftrightarrow> p @ [x] \<in> fst ` set t" for x
    by (auto simp: names_in_def image_iff) (metis append_butlast_last_id fst_conv, force)
  moreover have "q \<in> fst ` set t \<longleftrightarrow> (\<exists>n. map_of t q = Some n)" for q
    using map_of_eq_None_iff [of t q] by auto
  ultimately show ?thesis by blast
qed

lemma names_in_distinct: "distinct (names_in p t)"
  by (simp add: names_in_def)

text \<open>\<open>MkdirAll\<close> below a directory, when no call fails and no regular file is in the way.\<close>

definition new_dir :: "disk \<Rightarrow> node" where
  "new_dir k = Dir (dir_mode AND NOT (dk_umask k))"

definition same_session :: "disk \<Rightarrow> disk \<Rightarrow> bool" where
  "same_session k k' \<longleftrightarrow> dk_faults k' = dk_faults k \<and> dk_umask k' = dk_umask k \<and> dk_cwd k' = dk_cwd k"

lemma mkdir_below_view:
  assumes "dk_faults k = []"
    and "\<And>q m x. strict_prefix at q \<Longrightarrow> prefix q (at @ cs) \<Longrightarrow> node_at k q \<noteq> Some (Regular m x)"
  shows "\<exists>k'. mkdir_below dir_mode at cs k = (None, k') \<and> same_session k k' \<and>
    node_at k' = (\<lambda>q. if strict_prefix at q \<and> prefix q (at @ cs) \<and> node_at k q = None then Some (new_dir k)
                       else node_at k q)"
  using assms
proof (induction cs arbitrary: at k)
  case Nil
  then show ?case by (auto simp: same_session_def fun_eq_iff)
next
  case (Cons c cs)
  have step: "make_dir dir_mode (at @ [c]) k = (None, if node_at k (at @ [c]) = None then put_node (at @ [c]) (new_dir k) k else k)"
    using Cons.prems(1) Cons.prems(2) [of "at @ [c]"]
    by (auto simp: make_dir_def new_dir_def strict_prefix_def split: option.split node.split)
  define k1 where "k1 = (if node_at k (at @ [c]) = None then put_node (at @ [c]) (new_dir k) k else k)"
  have k1: "dk_faults k1 = []" "same_session k k1" "new_dir k1 = new_dir k"
    using Cons.prems(1) by (simp_all add: k1_def same_session_def new_dir_def)
  have view1: "node_at k1 q = (if q = at @ [c] \<and> node_at k q = None then Some (new_dir k) else node_at k q)" for q
    by (auto simp: k1_def)
  have "node_at k1 q \<noteq> Some (Regular m x)" if "strict_prefix (at @ [c]) q" "prefix q ((at @ [c]) @ cs)" for q m x
  proof -
    have "strict_prefix at q" using that(1) by (auto simp: strict_prefix_def prefix_def)
    then show ?thesis using Cons.prems(2) [of q] that(2) by (auto simp: view1 new_dir_def)
  qed
  from Cons.IH [OF k1(1) this] obtain k' where k': "mkdir_below dir_mode (at @ [c]) cs k1 = (None, k')" "same_session k1 k'"
    "node_at k' = (\<lambda>q. if strict_prefix (at @ [c]) q \<and> prefix q ((at @ [c]) @ cs) \<and> node_at k1 q = None
       then Some (new_dir k1) else node_at k1 q)" by blast
  have "strict_prefix at q \<and> prefix q (at @ c # cs) \<longleftrightarrow> q = at @ [c] \<or> strict_prefix (at @ [c]) q \<and> prefix q ((at @ [c]) @ cs)" for q
    by (auto simp: strict_prefix_def prefix_def append_eq_append_conv2 Cons_eq_append_conv)
  then have "node_at k' = (\<lambda>q. if strict_prefix at q \<and> prefix q (at @ c # cs) \<and> node_at k q = None then Some (new_dir k)
      else node_at k q)"
    unfolding k'(3) k1(3) by (auto simp: view1 fun_eq_iff)
  then show ?case using step k' k1(2) by (auto simp: k1_def [symmetric] same_session_def)
qed

lemma mkdir_all_view:
  assumes "dk_faults k = []" and "\<And>q m x. q \<noteq> [] \<Longrightarrow> prefix q p \<Longrightarrow> node_at k q \<noteq> Some (Regular m x)"
  shows "\<exists>k'. mkdir_all dir_mode p k = (None, k') \<and> same_session k k' \<and>
    node_at k' = (\<lambda>q. if q \<noteq> [] \<and> prefix q p \<and> node_at k q = None then Some (new_dir k) else node_at k q)"
  using mkdir_below_view [of k "[]" p] assms by (simp add: mkdir_all_def strict_prefix_def eq_commute [of "[]"])

section \<open>The walk\<close>

text \<open>
  What a copy makes of an entry, and the tree after the entries of \<open>done\<close> were copied: the
  copies, the directories above the destination, and everything else as it was.
\<close>

definition copied :: "disk \<Rightarrow> node \<Rightarrow> node" where
  "copied k n = (case n of Dir _ \<Rightarrow> new_dir k | Regular m x \<Rightarrow> Regular (m AND NOT (dk_umask k)) x)"

definition after_copy :: "disk \<Rightarrow> path \<Rightarrow> path \<Rightarrow> path set \<Rightarrow> path \<Rightarrow> node option" where
  "after_copy k src dst D p =
     (if \<exists>r\<in>D. p = dst @ r then map_option (copied k) (node_at k (src @ drop (length dst) p))
      else if strict_prefix p dst \<and> node_at k p = None \<and> D \<noteq> {} then Some (new_dir k)
      else node_at k p)"

text \<open>The source exists, the destination does not and lies outside it, under no regular file.\<close>

definition copyable :: "disk \<Rightarrow> path \<Rightarrow> path \<Rightarrow> bool" where
  "copyable k src dst \<longleftrightarrow>
     tree_ok (dk_tree k) \<and> dk_faults k = [] \<and> node_at k src \<noteq> None \<and> node_at k dst = None \<and>
     \<not> prefix src dst \<and> (\<forall>q m x. strict_prefix q dst \<longrightarrow> node_at k q \<noteq> Some (Regular m x))"

text \<open>The entries of the source, relative to it.\<close>

definition entries :: "disk \<Rightarrow> path \<Rightarrow> path set" where
  "entries k src = {r. node_at k (src @ r) \<noteq> None}"

definition pending_ok :: "path set \<Rightarrow> path set \<Rightarrow> path list \<Rightarrow> bool" where
  "pending_ok U D ps \<longleftrightarrow>
     D \<subseteq> U \<and> set ps \<subseteq> U \<and> distinct ps \<and>
     (\<forall>r\<in>U. r \<in> D \<or> (\<exists>q\<in>set ps. prefix q r)) \<and>
     (\<forall>q\<in>set ps. \<forall>r. prefix q r \<longrightarrow> r \<notin> D) \<and>
     (\<forall>q\<in>set ps. \<forall>q'\<in>set ps. prefix q q' \<longrightarrow> q = q') \<and>
     (\<forall>q\<in>set ps. \<forall>r. strict_prefix r q \<longrightarrow> r \<in> D)"

lemma finite_entries: "finite (entries k src)"
proof -
  have "entries k src \<subseteq> drop (length src) ` fst ` set (dk_tree k)"
    by (force simp: entries_def image_iff dest: map_of_SomeD)
  then show ?thesis using finite_subset by blast
qed

lemma card_entries: "card (entries k src) \<le> length (dk_tree k)"
proof -
  have "entries k src \<subseteq> drop (length src) ` fst ` set (dk_tree k)"
    by (force simp: entries_def image_iff dest: map_of_SomeD)
  then have "card (entries k src) \<le> card (drop (length src) ` fst ` set (dk_tree k))" by (simp add: card_mono)
  also have "\<dots> \<le> length (dk_tree k)"
    by (metis card_image_le card_length finite_imageI finite_set le_trans)
  finally show ?thesis .
qed

text \<open>Visiting the first pending entry, a regular file or a directory.\<close>

lemma pendingD:
  assumes "pending_ok U D (r # rs)"
  shows "r \<in> U" "r \<notin> D" "r \<notin> set rs" "\<And>q. strict_prefix q r \<Longrightarrow> q \<in> D" "\<And>q. prefix r q \<Longrightarrow> q \<notin> D"
    "\<And>q. q \<in> set rs \<Longrightarrow> \<not> prefix q r" "\<And>q. q \<in> set rs \<Longrightarrow> \<not> prefix r q"
  using assms by (auto simp: pending_ok_def)

lemma pending_rest:
  assumes "pending_ok U D (r # rs)"
  shows "D \<subseteq> U" "set rs \<subseteq> U" "distinct rs"
    "\<And>q. q \<in> U \<Longrightarrow> q \<notin> D \<Longrightarrow> prefix r q \<or> (\<exists>p\<in>set rs. prefix p q)"
    "\<And>q p. q \<in> set rs \<Longrightarrow> prefix q p \<Longrightarrow> p \<notin> D"
    "\<And>q p. q \<in> set rs \<Longrightarrow> p \<in> set rs \<Longrightarrow> prefix q p \<Longrightarrow> q = p"
    "\<And>q p. q \<in> set rs \<Longrightarrow> strict_prefix p q \<Longrightarrow> p \<in> D"
  using assms unfolding pending_ok_def by auto

lemma prefix_below: "prefix r q \<longleftrightarrow> q = r \<or> (\<exists>x ys. q = r @ x # ys)"
  by (auto simp: prefix_def) (metis append.right_neutral neq_Nil_conv)

lemma pending_file:
  assumes "pending_ok U D (r # rs)" and "\<And>x ys. r @ x # ys \<notin> U"
  shows "pending_ok U (insert r D) rs"
  unfolding pending_ok_def
proof (intro conjI ballI allI impI)
  show "insert r D \<subseteq> U" "set rs \<subseteq> U" "distinct rs" using pending_rest [OF assms(1)] pendingD [OF assms(1)] by auto
  show "q \<in> insert r D \<or> (\<exists>p\<in>set rs. prefix p q)" if "q \<in> U" for q
    using pending_rest(4) [OF assms(1) that] assms(2) that by (auto simp: prefix_below [of r])
  show "p \<notin> insert r D" if "q \<in> set rs" "prefix q p" for q p
    using pending_rest(5) [OF assms(1) that] pendingD(6) [OF assms(1) that(1)] that by auto
  show "q = p" if "q \<in> set rs" "p \<in> set rs" "prefix q p" for q p using pending_rest(6) [OF assms(1) that] .
  show "p \<in> insert r D" if "q \<in> set rs" "strict_prefix p q" for q p using pending_rest(7) [OF assms(1) that] by simp
qed

lemma pending_dir:
  assumes "pending_ok U D (r # rs)" and "distinct xs" and "set xs = {x. r @ [x] \<in> U}"
    and "\<And>x ys. r @ x # ys \<in> U \<Longrightarrow> r @ [x] \<in> U"
  shows "pending_ok U (insert r D) (map (\<lambda>x. r @ [x]) xs @ rs)"
  unfolding pending_ok_def
proof (intro conjI ballI allI impI)
  note rest = pending_rest [OF assms(1)] and first = pendingD [OF assms(1)]
  have apart: "\<not> prefix q (r @ [x])" "\<not> prefix (r @ [x]) q" if "q \<in> set rs" for q x
    using first(6,7) [OF that] by (auto simp: prefix_def append_eq_append_conv2 Cons_eq_append_conv)
  show "insert r D \<subseteq> U" "set (map (\<lambda>x. r @ [x]) xs @ rs) \<subseteq> U" using rest(1,2) first(1) assms(3) by auto
  have "r @ [x] \<notin> set rs" for x using apart [of "r @ [x]" x] by auto
  then show "distinct (map (\<lambda>x. r @ [x]) xs @ rs)" using rest(3) assms(2) by (auto simp: distinct_map inj_on_def)
  show "q \<in> insert r D \<or> (\<exists>p\<in>set (map (\<lambda>x. r @ [x]) xs @ rs). prefix p q)" if q: "q \<in> U" for q
  proof -
    consider "q \<in> insert r D" | "\<exists>p\<in>set rs. prefix p q" | x ys where "q = r @ x # ys"
      using rest(4) [OF q] by (auto simp: prefix_below [of r])
    then show ?thesis
    proof cases
      case 3
      then have "x \<in> set xs" "prefix (r @ [x]) q" using assms(3,4) q by (auto simp: prefix_def)
      then show ?thesis by auto
    qed auto
  qed
  show "p \<notin> insert r D" if q: "q \<in> set (map (\<lambda>x. r @ [x]) xs @ rs)" and qp: "prefix q p" for q p
  proof (cases "q \<in> set rs")
    case True
    then show ?thesis using rest(5) [OF True qp] first(6) [OF True] qp by auto
  next
    case False
    then obtain x where "q = r @ [x]" using q by auto
    then obtain ys where "p = r @ x # ys" using qp by (auto simp: prefix_def)
    then show ?thesis using first(5) [of p] by (auto simp: prefix_def)
  qed
  show "q = p" if "q \<in> set (map (\<lambda>x. r @ [x]) xs @ rs)" "p \<in> set (map (\<lambda>x. r @ [x]) xs @ rs)" "prefix q p" for q p
    using that apart rest(6) by auto
  show "p \<in> insert r D" if "q \<in> set (map (\<lambda>x. r @ [x]) xs @ rs)" "strict_prefix p q" for q p
    using that rest(7) first(4) [of p] by (cases "p = r") (auto simp: strict_prefix_def prefix_snoc)
qed

section \<open>One step\<close>

lemma after_copy_outside:
  assumes "copyable k src dst"
  shows "after_copy k src dst D (src @ r) = node_at k (src @ r)"
proof -
  have t: "tree_ok (dk_tree k)" and d: "node_at k dst = None" "\<not> prefix src dst"
    using assms by (simp_all add: copyable_def)
  obtain n where n: "node_at k src = Some n" using assms by (auto simp: copyable_def)
  have "\<not> prefix dst (src @ r)"
  proof
    assume "prefix dst (src @ r)"
    then have "prefix dst src" using d(2) by (auto simp: prefix_def append_eq_append_conv2)
    then have "strict_prefix dst src" using d(1) n by (auto simp: prefix_order.le_less)
    then show False using tree_ancestor [OF t n, of dst] d(1) by simp
  qed
  moreover have "\<not> strict_prefix (src @ r) dst" using d(2) by (auto simp: strict_prefix_def prefix_def)
  ultimately show ?thesis by (auto simp: after_copy_def prefix_def)
qed

lemma fresh_below:
  assumes "copyable k src dst"
  shows "node_at k (dst @ r) = None"
proof (cases r)
  case Nil
  then show ?thesis using assms by (simp add: copyable_def)
next
  case (Cons x ys)
  then have "strict_prefix dst (dst @ r)" by (simp add: strict_prefix_def)
  then show ?thesis
    using assms tree_ancestor [of "dk_tree k" "dst @ r" _ dst] by (cases "node_at k (dst @ r)") (auto simp: copyable_def)
qed

lemma after_copy_fresh:
  assumes "copyable k src dst" and "r \<notin> D"
  shows "after_copy k src dst D (dst @ r) = None"
  using fresh_below [OF assms(1)] assms(2) by (auto simp: after_copy_def strict_prefix_def prefix_def)

text \<open>The directories above an entry are there already or can be made; then the entry is put.\<close>

lemma after_copy_above:
  assumes c: "copyable k src dst" and r: "r \<in> entries k src" "\<And>q. strict_prefix q r \<Longrightarrow> q \<in> D"
    and q: "strict_prefix q (dst @ r)"
  shows "after_copy k src dst D q \<noteq> Some (Regular m x)"
proof (cases "prefix dst q")
  case True
  then obtain r' where r': "q = dst @ r'" by (auto simp: prefix_def)
  then have s: "strict_prefix r' r" using q by (auto simp: strict_prefix_def)
  then have "\<exists>m. node_at k (src @ r') = Some (Dir m)"
    using c r(1) tree_ancestor [of "dk_tree k" "src @ r" _ "src @ r'"] by (auto simp: copyable_def entries_def strict_prefix_def)
  then show ?thesis using r(2) [OF s] r' by (auto simp: after_copy_def copied_def new_dir_def)
next
  case False
  then have "strict_prefix q dst" using q prefix_same_cases [of q "dst @ r" dst] by (auto simp: strict_prefix_def)
  then show ?thesis using c False by (auto simp: after_copy_def copyable_def new_dir_def)
qed

lemma after_copy_insert:
  assumes c: "copyable k src dst" and D: "D \<subseteq> entries k src" and r: "r \<notin> D" "\<And>q. strict_prefix q r \<Longrightarrow> q \<in> D"
    and n: "node_at k (src @ r) = Some n"
  shows "(\<lambda>q. if q \<noteq> [] \<and> strict_prefix q (dst @ r) \<and> after_copy k src dst D q = None then Some (new_dir k)
              else after_copy k src dst D q)(dst @ r \<mapsto> copied k n) = after_copy k src dst (insert r D)" (is "?L = ?R")
proof
  fix q
  have root: "node_at k [] \<noteq> None" using c by (auto simp: copyable_def tree_ok_def)
  consider "q = dst @ r" | r' where "q = dst @ r'" "r' \<in> D" "r' \<noteq> r" | "strict_prefix q dst"
    | "\<not> strict_prefix q dst" "\<nexists>r'. r' \<in> insert r D \<and> q = dst @ r'" using r(1) by auto
  then show "?L q = ?R q"
  proof cases
    case 1
    then show ?thesis using n by (simp add: after_copy_def)
  next
    case 2
    then have "node_at k (src @ r') \<noteq> None" using D by (auto simp: entries_def)
    with 2 show ?thesis by (auto simp: after_copy_def)
  next
    case 3
    then have "\<not> (\<exists>r'. q = dst @ r')" "strict_prefix q (dst @ r)" by (auto simp: strict_prefix_def prefix_def)
    then show ?thesis using 3 root by (auto simp: after_copy_def)
  next
    case 4
    have "\<not> strict_prefix q (dst @ r)"
    proof
      assume s: "strict_prefix q (dst @ r)"
      then have "prefix dst q" using 4(1) prefix_same_cases [of q "dst @ r" dst] by (auto simp: strict_prefix_def)
      then obtain r' where "q = dst @ r'" by (auto simp: prefix_def)
      with s r(2) 4(2) show False by (auto simp: strict_prefix_def)
    qed
    with 4 show ?thesis by (auto simp: after_copy_def)
  qed
qed

lemma same_session_facts:
  "same_session k k' \<Longrightarrow> new_dir k' = new_dir k" "same_session k k' \<Longrightarrow> copied k' n = copied k n"
  "same_session k k' \<Longrightarrow> same_session k' k'' \<Longrightarrow> same_session k k''"
  by (auto simp: same_session_def new_dir_def copied_def split: node.split)

lemma copy_dir_step:
  assumes c: "copyable k src dst" and k: "same_session k k1" "node_at k1 = after_copy k src dst D"
    and D: "D \<subseteq> entries k src" and r: "r \<notin> D" "\<And>q. strict_prefix q r \<Longrightarrow> q \<in> D"
    and n: "node_at k (src @ r) = Some (Dir m)"
  shows "\<exists>k2. mkdir_all dir_mode (dst @ r) k1 = (None, k2) \<and> same_session k k2 \<and>
    node_at k2 = after_copy k src dst (insert r D)"
proof -
  have e: "r \<in> entries k src" using n by (simp add: entries_def)
  have f: "after_copy k src dst D (dst @ r) = None" by (rule after_copy_fresh [OF c r(1)])
  have "node_at k1 q \<noteq> Some (Regular m' x)" if "prefix q (dst @ r)" for q m' x
    using after_copy_above [OF c e r(2)] f that k(2) by (cases "q = dst @ r") (auto simp: strict_prefix_def)
  moreover have "dk_faults k1 = []" using c k(1) by (simp add: copyable_def same_session_def)
  ultimately obtain k2 where k2: "mkdir_all dir_mode (dst @ r) k1 = (None, k2)" "same_session k1 k2"
    "node_at k2 = (\<lambda>q. if q \<noteq> [] \<and> prefix q (dst @ r) \<and> node_at k1 q = None then Some (new_dir k1) else node_at k1 q)"
    using mkdir_all_view [of k1 "dst @ r"] by blast
  have ne: "dst @ r \<noteq> []" using c by (auto simp: copyable_def tree_ok_def)
  have "node_at k2 q = after_copy k src dst (insert r D) q" for q
    using fun_cong [OF after_copy_insert [OF c D r n], of q] f ne
    unfolding k2(3) k(2) same_session_facts(1) [OF k(1)]
    by (auto simp: copied_def strict_prefix_def split: if_splits)
  then have "node_at k2 = after_copy k src dst (insert r D)" by blast
  with k2 same_session_facts(3) [OF k(1)] show ?thesis by blast
qed

lemma copy_file_step:
  assumes c: "copyable k src dst" and k: "same_session k k1" "node_at k1 = after_copy k src dst D"
    and D: "D \<subseteq> entries k src" and r: "r \<notin> D" "\<And>q. strict_prefix q r \<Longrightarrow> q \<in> D"
    and n: "node_at k (src @ r) = Some (Regular m x)"
  shows "\<exists>k2. copy_file (src @ r) (dst @ r) m k1 = (None, k2) \<and> same_session k k2 \<and>
    node_at k2 = after_copy k src dst (insert r D)"
proof -
  have e: "r \<in> entries k src" using n by (simp add: entries_def)
  have f: "after_copy k src dst D (dst @ r) = None" by (rule after_copy_fresh [OF c r(1)])
  have ne: "dst @ r \<noteq> []" using c by (auto simp: copyable_def tree_ok_def)
  have "0 < length (dst @ r)" using ne by blast
  then have "\<not> prefix (dst @ r) (butlast (dst @ r))"
    using prefix_length_le [of "dst @ r" "butlast (dst @ r)"] unfolding length_butlast by linarith
  then have above: "prefix q (butlast (dst @ r)) \<longleftrightarrow> strict_prefix q (dst @ r)" for q
    using ne prefix_snoc [of q "butlast (dst @ r)" "last (dst @ r)"] by (auto simp: strict_prefix_def)
  have "node_at k1 q \<noteq> Some (Regular m' y)" if "prefix q (butlast (dst @ r))" for q m' y
    using after_copy_above [OF c e r(2)] that k(2) above by auto
  moreover have nf: "dk_faults k1 = []" using c k(1) by (simp add: copyable_def same_session_def)
  ultimately obtain k2 where k2: "mkdir_all dir_mode (butlast (dst @ r)) k1 = (None, k2)" "same_session k1 k2"
    "node_at k2 = (\<lambda>q. if q \<noteq> [] \<and> prefix q (butlast (dst @ r)) \<and> node_at k1 q = None then Some (new_dir k1) else node_at k1 q)"
    using mkdir_all_view [of k1 "butlast (dst @ r)"] by blast
  note ss = same_session_facts(3) [OF k(1) k2(2)]
  have "node_at k2 (dst @ r) = None" using f above by (simp add: k2(3) k(2) strict_prefix_def)
  moreover have "node_at k2 (src @ r) = Some (Regular m x)"
    using after_copy_outside [OF c, of D r] n by (simp add: k2(3) k(2))
  moreover have "dst @ r \<noteq> src @ r" using calculation by auto
  ultimately have "copy_file (src @ r) (dst @ r) m k1 =
      (None, put_node (dst @ r) (Regular (m AND NOT (dk_umask k2)) x) (put_node (dst @ r) (Regular (m AND NOT (dk_umask k2)) []) k2))"
    using nf k2(1,2) by (simp add: copy_file_def open_truncated_def io_copy_def contents_def write_contents_def same_session_def)
  moreover have "(node_at k2)(dst @ r \<mapsto> copied k (Regular m x)) = after_copy k src dst (insert r D)"
    using after_copy_insert [OF c D r n] unfolding k2(3) k(2) same_session_facts(1) [OF k(1)] above .
  ultimately show ?thesis using ss by (auto simp: same_session_def copied_def)
qed

section \<open>The copy\<close>

lemma copy_walk_copies:
  assumes c: "copyable k src dst"
  shows "same_session k k1 \<Longrightarrow> node_at k1 = after_copy k src dst D \<Longrightarrow> pending_ok (entries k src) D ps
    \<Longrightarrow> card (entries k src - D) \<le> n
    \<Longrightarrow> \<exists>k2. copy_walk n src dst ps k1 = (Some None, k2) \<and> node_at k2 = after_copy k src dst (entries k src)"
proof (induction n arbitrary: D ps k1)
  case 0
  then have "entries k src \<subseteq> D" using finite_entries [of k src] by simp
  with 0 show ?case by (cases ps) (auto simp: pending_ok_def)
next
  case (Suc n)
  show ?case
  proof (cases ps)
    case Nil
    then have "D = entries k src" using Suc.prems(3) by (auto simp: pending_ok_def)
    with Nil Suc.prems(2) show ?thesis by simp
  next
    case (Cons r rs)
    note p = Suc.prems(3) [unfolded Cons]
    note first = pendingD [OF p] and sub = pending_rest(1) [OF p]
    obtain n' where n': "node_at k (src @ r) = Some n'" using first(1) by (auto simp: entries_def)
    have nf: "dk_faults k1 = []" using c Suc.prems(1) by (simp add: copyable_def same_session_def)
    have l: "lstat (src @ r) k1 = (Inr n', k1)"
      using after_copy_outside [OF c, of D r] n' nf Suc.prems(2) by (simp add: lstat_def)
    have fewer: "card (entries k src - insert r D) \<le> n"
      using Suc.prems(4) first(1,2) finite_entries [of k src]
      by (metis DiffI Diff_insert card_Diff_singleton diff_Suc_1 diff_le_mono)
    have t: "tree_ok (dk_tree k)" using c by (simp add: copyable_def)
    have down: "r @ [x] \<in> entries k src \<and> (\<exists>m. n' = Dir m)" if w: "r @ x # ys \<in> entries k src" for x ys
    proof -
      obtain n2 where n2: "node_at k (src @ r @ x # ys) = Some n2"
        using w by (cases "node_at k (src @ r @ x # ys)") (auto simp: entries_def)
      have "\<exists>m. node_at k (src @ r) = Some (Dir m)" by (rule tree_ancestor [OF t n2]) (simp add: strict_prefix_def)
      moreover have "node_at k (src @ r @ [x]) \<noteq> None"
        using tree_ancestor [OF t n2, of "src @ r @ [x]"] n2 by (cases ys) (auto simp: strict_prefix_def)
      ultimately show ?thesis using n' by (simp add: entries_def)
    qed
    show ?thesis
    proof (cases n')
      case (Dir m)
      obtain k2 where k2: "mkdir_all dir_mode (dst @ r) k1 = (None, k2)" "same_session k k2"
        "node_at k2 = after_copy k src dst (insert r D)"
        using copy_dir_step [OF c Suc.prems(1,2) sub first(2,4) n' [unfolded Dir]] by blast
      define xs where "xs = names_in (src @ r) (dk_tree k1)"
      have xs: "set xs = {x. r @ [x] \<in> entries k src}"
        using after_copy_outside [OF c, of D] Suc.prems(2) by (simp add: xs_def names_in_set entries_def)
      have "distinct xs" by (simp add: xs_def names_in_distinct)
      from pending_dir [OF p this xs] down
      have "pending_ok (entries k src) (insert r D) (map (\<lambda>x. r @ [x]) xs @ rs)" by blast
      from Suc.IH [OF k2(2,3) this fewer] show ?thesis
        using l Dir nf k2(1) Cons by (simp add: read_dir_def xs_def)
    next
      case (Regular m x)
      obtain k2 where k2: "copy_file (src @ r) (dst @ r) m k1 = (None, k2)" "same_session k k2"
        "node_at k2 = after_copy k src dst (insert r D)"
        using copy_file_step [OF c Suc.prems(1,2) sub first(2,4) n' [unfolded Regular]] by blast
      have "pending_ok (entries k src) (insert r D) rs"
        using pending_file [OF p] down Regular by blast
      from Suc.IH [OF k2(2,3) this fewer] show ?thesis using l Regular k2(1) Cons by simp
    qed
  qed
qed

lemma pending_start: "[] \<in> U \<Longrightarrow> pending_ok U {} [[]]"
  by (simp add: pending_ok_def)

lemma copy_tree_copies:
  assumes c: "copyable k src dst" and n: "length (dk_tree k) \<le> n"
  shows "\<exists>k'. copy_tree n src dst k = (Some None, k') \<and> node_at k' = after_copy k src dst (entries k src)"
proof -
  have "node_at k = after_copy k src dst {}" by (simp add: after_copy_def fun_eq_iff)
  moreover have "[] \<in> entries k src" using c by (simp add: entries_def copyable_def)
  moreover have "card (entries k src - {}) \<le> n" using card_entries [of k src] n by simp
  ultimately show ?thesis
    unfolding copy_tree_def using copy_walk_copies [OF c] pending_start by (simp add: same_session_def)
qed

text \<open>The tree that \<open>init\<close> leaves.\<close>

definition scaffolded :: "disk \<Rightarrow> path \<Rightarrow> path \<Rightarrow> path \<Rightarrow> node option" where
  "scaffolded k src dst p =
     (if prefix dst p then map_option (copied k) (node_at k (src @ drop (length dst) p))
      else if strict_prefix p dst \<and> node_at k p = None then Some (new_dir k)
      else node_at k p)"

lemma scaffolded_after_copy:
  assumes c: "copyable k src dst"
  shows "after_copy k src dst (entries k src) = scaffolded k src dst"
proof
  fix p
  have "[] \<in> entries k src" using c by (simp add: entries_def copyable_def)
  then have e: "entries k src \<noteq> {}" by blast
  show "after_copy k src dst (entries k src) p = scaffolded k src dst p"
  proof (cases "prefix dst p")
    case True
    then obtain r where r: "p = dst @ r" by (auto simp: prefix_def)
    then show ?thesis
      using fresh_below [OF c, of r] e
      by (cases "node_at k (src @ r)") (auto simp: after_copy_def scaffolded_def entries_def strict_prefix_def prefix_def)
  next
    case False
    then show ?thesis using e by (auto simp: after_copy_def scaffolded_def)
  qed
qed

section \<open>Properties\<close>

text \<open>
  C39: \<open>agentctl init\<close> scaffolds: when the template exists, the destination does not and lies
  outside the template, under no regular file, and no call of the operating system fails, the
  command succeeds, and afterwards the destination holds exactly the template's directories
  and files with their contents (the modes through the umask), the missing directories above
  it were made, and every other path is as before. The walk visits no more entries than the
  tree had.
\<close>

theorem init_copies_the_template:
  assumes src: "stat_at (template_path env templates tmpl) k = Inr n"
    and dst: "stat_at (destination tmpl dest) k = Inl enoent"
    and c: "copyable k (place k (template_path env templates tmpl)) (place k (destination tmpl dest))"
    and fuel: "length (dk_tree k) \<le> fuel"
  shows "\<exists>k'. init_cmd fuel env templates dest tmpl k =
      (Some (Inr (''scaffolded '' @ tmpl @ '' -> '' @ destination tmpl dest)), k') \<and>
    node_at k' = scaffolded k (place k (template_path env templates tmpl)) (place k (destination tmpl dest))"
proof -
  have "dk_faults k = []" using c by (simp add: copyable_def)
  then show ?thesis
    using copy_tree_copies [OF c fuel] scaffolded_after_copy [OF c] src dst
    by (auto simp: init_cmd_def stat_def Let_def)
qed

definition sample_disk :: disk where
  "sample_disk =
     \<lparr>dk_tree = [([], Dir 493), ([''templates''], Dir 493), ([''templates'', ''bot''], Dir 493),
        ([''templates'', ''bot'', ''src''], Dir 448), ([''templates'', ''bot'', ''src'', ''main.py''], Regular 436 ''print(1)''),
        ([''templates'', ''bot'', ''run.sh''], Regular 511 ''#!''),
        ([''mine''], Dir 493), ([''mine'', ''run.sh''], Regular 420 ''precious'')],
      dk_cwd = [], dk_umask = 18, dk_faults = []\<rparr>"

theorem init_copies_the_template_witness:
  "\<exists>k'. init_cmd 8 (\<lambda>_. None) [] ''work/agent'' ''bot'' sample_disk =
      (Some (Inr ''scaffolded bot -> work/agent''), k') \<and>
    node_at k' [''work'', ''agent'', ''src'', ''main.py''] = Some (Regular 420 ''print(1)'') \<and>
    node_at k' [''work''] = Some (Dir 493) \<and> node_at k' [''mine'', ''run.sh''] = Some (Regular 420 ''precious'')"
proof -
  let ?src = "template_path (\<lambda>_. None) [] ''bot''" and ?dst = "destination ''bot'' ''work/agent''"
  have s: "stat_at ?src sample_disk = Inr (Dir 493)" and d: "stat_at ?dst sample_disk = Inl enoent"
    and ps: "place sample_disk ?src = [''templates'', ''bot'']" and pd: "place sample_disk ?dst = [''work'', ''agent'']"
    by code_simp+
  have "strict_prefix q [''work'', ''agent''] \<Longrightarrow> q = [] \<or> q = [''work'']" for q
    by (auto simp: strict_prefix_def prefix_Cons)
  then have c: "copyable sample_disk (place sample_disk ?src) (place sample_disk ?dst)"
    unfolding ps pd copyable_def by (auto simp: sample_disk_def tree_ok_def)
  have "length (dk_tree sample_disk) \<le> 8" by (simp add: sample_disk_def)
  from init_copies_the_template [OF s d c this] show ?thesis
    unfolding ps pd
    by (auto simp: scaffolded_def sample_disk_def copied_def new_dir_def dir_mode_def destination_def)
qed

section \<open>What the checks miss\<close>

text \<open>
  The destination is looked up as it was written but its cleaned form is written to: behind a
  directory that does not exist, \<open>..\<close> leads past the check, and existing files are overwritten.
\<close>

lemma init_overwrites_through_dots:
  "fst (init_cmd 8 (\<lambda>_. None) [] ''nowhere/../mine'' ''bot'' sample_disk) =
     Some (Inr ''scaffolded bot -> nowhere/../mine'')"
  "node_at sample_disk [''mine'', ''run.sh''] = Some (Regular 420 ''precious'')"
  "node_at (snd (init_cmd 8 (\<lambda>_. None) [] ''nowhere/../mine'' ''bot'' sample_disk)) [''mine'', ''run.sh''] =
     Some (Regular 420 ''#!'')"
  by code_simp+

text \<open>
  Nothing keeps the destination out of the template. Below a directory of the template it is
  found by the walk that fills it, and the walk has no end: a template with one directory
  \<open>src\<close>, and the destination \<open>src/x\<close> in it.
\<close>

fun zigzag :: "nat \<Rightarrow> path" where
  "zigzag 0 = []"
| "zigzag (Suc i) = zigzag i @ [if even i then ''src'' else ''x'']"

lemma zigzag_front: "zigzag (Suc (Suc i)) = ''src'' # ''x'' # zigzag i"
  by (induction i) auto

text \<open>The tree is one chain of directories, down to the entry after the one to be visited.\<close>

definition chain :: "path \<Rightarrow> disk \<Rightarrow> bool" where
  "chain p k \<longleftrightarrow> dk_faults k = [] \<and>
     (\<forall>q. if prefix q p then \<exists>m. node_at k q = Some (Dir m) else node_at k q = None)"

lemma chainD:
  assumes "chain p k"
  shows "prefix q p \<Longrightarrow> \<exists>m. node_at k q = Some (Dir m)" "\<not> prefix q p \<Longrightarrow> node_at k q = None"
    "node_at k q \<noteq> None \<longleftrightarrow> prefix q p" "dk_faults k = []"
proof -
  from assms have all: "if prefix q p then \<exists>m. node_at k q = Some (Dir m) else node_at k q = None"
    unfolding chain_def by blast
  then show "prefix q p \<Longrightarrow> \<exists>m. node_at k q = Some (Dir m)" "\<not> prefix q p \<Longrightarrow> node_at k q = None"
    "node_at k q \<noteq> None \<longleftrightarrow> prefix q p" by (auto split: if_splits)
  show "dk_faults k = []" using assms by (simp add: chain_def)
qed

lemma chain_names:
  assumes "chain (p @ [x]) k"
  shows "names_in p (dk_tree k) = [x]"
proof -
  have "node_at k (p @ [y]) \<noteq> None \<longleftrightarrow> y = x" for y
    unfolding chainD(3) [OF assms] by simp
  then have s: "set (names_in p (dk_tree k)) = {x}" by (auto simp: names_in_set)
  then have "length (names_in p (dk_tree k)) = 1"
    using distinct_card [OF names_in_distinct, of p "dk_tree k"] by simp
  with s show ?thesis by (cases "names_in p (dk_tree k)") auto
qed

lemma chain_mkdir:
  assumes "chain p k" and "prefix p p'"
  shows "\<exists>k'. mkdir_all dir_mode p' k = (None, k') \<and> chain p' k'"
proof -
  have "node_at k q \<noteq> Some (Regular m y)" for q m y
    using chainD(1,2) [OF assms(1), of q] by (cases "prefix q p") auto
  moreover have nf: "dk_faults k = []" by (rule chainD(4) [OF assms(1)])
  ultimately obtain k' where k': "mkdir_all dir_mode p' k = (None, k')" "same_session k k'"
    "node_at k' = (\<lambda>q. if q \<noteq> [] \<and> prefix q p' \<and> node_at k q = None then Some (new_dir k) else node_at k q)"
    using mkdir_all_view [of k p'] by blast
  have "chain p' k'"
    using assms k'(2) unfolding chain_def k'(3) same_session_def
    by (auto simp: new_dir_def split: if_splits dest: prefix_order.trans)
  with k'(1) show ?thesis by blast
qed

lemma walk_runs_on:
  "chain (src @ zigzag (Suc i)) k \<Longrightarrow> fst (copy_walk n src (src @ [''src'', ''x'']) [zigzag i] k) = None"
proof (induction n arbitrary: i k)
  case (Suc n)
  let ?x = "if even i then ''src'' else ''x''"
  have nf: "dk_faults k = []" using Suc.prems by (simp add: chain_def)
  have "prefix (src @ zigzag i) (src @ zigzag (Suc i))" by simp
  then obtain m where m: "node_at k (src @ zigzag i) = Some (Dir m)"
    using chainD(1) [OF Suc.prems] by blast
  have xs: "names_in (src @ zigzag i) (dk_tree k) = [?x]"
    using chain_names [of "src @ zigzag i" ?x k] Suc.prems by simp
  have "prefix (src @ zigzag (Suc i)) (src @ zigzag (Suc (Suc i)))" by simp
  from chain_mkdir [OF Suc.prems this] obtain k' where
    k': "mkdir_all dir_mode (src @ zigzag (Suc (Suc i))) k = (None, k')" "chain (src @ zigzag (Suc (Suc i))) k'" by blast
  have "fst (copy_walk n src (src @ [''src'', ''x'']) [zigzag (Suc i)] k') = None"
    by (rule Suc.IH [OF k'(2)])
  with k'(1) m xs nf show ?case
    unfolding zigzag_front by (simp add: lstat_def read_dir_def del: copy_walk.simps(1))
qed simp

lemma init_into_template_has_no_end:
  assumes "node_at k = map_of [([], Dir 493), ([''templates''], Dir 493), ([''templates'', ''bot''], Dir 493),
      ([''templates'', ''bot'', ''src''], Dir 493)]" and "dk_faults k = []"
  shows "fst (copy_tree n [''templates'', ''bot''] [''templates'', ''bot'', ''src'', ''x''] k) = None"
proof -
  have "chain ([''templates'', ''bot''] @ zigzag (Suc 0)) k"
    using assms by (auto simp: chain_def prefix_Cons)
  from walk_runs_on [OF this, of n] show ?thesis by (simp add: copy_tree_def)
qed

end
