(* ===== verification/Agentctl_Main.thy ===== *)
theory Agentctl_Main
  imports Agentctl Scaffold
begin

text \<open>
  The command tree of \<open>agentctl\<close> and its process (\<open>cmd/agentctl/cmd/root.go\<close>, \<open>main.go\<close>): what a
  parsed command line runs and the status it exits with. Parsing the command line is cobra's;
  what it yields is an \<open>invocation\<close>. Printing is left out here, the printed values are those of
  the commands.
\<close>

section \<open>The command tree\<close>

text \<open>A group of commands, or a command with the number of arguments \<open>cobra.ExactArgs\<close> demands.\<close>

datatype command = Group string "command list" | Leaf string "nat option"

definition agents_commands :: command where
  "agents_commands =
     Group ''agents'' [Leaf ''list'' None, Leaf ''get'' (Some 1), Leaf ''create'' None, Leaf ''delete'' (Some 1)]"

definition runs_commands :: command where
  "runs_commands =
     Group ''runs'' [Leaf ''list'' (Some 1), Leaf ''trigger'' (Some 1), Leaf ''get'' (Some 1), Leaf ''logs'' (Some 1),
       Leaf ''wait'' (Some 1)]"

definition triggers_commands :: command where
  "triggers_commands =
     Group ''triggers'' [Leaf ''list'' (Some 1), Group ''create'' [Leaf ''webhook'' (Some 1), Leaf ''cron'' (Some 1)]]"

definition builds_commands :: command where
  "builds_commands = Group ''builds'' [Leaf ''create'' (Some 1)]"

definition secrets_commands :: command where
  "secrets_commands = Group ''secrets'' [Leaf ''list'' None, Leaf ''set'' (Some 2), Leaf ''delete'' (Some 1)]"

definition root_command :: command where
  "root_command = Group ''agentctl''
     [Leaf ''login'' None, Leaf ''init'' (Some 1), agents_commands, runs_commands, triggers_commands,
      Leaf ''deploy'' (Some 1), Leaf ''undeploy'' (Some 1), builds_commands, secrets_commands, Leaf ''whoami'' None,
      Leaf ''logs'' (Some 1)]"

text \<open>The words that lead to a command, and its number of arguments.\<close>

fun command_paths :: "command \<Rightarrow> (string list \<times> nat option) list" where
  "command_paths (Leaf n a) = [([n], a)]"
| "command_paths (Group n cs) = map (\<lambda>(p, a). (n # p, a)) (concat (map command_paths cs))"

section \<open>A command line\<close>

datatype invocation =
    Login string string
  | Init string string string
  | Agents_List | Agents_Get string | Agents_Create create_flags | Agents_Delete string
  | Runs_List string | Runs_Trigger string string | Runs_Get string | Runs_Logs string
  | Runs_Wait string duration duration
  | Triggers_List string | Triggers_Create_Webhook string string | Triggers_Create_Cron string string string
  | Deploy string | Undeploy string | Builds_Create string string
  | Secrets_List | Secrets_Set string string | Secrets_Delete string
  | Whoami | Logs string

fun invoked :: "invocation \<Rightarrow> string list \<times> string list" where
  "invoked (Login a t) = ([''login''], [])"
| "invoked (Init t d m) = ([''init''], [m])"
| "invoked Agents_List = ([''agents'', ''list''], [])"
| "invoked (Agents_Get i) = ([''agents'', ''get''], [i])"
| "invoked (Agents_Create c) = ([''agents'', ''create''], [])"
| "invoked (Agents_Delete i) = ([''agents'', ''delete''], [i])"
| "invoked (Runs_List a) = ([''runs'', ''list''], [a])"
| "invoked (Runs_Trigger a x) = ([''runs'', ''trigger''], [a])"
| "invoked (Runs_Get i) = ([''runs'', ''get''], [i])"
| "invoked (Runs_Logs i) = ([''runs'', ''logs''], [i])"
| "invoked (Runs_Wait i t p) = ([''runs'', ''wait''], [i])"
| "invoked (Triggers_List a) = ([''triggers'', ''list''], [a])"
| "invoked (Triggers_Create_Webhook a n) = ([''triggers'', ''create'', ''webhook''], [a])"
| "invoked (Triggers_Create_Cron a n c) = ([''triggers'', ''create'', ''cron''], [a])"
| "invoked (Deploy a) = ([''deploy''], [a])"
| "invoked (Undeploy a) = ([''undeploy''], [a])"
| "invoked (Builds_Create a s) = ([''builds'', ''create''], [a])"
| "invoked Secrets_List = ([''secrets'', ''list''], [])"
| "invoked (Secrets_Set n v) = ([''secrets'', ''set''], [n, v])"
| "invoked (Secrets_Delete n) = ([''secrets'', ''delete''], [n])"
| "invoked Whoami = ([''whoami''], [])"
| "invoked (Logs i) = ([''logs''], [i])"

text \<open>
  What the commands act on: the configuration file, the file tree, and the API; and what they
  are run with: the flags and the environment, the libraries, the clock, the moment of an
  interrupt, and the steps a copy may take.
\<close>

record 's ctl_state =
  cs_file :: config_file
  cs_disk :: disk
  cs_net :: 's

record 's ctl_env =
  cn_cli :: cli
  cn_http :: "'s sdk_http"
  cn_parse :: "string \<Rightarrow> wire"
  cn_print :: "json \<Rightarrow> string"
  cn_rfc3339 :: "gotime \<Rightarrow> string"
  cn_write :: "wire \<Rightarrow> config_file \<Rightarrow> error + config_file"
  cn_now :: gotime
  cn_lat :: "gotime \<Rightarrow> nat"
  cn_stop :: "gotime option"
  cn_fuel :: nat

definition flags_of :: "'s ctl_env \<Rightarrow> 's ctl_state \<Rightarrow> cli" where
  "flags_of E s = (cn_cli E)\<lparr>cl_file := cs_file s\<rparr>"

definition failed_with :: "string + 'a \<Rightarrow> string option" where
  "failed_with r = (case r of Inl e \<Rightarrow> Some e | Inr _ \<Rightarrow> None)"

definition on_net ::
  "'s ctl_env \<Rightarrow> (cli \<Rightarrow> 's \<Rightarrow> (string + 'a) \<times> 's) \<Rightarrow> 's ctl_state \<Rightarrow> string option option \<times> 's ctl_state" where
  "on_net E cmd s =
     (case cmd (flags_of E s) (cs_net s) of (r, t) \<Rightarrow> (Some (failed_with r), s\<lparr>cs_net := t\<rparr>))"

text \<open>\<open>logs\<close>, the alias of \<open>runs logs\<close>.\<close>

definition logs_alias_cmd :: "'s sdk_http \<Rightarrow> cli \<Rightarrow> string \<Rightarrow> 's \<Rightarrow> (string list \<times> string option) \<times> 's" where
  "logs_alias_cmd http f i s =
     (case client_from_flags f of
        Inl e \<Rightarrow> (([], Some e), s)
      | Inr c \<Rightarrow>
          (case sdk_stream_logs http c i s of ((ls, e), s1) \<Rightarrow> ((ls, map_option sdk_error_text e), s1)))"

definition wait_error :: "(duration \<Rightarrow> string) \<Rightarrow> duration \<Rightarrow> wait_result \<Rightarrow> string option" where
  "wait_error show_it timeout r =
     (case r of
        Run_Succeeded x \<Rightarrow> None
      | Run_Ended x \<Rightarrow> Some (''run ended: '' @ xr_status x)
      | Wait_Timeout x \<Rightarrow> Some (''timed out after '' @ show_it timeout @ ''; last status: '' @ xr_status x)
      | Wait_Failed e \<Rightarrow> Some e)"

text \<open>The error of a command; \<open>None\<close> for one that is still running.\<close>

definition ctl_execute ::
  "(duration \<Rightarrow> string) \<Rightarrow> 's ctl_env \<Rightarrow> invocation \<Rightarrow> 's ctl_state \<Rightarrow> string option option \<times> 's ctl_state" where
  "ctl_execute show_it E i s =
     (let http = cn_http E; f = flags_of E s in
      case i of
        Login api token \<Rightarrow>
          (case login_cmd (cn_write E) api token (cs_file s) of
             (e, x) \<Rightarrow> (Some (map_option err_text e), s\<lparr>cs_file := x\<rparr>))
      | Init templates dest tmpl \<Rightarrow>
          (case init_cmd (cn_fuel E) (cl_environ f) templates dest tmpl (cs_disk s) of
             (r, d) \<Rightarrow> (map_option failed_with r, s\<lparr>cs_disk := d\<rparr>))
      | Agents_List \<Rightarrow> on_net E (agents_list_cmd (cn_rfc3339 E) http) s
      | Agents_Get x \<Rightarrow> on_net E (\<lambda>f. agents_get_cmd http f x) s
      | Agents_Create cf \<Rightarrow> on_net E (\<lambda>f. agents_create_cmd (cn_print E) http f cf) s
      | Agents_Delete x \<Rightarrow> on_net E (\<lambda>f. agents_delete_cmd http f x) s
      | Runs_List a \<Rightarrow> on_net E (\<lambda>f. runs_list_cmd (cn_rfc3339 E) http f a) s
      | Runs_Trigger a inputs \<Rightarrow> on_net E (\<lambda>f. runs_trigger_cmd (cn_parse E) http f a inputs) s
      | Runs_Get x \<Rightarrow> on_net E (\<lambda>f. runs_get_cmd http f x) s
      | Runs_Logs x \<Rightarrow>
          (case runs_logs_cmd http f x (cs_net s) of ((_, e), t) \<Rightarrow> (Some e, s\<lparr>cs_net := t\<rparr>))
      | Runs_Wait x timeout pause \<Rightarrow>
          (case runs_wait_cmd http f x timeout pause (cn_lat E) (cn_stop E) (cn_now E) (cs_net s) of
             None \<Rightarrow> (None, s)
           | Some (r, _, t) \<Rightarrow> (Some (wait_error show_it timeout r), s\<lparr>cs_net := t\<rparr>))
      | Triggers_List a \<Rightarrow> on_net E (\<lambda>f. triggers_list_cmd (cn_rfc3339 E) http f a) s
      | Triggers_Create_Webhook a n \<Rightarrow> on_net E (\<lambda>f. triggers_create_webhook_cmd http f a n) s
      | Triggers_Create_Cron a n c \<Rightarrow> on_net E (\<lambda>f. triggers_create_cron_cmd http f a n c) s
      | Deploy a \<Rightarrow> on_net E (\<lambda>f. deploy_cmd http f a) s
      | Undeploy a \<Rightarrow> on_net E (\<lambda>f. undeploy_cmd http f a) s
      | Builds_Create a src \<Rightarrow> on_net E (\<lambda>f. builds_create_cmd http f a src) s
      | Secrets_List \<Rightarrow> on_net E (secrets_list_cmd (cn_rfc3339 E) http) s
      | Secrets_Set n v \<Rightarrow> on_net E (\<lambda>f. secrets_set_cmd http f n v) s
      | Secrets_Delete n \<Rightarrow> on_net E (\<lambda>f. secrets_delete_cmd http f n) s
      | Whoami \<Rightarrow> on_net E (whoami_cmd http) s
      | Logs x \<Rightarrow>
          (case logs_alias_cmd http f x (cs_net s) of ((_, e), t) \<Rightarrow> (Some e, s\<lparr>cs_net := t\<rparr>)))"

text \<open>\<open>main\<close>: the exit status and what is written to the standard error.\<close>

definition agentctl_main ::
  "(duration \<Rightarrow> string) \<Rightarrow> 's ctl_env \<Rightarrow> invocation \<Rightarrow> 's ctl_state \<Rightarrow> (nat \<times> string list) option \<times> 's ctl_state" where
  "agentctl_main show_it E i s =
     (case ctl_execute show_it E i s of
        (None, s1) \<Rightarrow> (None, s1)
      | (Some None, s1) \<Rightarrow> (Some (0, []), s1)
      | (Some (Some e), s1) \<Rightarrow> (Some (1, [e]), s1))"

section \<open>Lemmas\<close>

text \<open>Every command line runs a command of the tree, with the number of arguments it demands.\<close>

lemma invoked_in_tree:
  "\<exists>a. (''agentctl'' # fst (invoked i), a) \<in> set (command_paths root_command) \<and>
    (case a of None \<Rightarrow> snd (invoked i) = [] | Some n \<Rightarrow> length (snd (invoked i)) = n)"
  by (cases i) (simp_all add: root_command_def agents_commands_def runs_commands_def triggers_commands_def
      builds_commands_def secrets_commands_def)

text \<open>The alias does what \<open>runs logs\<close> does.\<close>

lemma logs_alias: "agentctl_main show_it E (Logs x) s = agentctl_main show_it E (Runs_Logs x) s"
  by (simp add: agentctl_main_def ctl_execute_def logs_alias_cmd_def runs_logs_cmd_def Let_def)

text \<open>Without a token only \<open>login\<close> and \<open>init\<close> can succeed, and nothing is sent.\<close>

lemma no_token_nothing_sent:
  assumes "client_from_flags (flags_of E s) = Inl e" and "fst (invoked i) \<notin> {[''login''], [''init'']}"
  shows "\<exists>x. agentctl_main show_it E i s = (Some (1, [x]), s)"
  using assms
  by (cases i) (simp_all add: agentctl_main_def ctl_execute_def on_net_def cli_call_def failed_with_def
      agents_list_cmd_def agents_get_cmd_def agents_create_cmd_def agents_delete_cmd_def runs_list_cmd_def
      runs_trigger_cmd_def runs_get_cmd_def runs_logs_cmd_def runs_wait_cmd_def triggers_list_cmd_def
      triggers_create_webhook_cmd_def triggers_create_cron_cmd_def deploy_cmd_def undeploy_cmd_def
      builds_create_cmd_def secrets_list_cmd_def secrets_set_cmd_def secrets_delete_cmd_def whoami_cmd_def
      logs_alias_cmd_def wait_error_def)

text \<open>
  Waiting exits with 0 exactly when the run succeeded. A run that failed and a poll that
  failed exit with the same status, although the code says it keeps them apart.
\<close>

lemma wait_exit_status:
  assumes "runs_wait_cmd (cn_http E) (flags_of E s) x timeout pause (cn_lat E) (cn_stop E) (cn_now E) (cs_net s) =
    Some (r, t, n)"
  shows "fst (agentctl_main show_it E (Runs_Wait x timeout pause) s) =
    Some (case r of Run_Succeeded _ \<Rightarrow> (0, []) | _ \<Rightarrow> (1, [the (wait_error show_it timeout r)]))"
  using assms by (cases r) (simp_all add: agentctl_main_def ctl_execute_def wait_error_def)

end
