(* ===== verification/Kube.thy ===== *)
theory Kube
  imports Json_Wire
begin

text \<open>
  The Kubernetes objects the services create and read (with the fields the code sets or
  looks at), the platform's two custom resources of \<open>internal/runs/types.go\<close>, and the API
  server as a parameter: a record of its operations over a cluster state of any type, which
  may answer anything and change at every call. \<open>kube_store\<close> states the documented
  behaviour that some properties rely on: the API server stores objects by kind, namespace
  and name.
\<close>

section \<open>Metadata and containers\<close>

record owner_ref =
  ow_kind :: string
  ow_name :: string
  ow_uid :: string
  ow_controller :: bool

record object_meta =
  om_name :: string
  om_ns :: string
  om_uid :: string
  om_labels :: "(string \<times> string) list"
  om_owners :: "owner_ref list"
  om_version :: string

definition new_meta :: "string \<Rightarrow> string \<Rightarrow> (string \<times> string) list \<Rightarrow> owner_ref list \<Rightarrow> object_meta" where
  "new_meta name ns labels owners =
     \<lparr>om_name = name, om_ns = ns, om_uid = [], om_labels = labels, om_owners = owners,
      om_version = []\<rparr>"

lemma new_meta_simps [simp]:
  "om_name (new_meta n ns l os) = n" "om_ns (new_meta n ns l os) = ns"
  "om_labels (new_meta n ns l os) = l" "om_owners (new_meta n ns l os) = os"
  "om_version (new_meta n ns l os) = []" "om_uid (new_meta n ns l os) = []"
  by (simp_all add: new_meta_def)

text \<open>An environment entry has a literal value or takes it from a key of a secret.\<close>

datatype env_entry = Env_Value string string | Env_Secret string string string bool

record probe =
  pr_path :: string
  pr_port :: int
  pr_period :: int
  pr_timeout :: int
  pr_threshold :: int
  pr_delay :: int

record container =
  ct_name :: string
  ct_image :: string
  ct_args :: "string list"
  ct_env :: "env_entry list"
  ct_env_from :: "string list"
  ct_ports :: "(string \<times> int) list"
  ct_probe :: "probe option"
  ct_mounts :: "(string \<times> string \<times> bool) list"

definition plain_container :: "string \<Rightarrow> string \<Rightarrow> container" where
  "plain_container name img =
     \<lparr>ct_name = name, ct_image = img, ct_args = [], ct_env = [], ct_env_from = [], ct_ports = [],
      ct_probe = None, ct_mounts = []\<rparr>"

section \<open>Built-in objects\<close>

record job_status =
  js_succeeded :: int
  js_failed :: int
  js_active :: int
  js_start :: "gotime option"
  js_completion :: "gotime option"
  js_conditions :: "(string \<times> string) list"

definition no_job_status :: job_status where
  "no_job_status = \<lparr>js_succeeded = 0, js_failed = 0, js_active = 0, js_start = None,
     js_completion = None, js_conditions = []\<rparr>"

record job =
  jb_meta :: object_meta
  jb_parallelism :: int
  jb_completions :: int
  jb_backoff :: int
  jb_pod_labels :: "(string \<times> string) list"
  jb_restart :: string
  jb_containers :: "container list"
  jb_volumes :: "(string \<times> string) list"
  jb_status :: job_status

record deployment =
  dp_meta :: object_meta
  dp_replicas :: "int option"
  dp_selector :: "(string \<times> string) list option"
  dp_pod_labels :: "(string \<times> string) list option"
  dp_containers :: "container list"
  dp_ready :: int

record service =
  sv_meta :: object_meta
  sv_selector :: "(string \<times> string) list"
  sv_ports :: "(string \<times> int \<times> int) list"
  sv_type :: string

record kube_secret =
  ks_meta :: object_meta
  ks_type :: string
  ks_data :: "(string \<times> string) list"

record quota =
  qt_meta :: object_meta
  qt_hard :: "(string \<times> string) list"

record limit_range =
  lr_meta :: object_meta
  lr_default_request :: "(string \<times> string) list"
  lr_default :: "(string \<times> string) list"
  lr_max :: "(string \<times> string) list"

record pod =
  pd_meta :: object_meta

section \<open>AgentRun and AgentDeployment\<close>

definition PhasePending :: string where "PhasePending = ''Pending''"
definition PhaseRunning :: string where "PhaseRunning = ''Running''"
definition PhaseSucceeded :: string where "PhaseSucceeded = ''Succeeded''"
definition PhaseFailed :: string where "PhaseFailed = ''Failed''"

lemmas phase_defs = PhasePending_def PhaseRunning_def PhaseSucceeded_def PhaseFailed_def

record agent_run_spec =
  rsp_tenant :: string
  rsp_agent :: string
  rsp_image :: string
  rsp_inputs :: string
  rsp_env :: "(string \<times> string) list"
  rsp_secrets :: "string list"
  rsp_secret_ref :: string
  rsp_cpu :: string
  rsp_memory :: string
  rsp_timeout :: string
  rsp_trace :: string

record agent_run_status =
  rst_phase :: string
  rst_job :: string
  rst_started :: "gotime option"
  rst_ended :: "gotime option"
  rst_exit :: "int option"
  rst_message :: string

record agent_run =
  ar_meta :: object_meta
  ar_spec :: agent_run_spec
  ar_status :: agent_run_status

record agent_deployment_spec =
  dsp_tenant :: string
  dsp_agent :: string
  dsp_image :: string
  dsp_port :: int
  dsp_health :: string
  dsp_idle :: string
  dsp_env :: "(string \<times> string) list"
  dsp_secrets :: "string list"
  dsp_secret_ref :: string

record agent_deployment_status =
  dst_url :: string
  dst_ready :: int
  dst_message :: string

record agent_deployment =
  ad_meta :: object_meta
  ad_spec :: agent_deployment_spec
  ad_status :: agent_deployment_status

section \<open>The API server\<close>

datatype kind = K_Namespace | K_Run | K_Agent_Deployment | K_Job | K_Deployment | K_Service
  | K_Secret | K_Quota | K_Limit | K_Pod

datatype kobj =
    O_Namespace object_meta
  | O_Run agent_run
  | O_Agent_Deployment agent_deployment
  | O_Job job
  | O_Deployment deployment
  | O_Service service
  | O_Secret kube_secret
  | O_Quota quota
  | O_Limit limit_range
  | O_Pod pod

type_synonym okey = "kind \<times> string \<times> string"

fun obj_kind :: "kobj \<Rightarrow> kind" where
  "obj_kind (O_Namespace m) = K_Namespace"
| "obj_kind (O_Run r) = K_Run"
| "obj_kind (O_Agent_Deployment a) = K_Agent_Deployment"
| "obj_kind (O_Job j) = K_Job"
| "obj_kind (O_Deployment d) = K_Deployment"
| "obj_kind (O_Service s) = K_Service"
| "obj_kind (O_Secret s) = K_Secret"
| "obj_kind (O_Quota q) = K_Quota"
| "obj_kind (O_Limit l) = K_Limit"
| "obj_kind (O_Pod p) = K_Pod"

fun obj_meta :: "kobj \<Rightarrow> object_meta" where
  "obj_meta (O_Namespace m) = m"
| "obj_meta (O_Run r) = ar_meta r"
| "obj_meta (O_Agent_Deployment a) = ad_meta a"
| "obj_meta (O_Job j) = jb_meta j"
| "obj_meta (O_Deployment d) = dp_meta d"
| "obj_meta (O_Service s) = sv_meta s"
| "obj_meta (O_Secret s) = ks_meta s"
| "obj_meta (O_Quota q) = qt_meta q"
| "obj_meta (O_Limit l) = lr_meta l"
| "obj_meta (O_Pod p) = pd_meta p"

fun obj_key :: "kobj \<Rightarrow> okey" where
  "obj_key o1 = (obj_kind o1, om_ns (obj_meta o1), om_name (obj_meta o1))"

fun set_version :: "string \<Rightarrow> kobj \<Rightarrow> kobj" where
  "set_version v (O_Quota q) = O_Quota (q\<lparr>qt_meta := (qt_meta q)\<lparr>om_version := v\<rparr>\<rparr>)"
| "set_version v (O_Limit l) = O_Limit (l\<lparr>lr_meta := (lr_meta l)\<lparr>om_version := v\<rparr>\<rparr>)"
| "set_version v o1 = o1"

text \<open>\<open>errors.IsNotFound\<close> and \<open>errors.IsAlreadyExists\<close> tell the first two apart.\<close>

datatype kerr = Absent | Exists | Kube_Error string

definition kerr_error :: "kerr \<Rightarrow> error" where
  "kerr_error e =
     (case e of Absent \<Rightarrow> ErrText ''object not found'' | Exists \<Rightarrow> ErrText ''object already exists''
      | Kube_Error s \<Rightarrow> ErrText s)"

lemma kerr_error_not_db [simp]: "\<not> is_not_found (kerr_error e)"
  by (cases e) (simp_all add: kerr_error_def)

record 'k kube_api =
  k_get :: "okey \<Rightarrow> 'k \<Rightarrow> (kerr + kobj) \<times> 'k"
  k_create :: "kobj \<Rightarrow> 'k \<Rightarrow> (kerr + unit) \<times> 'k"
  k_update :: "kobj \<Rightarrow> 'k \<Rightarrow> (kerr + unit) \<times> 'k"
  k_status :: "kobj \<Rightarrow> 'k \<Rightarrow> (kerr + unit) \<times> 'k"
  k_delete :: "okey \<Rightarrow> 'k \<Rightarrow> (kerr + unit) \<times> 'k"
  k_list :: "kind \<Rightarrow> string \<Rightarrow> 'k \<Rightarrow> (kerr + kobj list) \<times> 'k"

text \<open>
  The documented store behaviour, through a view of the cluster state as a map from keys to
  objects: a \<open>get\<close> that answers reports what is stored, a \<open>create\<close> stores the object under
  a free key and reports a taken one, an \<open>update\<close> or status update replaces a stored object,
  a \<open>delete\<close> removes it, and no call touches another key. Any call may also fail with
  \<open>Kube_Error\<close> and leave the store as it was.
\<close>

definition failed_clean :: "('k \<Rightarrow> okey \<rightharpoonup> kobj) \<Rightarrow> 'k \<Rightarrow> (kerr + 'a) \<times> 'k \<Rightarrow> bool" where
  "failed_clean view k res \<longleftrightarrow> (\<exists>s. fst res = Inl (Kube_Error s)) \<and> view (snd res) = view k"

definition kube_store :: "'k kube_api \<Rightarrow> ('k \<Rightarrow> okey \<rightharpoonup> kobj) \<Rightarrow> bool" where
  "kube_store K view \<longleftrightarrow>
     (\<forall>key k. view (snd (k_get K key k)) = view k \<and>
        (fst (k_get K key k) = (case view k key of None \<Rightarrow> Inl Absent | Some x \<Rightarrow> Inr x) \<or>
         failed_clean view k (k_get K key k))) \<and>
     (\<forall>x k. failed_clean view k (k_create K x k) \<or>
        (if view k (obj_key x) = None
         then fst (k_create K x k) = Inr () \<and> view (snd (k_create K x k)) = (view k)(obj_key x \<mapsto> x)
         else fst (k_create K x k) = Inl Exists \<and> view (snd (k_create K x k)) = view k)) \<and>
     (\<forall>x k. failed_clean view k (k_update K x k) \<or>
        (if view k (obj_key x) = None
         then fst (k_update K x k) = Inl Absent \<and> view (snd (k_update K x k)) = view k
         else fst (k_update K x k) = Inr () \<and> view (snd (k_update K x k)) = (view k)(obj_key x \<mapsto> x))) \<and>
     (\<forall>x k. failed_clean view k (k_status K x k) \<or>
        (if view k (obj_key x) = None
         then fst (k_status K x k) = Inl Absent \<and> view (snd (k_status K x k)) = view k
         else fst (k_status K x k) = Inr () \<and> view (snd (k_status K x k)) = (view k)(obj_key x \<mapsto> x))) \<and>
     (\<forall>key k. failed_clean view k (k_delete K key k) \<or>
        (if view k key = None
         then fst (k_delete K key k) = Inl Absent \<and> view (snd (k_delete K key k)) = view k
         else fst (k_delete K key k) = Inr () \<and> view (snd (k_delete K key k)) = (view k)(key := None)))"

text \<open>A store that never fails, for evaluation: the objects in a list, newest first.\<close>

definition mem_view :: "kobj list \<Rightarrow> okey \<Rightarrow> kobj option" where
  "mem_view s key = List.find (\<lambda>x. obj_key x = key) s"

definition mem_without :: "okey \<Rightarrow> kobj list \<Rightarrow> kobj list" where
  "mem_without key s = filter (\<lambda>x. obj_key x \<noteq> key) s"

definition mem_replace :: "kobj \<Rightarrow> kobj list \<Rightarrow> (kerr + unit) \<times> kobj list" where
  "mem_replace x s =
     (if mem_view s (obj_key x) = None then (Inl Absent, s)
      else (Inr (), x # mem_without (obj_key x) s))"

fun mem_objects :: "kobj list \<Rightarrow> kobj list" where
  "mem_objects [] = []"
| "mem_objects (x # s) = x # filter (\<lambda>y. obj_key y \<noteq> obj_key x) (mem_objects s)"

definition mem_kube :: "kobj list kube_api" where
  "mem_kube =
     \<lparr>k_get = (\<lambda>key s. (case mem_view s key of None \<Rightarrow> Inl Absent | Some x \<Rightarrow> Inr x, s)),
      k_create = (\<lambda>x s. if mem_view s (obj_key x) = None then (Inr (), x # s) else (Inl Exists, s)),
      k_update = mem_replace,
      k_status = mem_replace,
      k_delete = (\<lambda>key s. if mem_view s key = None then (Inl Absent, s)
         else (Inr (), mem_without key s)),
      k_list = (\<lambda>kd ns s. (Inr (filter (\<lambda>x. obj_kind x = kd \<and> (ns = [] \<or> om_ns (obj_meta x) = ns)) (mem_objects s)), s))\<rparr>"

text \<open>The store files every object under its own key.\<close>

definition well_keyed :: "('k \<Rightarrow> okey \<rightharpoonup> kobj) \<Rightarrow> 'k \<Rightarrow> bool" where
  "well_keyed view k \<longleftrightarrow> (\<forall>key x. view k key = Some x \<longrightarrow> obj_key x = key)"

lemma kube_store_get:
  assumes "kube_store K view"
  shows "view (snd (k_get K key k)) = view k"
    "fst (k_get K key k) = Inr x \<Longrightarrow> view k key = Some x"
    "fst (k_get K key k) = Inl Absent \<Longrightarrow> view k key = None"
proof -
  have g: "view (snd (k_get K key k)) = view k \<and>
        (fst (k_get K key k) = (case view k key of None \<Rightarrow> Inl Absent | Some x \<Rightarrow> Inr x) \<or>
         failed_clean view k (k_get K key k))"
    using assms unfolding kube_store_def by blast
  show "view (snd (k_get K key k)) = view k" using g by blast
  show "fst (k_get K key k) = Inr x \<Longrightarrow> view k key = Some x"
    "fst (k_get K key k) = Inl Absent \<Longrightarrow> view k key = None"
    using g by (auto simp: failed_clean_def split: option.splits)
qed

lemma kube_store_create:
  assumes "kube_store K view"
  shows "fst (k_create K x k) = Inr u \<Longrightarrow>
      view k (obj_key x) = None \<and> view (snd (k_create K x k)) = (view k)(obj_key x \<mapsto> x)"
    "fst (k_create K x k) = Inl e \<Longrightarrow> view (snd (k_create K x k)) = view k"
    "fst (k_create K x k) = Inl Exists \<Longrightarrow> view k (obj_key x) \<noteq> None"
proof -
  have c: "failed_clean view k (k_create K x k) \<or>
        (if view k (obj_key x) = None
         then fst (k_create K x k) = Inr () \<and> view (snd (k_create K x k)) = (view k)(obj_key x \<mapsto> x)
         else fst (k_create K x k) = Inl Exists \<and> view (snd (k_create K x k)) = view k)"
    using assms unfolding kube_store_def by blast
  show "fst (k_create K x k) = Inr u \<Longrightarrow>
      view k (obj_key x) = None \<and> view (snd (k_create K x k)) = (view k)(obj_key x \<mapsto> x)"
    "fst (k_create K x k) = Inl e \<Longrightarrow> view (snd (k_create K x k)) = view k"
    "fst (k_create K x k) = Inl Exists \<Longrightarrow> view k (obj_key x) \<noteq> None"
    using c by (auto simp: failed_clean_def simp del: obj_key.simps split: if_splits)
qed

lemma kube_store_update:
  assumes "kube_store K view"
  shows "fst (k_update K x k) = Inr u \<Longrightarrow>
      view k (obj_key x) \<noteq> None \<and> view (snd (k_update K x k)) = (view k)(obj_key x \<mapsto> x)"
    "fst (k_update K x k) = Inl e \<Longrightarrow> view (snd (k_update K x k)) = view k"
proof -
  have c: "failed_clean view k (k_update K x k) \<or>
        (if view k (obj_key x) = None
         then fst (k_update K x k) = Inl Absent \<and> view (snd (k_update K x k)) = view k
         else fst (k_update K x k) = Inr () \<and> view (snd (k_update K x k)) = (view k)(obj_key x \<mapsto> x))"
    using assms unfolding kube_store_def by blast
  show "fst (k_update K x k) = Inr u \<Longrightarrow>
      view k (obj_key x) \<noteq> None \<and> view (snd (k_update K x k)) = (view k)(obj_key x \<mapsto> x)"
    "fst (k_update K x k) = Inl e \<Longrightarrow> view (snd (k_update K x k)) = view k"
    using c by (auto simp: failed_clean_def simp del: obj_key.simps split: if_splits)
qed

lemma kube_store_status:
  assumes "kube_store K view"
  shows "fst (k_status K x k) = Inr u \<Longrightarrow>
      view k (obj_key x) \<noteq> None \<and> view (snd (k_status K x k)) = (view k)(obj_key x \<mapsto> x)"
    "fst (k_status K x k) = Inl e \<Longrightarrow> view (snd (k_status K x k)) = view k"
proof -
  have c: "failed_clean view k (k_status K x k) \<or>
        (if view k (obj_key x) = None
         then fst (k_status K x k) = Inl Absent \<and> view (snd (k_status K x k)) = view k
         else fst (k_status K x k) = Inr () \<and> view (snd (k_status K x k)) = (view k)(obj_key x \<mapsto> x))"
    using assms unfolding kube_store_def by blast
  show "fst (k_status K x k) = Inr u \<Longrightarrow>
      view k (obj_key x) \<noteq> None \<and> view (snd (k_status K x k)) = (view k)(obj_key x \<mapsto> x)"
    "fst (k_status K x k) = Inl e \<Longrightarrow> view (snd (k_status K x k)) = view k"
    using c by (auto simp: failed_clean_def simp del: obj_key.simps split: if_splits)
qed

text \<open>A call touches at most the key it is about.\<close>

lemma kube_store_create_cases:
  assumes "kube_store K view"
  shows "view (snd (k_create K x k)) = view k \<or>
    (view k (obj_key x) = None \<and> view (snd (k_create K x k)) = (view k)(obj_key x \<mapsto> x))"
  using kube_store_create(1) [OF assms, of x k] kube_store_create(2) [OF assms, of x k]
  by (cases "fst (k_create K x k)") blast+

lemma kube_store_other:
  assumes "kube_store K view" and "key \<noteq> obj_key x"
  shows "view (snd (k_create K x k)) key = view k key"
    "view (snd (k_update K x k)) key = view k key"
    "view (snd (k_status K x k)) key = view k key"
proof -
  show "view (snd (k_create K x k)) key = view k key"
    using kube_store_create_cases [OF assms(1), of x k] assms(2) by (auto simp del: obj_key.simps)
  show "view (snd (k_update K x k)) key = view k key"
    using kube_store_update(1) [OF assms(1), of x k] kube_store_update(2) [OF assms(1), of x k] assms(2)
    by (cases "fst (k_update K x k)") (auto simp del: obj_key.simps)
  show "view (snd (k_status K x k)) key = view k key"
    using kube_store_status(1) [OF assms(1), of x k] kube_store_status(2) [OF assms(1), of x k] assms(2)
    by (cases "fst (k_status K x k)") (auto simp del: obj_key.simps)
qed

lemma kube_store_create_present:
  assumes "kube_store K view" and "view k key = Some y"
  shows "view (snd (k_create K x k)) key = Some y"
  using kube_store_create_cases [OF assms(1), of x k] assms(2) by (auto simp del: obj_key.simps)

lemma kube_store_delete:
  assumes "kube_store K view"
  shows "fst (k_delete K key k) = Inr u \<Longrightarrow> view (snd (k_delete K key k)) = (view k)(key := None)"
    "fst (k_delete K key k) = Inl Absent \<Longrightarrow> view k key = None"
    "fst (k_delete K key k) = Inl e \<Longrightarrow> view (snd (k_delete K key k)) = view k"
proof -
  have c: "failed_clean view k (k_delete K key k) \<or>
        (if view k key = None
         then fst (k_delete K key k) = Inl Absent \<and> view (snd (k_delete K key k)) = view k
         else fst (k_delete K key k) = Inr () \<and> view (snd (k_delete K key k)) = (view k)(key := None))"
    using assms unfolding kube_store_def by blast
  show "fst (k_delete K key k) = Inr u \<Longrightarrow> view (snd (k_delete K key k)) = (view k)(key := None)"
    "fst (k_delete K key k) = Inl Absent \<Longrightarrow> view k key = None"
    "fst (k_delete K key k) = Inl e \<Longrightarrow> view (snd (k_delete K key k)) = view k"
    using c by (auto simp: failed_clean_def split: if_splits)
qed

lemma mem_view_Cons: "mem_view (x # s) = (mem_view s)(obj_key x \<mapsto> x)"
  by (rule ext) (simp add: mem_view_def)

lemma mem_view_without: "mem_view (mem_without key s) = (mem_view s)(key := None)"
  by (rule ext, induction s) (auto simp: mem_view_def mem_without_def)

lemma mem_view_key: "mem_view s key = Some x \<Longrightarrow> obj_key x = key"
  using find_row_SomeD [of "\<lambda>x. obj_key x = key" s x] by (simp add: mem_view_def find_row_def del: obj_key.simps)

lemma mem_well_keyed: "well_keyed mem_view s"
  using mem_view_key unfolding well_keyed_def by blast

lemma mem_kube_store: "kube_store mem_kube mem_view"
  by (simp add: kube_store_def mem_kube_def mem_replace_def mem_view_Cons mem_view_without
      del: obj_key.simps)

text \<open>The documented behaviour of a list call: what it returns is stored, and is what was asked for.\<close>

definition kube_lists :: "'k kube_api \<Rightarrow> ('k \<Rightarrow> okey \<rightharpoonup> kobj) \<Rightarrow> bool" where
  "kube_lists K view \<longleftrightarrow>
     (\<forall>kd ns k. view (snd (k_list K kd ns k)) = view k \<and>
        (\<forall>xs. fst (k_list K kd ns k) = Inr xs \<longrightarrow>
           (\<forall>x\<in>set xs. view k (obj_key x) = Some x \<and> obj_kind x = kd \<and>
              (ns \<noteq> [] \<longrightarrow> om_ns (obj_meta x) = ns))))"

lemma mem_objects_view: "x \<in> set (mem_objects s) \<Longrightarrow> mem_view s (obj_key x) = Some x"
  by (induction s) (auto simp: mem_view_def simp del: obj_key.simps)

lemma mem_kube_lists: "kube_lists mem_kube mem_view"
  using mem_objects_view by (auto simp: kube_lists_def mem_kube_def simp del: obj_key.simps)

lemma kube_lists_view: "kube_lists K view \<Longrightarrow> view (snd (k_list K kd ns k)) = view k"
  unfolding kube_lists_def by blast

lemma kube_lists_item:
  assumes "kube_lists K view" and "fst (k_list K kd ns k) = Inr xs" and "x \<in> set xs"
  shows "view k (obj_key x) = Some x \<and> obj_kind x = kd \<and> (ns \<noteq> [] \<longrightarrow> om_ns (obj_meta x) = ns)"
  using assms unfolding kube_lists_def by blast

text \<open>Garbage collection: a cluster that only lost objects, and only condemned ones.\<close>

definition shrunk :: "(okey \<Rightarrow> kobj \<Rightarrow> bool) \<Rightarrow> (okey \<rightharpoonup> kobj) \<Rightarrow> (okey \<rightharpoonup> kobj) \<Rightarrow> bool" where
  "shrunk condemned m m' \<longleftrightarrow>
     (\<forall>key. m' key = m key \<or> (m' key = None \<and> (\<exists>x. m key = Some x \<and> condemned key x)))"

lemma shrunk_refl [simp]: "shrunk c m m"
  by (simp add: shrunk_def)

lemma shrunk_present: "shrunk c m m' \<Longrightarrow> m' key = Some x \<Longrightarrow> m key = Some x"
  unfolding shrunk_def by (metis option.distinct(1))

lemma shrunk_trans: "shrunk c m m' \<Longrightarrow> shrunk c m' m'' \<Longrightarrow> shrunk c m m''"
  unfolding shrunk_def by metis

lemma shrunk_delete:
  assumes "kube_store K view" and "shrunk c m (view k)" and "m key = Some x" and "c key x"
  shows "shrunk c m (view (snd (k_delete K key k)))"
proof (cases "fst (k_delete K key k)")
  case (Inl e)
  then show ?thesis using kube_store_delete(3) [OF assms(1)] assms(2) by simp
next
  case (Inr u)
  then show ?thesis
    using kube_store_delete(1) [OF assms(1)] assms(2,3,4) by (auto simp: shrunk_def)
qed

end
