(* ===== verification/Tables.thy ===== *)
theory Tables
  imports Complex_Main Json_Wire Manifest
begin

text \<open>
  The Postgres schema of \<open>migrations/\<close> as a record of tables, with the constraints the
  statements of the repositories run against: primary keys, unique keys, foreign keys with
  their \<open>ON DELETE\<close> actions, and the \<open>CHECK\<close> lists of the status columns. The row types are
  the Go structs the repositories scan into (\<open>agents.Agent\<close>, \<open>runs.Run\<close>, \<open>builds.Build\<close>,
  \<open>triggers.Trigger\<close>, \<open>secrets.Secret\<close>, \<open>tenants.Tenant\<close>, \<open>audit.Event\<close>), a nullable
  column being an option. Values the server generates (\<open>gen_random_uuid()\<close>, \<open>BIGSERIAL\<close>
  values, \<open>now()\<close>) are arguments of the operations.
\<close>

section \<open>Rows\<close>

record tenant =
  tn_id :: string
  tn_slug :: string
  tn_name :: string
  tn_created :: gotime

record agent =
  ag_id :: string
  ag_tenant :: string
  ag_name :: string
  ag_mode :: string
  ag_runtime :: string
  ag_image :: "string option"
  ag_manifest :: manifest
  ag_created :: gotime

record run =
  rn_id :: string
  rn_tenant :: string
  rn_agent :: string
  rn_status :: string
  rn_inputs :: "json_obj option"
  rn_outputs :: "json_obj option"
  rn_exit :: "int option"
  rn_error :: "string option"
  rn_trace :: "string option"
  rn_created :: gotime
  rn_started :: "gotime option"
  rn_ended :: "gotime option"

record trigger =
  tg_id :: string
  tg_tenant :: string
  tg_agent :: string
  tg_kind :: string
  tg_name :: string
  tg_cron :: "string option"
  tg_sealed :: "string option"
  tg_created :: gotime

record build =
  bd_id :: string
  bd_tenant :: string
  bd_agent :: string
  bd_status :: string
  bd_source :: string
  bd_image :: "string option"
  bd_error :: "string option"
  bd_created :: gotime
  bd_ended :: "gotime option"

record usage_event =
  us_id :: int
  us_tenant :: string
  us_agent :: "string option"
  us_run :: "string option"
  us_kind :: string
  us_quantity :: rat
  us_recorded :: gotime

record secret =
  sc_id :: string
  sc_tenant :: string
  sc_name :: string
  sc_cipher :: string
  sc_created :: gotime
  sc_updated :: gotime

record audit_event =
  au_id :: int
  au_tenant :: string
  au_user :: "string option"
  au_action :: string
  au_rtype :: string
  au_rid :: "string option"
  au_metadata :: "json option"
  au_request :: "string option"
  au_created :: gotime

record checkpoint =
  ck_dest :: string
  ck_last :: int
  ck_at :: "gotime option"

record database =
  d_tenants :: "tenant list"
  d_agents :: "agent list"
  d_runs :: "run list"
  d_triggers :: "trigger list"
  d_builds :: "build list"
  d_usage :: "usage_event list"
  d_secrets :: "secret list"
  d_audit :: "audit_event list"
  d_shipper :: "checkpoint list"
  d_export :: "checkpoint list"

section \<open>Column values\<close>

definition null_if_empty :: "string \<Rightarrow> string option" where
  "null_if_empty s = (if s = [] then None else Some s)"

definition coalesce_str :: "string option \<Rightarrow> string" where
  "coalesce_str x = (case x of None \<Rightarrow> [] | Some s \<Rightarrow> s)"

lemma coalesce_null_if_empty [simp]: "coalesce_str (null_if_empty s) = s"
  by (simp add: coalesce_str_def null_if_empty_def)

lemma null_if_empty_neq_Some_Nil [simp]: "null_if_empty s \<noteq> Some []"
  by (simp add: null_if_empty_def)

definition pg_unique :: error where "pg_unique = ErrText ''duplicate key value''"
definition pg_foreign :: error where "pg_foreign = ErrText ''violates foreign key''"
definition pg_check :: error where "pg_check = ErrText ''violates check constraint''"

lemmas pg_errors = pg_unique_def pg_foreign_def pg_check_def

definition run_statuses :: "string list" where
  "run_statuses = [''pending'', ''running'', ''succeeded'', ''failed'', ''timed_out'', ''cancelled'']"

definition build_statuses :: "string list" where
  "build_statuses = [''pending'', ''running'', ''succeeded'', ''failed'', ''blocked'']"

definition agent_modes :: "string list" where
  "agent_modes = [''job'', ''server'']"

definition agent_runtimes :: "string list" where
  "agent_runtimes = [''python'', ''typescript'', ''container'']"

definition trigger_kinds :: "string list" where
  "trigger_kinds = [''webhook'', ''cron'']"

definition usage_kinds :: "string list" where
  "usage_kinds = [''run.start'', ''run.end'', ''run.seconds'', ''mcp.heartbeat'', ''build.minutes'']"

definition tenant_exists :: "string \<Rightarrow> database \<Rightarrow> bool" where
  "tenant_exists t d \<longleftrightarrow> t \<in> tn_id ` set (d_tenants d)"

definition agent_exists :: "string \<Rightarrow> database \<Rightarrow> bool" where
  "agent_exists a d \<longleftrightarrow> a \<in> ag_id ` set (d_agents d)"

definition run_exists :: "string \<Rightarrow> database \<Rightarrow> bool" where
  "run_exists r d \<longleftrightarrow> r \<in> rn_id ` set (d_runs d)"

section \<open>Cascades\<close>

text \<open>
  Deleting agents removes their runs, triggers and builds (\<open>ON DELETE CASCADE\<close>) and clears
  the references of the usage rows to them and to their runs (\<open>ON DELETE SET NULL\<close>).
\<close>

definition clear_usage :: "string set \<Rightarrow> string set \<Rightarrow> usage_event \<Rightarrow> usage_event" where
  "clear_usage agents runs u =
     u\<lparr>us_agent := (case us_agent u of None \<Rightarrow> None | Some a \<Rightarrow> if a \<in> agents then None else Some a),
       us_run := (case us_run u of None \<Rightarrow> None | Some r \<Rightarrow> if r \<in> runs then None else Some r)\<rparr>"

definition delete_agents :: "(agent \<Rightarrow> bool) \<Rightarrow> database \<Rightarrow> database" where
  "delete_agents p d =
     (let gone = ag_id ` set (filter p (d_agents d));
          gone_runs = rn_id ` set (filter (\<lambda>r. rn_agent r \<in> gone) (d_runs d))
      in d\<lparr>d_agents := delete_where p (d_agents d),
           d_runs := delete_where (\<lambda>r. rn_agent r \<in> gone) (d_runs d),
           d_triggers := delete_where (\<lambda>t. tg_agent t \<in> gone) (d_triggers d),
           d_builds := delete_where (\<lambda>b. bd_agent b \<in> gone) (d_builds d),
           d_usage := map (clear_usage gone gone_runs) (d_usage d)\<rparr>)"

definition delete_tenants :: "(tenant \<Rightarrow> bool) \<Rightarrow> database \<Rightarrow> database" where
  "delete_tenants p d =
     (let gone = tn_id ` set (filter p (d_tenants d));
          d1 = delete_agents (\<lambda>a. ag_tenant a \<in> gone) d;
          runs_gone = rn_id ` set (filter (\<lambda>r. rn_tenant r \<in> gone) (d_runs d1))
      in d1\<lparr>d_tenants := delete_where p (d_tenants d1),
            d_runs := delete_where (\<lambda>r. rn_tenant r \<in> gone) (d_runs d1),
            d_triggers := delete_where (\<lambda>t. tg_tenant t \<in> gone) (d_triggers d1),
            d_builds := delete_where (\<lambda>b. bd_tenant b \<in> gone) (d_builds d1),
            d_usage := map (clear_usage {} runs_gone) (delete_where (\<lambda>u. us_tenant u \<in> gone) (d_usage d1)),
            d_secrets := delete_where (\<lambda>s. sc_tenant s \<in> gone) (d_secrets d1),
            d_audit := delete_where (\<lambda>e. au_tenant e \<in> gone) (d_audit d1)\<rparr>)"

section \<open>Integrity\<close>

text \<open>What the schema guarantees of every database the statements can produce.\<close>

definition keys_ok :: "database \<Rightarrow> bool" where
  "keys_ok d \<longleftrightarrow>
     distinct (map tn_id (d_tenants d)) \<and> distinct (map tn_slug (d_tenants d)) \<and>
     distinct (map ag_id (d_agents d)) \<and>
     distinct (map (\<lambda>a. (ag_tenant a, ag_name a)) (d_agents d)) \<and>
     distinct (map rn_id (d_runs d)) \<and>
     distinct (map tg_id (d_triggers d)) \<and>
     distinct (map (\<lambda>t. (tg_agent t, tg_name t)) (d_triggers d)) \<and>
     distinct (map bd_id (d_builds d)) \<and>
     distinct (map (\<lambda>s. (sc_tenant s, sc_name s)) (d_secrets d))"

definition status_ok :: "database \<Rightarrow> bool" where
  "status_ok d \<longleftrightarrow>
     (\<forall>r\<in>set (d_runs d). rn_status r \<in> set run_statuses) \<and>
     (\<forall>b\<in>set (d_builds d). bd_status b \<in> set build_statuses) \<and>
     (\<forall>a\<in>set (d_agents d). ag_mode a \<in> set agent_modes \<and> ag_runtime a \<in> set agent_runtimes) \<and>
     (\<forall>t\<in>set (d_triggers d). tg_kind t \<in> set trigger_kinds)"

definition refs_ok :: "database \<Rightarrow> bool" where
  "refs_ok d \<longleftrightarrow>
     (\<forall>a\<in>set (d_agents d). tenant_exists (ag_tenant a) d) \<and>
     (\<forall>r\<in>set (d_runs d). tenant_exists (rn_tenant r) d \<and> agent_exists (rn_agent r) d) \<and>
     (\<forall>t\<in>set (d_triggers d). tenant_exists (tg_tenant t) d \<and> agent_exists (tg_agent t) d) \<and>
     (\<forall>b\<in>set (d_builds d). tenant_exists (bd_tenant b) d \<and> agent_exists (bd_agent b) d) \<and>
     (\<forall>s\<in>set (d_secrets d). tenant_exists (sc_tenant s) d) \<and>
     (\<forall>e\<in>set (d_audit d). tenant_exists (au_tenant e) d)"

definition usage_ok :: "database \<Rightarrow> bool" where
  "usage_ok d \<longleftrightarrow>
     (\<forall>u\<in>set (d_usage d). tenant_exists (us_tenant u) d \<and> us_kind u \<in> set usage_kinds \<and>
        (\<forall>a. us_agent u = Some a \<longrightarrow> agent_exists a d) \<and>
        (\<forall>r. us_run u = Some r \<longrightarrow> run_exists r d)) \<and>
     distinct (map (\<lambda>u. (us_run u, us_kind u)) (filter (\<lambda>u. us_run u \<noteq> None) (d_usage d)))"

definition db_ok :: "database \<Rightarrow> bool" where
  "db_ok d \<longleftrightarrow> keys_ok d \<and> status_ok d \<and> refs_ok d \<and> usage_ok d"

lemmas db_ok_defs = db_ok_def keys_ok_def status_ok_def refs_ok_def usage_ok_def
  tenant_exists_def agent_exists_def run_exists_def

text \<open>The database that the migrations create.\<close>

definition initial_db :: database where
  "initial_db =
     \<lparr>d_tenants = [\<lparr>tn_id = ''00000000-0000-0000-0000-000000000001'', tn_slug = ''dev'',
        tn_name = ''Local development tenant'', tn_created = 0\<rparr>],
      d_agents = [], d_runs = [], d_triggers = [], d_builds = [], d_usage = [], d_secrets = [],
      d_audit = [],
      d_shipper = [\<lparr>ck_dest = ''orb'', ck_last = 0, ck_at = None\<rparr>],
      d_export = [\<lparr>ck_dest = ''s3'', ck_last = 0, ck_at = None\<rparr>]\<rparr>"

lemma initial_db_ok: "db_ok initial_db"
  by (simp add: db_ok_defs initial_db_def)

lemma distinct_map_filter: "distinct (map f xs) \<Longrightarrow> distinct (map f (filter p xs))"
  by (induction xs) auto

lemma distinct_map_delete_where: "distinct (map f xs) \<Longrightarrow> distinct (map f (delete_where p xs))"
  by (simp add: delete_where_def distinct_map_filter)

text \<open>
  Clearing references keeps the pairs of the partial unique index distinct: the remaining
  rows are a sublist of the old ones, unchanged on the indexed columns.
\<close>

lemma clear_usage_index:
  "map (\<lambda>u. (us_run u, us_kind u)) (filter (\<lambda>u. us_run u \<noteq> None) (map (clear_usage A R) us)) =
   map (\<lambda>u. (us_run u, us_kind u))
     (filter (\<lambda>u. us_run u \<noteq> None \<and> the (us_run u) \<notin> R) us)"
  by (induction us) (auto simp: clear_usage_def split: option.splits)

lemma distinct_map_filter_mono:
  "distinct (map f (filter p xs)) \<Longrightarrow> (\<And>x. q x \<Longrightarrow> p x) \<Longrightarrow> distinct (map f (filter q xs))"
  by (induction xs) (auto split: if_splits)

lemma clear_usage_simps [simp]:
  "us_id (clear_usage A R u) = us_id u" "us_tenant (clear_usage A R u) = us_tenant u"
  "us_kind (clear_usage A R u) = us_kind u" "us_quantity (clear_usage A R u) = us_quantity u"
  "us_recorded (clear_usage A R u) = us_recorded u"
  by (simp_all add: clear_usage_def)

lemma clear_usage_agentD: "us_agent (clear_usage A R u) = Some a \<Longrightarrow> us_agent u = Some a \<and> a \<notin> A"
  by (auto simp: clear_usage_def split: option.splits if_splits)

lemma clear_usage_runD: "us_run (clear_usage A R u) = Some r \<Longrightarrow> us_run u = Some r \<and> r \<notin> R"
  by (auto simp: clear_usage_def split: option.splits if_splits)

lemma delete_agents_keys: "keys_ok d \<Longrightarrow> keys_ok (delete_agents p d)"
  by (simp add: keys_ok_def delete_agents_def Let_def distinct_map_delete_where)

lemma delete_agents_status: "status_ok d \<Longrightarrow> status_ok (delete_agents p d)"
  by (auto simp: status_ok_def delete_agents_def Let_def)

lemma delete_agents_tenants [simp]: "d_tenants (delete_agents p d) = d_tenants d"
  by (simp add: delete_agents_def Let_def)

lemma delete_agents_refs: "refs_ok d \<Longrightarrow> refs_ok (delete_agents p d)"
  by (fastforce simp: refs_ok_def delete_agents_def Let_def tenant_exists_def agent_exists_def)

lemma delete_agents_usage:
  assumes "usage_ok d"
  shows "usage_ok (delete_agents p d)"
proof -
  let ?gone = "ag_id ` set (filter p (d_agents d))"
  let ?runs = "rn_id ` set (filter (\<lambda>r. rn_agent r \<in> ?gone) (d_runs d))"
  have "distinct (map (\<lambda>u. (us_run u, us_kind u))
      (filter (\<lambda>u. us_run u \<noteq> None) (map (clear_usage ?gone ?runs) (d_usage d))))"
    unfolding clear_usage_index
    by (rule distinct_map_filter_mono [of _ "\<lambda>u. us_run u \<noteq> None"])
      (use assms in \<open>auto simp: usage_ok_def\<close>)
  moreover have "agent_exists a (delete_agents p d)" if "agent_exists a d" "a \<notin> ?gone" for a
    using that by (auto simp: agent_exists_def delete_agents_def Let_def)
  moreover have "run_exists r (delete_agents p d)" if "run_exists r d" "r \<notin> ?runs" for r
    using that by (fastforce simp: run_exists_def delete_agents_def Let_def)
  moreover have "d_usage (delete_agents p d) = map (clear_usage ?gone ?runs) (d_usage d)"
    by (simp add: delete_agents_def Let_def)
  ultimately show ?thesis
    using assms unfolding usage_ok_def tenant_exists_def
    by (auto dest!: clear_usage_agentD clear_usage_runD)
qed

lemma delete_agents_ok: "db_ok d \<Longrightarrow> db_ok (delete_agents p d)"
  by (simp add: db_ok_def delete_agents_keys delete_agents_status delete_agents_refs
      delete_agents_usage)

end
