(* ===== verification/Contracts.thy ===== *)
theory Contracts
  imports Tables
begin

text \<open>
  The contracts that several components share, as locales: lookups that are scoped to a
  tenant, rows that move once into a terminal status, and consumers of messages that the
  bus may deliver more than once. Each is interpreted on the model's own operations in the
  theory of the component that provides them.
\<close>

section \<open>Tenant-scoped lookup\<close>

text \<open>
  \<open>get\<close> finds a row by tenant and id; \<open>rows\<close> are the rows of the table, \<open>ident\<close> and \<open>owner\<close>
  the two columns of the \<open>WHERE\<close> clause.
\<close>

locale tenant_scoped =
  fixes get :: "string \<Rightarrow> string \<Rightarrow> database \<Rightarrow> error + 'r"
    and rows :: "database \<Rightarrow> 'r list"
    and ident :: "'r \<Rightarrow> string"
    and owner :: "'r \<Rightarrow> string"
  assumes get_row: "get t i d =
    (case find_row (\<lambda>r. ident r = i \<and> owner r = t) (rows d) of
       None \<Rightarrow> Inl ErrNotFound | Some r \<Rightarrow> Inr r)"
begin

lemma get_Inr: "get t i d = Inr r \<Longrightarrow> r \<in> set (rows d) \<and> ident r = i \<and> owner r = t"
  by (auto simp: get_row split: option.splits dest: find_row_SomeD)

lemma get_Inl: "get t i d = Inl e \<Longrightarrow> e = ErrNotFound"
  by (auto simp: get_row split: option.splits)

lemma get_other_tenant:
  assumes "distinct (map ident (rows d))" and "r \<in> set (rows d)" and "t \<noteq> owner r"
  shows "get t (ident r) d = Inl ErrNotFound"
proof (cases "find_row (\<lambda>x. ident x = ident r \<and> owner x = t) (rows d)")
  case (Some x)
  then have "x \<in> set (rows d)" "ident x = ident r" "owner x = t"
    using find_row_SomeD by fastforce+
  with assms(1,2) have "x = r" by (metis distinct_map inj_onD)
  with assms(3) \<open>owner x = t\<close> show ?thesis by simp
qed (simp add: get_row)

lemma get_own:
  assumes "distinct (map ident (rows d))" and "r \<in> set (rows d)"
  shows "get (owner r) (ident r) d = Inr r"
proof (cases "find_row (\<lambda>x. ident x = ident r \<and> owner x = owner r) (rows d)")
  case None
  with assms(2) show ?thesis by (auto simp: find_row_None_iff)
next
  case (Some x)
  then have "x \<in> set (rows d)" "ident x = ident r" using find_row_SomeD by fastforce+
  with assms have "x = r" by (metis distinct_map inj_onD)
  with Some show ?thesis by (simp add: get_row)
qed

end

section \<open>Terminal statuses\<close>

text \<open>
  \<open>finish a\<close> writes a terminal outcome into a row; \<open>mark i a\<close> is the guarded update
  \<open>UPDATE ... WHERE id = i AND status NOT IN (terminal)\<close>.
\<close>

locale terminal_rows =
  fixes key :: "'r \<Rightarrow> string"
    and terminal :: "'r \<Rightarrow> bool"
    and finish :: "'a \<Rightarrow> 'r \<Rightarrow> 'r"
    and legal :: "'a \<Rightarrow> bool"
    and mark :: "string \<Rightarrow> 'a \<Rightarrow> 'r list \<Rightarrow> 'r list"
  assumes mark_rows: "mark i a rs = update_where (\<lambda>r. key r = i \<and> \<not> terminal r) (finish a) rs"
    and key_finish: "key (finish a r) = key r"
    and finish_terminal: "legal a \<Longrightarrow> terminal (finish a r)"
begin

lemma mark_keys: "map key (mark i a rs) = map key rs"
  by (simp add: mark_rows map_update_where key_finish)

lemma mark_terminal_kept: "r \<in> set rs \<Longrightarrow> terminal r \<Longrightarrow> r \<in> set (mark i a rs)"
  by (auto simp: mark_rows set_update_where)

lemma mark_first_wins:
  assumes "legal a"
  shows "mark i b (mark i a rs) = mark i a rs"
  unfolding mark_rows
  by (induction rs) (auto simp: key_finish finish_terminal [OF assms])

lemma mark_lookup:
  assumes "find_row (\<lambda>r. key r = i) rs = Some r" and "\<not> terminal r"
  shows "find_row (\<lambda>r. key r = i) (mark i a rs) = Some (finish a r)"
  using assms find_row_SomeD [OF assms(1)]
  by (simp add: mark_rows find_row_update_where key_finish)

lemma mark_settles:
  assumes "legal a" and "r \<in> set (mark i a rs)" and "key r = i"
  shows "terminal r"
  using assms(2,3) finish_terminal [OF assms(1)]
  by (auto simp: mark_rows set_update_where key_finish)

end

section \<open>At-least-once delivery\<close>

text \<open>
  \<open>handle x m\<close> is what a consumer does to its state on message \<open>m\<close> in the surroundings \<open>x\<close>
  (clock, generated ids), \<open>applied m s\<close> that \<open>s\<close> already reflects the message. When handling
  a message makes it applied, keeps every other message applied, and does nothing when it is
  applied already, then redelivered messages change nothing, wherever and whenever the copies
  arrive: a stream ends where the stream of its first copies ends.
\<close>

fun first_copies :: "'m list \<Rightarrow> ('x \<times> 'm) list \<Rightarrow> ('x \<times> 'm) list" where
  "first_copies seen [] = []"
| "first_copies seen ((x, m) # ms) =
     (if m \<in> set seen then first_copies seen ms else (x, m) # first_copies (m # seen) ms)"

lemma first_copies_subset: "set (first_copies seen ms) \<subseteq> set ms"
  by (induction seen ms rule: first_copies.induct) auto

lemma first_copies_distinct:
  "distinct (map snd (first_copies seen ms)) \<and> snd ` set (first_copies seen ms) \<inter> set seen = {}"
  by (induction seen ms rule: first_copies.induct) auto

locale redeliverable =
  fixes handle :: "'x \<Rightarrow> 'm \<Rightarrow> 's \<Rightarrow> 's"
    and applied :: "'m \<Rightarrow> 's \<Rightarrow> bool"
  assumes applied_handle: "applied m (handle x m s)"
    and applied_kept: "applied m s \<Longrightarrow> applied m (handle x m' s)"
    and handle_absorbed: "applied m s \<Longrightarrow> handle x m s = s"
begin

definition handle_all :: "('x \<times> 'm) list \<Rightarrow> 's \<Rightarrow> 's" where
  "handle_all ms s = fold (\<lambda>(x, m). handle x m) ms s"

lemma handle_all_simps [simp]:
  "handle_all [] s = s" "handle_all ((x, m) # ms) s = handle_all ms (handle x m s)"
  by (simp_all add: handle_all_def)

lemma first_copies_enough:
  "(\<And>m. m \<in> set seen \<Longrightarrow> applied m s) \<Longrightarrow> handle_all ms s = handle_all (first_copies seen ms) s"
proof (induction seen ms arbitrary: s rule: first_copies.induct)
  case (2 seen x m ms)
  show ?case
  proof (cases "m \<in> set seen")
    case True
    with 2 show ?thesis by (simp add: handle_absorbed)
  next
    case False
    have "handle_all ms (handle x m s) = handle_all (first_copies (m # seen) ms) (handle x m s)"
      using 2(3) False by (intro 2(2)) (auto intro: applied_handle applied_kept)
    with False show ?thesis by simp
  qed
qed simp

lemma fold_first_copies:
  "fold (\<lambda>(x, m). handle x m) ms s = fold (\<lambda>(x, m). handle x m) (first_copies [] ms) s"
  using first_copies_enough [of "[]" s ms] by (simp add: handle_all_def)

end

end
