(* ===== verification/Ledger.thy ===== *)
theory Ledger
  imports Contracts
begin

text \<open>
  The two append-only ledgers: \<open>internal/usage/repo.go\<close> (metering, idempotent on the run
  and the kind) and \<open>internal/audit/repo.go\<close> (the audit trail of a tenant). Their ids are
  \<open>BIGSERIAL\<close> values, arguments here.
\<close>

section \<open>Usage\<close>

definition KindRunStart :: string where "KindRunStart = ''run.start''"
definition KindRunEnd :: string where "KindRunEnd = ''run.end''"
definition KindRunSeconds :: string where "KindRunSeconds = ''run.seconds''"
definition KindMCPHeartbeat :: string where "KindMCPHeartbeat = ''mcp.heartbeat''"
definition KindBuildMinutes :: string where "KindBuildMinutes = ''build.minutes''"

lemmas usage_kind_defs = KindRunStart_def KindRunEnd_def KindRunSeconds_def KindMCPHeartbeat_def
  KindBuildMinutes_def

text \<open>
  \<open>INSERT ... ON CONFLICT (run_id, kind) WHERE run_id IS NOT NULL DO NOTHING\<close>. The conflict
  is looked for first; a row that references a missing tenant, agent or run is refused.
\<close>

definition record_run ::
  "int \<Rightarrow> string \<Rightarrow> string \<Rightarrow> string \<Rightarrow> string \<Rightarrow> rat \<Rightarrow> gotime \<Rightarrow> database
    \<Rightarrow> (error + unit) \<times> database" where
  "record_run uid tenant agent run kind quantity ts d =
     (if kind \<notin> set usage_kinds then (Inl pg_check, d)
      else if \<exists>u\<in>set (d_usage d). us_run u = Some run \<and> us_kind u = kind then (Inr (), d)
      else if \<not> tenant_exists tenant d \<or> \<not> agent_exists agent d \<or> \<not> run_exists run d
      then (Inl pg_foreign, d)
      else (Inr (), d\<lparr>d_usage := d_usage d @
              [\<lparr>us_id = uid, us_tenant = tenant, us_agent = Some agent, us_run = Some run,
                us_kind = kind, us_quantity = quantity, us_recorded = ts\<rparr>]\<rparr>))"

lemma record_run_frame [simp]:
  "d_tenants (snd (record_run uid tenant agent run kind q ts d)) = d_tenants d"
  "d_agents (snd (record_run uid tenant agent run kind q ts d)) = d_agents d"
  "d_runs (snd (record_run uid tenant agent run kind q ts d)) = d_runs d"
  "d_audit (snd (record_run uid tenant agent run kind q ts d)) = d_audit d"
  by (simp_all add: record_run_def)

lemma record_run_at_most_once:
  assumes "usage_ok d"
  shows "usage_ok (snd (record_run uid tenant agent run kind q ts d))"
proof -
  let ?d = "snd (record_run uid tenant agent run kind q ts d)"
  have ex: "tenant_exists i ?d = tenant_exists i d" "agent_exists i ?d = agent_exists i d"
    "run_exists i ?d = run_exists i d" for i
    by (simp_all add: tenant_exists_def agent_exists_def run_exists_def)
  show ?thesis
  proof (cases "d_usage ?d = d_usage d")
    case True
    with assms ex show ?thesis by (simp add: usage_ok_def)
  next
    case False
    then have c: "kind \<in> set usage_kinds" "tenant_exists tenant d" "agent_exists agent d"
      "run_exists run d" "\<forall>u\<in>set (d_usage d). \<not> (us_run u = Some run \<and> us_kind u = kind)"
      "d_usage ?d = d_usage d @
        [\<lparr>us_id = uid, us_tenant = tenant, us_agent = Some agent, us_run = Some run,
          us_kind = kind, us_quantity = q, us_recorded = ts\<rparr>]"
      by (auto simp: record_run_def split: if_splits)
    with assms show ?thesis
      unfolding usage_ok_def ex c(6) by (auto simp: image_iff)
  qed
qed

text \<open>A usage row is there, or cannot be written: a later insert for it changes nothing.\<close>

definition usage_settled :: "string \<Rightarrow> string \<Rightarrow> string \<Rightarrow> string \<Rightarrow> database \<Rightarrow> bool" where
  "usage_settled tenant agent run kind d \<longleftrightarrow>
     kind \<notin> set usage_kinds \<or>
     (\<exists>u\<in>set (d_usage d). us_run u = Some run \<and> us_kind u = kind) \<or>
     \<not> tenant_exists tenant d \<or> \<not> agent_exists agent d \<or> \<not> run_exists run d"

lemma record_run_settles:
  "usage_settled tenant agent run kind (snd (record_run uid tenant agent run kind q ts d))"
  by (auto simp: record_run_def usage_settled_def)

lemma record_run_settled: 
  "usage_settled tenant agent run kind d \<Longrightarrow> snd (record_run uid tenant agent run kind q ts d) = d"
  by (auto simp: record_run_def usage_settled_def)

lemma usage_settled_record:
  "usage_settled tenant agent run kind d \<Longrightarrow>
    usage_settled tenant agent run kind (snd (record_run uid t a r k q ts d))"
  by (auto simp: record_run_def usage_settled_def tenant_exists_def agent_exists_def run_exists_def)

lemma usage_settled_runs:
  "rn_id ` set rs = rn_id ` set (d_runs d) \<Longrightarrow>
    usage_settled tenant agent run kind (d\<lparr>d_runs := rs\<rparr>) = usage_settled tenant agent run kind d"
  by (simp add: usage_settled_def tenant_exists_def agent_exists_def run_exists_def)

section \<open>Audit\<close>

definition audit_insert ::
  "int \<Rightarrow> gotime \<Rightarrow> string \<Rightarrow> string \<Rightarrow> string \<Rightarrow> string \<Rightarrow> string \<Rightarrow> json option \<Rightarrow> string
    \<Rightarrow> database \<Rightarrow> (error + unit) \<times> database" where
  "audit_insert aid now tenant user action rtype rid meta req d =
     (if \<not> tenant_exists tenant d then (Inl pg_foreign, d)
      else (Inr (), d\<lparr>d_audit := d_audit d @
              [\<lparr>au_id = aid, au_tenant = tenant, au_user = Some user, au_action = action,
                au_rtype = rtype, au_rid = Some rid, au_metadata = meta,
                au_request = null_if_empty req, au_created = now\<rparr>]\<rparr>))"

definition audit_limit :: "int \<Rightarrow> nat" where
  "audit_limit limit = (if limit \<le> 0 \<or> limit > 500 then 100 else nat limit)"

definition audit_list :: "string \<Rightarrow> int \<Rightarrow> database \<Rightarrow> audit_event list" where
  "audit_list tenant limit d =
     take (audit_limit limit) (order_desc au_id (filter (\<lambda>e. au_tenant e = tenant) (d_audit d)))"

lemma audit_list_own: "e \<in> set (audit_list tenant limit d) \<Longrightarrow> au_tenant e = tenant"
  by (auto simp: audit_list_def dest: in_set_takeD)

lemma audit_limit_bound: "1 \<le> audit_limit n \<and> audit_limit n \<le> 500"
  by (auto simp: audit_limit_def)

lemma audit_list_newest_first:
  "sorted (map (\<lambda>e. - au_id e) (audit_list tenant limit d))"
  unfolding audit_list_def order_desc_def
  by (metis sorted_sort_key sorted_wrt_take take_map)

lemma audit_insert_frame:
  "snd (audit_insert aid now tenant user action rtype rid meta req d) =
     d\<lparr>d_audit := d_audit (snd (audit_insert aid now tenant user action rtype rid meta req d))\<rparr>"
  by (simp add: audit_insert_def)

lemma audit_insert_ok:
  assumes "db_ok d"
  shows "db_ok (snd (audit_insert aid now tenant user action rtype rid meta req d))"
proof (cases "tenant_exists tenant d")
  case True
  let ?e = "\<lparr>au_id = aid, au_tenant = tenant, au_user = Some user, au_action = action,
      au_rtype = rtype, au_rid = Some rid, au_metadata = meta, au_request = null_if_empty req,
      au_created = now\<rparr>"
  let ?d = "d\<lparr>d_audit := d_audit d @ [?e]\<rparr>"
  have "tenant_exists i ?d = tenant_exists i d" "agent_exists i ?d = agent_exists i d"
    "run_exists i ?d = run_exists i d" for i
    by (simp_all add: tenant_exists_def agent_exists_def run_exists_def)
  with assms True show ?thesis
    by (simp add: audit_insert_def db_ok_def keys_ok_def status_ok_def refs_ok_def usage_ok_def)
qed (use assms in \<open>simp add: audit_insert_def\<close>)

lemma record_run_keeps [keeps]:
  assumes "db_ok d"
  shows "db_ok (snd (record_run uid tenant agent run kind q ts d))"
proof -
  let ?d = "snd (record_run uid tenant agent run kind q ts d)"
  have ex: "tenant_exists i ?d = tenant_exists i d" "agent_exists i ?d = agent_exists i d" for i
    by (simp_all add: tenant_exists_def agent_exists_def)
  have "d_triggers ?d = d_triggers d" "d_builds ?d = d_builds d" "d_secrets ?d = d_secrets d"
    by (simp_all add: record_run_def)
  with assms ex record_run_at_most_once [of d] show ?thesis
    by (simp add: db_ok_def keys_ok_def status_ok_def refs_ok_def)
qed

end
