(* ===== verification/World.thy ===== *)
theory World
  imports Kube Auth Ledger
begin

text \<open>
  What a handler of the platform acts on: the database, the cluster, the messages the bus
  has stored, and the outcomes of the calls to the database and the bus that are still to
  come. Every such call takes the next outcome of the script (an exhausted script means
  \<open>Done\<close>), so a statement for all scripts is a statement for every failure of the database
  and the bus at every call, lost acknowledgements included. \<open>internal/eventbus/nats.go\<close>'s
  \<open>Publish\<close> and \<open>internal/audit/repo.go\<close>'s \<open>Log\<close> are here because every handler uses them.
\<close>

record 'k world =
  w_db :: database
  w_kube :: 'k
  w_sent :: "(string \<times> json) list"
  w_raw :: "(string \<times> json) list"
  w_script :: "outcome list"

definition next_outcome :: "'k world \<Rightarrow> outcome \<times> 'k world" where
  "next_outcome w =
     (case w_script w of [] \<Rightarrow> (Done, w) | x # xs \<Rightarrow> (x, w\<lparr>w_script := xs\<rparr>))"

section \<open>Database calls\<close>

definition db_down :: error where "db_down = ErrText ''database unavailable''"

definition db_read :: "(database \<Rightarrow> error + 'a) \<Rightarrow> 'k world \<Rightarrow> (error + 'a) \<times> 'k world" where
  "db_read q w =
     (case next_outcome w of (oc, w1) \<Rightarrow>
        (if oc = Done then (q (w_db w1), w1) else (Inl db_down, w1)))"

definition db_write ::
  "(database \<Rightarrow> (error + 'a) \<times> database) \<Rightarrow> 'k world \<Rightarrow> (error + 'a) \<times> 'k world" where
  "db_write f w =
     (case next_outcome w of (oc, w1) \<Rightarrow>
        (case oc of
           Done \<Rightarrow> (fst (f (w_db w1)), w1\<lparr>w_db := snd (f (w_db w1))\<rparr>)
         | Refused \<Rightarrow> (Inl db_down, w1)
         | Ack_Lost \<Rightarrow> (Inl db_down, w1\<lparr>w_db := snd (f (w_db w1))\<rparr>)))"

section \<open>The bus\<close>

text \<open>
  \<open>Bus.Publish\<close> marshals the payload and returns once the broker has stored the message;
  \<open>Bus.PublishRaw\<close> is the fire-and-forget path.
\<close>

definition bus_down :: error where "bus_down = ErrText ''bus unavailable''"

definition publish :: "string \<Rightarrow> json \<Rightarrow> 'k world \<Rightarrow> (error + unit) \<times> 'k world" where
  "publish subject payload w =
     (case next_outcome w of (oc, w1) \<Rightarrow>
        (case oc of
           Done \<Rightarrow> (Inr (), w1\<lparr>w_sent := w_sent w1 @ [(subject, payload)]\<rparr>)
         | Refused \<Rightarrow> (Inl (Wrapped (''publish '' @ subject) bus_down), w1)
         | Ack_Lost \<Rightarrow> (Inl (Wrapped (''publish '' @ subject) bus_down),
                       w1\<lparr>w_sent := w_sent w1 @ [(subject, payload)]\<rparr>)))"

definition publish_raw :: "string \<Rightarrow> json \<Rightarrow> 'k world \<Rightarrow> (error + unit) \<times> 'k world" where
  "publish_raw subject payload w =
     (case next_outcome w of (oc, w1) \<Rightarrow>
        (case oc of
           Done \<Rightarrow> (Inr (), w1\<lparr>w_raw := w_raw w1 @ [(subject, payload)]\<rparr>)
         | _ \<Rightarrow> (Inl bus_down, w1)))"

text \<open>
  How a JetStream consumer treats a handler: an error is a \<open>Nak\<close>, after which the message
  comes again, at most ten times in all; a message that is not JSON is handed over as
  \<open>None\<close>.
\<close>

definition max_deliver :: nat where "max_deliver = 10"

fun deliver :: "nat \<Rightarrow> (nat \<Rightarrow> wire \<Rightarrow> 's \<Rightarrow> (error + unit) \<times> 's) \<Rightarrow> wire \<Rightarrow> 's \<Rightarrow> bool \<times> 's" where
  "deliver 0 h msg s = (False, s)"
| "deliver (Suc n) h msg s =
     (case h n msg s of (Inr (), s') \<Rightarrow> (True, s') | (Inl e, s') \<Rightarrow> deliver n h msg s')"

section \<open>Cluster calls\<close>

definition kube_call :: "('k \<Rightarrow> (kerr + 'a) \<times> 'k) \<Rightarrow> 'k world \<Rightarrow> (kerr + 'a) \<times> 'k world" where
  "kube_call f w = (fst (f (w_kube w)), w\<lparr>w_kube := snd (f (w_kube w))\<rparr>)"

section \<open>Server-generated values and the audit log\<close>

text \<open>
  What one request draws from its surroundings: the row id and the audit id that Postgres
  generates, the text of \<open>uuid.NewString\<close> or of the active trace id, random bytes and a
  nonce, the clock, chi's request id, and the text of the JSON decoder's error when the body
  does not decode.
\<close>

record gen =
  g_uuid :: string
  g_seq :: int
  g_trace :: string
  g_trace_ctx :: "(string \<times> string) list option"
  g_random :: string
  g_nonce :: string
  g_now :: gotime
  g_request :: string
  g_json_error :: string

text \<open>
  \<open>audit.Log\<close>: nothing without an identity, and the result of the insert is ignored.
\<close>

definition audit_log ::
  "gen \<Rightarrow> ctx \<Rightarrow> string \<Rightarrow> string \<Rightarrow> string \<Rightarrow> json option \<Rightarrow> 'k world \<Rightarrow> 'k world" where
  "audit_log g c action rtype rid meta w =
     (case from_context c of
        None \<Rightarrow> w
      | Some i \<Rightarrow>
          snd (db_write (audit_insert (g_seq g) (g_now g) (id_tenant i) (id_user i) action rtype rid
            meta (g_request g)) w))"

section \<open>Data for evaluation\<close>

text \<open>A request, a database with one agent and a run in each stage, and a world where no call fails.\<close>

definition sample_gen :: gen where
  "sample_gen =
     \<lparr>g_uuid = ''u1'', g_seq = 1, g_trace = ''tr'', g_trace_ctx = None, g_random = ''r'',
      g_nonce = ''n'', g_now = 5, g_request = ''q'', g_json_error = ''unexpected EOF''\<rparr>"

definition sample_manifest :: manifest where
  "sample_manifest =
     \<lparr>m_schema = ''v1'', m_name = ''bot'', m_mode = ''server'', m_runtime = ''container'',
      m_image = ''img'', m_entrypoint = [], m_inputs = None, m_outputs = None, m_env = [],
      m_secrets = [''key''], m_resources = \<lparr>res_cpu = [], res_memory = [], res_timeout = [], res_disk = []\<rparr>,
      m_triggers = [], m_server = Some \<lparr>srv_port = 9000, srv_health_path = ''/h'', srv_idle_timeout = []\<rparr>\<rparr>"

definition sample_run :: "string \<Rightarrow> string \<Rightarrow> run" where
  "sample_run i st =
     \<lparr>rn_id = i, rn_tenant = ''t'', rn_agent = ''a'', rn_status = st, rn_inputs = None,
      rn_outputs = None, rn_exit = None, rn_error = None, rn_trace = None, rn_created = 1,
      rn_started = None, rn_ended = None\<rparr>"

definition sample_db :: database where
  "sample_db =
     \<lparr>d_tenants = [\<lparr>tn_id = ''t'', tn_slug = ''acme'', tn_name = ''Acme'', tn_created = 0\<rparr>],
      d_agents = [\<lparr>ag_id = ''a'', ag_tenant = ''t'', ag_name = ''bot'', ag_mode = ''server'',
        ag_runtime = ''container'', ag_image = Some ''img'', ag_manifest = sample_manifest,
        ag_created = 1\<rparr>],
      d_runs = [sample_run ''r1'' ''pending'', sample_run ''r2'' ''running'', sample_run ''r3'' ''failed''],
      d_triggers = [\<lparr>tg_id = ''g'', tg_tenant = ''t'', tg_agent = ''a'', tg_kind = ''cron'', tg_name = ''c'',
        tg_cron = Some ''* * * * *'', tg_sealed = None, tg_created = 1\<rparr>],
      d_builds = [\<lparr>bd_id = ''b'', bd_tenant = ''t'', bd_agent = ''a'', bd_status = ''running'',
        bd_source = ''git'', bd_image = None, bd_error = None, bd_created = 1, bd_ended = None\<rparr>],
      d_usage = [], d_secrets = [], d_audit = [],
      d_shipper = [\<lparr>ck_dest = ''orb'', ck_last = 0, ck_at = None\<rparr>],
      d_export = [\<lparr>ck_dest = ''s3'', ck_last = 0, ck_at = None\<rparr>]\<rparr>"

definition quiet_world :: "database \<Rightarrow> 'k \<Rightarrow> 'k world" where
  "quiet_world d k = \<lparr>w_db = d, w_kube = k, w_sent = [], w_raw = [], w_script = []\<rparr>"

definition sample_ctx :: ctx where
  "sample_ctx = Some \<lparr>id_tenant = ''t'', id_user = ''u''\<rparr>"

lemma sample_db_ok: "db_ok sample_db"
  by (simp add: db_ok_defs sample_db_def sample_run_def run_statuses_def build_statuses_def
      agent_modes_def agent_runtimes_def trigger_kinds_def)

section \<open>Lemmas\<close>

lemma next_outcome_frame [simp]:
  "w_db (snd (next_outcome w)) = w_db w" "w_kube (snd (next_outcome w)) = w_kube w"
  "w_sent (snd (next_outcome w)) = w_sent w" "w_raw (snd (next_outcome w)) = w_raw w"
  by (simp_all add: next_outcome_def split: list.splits)

lemma next_outcome_healthy [simp]: "w_script w = [] \<Longrightarrow> next_outcome w = (Done, w)"
  by (simp add: next_outcome_def)

lemma db_read_frame [simp]:
  "w_db (snd (db_read q w)) = w_db w" "w_kube (snd (db_read q w)) = w_kube w"
  "w_sent (snd (db_read q w)) = w_sent w" "w_raw (snd (db_read q w)) = w_raw w"
  by (simp_all add: db_read_def split_beta)

lemma db_read_Inr: "fst (db_read q w) = Inr x \<Longrightarrow> q (w_db w) = Inr x"
  by (auto simp: db_read_def split_beta split: if_splits)

lemma db_read_not_found: "fst (db_read q w) = Inl ErrNotFound \<Longrightarrow> q (w_db w) = Inl ErrNotFound"
  by (auto simp: db_read_def split_beta db_down_def split: if_splits)

lemma db_read_healthy [simp]: "w_script w = [] \<Longrightarrow> db_read q w = (q (w_db w), w)"
  by (simp add: db_read_def)

lemma db_write_frame [simp]:
  "w_kube (snd (db_write f w)) = w_kube w" "w_sent (snd (db_write f w)) = w_sent w"
  "w_raw (snd (db_write f w)) = w_raw w"
  by (simp_all add: db_write_def split_beta split: outcome.splits)

lemma db_write_db: "w_db (snd (db_write f w)) = w_db w \<or> w_db (snd (db_write f w)) = snd (f (w_db w))"
  by (simp add: db_write_def split_beta split: outcome.splits)

lemma db_write_Inr:
  "fst (db_write f w) = Inr x \<Longrightarrow> fst (f (w_db w)) = Inr x \<and> w_db (snd (db_write f w)) = snd (f (w_db w))"
  by (auto simp: db_write_def split_beta split: outcome.splits)

lemma db_write_healthy [simp]:
  "w_script w = [] \<Longrightarrow> db_write f w = (fst (f (w_db w)), w\<lparr>w_db := snd (f (w_db w))\<rparr>)"
  by (simp add: db_write_def)

lemma publish_frame [simp]:
  "w_db (snd (publish s p w)) = w_db w" "w_kube (snd (publish s p w)) = w_kube w"
  "w_raw (snd (publish s p w)) = w_raw w"
  by (simp_all add: publish_def split_beta split: outcome.splits)

lemma publish_Inr: "fst (publish s p w) = Inr () \<Longrightarrow> w_sent (snd (publish s p w)) = w_sent w @ [(s, p)]"
  by (auto simp: publish_def split_beta split: outcome.splits)

lemma publish_sent:
  "w_sent (snd (publish s p w)) = w_sent w \<or> w_sent (snd (publish s p w)) = w_sent w @ [(s, p)]"
  by (auto simp: publish_def split_beta split: outcome.splits)

lemma publish_healthy [simp]:
  "w_script w = [] \<Longrightarrow> publish s p w = (Inr (), w\<lparr>w_sent := w_sent w @ [(s, p)]\<rparr>)"
  by (simp add: publish_def)

lemma publish_raw_frame [simp]:
  "w_db (snd (publish_raw s p w)) = w_db w" "w_kube (snd (publish_raw s p w)) = w_kube w"
  "w_sent (snd (publish_raw s p w)) = w_sent w"
  by (simp_all add: publish_raw_def split_beta split: outcome.splits)

lemma kube_call_frame [simp]:
  "w_db (snd (kube_call f w)) = w_db w" "w_sent (snd (kube_call f w)) = w_sent w"
  "w_raw (snd (kube_call f w)) = w_raw w" "w_script (snd (kube_call f w)) = w_script w"
  "w_kube (snd (kube_call f w)) = snd (f (w_kube w))" "fst (kube_call f w) = fst (f (w_kube w))"
  by (simp_all add: kube_call_def)

lemma audit_log_frame [simp]:
  "w_kube (audit_log g c a t r m w) = w_kube w" "w_sent (audit_log g c a t r m w) = w_sent w"
  "w_raw (audit_log g c a t r m w) = w_raw w"
  by (simp_all add: audit_log_def split: option.splits)

text \<open>The audit log only ever adds audit rows.\<close>

lemma audit_log_write:
  "from_context c = Some i \<Longrightarrow> audit_log g c a t r m w =
     snd (db_write (audit_insert (g_seq g) (g_now g) (id_tenant i) (id_user i) a t r m (g_request g)) w)"
  by (simp add: audit_log_def)

lemma audit_log_db:
  "\<exists>es. w_db (audit_log g c a t r m w) = (w_db w)\<lparr>d_audit := es\<rparr>"
proof (cases "from_context c")
  case None
  then show ?thesis by (intro exI [of _ "d_audit (w_db w)"]) (simp add: audit_log_def)
next
  case (Some i)
  let ?f = "audit_insert (g_seq g) (g_now g) (id_tenant i) (id_user i) a t r m (g_request g)"
  from db_write_db [of ?f w] show ?thesis
    unfolding audit_log_write [OF Some]
  proof
    assume "w_db (snd (db_write ?f w)) = w_db w"
    then show "\<exists>es. w_db (snd (db_write ?f w)) = (w_db w)\<lparr>d_audit := es\<rparr>"
      by (intro exI [of _ "d_audit (w_db w)"]) simp
  next
    assume e: "w_db (snd (db_write ?f w)) = snd (?f (w_db w))"
    show "\<exists>es. w_db (snd (db_write ?f w)) = (w_db w)\<lparr>d_audit := es\<rparr>"
      unfolding e by (subst audit_insert_frame) (rule exI, rule refl)
  qed
qed

lemma audit_log_tables [simp]:
  "d_tenants (w_db (audit_log g c a t r m w)) = d_tenants (w_db w)"
  "d_agents (w_db (audit_log g c a t r m w)) = d_agents (w_db w)"
  "d_runs (w_db (audit_log g c a t r m w)) = d_runs (w_db w)"
  "d_triggers (w_db (audit_log g c a t r m w)) = d_triggers (w_db w)"
  "d_builds (w_db (audit_log g c a t r m w)) = d_builds (w_db w)"
  "d_usage (w_db (audit_log g c a t r m w)) = d_usage (w_db w)"
  "d_secrets (w_db (audit_log g c a t r m w)) = d_secrets (w_db w)"
  using audit_log_db [of g c a t r m w] by auto

lemma db_write_ok [keeps]:
  assumes "db_ok (w_db w)" and "\<And>d. db_ok d \<Longrightarrow> db_ok (snd (f d))"
  shows "db_ok (w_db (snd (db_write f w)))"
proof (cases "w_db (snd (db_write f w)) = w_db w")
  case False
  with db_write_db [of f w] have "w_db (snd (db_write f w)) = snd (f (w_db w))" by blast
  with assms show ?thesis by simp
qed (use assms in simp)

lemma audit_log_ok [keeps]: "db_ok (w_db w) \<Longrightarrow> db_ok (w_db (audit_log g c a t r m w))"
  by (cases "from_context c") (simp add: audit_log_def,
      simp add: audit_log_write db_write_ok audit_insert_ok)

end
