(* ===== verification/Cryptobox.thy ===== *)
theory Cryptobox
  imports Go_Strings
begin

text \<open>
  \<open>internal/cryptobox/crypto.go\<close>: sealing of secrets at rest. The AES-256-GCM primitive of
  the standard library is a parameter (\<open>aead\<close>), of which the code relies on one law: a
  ciphertext opens to its plaintext under the same key and nonce. The base64 framing, the
  key parsing and the nonce prefix are modelled as written.
\<close>

section \<open>Base64\<close>

definition b64_digit :: "nat \<Rightarrow> char" where
  "b64_digit d =
     (if d < 26 then char_of (65 + d) else if d < 52 then char_of (71 + d)
      else if d < 62 then char_of (d - 4) else if d = 62 then CHR ''+'' else CHR ''/'')"

definition b64_val :: "char \<Rightarrow> nat option" where
  "b64_val c =
    (let n = (of_char c :: nat) in
     if 65 \<le> n \<and> n \<le> 90 then Some (n - 65)
     else if 97 \<le> n \<and> n \<le> 122 then Some (n - 71)
     else if 48 \<le> n \<and> n \<le> 57 then Some (n + 4)
     else if n = 43 then Some 62
     else if n = 47 then Some 63
     else None)"

fun b64_encode :: "string \<Rightarrow> string" where
  "b64_encode [] = []"
| "b64_encode [a] =
     (let x = of_char a in [b64_digit (x div 4), b64_digit (x mod 4 * 16), CHR ''='', CHR ''=''])"
| "b64_encode [a, b] =
     (let x = of_char a; y = of_char b in
      [b64_digit (x div 4), b64_digit (x mod 4 * 16 + y div 16), b64_digit (y mod 16 * 4), CHR ''=''])"
| "b64_encode (a # b # c # cs) =
     (let x = of_char a; y = of_char b; z = of_char c in
      b64_digit (x div 4) # b64_digit (x mod 4 * 16 + y div 16) #
      b64_digit (y mod 16 * 4 + z div 64) # b64_digit (z mod 64) # b64_encode cs)"

text \<open>
  \<open>base64.StdEncoding.DecodeString\<close>: line breaks are skipped, padding is required at the
  end and nowhere else.
\<close>

fun b64_groups :: "string \<Rightarrow> string option" where
  "b64_groups [] = Some []"
| "b64_groups [p, q, r, s] =
     (case (b64_val p, b64_val q) of
        (Some x, Some y) \<Rightarrow>
          (if r = CHR ''='' \<and> s = CHR ''='' then Some [char_of (x * 4 + y div 16)]
           else (case b64_val r of
                   None \<Rightarrow> None
                 | Some z \<Rightarrow>
                     if s = CHR ''='' then
                       Some [char_of (x * 4 + y div 16), char_of (y mod 16 * 16 + z div 4)]
                     else (case b64_val s of
                             None \<Rightarrow> None
                           | Some w \<Rightarrow> Some [char_of (x * 4 + y div 16),
                               char_of (y mod 16 * 16 + z div 4), char_of (z mod 4 * 64 + w)])))
      | _ \<Rightarrow> None)"
| "b64_groups (p # q # r # s # cs) =
     (case (b64_val p, b64_val q, b64_val r, b64_val s, b64_groups cs) of
        (Some x, Some y, Some z, Some w, Some t) \<Rightarrow>
          Some (char_of (x * 4 + y div 16) # char_of (y mod 16 * 16 + z div 4) #
            char_of (z mod 4 * 64 + w) # t)
      | _ \<Rightarrow> None)"
| "b64_groups _ = None"

definition plain_char :: "char \<Rightarrow> bool" where
  "plain_char c \<longleftrightarrow> (of_char c :: nat) \<noteq> 10 \<and> (of_char c :: nat) \<noteq> 13"

definition b64_decode :: "string \<Rightarrow> string option" where
  "b64_decode s = b64_groups (filter plain_char s)"

lemma b64_val_digit [simp]: "d < 64 \<Longrightarrow> b64_val (b64_digit d) = Some d"
  by (auto simp: b64_val_def b64_digit_def Let_def)

lemma b64_digit_code: "d < 64 \<Longrightarrow> (of_char (b64_digit d) :: nat) \<notin> {10, 13, 61}"
  by (auto simp: b64_digit_def)

lemma b64_digit_no_pad [simp]: "d < 64 \<Longrightarrow> b64_digit d \<noteq> CHR ''=''"
  using b64_digit_code [of d] by auto

lemma digits_div_mod:
  fixes a u k :: nat
  assumes "u < k"
  shows "(a * k + u) div k = a" "(a * k + u) mod k = u"
  using assms by simp_all

lemma b64_join:
  fixes x y z :: nat
  assumes "x < 256" "y < 256" "z < 256"
  shows "x div 4 * 4 + (x mod 4 * 16 + y div 16) div 16 = x"
    "(x mod 4 * 16 + y div 16) mod 16 * 16 + (y mod 16 * 4 + z div 64) div 4 = y"
    "(y mod 16 * 4 + z div 64) mod 4 * 64 + z mod 64 = z"
    "x div 4 < 64" "x mod 4 * 16 + y div 16 < 64" "y mod 16 * 4 + z div 64 < 64"
    "(x mod 4 * 16 + y div 16) mod 16 * 16 + y mod 16 * 4 div 4 = y"
    "x mod 4 * 16 < 64" "y mod 16 * 4 < 64"
proof -
  have b: "y div 16 < 16" "z div 64 < 4" "x div 4 < 64"
    using assms by (simp_all add: less_mult_imp_div_less)
  have m: "x mod 4 < 4" "y mod 16 < 16" by simp_all
  note d = digits_div_mod [OF b(1)] digits_div_mod [OF b(2)]
  show "x div 4 * 4 + (x mod 4 * 16 + y div 16) div 16 = x" by (simp only: d div_mult_mod_eq)
  show "(x mod 4 * 16 + y div 16) mod 16 * 16 + (y mod 16 * 4 + z div 64) div 4 = y"
    by (simp only: d div_mult_mod_eq)
  show "(y mod 16 * 4 + z div 64) mod 4 * 64 + z mod 64 = z" by (simp only: d div_mult_mod_eq)
  show "(x mod 4 * 16 + y div 16) mod 16 * 16 + y mod 16 * 4 div 4 = y"
    by (simp only: d(1,2)) simp
  show "x div 4 < 64" by (rule b(3))
  show "x mod 4 * 16 + y div 16 < 64" "y mod 16 * 4 + z div 64 < 64"
    "x mod 4 * 16 < 64" "y mod 16 * 4 < 64"
    using b m by linarith+
qed

lemma b64_groups_append4:
  "cs \<noteq> [] \<Longrightarrow> b64_groups (p # q # r # s # cs) =
     (case (b64_val p, b64_val q, b64_val r, b64_val s, b64_groups cs) of
        (Some x, Some y, Some z, Some w, Some t) \<Rightarrow>
          Some (char_of (x * 4 + y div 16) # char_of (y mod 16 * 16 + z div 4) #
            char_of (z mod 4 * 64 + w) # t)
      | _ \<Rightarrow> None)"
  by (cases cs) auto

lemma b64_encode_Nil_iff: "b64_encode s = [] \<longleftrightarrow> s = []"
  by (cases s rule: b64_encode.cases) (auto simp: Let_def)

lemma b64_groups_digits:
  assumes "p < 64" "q < 64"
  shows "b64_groups [b64_digit p, b64_digit q, CHR ''='', CHR ''=''] = Some [char_of (p * 4 + q div 16)]"
    "r < 64 \<Longrightarrow> b64_groups [b64_digit p, b64_digit q, b64_digit r, CHR ''=''] =
       Some [char_of (p * 4 + q div 16), char_of (q mod 16 * 16 + r div 4)]"
    "r < 64 \<Longrightarrow> w < 64 \<Longrightarrow> b64_groups cs = Some t \<Longrightarrow>
       b64_groups (b64_digit p # b64_digit q # b64_digit r # b64_digit w # cs) =
       Some (char_of (p * 4 + q div 16) # char_of (q mod 16 * 16 + r div 4) #
         char_of (r mod 4 * 64 + w) # t)"
  using assms by (simp_all, cases cs, simp_all)

lemma b64_groups_encode: "b64_groups (b64_encode s) = Some s"
proof (induction s rule: b64_encode.induct)
  case (2 a)
  note j = b64_join [OF byte_less_256 [of a] byte_less_256 [of a] byte_less_256 [of a]]
  have "of_char a mod 4 * 16 div 16 = of_char a mod (4 :: nat)" by simp
  then show ?case
    by (simp only: b64_encode.simps Let_def b64_groups_digits(1) [OF j(4) j(8)])
      (simp add: mult.commute [of _ 4])
next
  case (3 a b)
  note j = b64_join [OF byte_less_256 [of a] byte_less_256 [of b] byte_less_256 [of b]]
  show ?case
    by (simp only: b64_encode.simps Let_def b64_groups_digits(2) [OF j(4) j(5) j(9)] j(1) j(7)
        char_of_char)
next
  case (4 a b c cs)
  note j = b64_join [OF byte_less_256 [of a] byte_less_256 [of b] byte_less_256 [of c]]
  have "of_char c mod 64 < (64 :: nat)" by simp
  from b64_groups_digits(3) [OF j(4) j(5) j(6) this "4.IH" [OF refl refl refl]] show ?case
    by (simp only: b64_encode.simps Let_def j(1) j(2) j(3) char_of_char)
qed simp

lemma plain_char_digit: "d < 64 \<Longrightarrow> plain_char (b64_digit d)"
  using b64_digit_code [of d] by (auto simp: plain_char_def)

lemma b64_encode_plain: "list_all plain_char (b64_encode s)"
proof (induction s rule: b64_encode.induct)
  case (2 a)
  note j = b64_join [OF byte_less_256 [of a] byte_less_256 [of a] byte_less_256 [of a]]
  show ?case
    by (simp only: b64_encode.simps Let_def list.pred_inject plain_char_digit [OF j(4)]
        plain_char_digit [OF j(8)]) (simp add: plain_char_def)
next
  case (3 a b)
  note j = b64_join [OF byte_less_256 [of a] byte_less_256 [of b] byte_less_256 [of b]]
  show ?case
    by (simp only: b64_encode.simps Let_def list.pred_inject plain_char_digit [OF j(4)]
        plain_char_digit [OF j(5)] plain_char_digit [OF j(9)]) (simp add: plain_char_def)
next
  case (4 a b c cs)
  note j = b64_join [OF byte_less_256 [of a] byte_less_256 [of b] byte_less_256 [of c]]
  have "of_char c mod 64 < (64 :: nat)" by simp
  note this [THEN plain_char_digit]
  with "4.IH" [OF refl refl refl] show ?case
    by (simp only: b64_encode.simps Let_def list.pred_inject plain_char_digit [OF j(4)]
        plain_char_digit [OF j(5)] plain_char_digit [OF j(6)] simp_thms)
qed simp

lemma b64_decode_encode [simp]: "b64_decode (b64_encode s) = Some s"
  using b64_encode_plain [of s]
  by (simp add: b64_decode_def b64_groups_encode list_all_iff filter_id_conv [THEN iffD2])

section \<open>The box\<close>

record aead =
  nonce_size :: nat
  aead_seal :: "string \<Rightarrow> string \<Rightarrow> string \<Rightarrow> string"
  aead_open :: "string \<Rightarrow> string \<Rightarrow> string \<Rightarrow> string option"

definition aead_correct :: "aead \<Rightarrow> bool" where
  "aead_correct A \<longleftrightarrow> 0 < nonce_size A \<and>
     (\<forall>k n p. length n = nonce_size A \<longrightarrow> aead_open A k n (aead_seal A k n p) = Some p)"

text \<open>A \<open>Box\<close> is the primitive under one key.\<close>

record box =
  box_aead :: aead
  box_key :: string

datatype box_error = Key_Empty | Key_Hex | Key_Length nat | Bad_Base64 | Too_Short | Open_Failed

definition new_from_hex :: "aead \<Rightarrow> string \<Rightarrow> box_error + box" where
  "new_from_hex A key_hex =
     (if key_hex = [] then Inl Key_Empty
      else (case hex_decode key_hex of
              None \<Rightarrow> Inl Key_Hex
            | Some key \<Rightarrow>
                if length key \<noteq> 32 then Inl (Key_Length (length key))
                else Inr \<lparr>box_aead = A, box_key = key\<rparr>))"

text \<open>\<open>Seal\<close> with the nonce that \<open>rand.Reader\<close> supplied.\<close>

definition seal :: "box \<Rightarrow> string \<Rightarrow> string \<Rightarrow> string" where
  "seal b nonce plaintext =
     b64_encode (nonce @ aead_seal (box_aead b) (box_key b) nonce plaintext)"

definition open_box :: "box \<Rightarrow> string \<Rightarrow> box_error + string" where
  "open_box b payload =
     (case b64_decode payload of
        None \<Rightarrow> Inl Bad_Base64
      | Some raw \<Rightarrow>
          (let ns = nonce_size (box_aead b) in
           if length raw < ns then Inl Too_Short
           else (case aead_open (box_aead b) (box_key b) (take ns raw) (drop ns raw) of
                   None \<Rightarrow> Inl Open_Failed
                 | Some pt \<Rightarrow> Inr pt)))"

definition box_error_text :: "box_error \<Rightarrow> string" where
  "box_error_text e =
     (case e of Key_Empty \<Rightarrow> ''cryptobox: key is empty''
      | Key_Hex \<Rightarrow> ''cryptobox: hex decode key''
      | Key_Length n \<Rightarrow> ''cryptobox: key must be 32 bytes, got '' @ show_nat n
      | Bad_Base64 \<Rightarrow> ''cryptobox: base64''
      | Too_Short \<Rightarrow> ''cryptobox: payload too short''
      | Open_Failed \<Rightarrow> ''cryptobox: open'')"

lemma open_box_seal:
  assumes "aead_correct (box_aead b)" and "length nonce = nonce_size (box_aead b)"
  shows "open_box b (seal b nonce p) = Inr p"
  using assms by (simp add: open_box_def seal_def aead_correct_def Let_def)

text \<open>The box depends on the key only through its 32 bytes.\<close>

lemma new_from_hex_Inr:
  "new_from_hex A h = Inr b \<longleftrightarrow>
     h \<noteq> [] \<and> (\<exists>key. hex_decode h = Some key \<and> length key = 32 \<and> b = \<lparr>box_aead = A, box_key = key\<rparr>)"
  by (auto simp: new_from_hex_def split: option.splits)

text \<open>
  C22: a box built from a hex key opens what it sealed, whatever the plaintext and the
  nonce, for every primitive that opens its own ciphertexts.
\<close>

theorem cryptobox_round_trip:
  assumes "aead_correct A" and "new_from_hex A key_hex = Inr b" and "length nonce = nonce_size A"
  shows "open_box b (seal b nonce plaintext) = Inr plaintext"
  using assms by (auto simp: new_from_hex_Inr intro: open_box_seal)

text \<open>
  A primitive for evaluation only: it appends the key and the nonce to the plaintext as a
  tag and strips them again.
\<close>

definition tag_aead :: aead where
  "tag_aead = \<lparr>nonce_size = 12,
     aead_seal = (\<lambda>k n p. p @ k @ n),
     aead_open = (\<lambda>k n c. if has_suffix c (k @ n) then Some (trim_suffix c (k @ n)) else None)\<rparr>"

lemma tag_aead_correct: "aead_correct tag_aead"
  by (simp only: aead_correct_def tag_aead_def aead.simps has_suffix_append trim_suffix_append
      if_True simp_thms zero_less_numeral)

theorem cryptobox_round_trip_witness:
  "open_box \<lparr>box_aead = tag_aead, box_key = replicate 32 (CHR ''k'')\<rparr>
     (seal \<lparr>box_aead = tag_aead, box_key = replicate 32 (CHR ''k'')\<rparr>
        (replicate 12 (CHR ''n'')) ''webhook-key'') = Inr ''webhook-key''"
proof (rule cryptobox_round_trip)
  show "aead_correct tag_aead" by (rule tag_aead_correct)
  show "new_from_hex tag_aead (hex_encode (replicate 32 (CHR ''k''))) =
    Inr \<lparr>box_aead = tag_aead, box_key = replicate 32 (CHR ''k'')\<rparr>"
    by (simp only: new_from_hex_def hex_decode_encode hex_encode_Nil_iff length_replicate
        option.case) simp
  show "length (replicate 12 (CHR ''n'')) = nonce_size tag_aead"
    by (simp add: tag_aead_def)
qed

end
