(* ===== verification/Secrets_Repo.thy ===== *)
theory Secrets_Repo
  imports Contracts Cryptobox
begin

text \<open>
  \<open>internal/secrets/repo.go\<close>: tenant secrets, sealed at rest. Upsert seals, \<open>Resolve\<close> opens
  the named secrets of a tenant and leaves out the names it does not find.
\<close>

definition secrets_upsert ::
  "box \<Rightarrow> string \<Rightarrow> string \<Rightarrow> gotime \<Rightarrow> string \<Rightarrow> string \<Rightarrow> string \<Rightarrow> database
    \<Rightarrow> (error + secret) \<times> database" where
  "secrets_upsert b nonce uuid now tenant name val d =
     (if name = [] then (Inl (ErrText ''secrets: name required''), d)
      else
        (let ct = seal b nonce val
         in case find_row (\<lambda>s. sc_tenant s = tenant \<and> sc_name s = name) (d_secrets d) of
              Some s \<Rightarrow>
                (Inr (s\<lparr>sc_cipher := ct, sc_updated := now\<rparr>),
                 d\<lparr>d_secrets := update_where (\<lambda>s. sc_tenant s = tenant \<and> sc_name s = name)
                     (\<lambda>s. s\<lparr>sc_cipher := ct, sc_updated := now\<rparr>) (d_secrets d)\<rparr>)
            | None \<Rightarrow>
                if \<not> tenant_exists tenant d then (Inl pg_foreign, d)
                else
                  (let s = \<lparr>sc_id = uuid, sc_tenant = tenant, sc_name = name, sc_cipher = ct,
                            sc_created = now, sc_updated = now\<rparr>
                   in (Inr s, d\<lparr>d_secrets := d_secrets d @ [s]\<rparr>))))"

text \<open>\<open>SELECT id, tenant_id, name, created_at, updated_at ... ORDER BY name\<close>.\<close>

record secret_meta =
  sm_name :: string
  sm_created :: gotime
  sm_updated :: gotime

definition secret_meta_of :: "secret \<Rightarrow> secret_meta" where
  "secret_meta_of s = \<lparr>sm_name = sc_name s, sm_created = sc_created s, sm_updated = sc_updated s\<rparr>"

fun string_key :: "string \<Rightarrow> nat list" where
  "string_key s = map of_char s"

fun nat_list_le :: "nat list \<Rightarrow> nat list \<Rightarrow> bool" where
  "nat_list_le [] ys = True"
| "nat_list_le (x # xs) [] = False"
| "nat_list_le (x # xs) (y # ys) = (x < y \<or> (x = y \<and> nat_list_le xs ys))"

fun insert_by_name :: "secret \<Rightarrow> secret list \<Rightarrow> secret list" where
  "insert_by_name s [] = [s]"
| "insert_by_name s (t # ts) =
     (if nat_list_le (string_key (sc_name s)) (string_key (sc_name t)) then s # t # ts
      else t # insert_by_name s ts)"

definition secrets_list :: "string \<Rightarrow> database \<Rightarrow> secret_meta list" where
  "secrets_list tenant d =
     map secret_meta_of
       (foldr insert_by_name (filter (\<lambda>s. sc_tenant s = tenant) (d_secrets d)) [])"

definition secrets_delete :: "string \<Rightarrow> string \<Rightarrow> database \<Rightarrow> (error + unit) \<times> database" where
  "secrets_delete tenant name d =
     (if \<exists>s\<in>set (d_secrets d). sc_tenant s = tenant \<and> sc_name s = name
      then (Inr (), d\<lparr>d_secrets := delete_where (\<lambda>s. sc_tenant s = tenant \<and> sc_name s = name)
              (d_secrets d)\<rparr>)
      else (Inl ErrNotFound, d))"

text \<open>The row loop of \<open>Resolve\<close>: a secret that does not open ends it with the error.\<close>

fun open_rows :: "box \<Rightarrow> secret list \<Rightarrow> error + (string \<times> string) list" where
  "open_rows b [] = Inr []"
| "open_rows b (s # ss) =
     (case open_box b (sc_cipher s) of
        Inl e \<Rightarrow> Inl (ErrText (box_error_text e))
      | Inr plain \<Rightarrow>
          (case open_rows b ss of Inl e \<Rightarrow> Inl e | Inr m \<Rightarrow> Inr ((sc_name s, plain) # m)))"

definition secrets_resolve ::
  "box \<Rightarrow> string \<Rightarrow> string list \<Rightarrow> database \<Rightarrow> error + (string \<times> string) list" where
  "secrets_resolve b tenant names d =
     (if names = [] then Inr []
      else open_rows b (filter (\<lambda>s. sc_tenant s = tenant \<and> sc_name s \<in> set names) (d_secrets d)))"

section \<open>Lemmas\<close>

lemma secrets_upsert_Inr:
  "secrets_upsert b nonce uuid now tenant name val d = (Inr s, d') \<Longrightarrow>
    name \<noteq> [] \<and> sc_tenant s = tenant \<and> sc_name s = name \<and> sc_cipher s = seal b nonce val"
  by (auto simp: secrets_upsert_def Let_def split: if_splits option.splits dest: find_row_SomeD)

lemma secrets_upsert_rows:
  assumes "secrets_upsert b nonce uuid now tenant name val d = (Inr s, d')" and "keys_ok d"
  shows "filter (\<lambda>x. sc_tenant x = tenant \<and> sc_name x = name) (d_secrets d') = [s]"
proof (cases "find_row (\<lambda>s. sc_tenant s = tenant \<and> sc_name s = name) (d_secrets d)")
  case None
  then have "filter (\<lambda>x. sc_tenant x = tenant \<and> sc_name x = name) (d_secrets d) = []"
    by (auto simp: find_row_None_iff filter_empty_conv)
  with None assms(1) show ?thesis
    by (auto simp: secrets_upsert_def Let_def split: if_splits)
next
  case (Some r)
  let ?p = "\<lambda>x. sc_tenant x = tenant \<and> sc_name x = name"
  let ?f = "\<lambda>s. s\<lparr>sc_cipher := seal b nonce val, sc_updated := now\<rparr>"
  have d: "s = ?f r" "d_secrets d' = update_where ?p ?f (d_secrets d)"
    using Some assms(1) by (auto simp: secrets_upsert_def Let_def split: if_splits)
  have "distinct (map (\<lambda>s. (sc_tenant s, sc_name s)) (d_secrets d))"
    using assms(2) by (simp add: keys_ok_def)
  from filter_update_unique [OF this, of "(tenant, name)" r ?f] Some d show ?thesis by simp
qed

lemma secrets_delete_gone:
  "secrets_delete tenant name d = (Inr (), d') \<Longrightarrow>
    \<forall>s\<in>set (d_secrets d'). \<not> (sc_tenant s = tenant \<and> sc_name s = name)"
  by (auto simp: secrets_delete_def split: if_splits)

lemma open_rows_names:
  "open_rows b ss = Inr m \<Longrightarrow> map fst m = map sc_name ss"
  by (induction ss arbitrary: m) (auto split: sum.splits)

lemma secrets_resolve_names:
  "secrets_resolve b tenant names d = Inr m \<Longrightarrow> (k, v) \<in> set m \<Longrightarrow>
    k \<in> set names \<and> (\<exists>s\<in>set (d_secrets d). sc_tenant s = tenant \<and> sc_name s = k)"
proof -
  assume r: "secrets_resolve b tenant names d = Inr m" and kv: "(k, v) \<in> set m"
  then have "map fst m = map sc_name
      (filter (\<lambda>s. sc_tenant s = tenant \<and> sc_name s \<in> set names) (d_secrets d))"
    by (auto simp: secrets_resolve_def dest: open_rows_names split: if_splits)
  moreover have "k \<in> set (map fst m)" using kv by force
  ultimately show ?thesis by (auto simp: image_iff)
qed

text \<open>What a tenant stored is what its next resolution of the name yields.\<close>

lemma secrets_resolve_upserted:
  assumes "aead_correct (box_aead b)" and "length nonce = nonce_size (box_aead b)"
    and "secrets_upsert b nonce uuid now tenant name val d = (Inr s, d')" and "keys_ok d"
  shows "secrets_resolve b tenant [name] d' = Inr [(name, val)]"
proof -
  have "filter (\<lambda>x. sc_tenant x = tenant \<and> sc_name x \<in> set [name]) (d_secrets d') = [s]"
    using secrets_upsert_rows [OF assms(3,4)] by simp
  with secrets_upsert_Inr [OF assms(3)] open_box_seal [OF assms(1,2)] show ?thesis
    by (simp add: secrets_resolve_def)
qed

lemma secrets_delete_ok:
  assumes "db_ok d" and "secrets_delete tenant name d = (r, d')"
  shows "db_ok d'"
proof -
  have "db_ok (d\<lparr>d_secrets := delete_where p (d_secrets d)\<rparr>)" for p
  proof -
    let ?d = "d\<lparr>d_secrets := delete_where p (d_secrets d)\<rparr>"
    have "tenant_exists i ?d = tenant_exists i d" "agent_exists i ?d = agent_exists i d"
      "run_exists i ?d = run_exists i d" for i
      by (simp_all add: tenant_exists_def agent_exists_def run_exists_def)
    then show ?thesis
      using assms(1)
      by (simp add: db_ok_def keys_ok_def status_ok_def refs_ok_def usage_ok_def
          distinct_map_delete_where)
  qed
  with assms show ?thesis by (auto simp: secrets_delete_def split: if_splits)
qed

lemma secrets_delete_keeps [keeps]: "db_ok d \<Longrightarrow> db_ok (snd (secrets_delete tenant name d))"
  by (rule secrets_delete_ok, assumption, rule surjective_pairing)

lemma replace_secrets_ok:
  assumes "db_ok d" and "distinct (map (\<lambda>s. (sc_tenant s, sc_name s)) ss)"
    and "\<forall>s\<in>set ss. tenant_exists (sc_tenant s) d"
  shows "db_ok (d\<lparr>d_secrets := ss\<rparr>)"
proof -
  have "tenant_exists i (d\<lparr>d_secrets := ss\<rparr>) = tenant_exists i d"
    "agent_exists i (d\<lparr>d_secrets := ss\<rparr>) = agent_exists i d"
    "run_exists i (d\<lparr>d_secrets := ss\<rparr>) = run_exists i d" for i
    by (simp_all add: tenant_exists_def agent_exists_def run_exists_def)
  then show ?thesis
    using assms by (simp add: db_ok_def keys_ok_def status_ok_def refs_ok_def usage_ok_def)
qed

lemma secrets_upsert_keeps [keeps]:
  assumes "db_ok d"
  shows "db_ok (snd (secrets_upsert b nonce uuid now tenant name val d))"
proof (cases "find_row (\<lambda>s. sc_tenant s = tenant \<and> sc_name s = name) (d_secrets d)")
  case None
  then have "db_ok (d\<lparr>d_secrets := d_secrets d @ [s]\<rparr>)"
    if "sc_tenant s = tenant" "sc_name s = name" "tenant_exists tenant d" for s
    using that assms
    by (intro replace_secrets_ok [OF assms])
      (auto simp: find_row_None_iff db_ok_def keys_ok_def refs_ok_def)
  with None assms show ?thesis by (simp add: secrets_upsert_def Let_def)
next
  case (Some r)
  let ?p = "\<lambda>s. sc_tenant s = tenant \<and> sc_name s = name"
  let ?f = "\<lambda>s. s\<lparr>sc_cipher := seal b nonce val, sc_updated := now\<rparr>"
  have "map (\<lambda>s. (sc_tenant s, sc_name s)) (update_where ?p ?f (d_secrets d)) =
      map (\<lambda>s. (sc_tenant s, sc_name s)) (d_secrets d)"
    by (rule map_update_where) simp
  then have "db_ok (d\<lparr>d_secrets := update_where ?p ?f (d_secrets d)\<rparr>)"
    using assms by (intro replace_secrets_ok [OF assms])
      (auto simp: db_ok_def keys_ok_def refs_ok_def set_update_where)
  with Some assms show ?thesis by (simp add: secrets_upsert_def Let_def)
qed

end
