(* ===== verification/Secrets_Api.thy ===== *)
theory Secrets_Api
  imports World Secrets_Repo
begin

text \<open>
  \<open>internal/secrets/handlers.go\<close> and \<open>internal/secrets/materialize.go\<close>: the secrets
  endpoints, whose responses never hold a value, and the projection of resolved secrets into
  a Kubernetes secret of the tenant's namespace.
\<close>

section \<open>Materialization\<close>

definition tenant_ns :: "string \<Rightarrow> string" where
  "tenant_ns tenant = ''tenant-'' @ tenant"

lemma tenant_ns_inject [simp]: "tenant_ns a = tenant_ns b \<longleftrightarrow> a = b"
  by (simp add: tenant_ns_def)

text \<open>\<open>maps\<close>-style merge of labels: \<open>for k, v := range in { m[k] = v }\<close>.\<close>

definition merge_labels :: "(string \<times> string) list \<Rightarrow> (string \<times> string) list \<Rightarrow> (string \<times> string) list" where
  "merge_labels old new = filter (\<lambda>(k, v). k \<notin> fst ` set new) old @ new"

lemma map_of_merge_labels:
  "map_of (merge_labels old new) k = (case map_of new k of None \<Rightarrow> map_of old k | Some v \<Rightarrow> Some v)"
proof -
  have "map_of (filter (\<lambda>(k, v). k \<notin> fst ` set new) old) k =
      (if k \<in> fst ` set new then None else map_of old k)"
  proof (induction old)
    case (Cons a old)
    then show ?case by (cases "k = fst a") (simp_all add: split_beta)
  qed simp
  moreover have "(k \<in> fst ` set new) = (map_of new k \<noteq> None)"
    by (simp add: map_of_eq_None_iff)
  ultimately show ?thesis
    by (simp add: merge_labels_def map_add_def split: option.splits)
qed

definition ensure_tenant_namespace ::
  "'k kube_api \<Rightarrow> string \<Rightarrow> 'k world \<Rightarrow> (error + unit) \<times> 'k world" where
  "ensure_tenant_namespace K tenant w =
     (let ns = tenant_ns tenant
      in case kube_call (k_create K (O_Namespace (new_meta ns [] [] []))) w of
           (Inl Exists, w1) \<Rightarrow> (Inr (), w1)
         | (Inl e, w1) \<Rightarrow> (Inl (Wrapped (''ensure namespace '' @ ns) (kerr_error e)), w1)
         | (Inr _, w1) \<Rightarrow> (Inr (), w1))"

definition upsert_secret ::
  "'k kube_api \<Rightarrow> string \<Rightarrow> string \<Rightarrow> (string \<times> string) list \<Rightarrow> (string \<times> string) list
    \<Rightarrow> 'k world \<Rightarrow> (error + unit) \<times> 'k world" where
  "upsert_secret K ns name data labels w =
     (let desired = \<lparr>ks_meta = new_meta name ns labels [], ks_type = ''Opaque'', ks_data = data\<rparr>
      in case kube_call (k_create K (O_Secret desired)) w of
           (Inr _, w1) \<Rightarrow> (Inr (), w1)
         | (Inl Exists, w1) \<Rightarrow>
             (case kube_call (k_get K (K_Secret, ns, name)) w1 of
                (Inr (O_Secret live), w2) \<Rightarrow>
                  (let live' = live\<lparr>ks_data := data,
                         ks_meta := (ks_meta live)\<lparr>om_labels := merge_labels (om_labels (ks_meta live)) labels\<rparr>\<rparr>
                   in case kube_call (k_update K (O_Secret live')) w2 of
                        (Inr _, w3) \<Rightarrow> (Inr (), w3)
                      | (Inl e, w3) \<Rightarrow> (Inl (Wrapped (''update secret '' @ name) (kerr_error e)), w3))
              | (Inr _, w2) \<Rightarrow> (Inl (Wrapped (''get existing secret '' @ name) (ErrText ''kind'')), w2)
              | (Inl e, w2) \<Rightarrow> (Inl (Wrapped (''get existing secret '' @ name) (kerr_error e)), w2))
         | (Inl e, w1) \<Rightarrow> (Inl (Wrapped (''create secret '' @ name) (kerr_error e)), w1))"

definition project_for_run ::
  "'k kube_api \<Rightarrow> string \<Rightarrow> string \<Rightarrow> (string \<times> string) list \<Rightarrow> 'k world \<Rightarrow> (error + string) \<times> 'k world" where
  "project_for_run K tenant run data w =
     (let name = ''run-'' @ run
      in case upsert_secret K (tenant_ns tenant) name data
             [(''ailab.uipath.com/tenant'', tenant), (''ailab.uipath.com/run'', run)] w of
           (Inl e, w1) \<Rightarrow> (Inl e, w1) | (Inr _, w1) \<Rightarrow> (Inr name, w1))"

definition project_for_agent ::
  "'k kube_api \<Rightarrow> string \<Rightarrow> string \<Rightarrow> (string \<times> string) list \<Rightarrow> 'k world \<Rightarrow> (error + string) \<times> 'k world" where
  "project_for_agent K tenant agent_name data w =
     (let name = ''agent-'' @ agent_name @ ''-secrets''
      in case upsert_secret K (tenant_ns tenant) name data
             [(''ailab.uipath.com/tenant'', tenant), (''ailab.uipath.com/agent'', agent_name)] w of
           (Inl e, w1) \<Rightarrow> (Inl e, w1) | (Inr _, w1) \<Rightarrow> (Inr name, w1))"

section \<open>The endpoints\<close>

definition secret_dto :: "secret_meta \<Rightarrow> json" where
  "secret_dto s = JObj [(''name'', JStr (sm_name s)), (''createdAt'', JTime (sm_created s)),
     (''updatedAt'', JTime (sm_updated s))]"

definition secrets_list_handler :: "ctx \<Rightarrow> 'k world \<Rightarrow> response \<times> 'k world" where
  "secrets_list_handler c w =
     (case from_context c of
        None \<Rightarrow> (unauthorized, w)
      | Some i \<Rightarrow>
          (case db_read (\<lambda>d. Inr (secrets_list (id_tenant i) d)) w of
             (Inl e, w1) \<Rightarrow> (http_error (err_text e) 500, w1)
           | (Inr rows, w1) \<Rightarrow>
               (write_json 200 (JObj [(''secrets'', JArr (map secret_dto rows))]), w1)))"

record upsert_request =
  ur_name :: string
  ur_value :: string

definition unmarshal_upsert :: "wire \<Rightarrow> upsert_request option" where
  "unmarshal_upsert = unmarshal
     [(''name'', set_str (\<lambda>x r. r\<lparr>ur_name := x\<rparr>)), (''value'', set_str (\<lambda>x r. r\<lparr>ur_value := x\<rparr>))]
     \<lparr>ur_name = [], ur_value = []\<rparr>"

definition secrets_upsert_handler :: "box \<Rightarrow> gen \<Rightarrow> ctx \<Rightarrow> wire \<Rightarrow> 'k world \<Rightarrow> response \<times> 'k world" where
  "secrets_upsert_handler b g c req_body w =
     (case from_context c of
        None \<Rightarrow> (unauthorized, w)
      | Some i \<Rightarrow>
          (case unmarshal_upsert req_body of
             None \<Rightarrow> (http_error ''bad request: name and value required'' 400, w)
           | Some req \<Rightarrow>
               if ur_name req = [] then (http_error ''bad request: name and value required'' 400, w)
               else
                 (case db_write (secrets_upsert b (g_nonce g) (g_uuid g) (g_now g) (id_tenant i)
                          (ur_name req) (ur_value req)) w of
                    (Inl e, w1) \<Rightarrow> (http_error (err_text e) 500, w1)
                  | (Inr s, w1) \<Rightarrow>
                      (write_json 201 (secret_dto (secret_meta_of s)),
                       audit_log g c ''update'' ''secret'' (sc_name s) None w1))))"

definition secrets_del_handler :: "gen \<Rightarrow> ctx \<Rightarrow> string \<Rightarrow> 'k world \<Rightarrow> response \<times> 'k world" where
  "secrets_del_handler g c name w =
     (case from_context c of
        None \<Rightarrow> (unauthorized, w)
      | Some i \<Rightarrow>
          (case db_write (secrets_delete (id_tenant i) name) w of
             (Inl e, w1) \<Rightarrow>
               if is_not_found e then (http_error ''not found'' 404, w1)
               else (http_error (err_text e) 500, w1)
           | (Inr _, w1) \<Rightarrow> ((204, No_Body), audit_log g c ''delete'' ''secret'' name None w1)))"

section \<open>Lemmas\<close>

lemma ensure_tenant_namespace_frame [simp]:
  "w_db (snd (ensure_tenant_namespace K t w)) = w_db w"
  "w_sent (snd (ensure_tenant_namespace K t w)) = w_sent w"
  "w_script (snd (ensure_tenant_namespace K t w)) = w_script w"
  by (simp_all add: ensure_tenant_namespace_def kube_call_def Let_def split: sum.splits kerr.splits)

lemma upsert_secret_frame [simp]:
  "w_db (snd (upsert_secret K ns n data ls w)) = w_db w"
  "w_sent (snd (upsert_secret K ns n data ls w)) = w_sent w"
  "w_script (snd (upsert_secret K ns n data ls w)) = w_script w"
  by (simp_all add: upsert_secret_def kube_call_def Let_def split: sum.splits kerr.splits kobj.splits)

lemma project_for_run_frame [simp]:
  "w_db (snd (project_for_run K t r data w)) = w_db w"
  "w_sent (snd (project_for_run K t r data w)) = w_sent w"
  "w_script (snd (project_for_run K t r data w)) = w_script w"
  using upsert_secret_frame [of K "tenant_ns t" "''run-'' @ r" data
      "[(''ailab.uipath.com/tenant'', t), (''ailab.uipath.com/run'', r)]" w]
  by (auto simp: project_for_run_def Let_def split_beta split: sum.splits)

lemma project_for_agent_frame [simp]:
  "w_db (snd (project_for_agent K t r data w)) = w_db w"
  "w_sent (snd (project_for_agent K t r data w)) = w_sent w"
  "w_script (snd (project_for_agent K t r data w)) = w_script w"
  using upsert_secret_frame [of K "tenant_ns t" "''agent-'' @ r @ ''-secrets''" data
      "[(''ailab.uipath.com/tenant'', t), (''ailab.uipath.com/agent'', r)]" w]
  by (auto simp: project_for_agent_def Let_def split_beta split: sum.splits)

lemma project_for_run_name: "fst (project_for_run K t r data w) = Inr n \<Longrightarrow> n = ''run-'' @ r"
  by (auto simp: project_for_run_def Let_def split_beta split: sum.splits)

text \<open>
  After a successful upsert the stored secret holds exactly the given data, and the given
  labels, whether it was created or replaced.
\<close>

definition holds_secret ::
  "('k \<Rightarrow> okey \<rightharpoonup> kobj) \<Rightarrow> 'k \<Rightarrow> string \<Rightarrow> string \<Rightarrow> (string \<times> string) list \<Rightarrow> (string \<times> string) list \<Rightarrow> bool"
where
  "holds_secret view k ns name data labels \<longleftrightarrow>
     (\<exists>s. view k (K_Secret, ns, name) = Some (O_Secret s) \<and> ks_data s = data \<and>
        (\<forall>l v. map_of labels l = Some v \<longrightarrow> map_of (om_labels (ks_meta s)) l = Some v))"

lemma upsert_secret_holds:
  assumes K: "kube_store K view" and wk: "well_keyed view (w_kube w)"
    and ok: "fst (upsert_secret K ns name data labels w) = Inr ()"
  shows "holds_secret view (w_kube (snd (upsert_secret K ns name data labels w))) ns name data labels"
proof -
  let ?des = "O_Secret \<lparr>ks_meta = new_meta name ns labels [], ks_type = ''Opaque'', ks_data = data\<rparr>"
  obtain r1 k1 where c1: "k_create K ?des (w_kube w) = (r1, k1)" by fastforce
  show ?thesis
  proof (cases r1)
    case (Inr u)
    with c1 kube_store_create(1) [OF K, of ?des "w_kube w" u]
    have "view k1 (K_Secret, ns, name) = Some ?des" by simp
    with Inr c1 show ?thesis
      by (simp add: upsert_secret_def kube_call_def Let_def holds_secret_def)
  next
    case (Inl e)
    with ok c1 have e: "e = Exists"
      by (auto simp: upsert_secret_def kube_call_def Let_def split: kerr.splits)
    have v1: "view k1 = view (w_kube w)"
      using kube_store_create(2) [OF K, of ?des "w_kube w" e] Inl c1 by simp
    obtain r2 k2 where c2: "k_get K (K_Secret, ns, name) k1 = (r2, k2)" by fastforce
    from ok Inl e c1 c2 obtain live where live: "r2 = Inr (O_Secret live)"
      by (auto simp: upsert_secret_def kube_call_def Let_def split: sum.splits kobj.splits)
    let ?new = "O_Secret (live\<lparr>ks_data := data, ks_meta := (ks_meta live)\<lparr>om_labels :=
        merge_labels (om_labels (ks_meta live)) labels\<rparr>\<rparr>)"
    have "view k1 (K_Secret, ns, name) = Some (O_Secret live)"
      using kube_store_get(2) [OF K, of "(K_Secret, ns, name)" k1] c2 live by simp
    with wk v1 have key: "obj_key ?new = (K_Secret, ns, name)"
      unfolding well_keyed_def by force
    obtain r3 k3 where c3: "k_update K ?new k2 = (r3, k3)" by fastforce
    with ok Inl e c1 c2 live have "r3 = Inr ()"
      by (auto simp: upsert_secret_def kube_call_def Let_def split: sum.splits)
    with kube_store_update(1) [OF K, of ?new k2 "()"] c3 key
    have "view k3 (K_Secret, ns, name) = Some ?new" by (simp del: obj_key.simps)
    moreover have "w_kube (snd (upsert_secret K ns name data labels w)) = k3"
      using \<open>r3 = Inr ()\<close> c3 Inl e c1 c2 live
      by (simp add: upsert_secret_def kube_call_def Let_def)
    ultimately show ?thesis
      by (simp add: holds_secret_def map_of_merge_labels)
  qed
qed

end
