(* ===== verification/Agents_Repo.thy ===== *)
theory Agents_Repo
  imports Contracts
begin

text \<open>
  \<open>internal/agents/repo.go\<close>: create, get, list and delete of agents, each scoped to a
  tenant. The manifest column is kept as the manifest itself.
\<close>

definition agents_create ::
  "string \<Rightarrow> gotime \<Rightarrow> string \<Rightarrow> manifest \<Rightarrow> database \<Rightarrow> (error + agent) \<times> database" where
  "agents_create uuid now tenant m d =
     (let a = \<lparr>ag_id = uuid, ag_tenant = tenant, ag_name = m_name m, ag_mode = m_mode m,
               ag_runtime = m_runtime m, ag_image = null_if_empty (m_image m),
               ag_manifest = m, ag_created = now\<rparr>
      in if m_mode m \<notin> {''job'', ''server''} \<or>
            m_runtime m \<notin> {''python'', ''typescript'', ''container''} then (Inl pg_check, d)
         else if \<exists>b\<in>set (d_agents d). ag_id b = uuid \<or> (ag_tenant b = tenant \<and> ag_name b = m_name m)
         then (Inl pg_unique, d)
         else if \<not> tenant_exists tenant d then (Inl pg_foreign, d)
         else (Inr a, d\<lparr>d_agents := d_agents d @ [a]\<rparr>))"

definition agents_get :: "string \<Rightarrow> string \<Rightarrow> database \<Rightarrow> error + agent" where
  "agents_get tenant i d =
     (case find_row (\<lambda>a. ag_id a = i \<and> ag_tenant a = tenant) (d_agents d) of
        None \<Rightarrow> Inl ErrNotFound | Some a \<Rightarrow> Inr a)"

definition page_limit :: "int \<Rightarrow> nat" where
  "page_limit limit = (if limit \<le> 0 \<or> limit > 200 then 50 else nat limit)"

definition agents_list :: "string \<Rightarrow> int \<Rightarrow> database \<Rightarrow> agent list" where
  "agents_list tenant limit d =
     take (page_limit limit) (order_desc ag_created (filter (\<lambda>a. ag_tenant a = tenant) (d_agents d)))"

definition agents_delete :: "string \<Rightarrow> string \<Rightarrow> database \<Rightarrow> (error + unit) \<times> database" where
  "agents_delete tenant i d =
     (if \<exists>a\<in>set (d_agents d). ag_id a = i \<and> ag_tenant a = tenant
      then (Inr (), delete_agents (\<lambda>a. ag_id a = i \<and> ag_tenant a = tenant) d)
      else (Inl ErrNotFound, d))"

interpretation agents: tenant_scoped agents_get d_agents ag_id ag_tenant
  by unfold_locales (simp add: agents_get_def)

lemma insert_agent_ok:
  assumes "db_ok d" and "\<forall>b\<in>set (d_agents d). ag_id b \<noteq> ag_id a \<and>
      (ag_tenant b = ag_tenant a \<longrightarrow> ag_name b \<noteq> ag_name a)"
    and "tenant_exists (ag_tenant a) d" and "ag_mode a \<in> set agent_modes" "ag_runtime a \<in> set agent_runtimes"
  shows "db_ok (d\<lparr>d_agents := d_agents d @ [a]\<rparr>)"
proof -
  have "keys_ok (d\<lparr>d_agents := d_agents d @ [a]\<rparr>)"
    using assms(1,2) by (auto simp: db_ok_def keys_ok_def)
  moreover have "agent_exists i (d\<lparr>d_agents := d_agents d @ [a]\<rparr>)" if "agent_exists i d" for i
    using that by (auto simp: agent_exists_def)
  moreover have "tenant_exists i (d\<lparr>d_agents := d_agents d @ [a]\<rparr>) = tenant_exists i d" for i
    by (simp add: tenant_exists_def)
  moreover have "run_exists i (d\<lparr>d_agents := d_agents d @ [a]\<rparr>) = run_exists i d" for i
    by (simp add: run_exists_def)
  ultimately show ?thesis
    using assms(1,3-5) by (auto simp: db_ok_def status_ok_def refs_ok_def usage_ok_def)
qed

lemma agents_create_ok:
  assumes "db_ok d" and "agents_create uuid now tenant m d = (r, d')"
  shows "db_ok d'"
  using assms
  by (auto simp: agents_create_def Let_def agent_modes_def agent_runtimes_def split: if_splits
      intro!: insert_agent_ok)

lemma agents_create_Inr:
  "agents_create uuid now tenant m d = (Inr a, d') \<Longrightarrow>
    ag_id a = uuid \<and> ag_tenant a = tenant \<and> ag_manifest a = m \<and> ag_image a = null_if_empty (m_image m) \<and>
    d_agents d' = d_agents d @ [a]"
  by (auto simp: agents_create_def Let_def split: if_splits)

lemma agents_delete_ok:
  "db_ok d \<Longrightarrow> agents_delete tenant i d = (r, d') \<Longrightarrow> db_ok d'"
  by (auto simp: agents_delete_def delete_agents_ok split: if_splits)

lemma agents_list_own: "a \<in> set (agents_list tenant limit d) \<Longrightarrow> ag_tenant a = tenant"
  by (auto simp: agents_list_def dest: in_set_takeD)

lemma agents_list_limit: "length (agents_list tenant limit d) \<le> 200"
  by (auto simp: agents_list_def page_limit_def min_def)

lemma delete_agents_children:
  assumes "i \<in> ag_id ` set (filter p (d_agents d))" and "\<And>a. a \<in> set (d_agents d) \<Longrightarrow> ag_id a = i \<Longrightarrow> p a"
  shows "(\<forall>a\<in>set (d_agents (delete_agents p d)). ag_id a \<noteq> i) \<and>
    (\<forall>r\<in>set (d_runs (delete_agents p d)). rn_agent r \<noteq> i) \<and>
    (\<forall>t\<in>set (d_triggers (delete_agents p d)). tg_agent t \<noteq> i) \<and>
    (\<forall>b\<in>set (d_builds (delete_agents p d)). bd_agent b \<noteq> i)"
  using assms unfolding delete_agents_def Let_def by (simp, blast)

lemma agents_delete_children:
  assumes "agents_delete tenant i d = (Inr (), d')" and "keys_ok d"
  shows "(\<forall>a\<in>set (d_agents d'). ag_id a \<noteq> i) \<and> (\<forall>r\<in>set (d_runs d'). rn_agent r \<noteq> i) \<and>
    (\<forall>t\<in>set (d_triggers d'). tg_agent t \<noteq> i) \<and> (\<forall>b\<in>set (d_builds d'). bd_agent b \<noteq> i)"
proof -
  obtain a where a: "a \<in> set (d_agents d)" "ag_id a = i" "ag_tenant a = tenant"
    and d': "d' = delete_agents (\<lambda>a. ag_id a = i \<and> ag_tenant a = tenant) d"
    using assms(1) by (auto simp: agents_delete_def split: if_splits)
  have "distinct (map ag_id (d_agents d))" using assms(2) by (simp add: keys_ok_def)
  note uniq = distinct_map_eqD [OF this _ a(1)]
  let ?p = "\<lambda>a. ag_id a = i \<and> ag_tenant a = tenant"
  have gone: "i \<in> ag_id ` set (filter ?p (d_agents d))"
    using a by (auto intro: rev_image_eqI)
  have all: "?p b" if "b \<in> set (d_agents d)" "ag_id b = i" for b
    using uniq [OF that(1)] that(2) a(2,3) by simp
  show ?thesis
    unfolding d' by (rule delete_agents_children [OF gone all])
qed

lemma agents_create_keeps [keeps]: "db_ok d \<Longrightarrow> db_ok (snd (agents_create uuid now tenant m d))"
  by (rule agents_create_ok, assumption, rule surjective_pairing)

lemma agents_delete_keeps [keeps]: "db_ok d \<Longrightarrow> db_ok (snd (agents_delete tenant i d))"
  by (rule agents_delete_ok, assumption, rule surjective_pairing)

end
