(* ===== verification/Events.thy ===== *)
theory Events
  imports Json_Wire
begin

text \<open>
  \<open>pkg/events/events.go\<close>: the subjects of the internal bus and the payload of each, with
  the JSON encoding that \<open>eventbus.Bus.Publish\<close> applies to a payload and the decoding
  that each consumer applies to a message. A payload that a publisher of the repository
  can build survives the trip (a nil and an empty trace context are the same on the wire,
  and an \<open>int32\<close> or \<open>int\<close> field must be in range).
\<close>

section \<open>Subjects\<close>

definition SubjectRunRequested :: string where "SubjectRunRequested = ''run.requested''"
definition SubjectRunStarted :: string where "SubjectRunStarted = ''run.started''"
definition SubjectRunCompleted :: string where "SubjectRunCompleted = ''run.completed''"
definition SubjectBuildRequested :: string where "SubjectBuildRequested = ''build.requested''"
definition SubjectBuildCompleted :: string where "SubjectBuildCompleted = ''build.completed''"
definition SubjectDeploymentRequested :: string where
  "SubjectDeploymentRequested = ''deployment.requested''"
definition SubjectDeploymentStopped :: string where
  "SubjectDeploymentStopped = ''deployment.stopped''"

lemmas subject_defs = SubjectRunRequested_def SubjectRunStarted_def SubjectRunCompleted_def
  SubjectBuildRequested_def SubjectBuildCompleted_def SubjectDeploymentRequested_def
  SubjectDeploymentStopped_def

text \<open>The statuses that \<open>run.completed\<close> and \<open>build.completed\<close> carry.\<close>

definition RunStatusSucceeded :: string where "RunStatusSucceeded = ''succeeded''"
definition RunStatusFailed :: string where "RunStatusFailed = ''failed''"
definition RunStatusTimedOut :: string where "RunStatusTimedOut = ''timed_out''"
definition RunStatusCancelled :: string where "RunStatusCancelled = ''cancelled''"

definition BuildStatusSucceeded :: string where "BuildStatusSucceeded = ''succeeded''"
definition BuildStatusFailed :: string where "BuildStatusFailed = ''failed''"
definition BuildStatusBlocked :: string where "BuildStatusBlocked = ''blocked''"

lemmas event_status_defs = RunStatusSucceeded_def RunStatusFailed_def RunStatusTimedOut_def
  RunStatusCancelled_def BuildStatusSucceeded_def BuildStatusFailed_def BuildStatusBlocked_def

section \<open>RunRequested\<close>

record run_requested =
  rq_tenant :: "string"
  rq_agent :: "string"
  rq_run :: "string"
  rq_image :: "string"
  rq_inputs :: "json_obj option"
  rq_trace :: "string"
  rq_secret_ref :: "string"
  rq_trace_ctx :: "(string \<times> string) list option"
  rq_at :: "gotime"

definition zero_run_requested :: run_requested where
  "zero_run_requested = \<lparr>rq_tenant = [], rq_agent = [], rq_run = [], rq_image = [], rq_inputs = None, rq_trace = [], rq_secret_ref = [], rq_trace_ctx = None, rq_at = 0\<rparr>"

definition marshal_run_requested :: "run_requested \<Rightarrow> json" where
  "marshal_run_requested e = JObj (
     always ''tenantId'' (JStr (rq_tenant e)) @
     always ''agentId'' (JStr (rq_agent e)) @
     always ''runId'' (JStr (rq_run e)) @
     always ''image'' (JStr (rq_image e)) @
     always ''inputs'' (obj_or_null (rq_inputs e)) @
     always ''traceId'' (JStr (rq_trace e)) @
     omit_str ''secretRef'' (rq_secret_ref e) @
     omit_map ''traceContext'' JStr (rq_trace_ctx e) @
     always ''at'' (JTime (rq_at e)))"

definition run_requested_fields :: "(string \<times> run_requested setter) list" where
  "run_requested_fields =
    [(''tenantId'', set_str (\<lambda>x r. r\<lparr>rq_tenant := x\<rparr>)),
     (''agentId'', set_str (\<lambda>x r. r\<lparr>rq_agent := x\<rparr>)),
     (''runId'', set_str (\<lambda>x r. r\<lparr>rq_run := x\<rparr>)),
     (''image'', set_str (\<lambda>x r. r\<lparr>rq_image := x\<rparr>)),
     (''inputs'', set_any_map (\<lambda>x r. r\<lparr>rq_inputs := x\<rparr>)),
     (''traceId'', set_str (\<lambda>x r. r\<lparr>rq_trace := x\<rparr>)),
     (''secretRef'', set_str (\<lambda>x r. r\<lparr>rq_secret_ref := x\<rparr>)),
     (''traceContext'', set_str_map (\<lambda>x r. r\<lparr>rq_trace_ctx := x\<rparr>)),
     (''at'', set_time (\<lambda>x r. r\<lparr>rq_at := x\<rparr>))]"

definition unmarshal_run_requested :: "wire \<Rightarrow> run_requested option" where
  "unmarshal_run_requested w = unmarshal run_requested_fields zero_run_requested w"

definition run_requested_sendable :: "run_requested \<Rightarrow> bool" where
  "run_requested_sendable e \<longleftrightarrow> rq_trace_ctx e \<noteq> Some []"

lemma run_requested_wire:
  assumes "run_requested_sendable e"
  shows "unmarshal_run_requested (Some (marshal_run_requested e)) = Some e"
  using assms
  by (cases e)
    (simp add: unmarshal_run_requested_def marshal_run_requested_def zero_run_requested_def decode_rules
      run_requested_fields_def set_str_def set_int_def set_time_def set_any_map_def obj_or_null_def run_requested_sendable_def
      split: option.splits)

section \<open>RunStarted\<close>

record run_started =
  rs_tenant :: "string"
  rs_agent :: "string"
  rs_run :: "string"
  rs_at :: "gotime"

definition zero_run_started :: run_started where
  "zero_run_started = \<lparr>rs_tenant = [], rs_agent = [], rs_run = [], rs_at = 0\<rparr>"

definition marshal_run_started :: "run_started \<Rightarrow> json" where
  "marshal_run_started e = JObj (
     always ''tenantId'' (JStr (rs_tenant e)) @
     always ''agentId'' (JStr (rs_agent e)) @
     always ''runId'' (JStr (rs_run e)) @
     always ''at'' (JTime (rs_at e)))"

definition run_started_fields :: "(string \<times> run_started setter) list" where
  "run_started_fields =
    [(''tenantId'', set_str (\<lambda>x r. r\<lparr>rs_tenant := x\<rparr>)),
     (''agentId'', set_str (\<lambda>x r. r\<lparr>rs_agent := x\<rparr>)),
     (''runId'', set_str (\<lambda>x r. r\<lparr>rs_run := x\<rparr>)),
     (''at'', set_time (\<lambda>x r. r\<lparr>rs_at := x\<rparr>))]"

definition unmarshal_run_started :: "wire \<Rightarrow> run_started option" where
  "unmarshal_run_started w = unmarshal run_started_fields zero_run_started w"

lemma run_started_wire:
  "unmarshal_run_started (Some (marshal_run_started e)) = Some e"
  by (cases e)
    (simp add: unmarshal_run_started_def marshal_run_started_def zero_run_started_def decode_rules
      run_started_fields_def set_str_def set_int_def set_time_def set_any_map_def obj_or_null_def
      split: option.splits)

section \<open>RunCompleted\<close>

record run_completed =
  rc_tenant :: "string"
  rc_agent :: "string"
  rc_run :: "string"
  rc_status :: "string"
  rc_exit_code :: "int"
  rc_outputs :: "json_obj option"
  rc_error :: "string"
  rc_started_at :: "gotime"
  rc_ended_at :: "gotime"

definition zero_run_completed :: run_completed where
  "zero_run_completed = \<lparr>rc_tenant = [], rc_agent = [], rc_run = [], rc_status = [], rc_exit_code = 0, rc_outputs = None, rc_error = [], rc_started_at = 0, rc_ended_at = 0\<rparr>"

definition marshal_run_completed :: "run_completed \<Rightarrow> json" where
  "marshal_run_completed e = JObj (
     always ''tenantId'' (JStr (rc_tenant e)) @
     always ''agentId'' (JStr (rc_agent e)) @
     always ''runId'' (JStr (rc_run e)) @
     always ''status'' (JStr (rc_status e)) @
     always ''exitCode'' (JInt (rc_exit_code e)) @
     omit_map ''outputs'' (\<lambda>j. j) (rc_outputs e) @
     omit_str ''error'' (rc_error e) @
     always ''startedAt'' (JTime (rc_started_at e)) @
     always ''endedAt'' (JTime (rc_ended_at e)))"

definition run_completed_fields :: "(string \<times> run_completed setter) list" where
  "run_completed_fields =
    [(''tenantId'', set_str (\<lambda>x r. r\<lparr>rc_tenant := x\<rparr>)),
     (''agentId'', set_str (\<lambda>x r. r\<lparr>rc_agent := x\<rparr>)),
     (''runId'', set_str (\<lambda>x r. r\<lparr>rc_run := x\<rparr>)),
     (''status'', set_str (\<lambda>x r. r\<lparr>rc_status := x\<rparr>)),
     (''exitCode'', set_int (2 ^ 63) (\<lambda>x r. r\<lparr>rc_exit_code := x\<rparr>)),
     (''outputs'', set_any_map (\<lambda>x r. r\<lparr>rc_outputs := x\<rparr>)),
     (''error'', set_str (\<lambda>x r. r\<lparr>rc_error := x\<rparr>)),
     (''startedAt'', set_time (\<lambda>x r. r\<lparr>rc_started_at := x\<rparr>)),
     (''endedAt'', set_time (\<lambda>x r. r\<lparr>rc_ended_at := x\<rparr>))]"

definition unmarshal_run_completed :: "wire \<Rightarrow> run_completed option" where
  "unmarshal_run_completed w = unmarshal run_completed_fields zero_run_completed w"

definition run_completed_sendable :: "run_completed \<Rightarrow> bool" where
  "run_completed_sendable e \<longleftrightarrow> - (2 ^ 63) \<le> rc_exit_code e \<and> rc_exit_code e < 2 ^ 63 \<and> rc_outputs e \<noteq> Some []"

lemma run_completed_wire:
  assumes "run_completed_sendable e"
  shows "unmarshal_run_completed (Some (marshal_run_completed e)) = Some e"
  using assms
  by (cases e)
    (simp add: unmarshal_run_completed_def marshal_run_completed_def zero_run_completed_def decode_rules
      run_completed_fields_def set_str_def set_int_def set_time_def set_any_map_def obj_or_null_def run_completed_sendable_def
      split: option.splits)

section \<open>BuildRequested\<close>

record build_requested =
  bq_tenant :: "string"
  bq_agent :: "string"
  bq_build :: "string"
  bq_source_url :: "string"
  bq_trace_ctx :: "(string \<times> string) list option"
  bq_at :: "gotime"

definition zero_build_requested :: build_requested where
  "zero_build_requested = \<lparr>bq_tenant = [], bq_agent = [], bq_build = [], bq_source_url = [], bq_trace_ctx = None, bq_at = 0\<rparr>"

definition marshal_build_requested :: "build_requested \<Rightarrow> json" where
  "marshal_build_requested e = JObj (
     always ''tenantId'' (JStr (bq_tenant e)) @
     always ''agentId'' (JStr (bq_agent e)) @
     always ''buildId'' (JStr (bq_build e)) @
     always ''sourceUrl'' (JStr (bq_source_url e)) @
     omit_map ''traceContext'' JStr (bq_trace_ctx e) @
     always ''at'' (JTime (bq_at e)))"

definition build_requested_fields :: "(string \<times> build_requested setter) list" where
  "build_requested_fields =
    [(''tenantId'', set_str (\<lambda>x r. r\<lparr>bq_tenant := x\<rparr>)),
     (''agentId'', set_str (\<lambda>x r. r\<lparr>bq_agent := x\<rparr>)),
     (''buildId'', set_str (\<lambda>x r. r\<lparr>bq_build := x\<rparr>)),
     (''sourceUrl'', set_str (\<lambda>x r. r\<lparr>bq_source_url := x\<rparr>)),
     (''traceContext'', set_str_map (\<lambda>x r. r\<lparr>bq_trace_ctx := x\<rparr>)),
     (''at'', set_time (\<lambda>x r. r\<lparr>bq_at := x\<rparr>))]"

definition unmarshal_build_requested :: "wire \<Rightarrow> build_requested option" where
  "unmarshal_build_requested w = unmarshal build_requested_fields zero_build_requested w"

definition build_requested_sendable :: "build_requested \<Rightarrow> bool" where
  "build_requested_sendable e \<longleftrightarrow> bq_trace_ctx e \<noteq> Some []"

lemma build_requested_wire:
  assumes "build_requested_sendable e"
  shows "unmarshal_build_requested (Some (marshal_build_requested e)) = Some e"
  using assms
  by (cases e)
    (simp add: unmarshal_build_requested_def marshal_build_requested_def zero_build_requested_def decode_rules
      build_requested_fields_def set_str_def set_int_def set_time_def set_any_map_def obj_or_null_def build_requested_sendable_def
      split: option.splits)

section \<open>DeploymentRequested\<close>

record deployment_requested =
  dq_tenant :: "string"
  dq_agent :: "string"
  dq_agent_name :: "string"
  dq_image :: "string"
  dq_port :: "int"
  dq_health_path :: "string"
  dq_secret_ref :: "string"
  dq_trace_ctx :: "(string \<times> string) list option"
  dq_at :: "gotime"

definition zero_deployment_requested :: deployment_requested where
  "zero_deployment_requested = \<lparr>dq_tenant = [], dq_agent = [], dq_agent_name = [], dq_image = [], dq_port = 0, dq_health_path = [], dq_secret_ref = [], dq_trace_ctx = None, dq_at = 0\<rparr>"

definition marshal_deployment_requested :: "deployment_requested \<Rightarrow> json" where
  "marshal_deployment_requested e = JObj (
     always ''tenantId'' (JStr (dq_tenant e)) @
     always ''agentId'' (JStr (dq_agent e)) @
     always ''agentName'' (JStr (dq_agent_name e)) @
     always ''image'' (JStr (dq_image e)) @
     always ''port'' (JInt (dq_port e)) @
     omit_str ''healthPath'' (dq_health_path e) @
     omit_str ''secretRef'' (dq_secret_ref e) @
     omit_map ''traceContext'' JStr (dq_trace_ctx e) @
     always ''at'' (JTime (dq_at e)))"

definition deployment_requested_fields :: "(string \<times> deployment_requested setter) list" where
  "deployment_requested_fields =
    [(''tenantId'', set_str (\<lambda>x r. r\<lparr>dq_tenant := x\<rparr>)),
     (''agentId'', set_str (\<lambda>x r. r\<lparr>dq_agent := x\<rparr>)),
     (''agentName'', set_str (\<lambda>x r. r\<lparr>dq_agent_name := x\<rparr>)),
     (''image'', set_str (\<lambda>x r. r\<lparr>dq_image := x\<rparr>)),
     (''port'', set_int (2 ^ 31) (\<lambda>x r. r\<lparr>dq_port := x\<rparr>)),
     (''healthPath'', set_str (\<lambda>x r. r\<lparr>dq_health_path := x\<rparr>)),
     (''secretRef'', set_str (\<lambda>x r. r\<lparr>dq_secret_ref := x\<rparr>)),
     (''traceContext'', set_str_map (\<lambda>x r. r\<lparr>dq_trace_ctx := x\<rparr>)),
     (''at'', set_time (\<lambda>x r. r\<lparr>dq_at := x\<rparr>))]"

definition unmarshal_deployment_requested :: "wire \<Rightarrow> deployment_requested option" where
  "unmarshal_deployment_requested w = unmarshal deployment_requested_fields zero_deployment_requested w"

definition deployment_requested_sendable :: "deployment_requested \<Rightarrow> bool" where
  "deployment_requested_sendable e \<longleftrightarrow> - (2 ^ 31) \<le> dq_port e \<and> dq_port e < 2 ^ 31 \<and> dq_trace_ctx e \<noteq> Some []"

lemma deployment_requested_wire:
  assumes "deployment_requested_sendable e"
  shows "unmarshal_deployment_requested (Some (marshal_deployment_requested e)) = Some e"
  using assms
  by (cases e)
    (simp add: unmarshal_deployment_requested_def marshal_deployment_requested_def zero_deployment_requested_def decode_rules
      deployment_requested_fields_def set_str_def set_int_def set_time_def set_any_map_def obj_or_null_def deployment_requested_sendable_def
      split: option.splits)

section \<open>DeploymentStopped\<close>

record deployment_stopped =
  ds_tenant :: "string"
  ds_agent :: "string"
  ds_agent_name :: "string"
  ds_at :: "gotime"

definition zero_deployment_stopped :: deployment_stopped where
  "zero_deployment_stopped = \<lparr>ds_tenant = [], ds_agent = [], ds_agent_name = [], ds_at = 0\<rparr>"

definition marshal_deployment_stopped :: "deployment_stopped \<Rightarrow> json" where
  "marshal_deployment_stopped e = JObj (
     always ''tenantId'' (JStr (ds_tenant e)) @
     always ''agentId'' (JStr (ds_agent e)) @
     always ''agentName'' (JStr (ds_agent_name e)) @
     always ''at'' (JTime (ds_at e)))"

definition deployment_stopped_fields :: "(string \<times> deployment_stopped setter) list" where
  "deployment_stopped_fields =
    [(''tenantId'', set_str (\<lambda>x r. r\<lparr>ds_tenant := x\<rparr>)),
     (''agentId'', set_str (\<lambda>x r. r\<lparr>ds_agent := x\<rparr>)),
     (''agentName'', set_str (\<lambda>x r. r\<lparr>ds_agent_name := x\<rparr>)),
     (''at'', set_time (\<lambda>x r. r\<lparr>ds_at := x\<rparr>))]"

definition unmarshal_deployment_stopped :: "wire \<Rightarrow> deployment_stopped option" where
  "unmarshal_deployment_stopped w = unmarshal deployment_stopped_fields zero_deployment_stopped w"

lemma deployment_stopped_wire:
  "unmarshal_deployment_stopped (Some (marshal_deployment_stopped e)) = Some e"
  by (cases e)
    (simp add: unmarshal_deployment_stopped_def marshal_deployment_stopped_def zero_deployment_stopped_def decode_rules
      deployment_stopped_fields_def set_str_def set_int_def set_time_def set_any_map_def obj_or_null_def
      split: option.splits)

section \<open>BuildCompleted\<close>

record build_completed =
  bc_tenant :: "string"
  bc_agent :: "string"
  bc_build :: "string"
  bc_status :: "string"
  bc_image :: "string"
  bc_error :: "string"
  bc_ended_at :: "gotime"

definition zero_build_completed :: build_completed where
  "zero_build_completed = \<lparr>bc_tenant = [], bc_agent = [], bc_build = [], bc_status = [], bc_image = [], bc_error = [], bc_ended_at = 0\<rparr>"

definition marshal_build_completed :: "build_completed \<Rightarrow> json" where
  "marshal_build_completed e = JObj (
     always ''tenantId'' (JStr (bc_tenant e)) @
     always ''agentId'' (JStr (bc_agent e)) @
     always ''buildId'' (JStr (bc_build e)) @
     always ''status'' (JStr (bc_status e)) @
     omit_str ''image'' (bc_image e) @
     omit_str ''error'' (bc_error e) @
     always ''endedAt'' (JTime (bc_ended_at e)))"

definition build_completed_fields :: "(string \<times> build_completed setter) list" where
  "build_completed_fields =
    [(''tenantId'', set_str (\<lambda>x r. r\<lparr>bc_tenant := x\<rparr>)),
     (''agentId'', set_str (\<lambda>x r. r\<lparr>bc_agent := x\<rparr>)),
     (''buildId'', set_str (\<lambda>x r. r\<lparr>bc_build := x\<rparr>)),
     (''status'', set_str (\<lambda>x r. r\<lparr>bc_status := x\<rparr>)),
     (''image'', set_str (\<lambda>x r. r\<lparr>bc_image := x\<rparr>)),
     (''error'', set_str (\<lambda>x r. r\<lparr>bc_error := x\<rparr>)),
     (''endedAt'', set_time (\<lambda>x r. r\<lparr>bc_ended_at := x\<rparr>))]"

definition unmarshal_build_completed :: "wire \<Rightarrow> build_completed option" where
  "unmarshal_build_completed w = unmarshal build_completed_fields zero_build_completed w"

lemma build_completed_wire:
  "unmarshal_build_completed (Some (marshal_build_completed e)) = Some e"
  by (cases e)
    (simp add: unmarshal_build_completed_def marshal_build_completed_def zero_build_completed_def decode_rules
      build_completed_fields_def set_str_def set_int_def set_time_def set_any_map_def obj_or_null_def
      split: option.splits)

end
