(* ===== verification/Agents_Api.thy ===== *)
theory Agents_Api
  imports Secrets_Api Agents_Repo Events Manifest_Json
begin

text \<open>
  \<open>internal/agents/handlers.go\<close> and \<open>internal/agents/deploy_handlers.go\<close>: the agents
  endpoints, and deploy and undeploy of a server agent, which publish the request that the
  controller acts on. The Kubernetes client and the secrets repository are optional, as the
  nil checks of the code have them.
\<close>

section \<open>Agents\<close>

definition agent_dto :: "agent \<Rightarrow> json" where
  "agent_dto a = JObj [(''id'', JStr (ag_id a)), (''name'', JStr (ag_name a)),
     (''mode'', JStr (ag_mode a)), (''runtime'', JStr (ag_runtime a)),
     (''image'', case ag_image a of None \<Rightarrow> JNull | Some s \<Rightarrow> JStr s),
     (''createdAt'', JTime (ag_created a))]"

definition agents_list_handler :: "ctx \<Rightarrow> 'k world \<Rightarrow> response \<times> 'k world" where
  "agents_list_handler c w =
     (case from_context c of
        None \<Rightarrow> (unauthorized, w)
      | Some i \<Rightarrow>
          (case db_read (\<lambda>d. Inr (agents_list (id_tenant i) 0 d)) w of
             (Inl e, w1) \<Rightarrow> (http_error (err_text e) 500, w1)
           | (Inr rows, w1) \<Rightarrow>
               (write_json 200 (JObj [(''agents'', JArr (map agent_dto rows))]), w1)))"

definition create_agent_fields :: "(string \<times> manifest setter) list" where
  "create_agent_fields = [(''manifest'', set_nested manifest_fields (\<lambda>m. m) (\<lambda>x r. x))]"

definition agents_create_handler :: "gen \<Rightarrow> ctx \<Rightarrow> wire \<Rightarrow> 'k world \<Rightarrow> response \<times> 'k world" where
  "agents_create_handler g c req_body w =
     (case from_context c of
        None \<Rightarrow> (unauthorized, w)
      | Some i \<Rightarrow>
          (case unmarshal create_agent_fields zero_manifest req_body of
             None \<Rightarrow> (http_error (''bad request: '' @ g_json_error g) 400, w)
           | Some m \<Rightarrow>
               (case validate (Some m) of
                  Some e \<Rightarrow> (http_error (''invalid manifest: '' @ manifest_error_text e) 400, w)
                | None \<Rightarrow>
                    (case db_write (agents_create (g_uuid g) (g_now g) (id_tenant i) m) w of
                       (Inl e, w1) \<Rightarrow> (http_error (err_text e) 500, w1)
                     | (Inr a, w1) \<Rightarrow>
                         (write_json 201 (agent_dto a),
                          audit_log g c ''create'' ''agent'' (ag_id a)
                            (Some (JObj [(''mode'', JStr (ag_mode a)), (''name'', JStr (ag_name a)),
                               (''runtime'', JStr (ag_runtime a))])) w1)))))"

definition agents_get_handler :: "ctx \<Rightarrow> string \<Rightarrow> 'k world \<Rightarrow> response \<times> 'k world" where
  "agents_get_handler c agent w =
     (case from_context c of
        None \<Rightarrow> (unauthorized, w)
      | Some i \<Rightarrow>
          (case db_read (agents_get (id_tenant i) agent) w of
             (Inl e, w1) \<Rightarrow>
               if is_not_found e then (http_error ''not found'' 404, w1)
               else (http_error (err_text e) 500, w1)
           | (Inr a, w1) \<Rightarrow> (write_json 200 (agent_dto a), w1)))"

definition agents_delete_handler :: "gen \<Rightarrow> ctx \<Rightarrow> string \<Rightarrow> 'k world \<Rightarrow> response \<times> 'k world" where
  "agents_delete_handler g c agent w =
     (case from_context c of
        None \<Rightarrow> (unauthorized, w)
      | Some i \<Rightarrow>
          (case db_write (agents_delete (id_tenant i) agent) w of
             (Inl e, w1) \<Rightarrow>
               if is_not_found e then (http_error ''not found'' 404, w1)
               else (http_error (err_text e) 500, w1)
           | (Inr _, w1) \<Rightarrow> ((204, No_Body), audit_log g c ''delete'' ''agent'' agent None w1)))"

section \<open>Deploy and undeploy\<close>

definition agent_err :: "error \<Rightarrow> response" where
  "agent_err e =
     (if is_not_found e then http_error ''agent not found'' 404 else http_error (err_text e) 500)"

text \<open>Go's conversion of an \<open>int\<close> to \<open>int32\<close> wraps.\<close>

definition int32 :: "int \<Rightarrow> int" where
  "int32 i = (i + 2 ^ 31) mod 2 ^ 32 - 2 ^ 31"

definition project_agent_secrets ::
  "'k kube_api option \<Rightarrow> box option \<Rightarrow> string \<Rightarrow> string \<Rightarrow> string list \<Rightarrow> 'k world
    \<Rightarrow> (error + string) \<times> 'k world" where
  "project_agent_secrets Ko bo tenant agent_name names w =
     (case (Ko, bo) of
        (Some K, Some b) \<Rightarrow>
          if names = [] then (Inr [], w)
          else
            (case db_read (secrets_resolve b tenant names) w of
               (Inl e, w1) \<Rightarrow> (Inl e, w1)
             | (Inr data, w1) \<Rightarrow>
                 (case ensure_tenant_namespace K tenant w1 of
                    (Inl e, w2) \<Rightarrow> (Inl e, w2)
                  | (Inr _, w2) \<Rightarrow> project_for_agent K tenant agent_name data w2))
      | _ \<Rightarrow> (Inr [], w))"

definition deploy_event :: "gen \<Rightarrow> agent \<Rightarrow> string \<Rightarrow> string \<Rightarrow> deployment_requested" where
  "deploy_event g a img secret_ref =
     \<lparr>dq_tenant = ag_tenant a, dq_agent = ag_id a, dq_agent_name = ag_name a, dq_image = img,
      dq_port = (case m_server (ag_manifest a) of
          None \<Rightarrow> 8080 | Some s \<Rightarrow> if srv_port s > 0 then int32 (srv_port s) else 8080),
      dq_health_path = (case m_server (ag_manifest a) of None \<Rightarrow> [] | Some s \<Rightarrow> srv_health_path s),
      dq_secret_ref = secret_ref, dq_trace_ctx = g_trace_ctx g, dq_at = g_now g\<rparr>"

definition deploy_handler ::
  "'k kube_api option \<Rightarrow> box option \<Rightarrow> gen \<Rightarrow> ctx \<Rightarrow> string \<Rightarrow> 'k world \<Rightarrow> response \<times> 'k world" where
  "deploy_handler Ko bo g c agent w =
     (case from_context c of
        None \<Rightarrow> (unauthorized, w)
      | Some i \<Rightarrow>
          (case db_read (agents_get (id_tenant i) agent) w of
             (Inl e, w1) \<Rightarrow> (agent_err e, w1)
           | (Inr a, w1) \<Rightarrow>
               if ag_mode a \<noteq> ModeServer then (http_error ''deploy only valid for mode=server'' 422, w1)
               else if coalesce_str (ag_image a) = [] then
                 (http_error ''agent has no image to deploy'' 422, w1)
               else
                 (case project_agent_secrets Ko bo (ag_tenant a) (ag_name a)
                         (m_secrets (ag_manifest a)) w1 of
                    (Inl e, w2) \<Rightarrow> (http_error (''secrets projection: '' @ err_text e) 500, w2)
                  | (Inr secret_ref, w2) \<Rightarrow>
                      (case publish SubjectDeploymentRequested
                              (marshal_deployment_requested
                                 (deploy_event g a (coalesce_str (ag_image a)) secret_ref)) w2 of
                         (Inl e, w3) \<Rightarrow> (http_error (''queue: '' @ err_text e) 502, w3)
                       | (Inr _, w3) \<Rightarrow>
                           ((202, No_Body),
                            audit_log g c ''deploy'' ''deployment'' (ag_id a)
                              (Some (JObj [(''agentName'', JStr (ag_name a)),
                                 (''image'', JStr (coalesce_str (ag_image a)))])) w3)))))"

definition undeploy_handler :: "gen \<Rightarrow> ctx \<Rightarrow> string \<Rightarrow> 'k world \<Rightarrow> response \<times> 'k world" where
  "undeploy_handler g c agent w =
     (case from_context c of
        None \<Rightarrow> (unauthorized, w)
      | Some i \<Rightarrow>
          (case db_read (agents_get (id_tenant i) agent) w of
             (Inl e, w1) \<Rightarrow> (agent_err e, w1)
           | (Inr a, w1) \<Rightarrow>
               (case publish SubjectDeploymentStopped
                       (marshal_deployment_stopped
                          \<lparr>ds_tenant = ag_tenant a, ds_agent = ag_id a, ds_agent_name = ag_name a,
                           ds_at = g_now g\<rparr>) w1 of
                  (Inl e, w2) \<Rightarrow> (http_error (''queue: '' @ err_text e) 502, w2)
                | (Inr _, w2) \<Rightarrow>
                    ((202, No_Body),
                     audit_log g c ''undeploy'' ''deployment'' (ag_id a)
                       (Some (JObj [(''agentName'', JStr (ag_name a))])) w2))))"

section \<open>Lemmas\<close>

lemma int32_range: "- (2 ^ 31) \<le> int32 i \<and> int32 i < 2 ^ 31"
  using pos_mod_bound [of "2 ^ 32" "i + 2 ^ 31"] pos_mod_sign [of "2 ^ 32" "i + 2 ^ 31"]
  by (simp add: int32_def)

lemma int32_id: "- (2 ^ 31) \<le> i \<Longrightarrow> i < 2 ^ 31 \<Longrightarrow> int32 i = i"
  by (simp add: int32_def)

lemma deploy_event_sendable:
  "g_trace_ctx g \<noteq> Some [] \<Longrightarrow> deployment_requested_sendable (deploy_event g a img r)"
  using int32_range
  by (auto simp: deployment_requested_sendable_def deploy_event_def split: option.splits)

lemma agent_err_code [simp]: "fst (agent_err e) = (if is_not_found e then 404 else 500)"
  by (simp add: agent_err_def)

lemma project_agent_secrets_frame [simp]:
  "w_db (snd (project_agent_secrets Ko bo t n names w)) = w_db w"
  "w_sent (snd (project_agent_secrets Ko bo t n names w)) = w_sent w"
  by (simp_all add: project_agent_secrets_def split_beta split: option.splits sum.splits)

section \<open>Properties\<close>

text \<open>
  C21: creating an agent answers 201 only for an authenticated caller whose body decodes to a
  well-formed manifest, and then exactly one agent row was added, owned by the tenant of the
  caller and carrying that manifest.
\<close>

theorem agents_create_stores_valid_manifest:
  assumes "fst (fst (agents_create_handler g c bdy w)) = 201"
  shows "\<exists>i m a. c = Some i \<and> unmarshal create_agent_fields zero_manifest bdy = Some m \<and>
    well_formed m \<and> ag_tenant a = id_tenant i \<and> ag_manifest a = m \<and>
    d_agents (w_db (snd (agents_create_handler g c bdy w))) = d_agents (w_db w) @ [a]"
proof -
  obtain i m where i: "c = Some i" and m: "unmarshal create_agent_fields zero_manifest bdy = Some m"
    and v: "validate (Some m) = None"
    using assms by (auto simp: agents_create_handler_def from_context_def split: option.splits)
  let ?f = "agents_create (g_uuid g) (g_now g) (id_tenant i) m"
  obtain a where a: "fst (db_write ?f w) = Inr a"
    using assms i m v
    by (cases "fst (db_write ?f w)") (auto simp: agents_create_handler_def from_context_def split_beta)
  note w = db_write_Inr [OF a]
  then have "?f (w_db w) = (Inr a, snd (?f (w_db w)))" by (metis prod.collapse)
  note row = agents_create_Inr [OF this]
  have "d_agents (w_db (snd (agents_create_handler g c bdy w))) = d_agents (w_db w) @ [a]"
    using a i m v w row by (simp add: agents_create_handler_def from_context_def split_beta)
  with row i m v [unfolded validate_iff] show ?thesis by blast
qed

definition sample_create :: wire where
  "sample_create = Some (JObj [(''manifest'', JObj
      [(''schemaVersion'', JStr ''v1''), (''name'', JStr ''cat''), (''mode'', JStr ''job''),
       (''runtime'', JStr ''python'')])])"

theorem agents_create_stores_valid_manifest_witness:
  "\<exists>i m a. sample_ctx = Some i \<and> unmarshal create_agent_fields zero_manifest sample_create = Some m \<and>
    well_formed m \<and> ag_tenant a = id_tenant i \<and> ag_manifest a = m \<and>
    d_agents (w_db (snd (agents_create_handler sample_gen sample_ctx sample_create
      (quiet_world sample_db ())))) = d_agents (w_db (quiet_world sample_db ())) @ [a]"
  by (rule agents_create_stores_valid_manifest) code_simp

text \<open>
  Deploying answers 202 only for an agent of the caller's tenant in server mode with an
  image, and then exactly one deployment.requested was published, for that agent and image,
  which the controller's decoder reads back field by field.
\<close>

lemma deploy_publishes_the_agent:
  assumes "fst (fst (deploy_handler Ko bo g c agent w)) = 202" and "g_trace_ctx g \<noteq> Some []"
  shows "\<exists>i a e. c = Some i \<and> agents_get (id_tenant i) agent (w_db w) = Inr a \<and>
    ag_mode a = ModeServer \<and> ag_image a = Some (dq_image e) \<and> dq_image e \<noteq> [] \<and>
    dq_tenant e = id_tenant i \<and> dq_agent e = agent \<and> dq_agent_name e = ag_name a \<and>
    w_sent (snd (deploy_handler Ko bo g c agent w)) =
      w_sent w @ [(SubjectDeploymentRequested, marshal_deployment_requested e)] \<and>
    deployment_requested_sendable e"
proof -
  obtain i where i: "c = Some i"
    using assms(1) by (auto simp: deploy_handler_def from_context_def split: option.splits)
  let ?q = "agents_get (id_tenant i) agent"
  obtain a where a: "fst (db_read ?q w) = Inr a"
    using assms(1) i
    by (cases "fst (db_read ?q w)")
      (auto simp: deploy_handler_def from_context_def split_beta split: if_splits)
  have guards: "ag_mode a = ModeServer" "coalesce_str (ag_image a) \<noteq> []"
    using assms(1) i a by (auto simp: deploy_handler_def from_context_def split_beta split: if_splits)
  let ?w1 = "snd (db_read ?q w)"
  let ?p = "project_agent_secrets Ko bo (ag_tenant a) (ag_name a) (m_secrets (ag_manifest a)) ?w1"
  obtain r where r: "fst ?p = Inr r"
    using assms(1) i a guards
    by (cases "fst ?p") (auto simp: deploy_handler_def from_context_def split_beta)
  let ?e = "deploy_event g a (coalesce_str (ag_image a)) r"
  let ?pub = "publish SubjectDeploymentRequested (marshal_deployment_requested ?e) (snd ?p)"
  have ok: "fst ?pub = Inr ()"
    using assms(1) i a guards r
    by (cases "fst ?pub") (auto simp: deploy_handler_def from_context_def split_beta)
  have "w_sent (snd (deploy_handler Ko bo g c agent w)) =
      w_sent w @ [(SubjectDeploymentRequested, marshal_deployment_requested ?e)]"
    using i a guards r ok publish_Inr [OF ok]
    by (simp add: deploy_handler_def from_context_def split_beta)
  moreover have "ag_image a = Some (coalesce_str (ag_image a))"
    using guards(2) by (cases "ag_image a") (auto simp: coalesce_str_def)
  moreover note deploy_event_sendable [OF assms(2), of a "coalesce_str (ag_image a)" r]
  moreover note db_read_Inr [OF a] agents.get_Inr [OF db_read_Inr [OF a]]
  ultimately show ?thesis
    using i guards by (intro exI [of _ i] exI [of _ a] exI [of _ ?e]) (auto simp: deploy_event_def)
qed

end
