(* ===== verification/Runs_Repo.thy ===== *)
theory Runs_Repo
  imports Agents_Repo
begin

text \<open>
  \<open>internal/runs/repo.go\<close>: the runs table. A run is created \<open>pending\<close>, moves to \<open>running\<close>
  and then once into a terminal status; the guards are the \<open>WHERE\<close> clauses of the two
  updates.
\<close>

definition StatusPending :: string where "StatusPending = ''pending''"
definition StatusRunning :: string where "StatusRunning = ''running''"
definition StatusSucceeded :: string where "StatusSucceeded = ''succeeded''"
definition StatusFailed :: string where "StatusFailed = ''failed''"
definition StatusTimedOut :: string where "StatusTimedOut = ''timed_out''"
definition StatusCancelled :: string where "StatusCancelled = ''cancelled''"

lemmas run_status_defs = StatusPending_def StatusRunning_def StatusSucceeded_def StatusFailed_def
  StatusTimedOut_def StatusCancelled_def

text \<open>The list in the \<open>WHERE\<close> clause of \<open>MarkCompleted\<close>.\<close>

definition terminal_status :: "string \<Rightarrow> bool" where
  "terminal_status s \<longleftrightarrow> s \<in> {StatusSucceeded, StatusFailed, StatusTimedOut, StatusCancelled}"

text \<open>\<open>nullString.Scan\<close>: what the string behind the pointer becomes for the value of a column.\<close>

datatype sql_value = Sql_Null | Sql_Text string | Sql_Bytes string | Sql_Other

fun null_string_scan :: "sql_value \<Rightarrow> string \<Rightarrow> string" where
  "null_string_scan Sql_Null s = []"
| "null_string_scan (Sql_Text v) s = v"
| "null_string_scan (Sql_Bytes v) s = v"
| "null_string_scan Sql_Other s = s"

text \<open>Of a nullable text column it reads what \<open>COALESCE\<close> with the empty text gives.\<close>

lemma null_string_scan_text:
  "null_string_scan (case x of None \<Rightarrow> Sql_Null | Some v \<Rightarrow> Sql_Text v) s = coalesce_str x"
  by (cases x) (simp_all add: coalesce_str_def)

definition runs_create ::
  "string \<Rightarrow> gotime \<Rightarrow> string \<Rightarrow> string \<Rightarrow> json_obj option \<Rightarrow> string \<Rightarrow> database
    \<Rightarrow> (error + run) \<times> database" where
  "runs_create uuid now tenant agent inputs trace d =
     (let r = \<lparr>rn_id = uuid, rn_tenant = tenant, rn_agent = agent, rn_status = StatusPending,
               rn_inputs = inputs, rn_outputs = None, rn_exit = None, rn_error = None,
               rn_trace = null_if_empty trace, rn_created = now, rn_started = None, rn_ended = None\<rparr>
      in if run_exists uuid d then (Inl pg_unique, d)
         else if \<not> tenant_exists tenant d \<or> \<not> agent_exists agent d then (Inl pg_foreign, d)
         else (Inr r, d\<lparr>d_runs := d_runs d @ [r]\<rparr>))"

definition runs_get :: "string \<Rightarrow> string \<Rightarrow> database \<Rightarrow> error + run" where
  "runs_get tenant i d =
     (case find_row (\<lambda>r. rn_id r = i \<and> rn_tenant r = tenant) (d_runs d) of
        None \<Rightarrow> Inl ErrNotFound | Some r \<Rightarrow> Inr r)"

definition runs_list :: "string \<Rightarrow> string \<Rightarrow> int \<Rightarrow> database \<Rightarrow> run list" where
  "runs_list tenant agent limit d =
     take (page_limit limit)
       (order_desc rn_created
         (filter (\<lambda>r. rn_tenant r = tenant \<and> rn_agent r = agent) (d_runs d)))"

text \<open>\<open>UPDATE runs SET status = 'running', started_at = COALESCE(started_at, ts)\<close>.\<close>

definition start_run :: "gotime \<Rightarrow> run \<Rightarrow> run" where
  "start_run ts r =
     r\<lparr>rn_status := StatusRunning,
       rn_started := (case rn_started r of None \<Rightarrow> Some ts | Some t \<Rightarrow> Some t)\<rparr>"

definition mark_started :: "string \<Rightarrow> gotime \<Rightarrow> database \<Rightarrow> database" where
  "mark_started i ts d =
     d\<lparr>d_runs := update_where
         (\<lambda>r. rn_id r = i \<and> rn_status r \<in> {StatusPending, StatusRunning}) (start_run ts) (d_runs d)\<rparr>"

record completion =
  cm_status :: string
  cm_outputs :: "json_obj option"
  cm_exit :: "int option"
  cm_error :: string
  cm_ended :: gotime

definition complete_run :: "completion \<Rightarrow> run \<Rightarrow> run" where
  "complete_run c r =
     r\<lparr>rn_status := cm_status c, rn_outputs := cm_outputs c, rn_exit := cm_exit c,
       rn_error := null_if_empty (cm_error c), rn_ended := Some (cm_ended c)\<rparr>"

definition complete_rows :: "string \<Rightarrow> completion \<Rightarrow> run list \<Rightarrow> run list" where
  "complete_rows i c rs =
     update_where (\<lambda>r. rn_id r = i \<and> \<not> terminal_status (rn_status r)) (complete_run c) rs"

text \<open>A status outside the \<open>CHECK\<close> list fails the statement when a row matches.\<close>

definition mark_completed :: "string \<Rightarrow> completion \<Rightarrow> database \<Rightarrow> (error + unit) \<times> database" where
  "mark_completed i c d =
     (if cm_status c \<notin> set run_statuses \<and>
         (\<exists>r\<in>set (d_runs d). rn_id r = i \<and> \<not> terminal_status (rn_status r))
      then (Inl pg_check, d)
      else (Inr (), d\<lparr>d_runs := complete_rows i c (d_runs d)\<rparr>))"

section \<open>Interfaces\<close>

interpretation runs: tenant_scoped runs_get d_runs rn_id rn_tenant
  by unfold_locales (simp add: runs_get_def)

interpretation run_end: terminal_rows rn_id "\<lambda>r. terminal_status (rn_status r)" complete_run
  "\<lambda>c. terminal_status (cm_status c)" complete_rows
  by unfold_locales (simp_all add: complete_rows_def complete_run_def)

section \<open>Lemmas\<close>

lemma terminal_not_open:
  "terminal_status s \<Longrightarrow> s \<noteq> StatusPending \<and> s \<noteq> StatusRunning"
  by (auto simp: terminal_status_def run_status_defs)

lemma run_status_cases:
  "s \<in> set run_statuses \<longleftrightarrow> s = StatusPending \<or> s = StatusRunning \<or> terminal_status s"
  by (auto simp: run_statuses_def terminal_status_def run_status_defs)

lemma start_run_simps [simp]:
  "rn_id (start_run ts r) = rn_id r" "rn_tenant (start_run ts r) = rn_tenant r"
  "rn_agent (start_run ts r) = rn_agent r" "rn_status (start_run ts r) = StatusRunning"
  by (simp_all add: start_run_def)

lemma complete_run_simps [simp]:
  "rn_id (complete_run c r) = rn_id r" "rn_tenant (complete_run c r) = rn_tenant r"
  "rn_agent (complete_run c r) = rn_agent r" "rn_status (complete_run c r) = cm_status c"
  "rn_started (complete_run c r) = rn_started r"
  by (simp_all add: complete_run_def)

text \<open>An update that keeps the key columns keeps the integrity of the database.\<close>

lemma update_runs_ok:
  assumes "db_ok d" and "\<And>r. rn_id (f r) = rn_id r \<and> rn_tenant (f r) = rn_tenant r \<and> rn_agent (f r) = rn_agent r"
    and "\<And>r. p r \<Longrightarrow> rn_status (f r) \<in> set run_statuses"
  shows "db_ok (d\<lparr>d_runs := update_where p f (d_runs d)\<rparr>)"
proof -
  let ?d = "d\<lparr>d_runs := update_where p f (d_runs d)\<rparr>"
  have ids: "map rn_id (update_where p f (d_runs d)) = map rn_id (d_runs d)"
    using assms(2) by (simp add: map_update_where)
  have "keys_ok ?d" using assms(1) ids by (simp add: db_ok_def keys_ok_def)
  moreover have "status_ok ?d"
    using assms(1,3) by (auto simp: db_ok_def status_ok_def set_update_where)
  moreover have "refs_ok ?d"
    using assms(1,2) by (auto simp: db_ok_def refs_ok_def set_update_where tenant_exists_def
        agent_exists_def)
  moreover have "run_exists i ?d = run_exists i d" for i
    using arg_cong [OF ids, of set] by (simp add: run_exists_def)
  ultimately show ?thesis
    using assms(1) by (simp add: db_ok_def usage_ok_def tenant_exists_def agent_exists_def)
qed

lemma mark_started_ok [keeps]: "db_ok d \<Longrightarrow> db_ok (mark_started i ts d)"
  unfolding mark_started_def by (rule update_runs_ok) (simp_all add: run_status_cases)

lemma mark_completed_ok:
  assumes "db_ok d" and "mark_completed i c d = (res, d')"
  shows "db_ok d'"
proof (cases "cm_status c \<in> set run_statuses")
  case True
  with assms show ?thesis
    by (auto simp: mark_completed_def complete_rows_def intro: update_runs_ok)
next
  case False
  show ?thesis
  proof (cases "\<exists>r\<in>set (d_runs d). rn_id r = i \<and> \<not> terminal_status (rn_status r)")
    case True
    with False assms show ?thesis by (simp add: mark_completed_def)
  next
    case none: False
    then have "complete_rows i c (d_runs d) = d_runs d"
      unfolding complete_rows_def by (intro update_where_cong_id) blast
    moreover from none assms(2) have "d' = d\<lparr>d_runs := complete_rows i c (d_runs d)\<rparr>"
      unfolding mark_completed_def by (auto split: if_splits)
    ultimately show ?thesis using assms(1) by simp
  qed
qed

lemma insert_run_ok:
  assumes "db_ok d" and "\<not> run_exists (rn_id r) d" and "tenant_exists (rn_tenant r) d"
    and "agent_exists (rn_agent r) d" and "rn_status r \<in> set run_statuses"
  shows "db_ok (d\<lparr>d_runs := d_runs d @ [r]\<rparr>)"
proof -
  let ?d = "d\<lparr>d_runs := d_runs d @ [r]\<rparr>"
  have "keys_ok ?d" using assms(1,2) by (auto simp: db_ok_def keys_ok_def run_exists_def)
  moreover have "run_exists i ?d" if "run_exists i d" for i
    using that by (auto simp: run_exists_def)
  moreover have "tenant_exists i ?d = tenant_exists i d" "agent_exists i ?d = agent_exists i d" for i
    by (simp_all add: tenant_exists_def agent_exists_def)
  ultimately show ?thesis
    using assms by (simp add: db_ok_def status_ok_def refs_ok_def usage_ok_def)
qed

lemma runs_create_ok:
  "db_ok d \<Longrightarrow> runs_create uuid now tenant agent inputs trace d = (res, d') \<Longrightarrow> db_ok d'"
  by (auto simp: runs_create_def Let_def run_status_cases split: if_splits intro!: insert_run_ok)

lemma runs_create_Inr:
  "runs_create uuid now tenant agent inputs trace d = (Inr r, d') \<Longrightarrow>
    rn_id r = uuid \<and> rn_tenant r = tenant \<and> rn_agent r = agent \<and> rn_status r = StatusPending \<and>
    rn_inputs r = inputs \<and> rn_trace r = null_if_empty trace \<and> \<not> run_exists uuid d \<and>
    d' = d\<lparr>d_runs := d_runs d @ [r]\<rparr>"
  by (auto simp: runs_create_def Let_def split: if_splits)

lemma runs_get_created:
  assumes "runs_create uuid now tenant agent inputs trace d = (Inr r, d')"
  shows "runs_get tenant uuid d' = Inr r"
proof -
  note c = runs_create_Inr [OF assms]
  have "find_row (\<lambda>x. rn_id x = uuid \<and> rn_tenant x = tenant) (d_runs d) = None"
    using c unfolding find_row_None_iff run_exists_def by (metis imageI)
  with c show ?thesis by (simp add: runs_get_def find_row_append)
qed

lemma runs_list_own:
  "r \<in> set (runs_list tenant agent limit d) \<Longrightarrow> rn_tenant r = tenant \<and> rn_agent r = agent"
  by (auto simp: runs_list_def dest: in_set_takeD)

lemma start_run_twice: "start_run ts' (start_run ts r) = start_run ts r"
  by (simp add: start_run_def split: option.splits)

lemma mark_started_terminal:
  "r \<in> set (d_runs d) \<Longrightarrow> terminal_status (rn_status r) \<Longrightarrow> r \<in> set (d_runs (mark_started i ts d))"
  using terminal_not_open [of "rn_status r"] by (auto simp: mark_started_def set_update_where)

lemma mark_completed_keeps [keeps]: "db_ok d \<Longrightarrow> db_ok (snd (mark_completed i c d))"
  by (rule mark_completed_ok, assumption, rule surjective_pairing)

lemma runs_create_keeps [keeps]: "db_ok d \<Longrightarrow> db_ok (snd (runs_create uuid now tenant agent inputs trace d))"
  by (rule runs_create_ok, assumption, rule surjective_pairing)

end
