(* ===== verification/Runs_Api.thy ===== *)
theory Runs_Api
  imports Agents_Api Runs_Repo
begin

text \<open>
  \<open>internal/runs/handlers.go\<close>: the endpoints of runs. Triggering a run inserts a pending row,
  projects the secrets of the manifest into the cluster and publishes \<open>run.requested\<close>, in this
  order.
\<close>

definition omit_obj :: "string \<Rightarrow> json_obj option \<Rightarrow> json_obj" where
  "omit_obj k m = omit_map k (\<lambda>j. j) m"

definition run_dto :: "run \<Rightarrow> json" where
  "run_dto r = JObj (
     always ''id'' (JStr (rn_id r)) @
     always ''agentId'' (JStr (rn_agent r)) @
     always ''status'' (JStr (rn_status r)) @
     omit_obj ''inputs'' (rn_inputs r) @
     omit_obj ''outputs'' (rn_outputs r) @
     omit_none ''exitCode'' JInt (rn_exit r) @
     omit_str ''traceId'' (coalesce_str (rn_trace r)) @
     always ''createdAt'' (JTime (rn_created r)) @
     omit_none ''startedAt'' JTime (rn_started r) @
     omit_none ''endedAt'' JTime (rn_ended r))"

definition runs_list_handler :: "ctx \<Rightarrow> string \<Rightarrow> 'k world \<Rightarrow> response \<times> 'k world" where
  "runs_list_handler c agent w =
     (case from_context c of
        None \<Rightarrow> (unauthorized, w)
      | Some i \<Rightarrow>
          (case db_read (agents_get (id_tenant i) agent) w of
             (Inl e, w1) \<Rightarrow> (agent_err e, w1)
           | (Inr a, w1) \<Rightarrow>
               (case db_read (\<lambda>d. Inr (runs_list (id_tenant i) agent 0 d)) w1 of
                  (Inl e, w2) \<Rightarrow> (http_error (err_text e) 500, w2)
                | (Inr rows, w2) \<Rightarrow>
                    (write_json 200 (JObj [(''runs'', JArr (map run_dto rows))]), w2))))"

definition runs_get_handler :: "ctx \<Rightarrow> string \<Rightarrow> 'k world \<Rightarrow> response \<times> 'k world" where
  "runs_get_handler c run w =
     (case from_context c of
        None \<Rightarrow> (unauthorized, w)
      | Some i \<Rightarrow>
          (case db_read (runs_get (id_tenant i) run) w of
             (Inl e, w1) \<Rightarrow>
               if is_not_found e then (http_error ''not found'' 404, w1)
               else (http_error (err_text e) 500, w1)
           | (Inr r, w1) \<Rightarrow> (write_json 200 (run_dto r), w1)))"

section \<open>Triggering a run\<close>

text \<open>The guard that the manual, webhook and cron paths share.\<close>

definition runnable :: "agent \<Rightarrow> bool" where
  "runnable a \<longleftrightarrow> ag_runtime a = ''container'' \<and> coalesce_str (ag_image a) \<noteq> []"

definition trigger_run_fields :: "(string \<times> json_obj option setter) list" where
  "trigger_run_fields = [(''inputs'', set_any_map (\<lambda>x r. x))]"

text \<open>The body is read only when \<open>Content-Length\<close> is positive.\<close>

definition trigger_inputs :: "int \<Rightarrow> wire \<Rightarrow> json_obj option option" where
  "trigger_inputs content_length req_body =
     (if content_length > 0 then unmarshal trigger_run_fields None req_body else Some None)"

definition project_run_secrets ::
  "'k kube_api option \<Rightarrow> box option \<Rightarrow> string \<Rightarrow> string list \<Rightarrow> string \<Rightarrow> 'k world
    \<Rightarrow> (error + string) \<times> 'k world" where
  "project_run_secrets Ko bo tenant names run w =
     (case (Ko, bo) of
        (Some K, Some b) \<Rightarrow>
          if names = [] then (Inr [], w)
          else
            (case db_read (secrets_resolve b tenant names) w of
               (Inl e, w1) \<Rightarrow> (Inl e, w1)
             | (Inr data, w1) \<Rightarrow>
                 (case ensure_tenant_namespace K tenant w1 of
                    (Inl e, w2) \<Rightarrow> (Inl e, w2)
                  | (Inr _, w2) \<Rightarrow> project_for_run K tenant run data w2))
      | _ \<Rightarrow> (Inr [], w))"

definition run_event ::
  "gen \<Rightarrow> string \<Rightarrow> agent \<Rightarrow> run \<Rightarrow> json_obj option \<Rightarrow> string \<Rightarrow> run_requested" where
  "run_event g tenant a r inputs secret_ref =
     \<lparr>rq_tenant = tenant, rq_agent = ag_id a, rq_run = rn_id r, rq_image = coalesce_str (ag_image a),
      rq_inputs = inputs, rq_trace = g_trace g, rq_secret_ref = secret_ref,
      rq_trace_ctx = g_trace_ctx g, rq_at = g_now g\<rparr>"

definition trigger_handler ::
  "'k kube_api option \<Rightarrow> box option \<Rightarrow> gen \<Rightarrow> ctx \<Rightarrow> string \<Rightarrow> int \<Rightarrow> wire \<Rightarrow> 'k world
    \<Rightarrow> response \<times> 'k world" where
  "trigger_handler Ko bo g c agent content_length req_body w =
     (case from_context c of
        None \<Rightarrow> (unauthorized, w)
      | Some i \<Rightarrow>
          (case db_read (agents_get (id_tenant i) agent) w of
             (Inl e, w1) \<Rightarrow> (agent_err e, w1)
           | (Inr a, w1) \<Rightarrow>
               if \<not> runnable a then
                 (http_error ''agent is not runnable: v1 spine requires runtime=container with image set'' 422, w1)
               else
                 (case trigger_inputs content_length req_body of
                    None \<Rightarrow> (http_error (''bad request: '' @ g_json_error g) 400, w1)
                  | Some inputs \<Rightarrow>
                      (case db_write (runs_create (g_uuid g) (g_now g) (id_tenant i) (ag_id a) inputs
                               (g_trace g)) w1 of
                         (Inl e, w2) \<Rightarrow> (http_error (err_text e) 500, w2)
                       | (Inr r, w2) \<Rightarrow>
                           (case project_run_secrets Ko bo (id_tenant i) (m_secrets (ag_manifest a))
                                    (rn_id r) w2 of
                              (Inl e, w3) \<Rightarrow> (http_error (''secrets projection: '' @ err_text e) 500, w3)
                            | (Inr secret_ref, w3) \<Rightarrow>
                                (case publish SubjectRunRequested
                                        (marshal_run_requested
                                          (run_event g (id_tenant i) a r inputs secret_ref)) w3 of
                                   (Inl e, w4) \<Rightarrow> (http_error (''queue: '' @ err_text e) 502, w4)
                                 | (Inr _, w4) \<Rightarrow>
                                     (write_json 202 (run_dto r),
                                      audit_log g c ''trigger'' ''run'' (rn_id r)
                                        (Some (JObj [(''agentId'', JStr (ag_id a)),
                                           (''source'', JStr ''manual'')])) w4)))))))"

section \<open>Lemmas\<close>

lemma project_run_secrets_frame [simp]:
  "w_db (snd (project_run_secrets Ko bo t names r w)) = w_db w"
  "w_sent (snd (project_run_secrets Ko bo t names r w)) = w_sent w"
  by (simp_all add: project_run_secrets_def split_beta split: option.splits sum.splits)

text \<open>
  What every path that starts a run guarantees of the bus: it publishes at most one message,
  and a message it publishes is a \<open>run.requested\<close> that names a pending row of the database,
  with the tenant, agent and inputs of that row and an image to run.
\<close>

definition announces_row :: "run_requested \<Rightarrow> database \<Rightarrow> bool" where
  "announces_row e d \<longleftrightarrow>
     (\<exists>r\<in>set (d_runs d). rn_id r = rq_run e \<and> rn_tenant r = rq_tenant e \<and> rn_agent r = rq_agent e \<and>
        rn_status r = StatusPending \<and> rn_inputs r = rq_inputs e \<and>
        rn_trace r = null_if_empty (rq_trace e)) \<and> rq_image e \<noteq> []"

definition published_run :: "'k world \<Rightarrow> 'k world \<Rightarrow> bool" where
  "published_run w w' \<longleftrightarrow>
     w_sent w' = w_sent w \<or>
     (\<exists>e. w_sent w' = w_sent w @ [(SubjectRunRequested, marshal_run_requested e)] \<and>
        announces_row e (w_db w'))"

lemma published_run_refl: "w_sent w' = w_sent w \<Longrightarrow> published_run w w'"
  by (simp add: published_run_def)

lemma published_run_audit: "published_run w w' \<Longrightarrow> published_run w (audit_log g c x y z m w')"
  by (simp add: published_run_def announces_row_def)

lemma created_run_row:
  assumes "fst (db_write (runs_create u n t a inputs tr) w) = Inr r"
  shows "rn_id r = u \<and> rn_tenant r = t \<and> rn_agent r = a \<and> rn_status r = StatusPending \<and>
    rn_inputs r = inputs \<and> rn_trace r = null_if_empty tr \<and>
    r \<in> set (d_runs (w_db (snd (db_write (runs_create u n t a inputs tr) w))))"
proof -
  let ?f = "runs_create u n t a inputs tr"
  note w = db_write_Inr [OF assms]
  then have "?f (w_db w) = (Inr r, snd (?f (w_db w)))" by (metis prod.collapse)
  from runs_create_Inr [OF this] w show ?thesis by auto
qed

lemma publish_created_run:
  assumes r: "fst (db_write (runs_create (g_uuid g) n t (ag_id a) inputs (g_trace g)) w) = Inr r"
    and db: "w_db w2 = w_db (snd (db_write (runs_create (g_uuid g) n t (ag_id a) inputs (g_trace g)) w))"
    and sent: "w_sent w2 = w_sent w0" and run: "runnable a"
  shows "published_run w0 (snd (publish SubjectRunRequested
    (marshal_run_requested (run_event g t a r inputs s)) w2))"
proof -
  let ?e = "run_event g t a r inputs s"
  have "announces_row ?e (w_db w2)"
    using created_run_row [OF r] run unfolding db announces_row_def
    by (auto simp: run_event_def runnable_def)
  then show ?thesis
    using publish_sent [of SubjectRunRequested "marshal_run_requested ?e" w2] sent
    by (auto simp: published_run_def)
qed

lemma requested_event_wire:
  assumes "g_trace_ctx g \<noteq> Some []"
  shows "unmarshal_run_requested (Some (marshal_run_requested (run_event g t a r inputs s))) =
    Some (run_event g t a r inputs s)"
  using assms by (intro run_requested_wire) (simp add: run_requested_sendable_def run_event_def)

section \<open>Properties\<close>

text \<open>
  C4: whatever fails on the way (the database, the cluster or the bus, lost acknowledgements
  included), triggering a run publishes at most one message, and the message names a pending
  row that is in the database, with the same tenant, agent, inputs and trace: the row is
  written first and published after.
\<close>

theorem trigger_publishes_only_stored_runs:
  "published_run w (snd (trigger_handler Ko bo g c agent n bdy w))"
proof (cases c)
  case None
  then show ?thesis by (simp add: trigger_handler_def from_context_def published_run_refl)
next
  case (Some i)
  show ?thesis
    unfolding trigger_handler_def from_context_def Some split_beta option.case
    by (auto intro: published_run_refl intro!: published_run_audit publish_created_run
        split: sum.split option.split)
qed

text \<open>
  Triggering a run answers 202 only when the agent belongs to the caller's tenant and is
  runnable and the pending row and its message are both written; the answer shows that row.
\<close>

lemma trigger_accepted:
  assumes "fst (fst (trigger_handler Ko bo g c agent n bdy w)) = 202"
  shows "\<exists>i a r s. c = Some i \<and> agents_get (id_tenant i) agent (w_db w) = Inr a \<and> runnable a \<and>
    fst (trigger_handler Ko bo g c agent n bdy w) = write_json 202 (run_dto r) \<and>
    r \<in> set (d_runs (w_db (snd (trigger_handler Ko bo g c agent n bdy w)))) \<and>
    rn_id r = g_uuid g \<and> rn_tenant r = id_tenant i \<and> rn_agent r = agent \<and> rn_status r = StatusPending \<and>
    trigger_inputs n bdy = Some (rn_inputs r) \<and>
    w_sent (snd (trigger_handler Ko bo g c agent n bdy w)) = w_sent w @
      [(SubjectRunRequested, marshal_run_requested (run_event g (id_tenant i) a r (rn_inputs r) s))]"
proof -
  obtain i where i: "c = Some i"
    using assms by (auto simp: trigger_handler_def from_context_def split: option.splits)
  let ?q = "agents_get (id_tenant i) agent"
  obtain a where a: "fst (db_read ?q w) = Inr a"
    using assms i
    by (cases "fst (db_read ?q w)")
      (auto simp: trigger_handler_def from_context_def split_beta split: if_splits)
  have run: "runnable a"
    using assms i a by (auto simp: trigger_handler_def from_context_def split_beta split: if_splits)
  obtain inputs where inp: "trigger_inputs n bdy = Some inputs"
    using assms i a run
    by (cases "trigger_inputs n bdy") (auto simp: trigger_handler_def from_context_def split_beta)
  let ?w1 = "snd (db_read ?q w)"
  let ?cr = "db_write (runs_create (g_uuid g) (g_now g) (id_tenant i) (ag_id a) inputs (g_trace g)) ?w1"
  obtain r where r: "fst ?cr = Inr r"
    using assms i a run inp
    by (cases "fst ?cr") (auto simp: trigger_handler_def from_context_def split_beta)
  let ?p = "project_run_secrets Ko bo (id_tenant i) (m_secrets (ag_manifest a)) (rn_id r) (snd ?cr)"
  obtain s where s: "fst ?p = Inr s"
    using assms i a run inp r
    by (cases "fst ?p") (auto simp: trigger_handler_def from_context_def split_beta)
  let ?pub = "publish SubjectRunRequested
    (marshal_run_requested (run_event g (id_tenant i) a r inputs s)) (snd ?p)"
  have ok: "fst ?pub = Inr ()"
    using assms i a run inp r s
    by (cases "fst ?pub") (auto simp: trigger_handler_def from_context_def split_beta)
  note row = created_run_row [OF r]
  have "fst (trigger_handler Ko bo g c agent n bdy w) = write_json 202 (run_dto r)"
    "r \<in> set (d_runs (w_db (snd (trigger_handler Ko bo g c agent n bdy w))))"
    "w_sent (snd (trigger_handler Ko bo g c agent n bdy w)) = w_sent w @
      [(SubjectRunRequested, marshal_run_requested (run_event g (id_tenant i) a r inputs s))]"
    using i a run inp r s ok row publish_Inr [OF ok]
    by (simp_all add: trigger_handler_def from_context_def split_beta)
  moreover note db_read_Inr [OF a] agents.get_Inr [OF db_read_Inr [OF a]]
  ultimately show ?thesis
    using i run inp row by (intro exI [of _ i] exI [of _ a] exI [of _ r] exI [of _ s]) auto
qed

end
