(* ===== verification/Triggers_Repo.thy ===== *)
theory Triggers_Repo
  imports Agents_Repo Cryptobox
begin

text \<open>
  \<open>internal/triggers/repo.go\<close>: the triggers table. Creating a webhook trigger draws a
  32-byte secret, returns it once in hex and stores it sealed; the receiver opens it again
  to verify signatures.
\<close>

definition KindWebhook :: string where "KindWebhook = ''webhook''"
definition KindCron :: string where "KindCron = ''cron''"

lemmas trigger_kind_defs = KindWebhook_def KindCron_def

text \<open>The checks that \<open>Create\<close> makes before it touches the database.\<close>

definition trigger_request_error :: "string \<Rightarrow> string \<Rightarrow> string \<Rightarrow> error option" where
  "trigger_request_error kind name cron =
     (if name = [] then Some (ErrText ''triggers: name required'')
      else if kind = KindWebhook then None
      else if kind = KindCron then
        (if cron = [] then Some (ErrText ''triggers: cronExpr required for kind=cron'') else None)
      else Some (ErrText ''triggers: unknown kind''))"

text \<open>The row of a new trigger and the plaintext secret, from 32 random bytes and a nonce.\<close>

definition new_trigger ::
  "box \<Rightarrow> string \<Rightarrow> string \<Rightarrow> string \<Rightarrow> gotime \<Rightarrow> string \<Rightarrow> string \<Rightarrow> string \<Rightarrow> string \<Rightarrow> string
    \<Rightarrow> trigger \<times> string" where
  "new_trigger b raw nonce uuid now tenant agent kind name cron =
     (let plain = (if kind = KindWebhook then hex_encode raw else [])
      in (\<lparr>tg_id = uuid, tg_tenant = tenant, tg_agent = agent, tg_kind = kind, tg_name = name,
           tg_cron = null_if_empty cron,
           tg_sealed = (if kind = KindWebhook then Some (seal b nonce plain) else None),
           tg_created = now\<rparr>, plain))"

definition triggers_create ::
  "box \<Rightarrow> string \<Rightarrow> string \<Rightarrow> string \<Rightarrow> gotime \<Rightarrow> string \<Rightarrow> string \<Rightarrow> string \<Rightarrow> string \<Rightarrow> string
    \<Rightarrow> database \<Rightarrow> (error + trigger \<times> string) \<times> database" where
  "triggers_create b raw nonce uuid now tenant agent kind name cron d =
     (case trigger_request_error kind name cron of
        Some e \<Rightarrow> (Inl e, d)
      | None \<Rightarrow>
          (let (t, plain) = new_trigger b raw nonce uuid now tenant agent kind name cron
           in if \<exists>u\<in>set (d_triggers d). tg_id u = uuid \<or> (tg_agent u = agent \<and> tg_name u = name)
              then (Inl pg_unique, d)
              else if \<not> tenant_exists tenant d \<or> \<not> agent_exists agent d then (Inl pg_foreign, d)
              else (Inr (t, plain), d\<lparr>d_triggers := d_triggers d @ [t]\<rparr>)))"

definition triggers_list :: "string \<Rightarrow> string \<Rightarrow> database \<Rightarrow> trigger list" where
  "triggers_list tenant agent d =
     order_desc tg_created (filter (\<lambda>t. tg_tenant t = tenant \<and> tg_agent t = agent) (d_triggers d))"

definition find_webhook :: "box \<Rightarrow> string \<Rightarrow> string \<Rightarrow> database \<Rightarrow> error + trigger \<times> string" where
  "find_webhook b agent name d =
     (case find_row (\<lambda>t. tg_agent t = agent \<and> tg_name t = name \<and> tg_kind t = KindWebhook)
             (d_triggers d) of
        None \<Rightarrow> Inl ErrNotFound
      | Some t \<Rightarrow>
          (if coalesce_str (tg_sealed t) = [] then Inl (ErrText ''webhook secret missing'')
           else (case open_box b (coalesce_str (tg_sealed t)) of
                   Inl e \<Rightarrow> Inl (ErrText (box_error_text e))
                 | Inr plain \<Rightarrow> Inr (t, plain))))"

definition list_all_cron :: "database \<Rightarrow> trigger list" where
  "list_all_cron d = sort_key tg_created (filter (\<lambda>t. tg_kind t = KindCron) (d_triggers d))"

section \<open>Lemmas\<close>

lemma triggers_create_Inr:
  "triggers_create b raw nonce uuid now tenant agent kind name cron d = (Inr (t, plain), d') \<Longrightarrow>
    (t, plain) = new_trigger b raw nonce uuid now tenant agent kind name cron \<and>
    d' = d\<lparr>d_triggers := d_triggers d @ [t]\<rparr> \<and>
    trigger_request_error kind name cron = None \<and>
    (\<forall>u\<in>set (d_triggers d). tg_id u \<noteq> uuid \<and> \<not> (tg_agent u = agent \<and> tg_name u = name)) \<and>
    tenant_exists tenant d \<and> agent_exists agent d"
  by (auto simp: triggers_create_def split: option.splits prod.splits if_splits)

lemma triggers_create_Inl:
  "triggers_create b raw nonce uuid now tenant agent kind name cron d = (Inl e, d') \<Longrightarrow> d' = d"
  by (auto simp: triggers_create_def split: option.splits prod.splits if_splits)

lemma new_trigger_fields:
  "(t, plain) = new_trigger b raw nonce uuid now tenant agent kind name cron \<Longrightarrow>
    tg_id t = uuid \<and> tg_tenant t = tenant \<and> tg_agent t = agent \<and> tg_kind t = kind \<and>
    tg_name t = name \<and> tg_cron t = null_if_empty cron \<and> tg_created t = now \<and>
    tg_sealed t = (if kind = KindWebhook then Some (seal b nonce plain) else None) \<and>
    plain = (if kind = KindWebhook then hex_encode raw else [])"
  by (auto simp: new_trigger_def Let_def)

lemma insert_trigger_ok:
  assumes "db_ok d" and "\<forall>u\<in>set (d_triggers d). tg_id u \<noteq> tg_id t \<and>
      \<not> (tg_agent u = tg_agent t \<and> tg_name u = tg_name t)"
    and "tenant_exists (tg_tenant t) d" and "agent_exists (tg_agent t) d" and "tg_kind t \<in> set trigger_kinds"
  shows "db_ok (d\<lparr>d_triggers := d_triggers d @ [t]\<rparr>)"
proof -
  let ?d = "d\<lparr>d_triggers := d_triggers d @ [t]\<rparr>"
  have "tenant_exists i ?d = tenant_exists i d" "agent_exists i ?d = agent_exists i d"
    "run_exists i ?d = run_exists i d" for i
    by (simp_all add: tenant_exists_def agent_exists_def run_exists_def)
  moreover have "keys_ok ?d"
    using assms(1,2) by (auto simp: db_ok_def keys_ok_def)
  ultimately show ?thesis
    using assms(1,3-5) by (auto simp: db_ok_def status_ok_def refs_ok_def usage_ok_def)
qed

lemma triggers_create_ok:
  assumes "db_ok d"
    and "triggers_create b raw nonce uuid now tenant agent kind name cron d = (res, d')"
  shows "db_ok d'"
proof (cases res)
  case (Inl e)
  with assms triggers_create_Inl show ?thesis by blast
next
  case (Inr x)
  obtain t plain where x: "x = (t, plain)" by (cases x)
  with Inr assms(2) triggers_create_Inr have c:
    "(t, plain) = new_trigger b raw nonce uuid now tenant agent kind name cron"
    "d' = d\<lparr>d_triggers := d_triggers d @ [t]\<rparr>"
    "\<forall>u\<in>set (d_triggers d). tg_id u \<noteq> uuid \<and> \<not> (tg_agent u = agent \<and> tg_name u = name)"
    "tenant_exists tenant d" "agent_exists agent d" by blast+
  have "kind \<in> set trigger_kinds"
    using assms(2) Inr
    by (auto simp: triggers_create_def trigger_request_error_def trigger_kinds_def KindWebhook_def KindCron_def
        split: if_splits)
  with new_trigger_fields [OF c(1)] c(3-5) show ?thesis
    unfolding c(2) by (intro insert_trigger_ok [OF assms(1)]) simp_all
qed

text \<open>The secret that the receiver opens is the one that creation returned.\<close>

lemma find_webhook_created:
  assumes "aead_correct (box_aead b)" and "length nonce = nonce_size (box_aead b)"
    and "triggers_create b raw nonce uuid now tenant agent KindWebhook name cron d =
      (Inr (t, plain), d')"
  shows "find_webhook b agent name d' = Inr (t, plain)"
proof -
  note c = triggers_create_Inr [OF assms(3)]
  then have f: "tg_agent t = agent" "tg_name t = name" "tg_kind t = KindWebhook"
    "tg_sealed t = Some (seal b nonce plain)"
    using new_trigger_fields [of t plain b raw nonce uuid now tenant agent KindWebhook name cron]
    by simp_all
  have "find_row (\<lambda>t. tg_agent t = agent \<and> tg_name t = name \<and> tg_kind t = KindWebhook)
      (d_triggers d) = None"
    using c unfolding find_row_None_iff by blast
  then have "find_row (\<lambda>t. tg_agent t = agent \<and> tg_name t = name \<and> tg_kind t = KindWebhook)
      (d_triggers d') = Some t"
    using c f by (simp add: find_row_append)
  moreover have "open_box b (seal b nonce plain) = Inr plain"
    by (rule open_box_seal [OF assms(1,2)])
  moreover have "seal b nonce plain \<noteq> []"
    using assms(1,2) by (auto simp: seal_def b64_encode_Nil_iff aead_correct_def)
  ultimately show ?thesis
    using f by (simp add: find_webhook_def coalesce_str_def)
qed

lemma triggers_create_keeps [keeps]: "db_ok d \<Longrightarrow> db_ok (snd (triggers_create b raw nonce uuid now tenant agent kind name cron d))"
  by (rule triggers_create_ok, assumption, rule surjective_pairing)

end
