(* ===== verification/Triggers_Api.thy ===== *)
theory Triggers_Api
  imports Runs_Api Triggers_Repo
begin

text \<open>
  \<open>internal/triggers/handlers.go\<close>: creation and listing of triggers, and the public webhook
  receiver, which verifies an HMAC of the body before anything else happens. HMAC-SHA256 and
  the parsing of JSON text are parameters: \<open>hmac key msg\<close> and \<open>parse bytes\<close>.
\<close>

section \<open>Create and list\<close>

record trigger_request =
  tq_kind :: string
  tq_name :: string
  tq_cron :: string

definition unmarshal_trigger_request :: "wire \<Rightarrow> trigger_request option" where
  "unmarshal_trigger_request = unmarshal
     [(''kind'', set_str (\<lambda>x r. r\<lparr>tq_kind := x\<rparr>)), (''name'', set_str (\<lambda>x r. r\<lparr>tq_name := x\<rparr>)),
      (''cron'', set_str (\<lambda>x r. r\<lparr>tq_cron := x\<rparr>))]
     \<lparr>tq_kind = [], tq_name = [], tq_cron = []\<rparr>"

text \<open>The secret is part of the answer only where \<open>shown\<close> is: on creation.\<close>

definition trigger_dto :: "trigger \<Rightarrow> string \<Rightarrow> json" where
  "trigger_dto t shown = JObj (
     always ''id'' (JStr (tg_id t)) @
     always ''agentId'' (JStr (tg_agent t)) @
     always ''kind'' (JStr (tg_kind t)) @
     always ''name'' (JStr (tg_name t)) @
     omit_str ''cron'' (coalesce_str (tg_cron t)) @
     always ''createdAt'' (JTime (tg_created t)) @
     omit_str ''webhookSecret'' shown)"

definition triggers_create_handler ::
  "box \<Rightarrow> gen \<Rightarrow> ctx \<Rightarrow> string \<Rightarrow> wire \<Rightarrow> 'k world \<Rightarrow> response \<times> 'k world" where
  "triggers_create_handler b g c agent req_body w =
     (case from_context c of
        None \<Rightarrow> (unauthorized, w)
      | Some i \<Rightarrow>
          (case db_read (agents_get (id_tenant i) agent) w of
             (Inl e, w1) \<Rightarrow> (agent_err e, w1)
           | (Inr a, w1) \<Rightarrow>
               (case unmarshal_trigger_request req_body of
                  None \<Rightarrow> (http_error (''bad request: '' @ g_json_error g) 400, w1)
                | Some req \<Rightarrow>
                    (case db_write (triggers_create b (g_random g) (g_nonce g) (g_uuid g) (g_now g)
                             (id_tenant i) agent (tq_kind req) (tq_name req) (tq_cron req)) w1 of
                       (Inl e, w2) \<Rightarrow> (http_error (err_text e) 400, w2)
                     | (Inr (t, plain), w2) \<Rightarrow>
                         (write_json 201 (trigger_dto t plain),
                          audit_log g c ''create'' ''trigger'' (tg_id t)
                            (Some (JObj [(''agentId'', JStr agent), (''kind'', JStr (tg_kind t)),
                               (''name'', JStr (tg_name t))])) w2)))))"

definition triggers_list_handler :: "ctx \<Rightarrow> string \<Rightarrow> 'k world \<Rightarrow> response \<times> 'k world" where
  "triggers_list_handler c agent w =
     (case from_context c of
        None \<Rightarrow> (unauthorized, w)
      | Some i \<Rightarrow>
          (case db_read (agents_get (id_tenant i) agent) w of
             (Inl e, w1) \<Rightarrow> (agent_err e, w1)
           | (Inr a, w1) \<Rightarrow>
               (case db_read (\<lambda>d. Inr (triggers_list (id_tenant i) agent d)) w1 of
                  (Inl e, w2) \<Rightarrow> (http_error (err_text e) 500, w2)
                | (Inr rows, w2) \<Rightarrow>
                    (write_json 200
                       (JObj [(''triggers'', JArr (map (\<lambda>t. trigger_dto t []) rows))]), w2))))"

section \<open>The webhook receiver\<close>

definition zero_bytes :: "nat \<Rightarrow> string" where
  "zero_bytes n = replicate n (CHR 0x00)"

definition verify_signature :: "(string \<Rightarrow> string \<Rightarrow> string) \<Rightarrow> string \<Rightarrow> string \<Rightarrow> string \<Rightarrow> bool" where
  "verify_signature hmac header bytes secret =
     (if header = [] then False
      else if \<not> has_prefix header ''sha256='' then False
      else (case hex_decode (drop (length ''sha256='') header) of
              None \<Rightarrow> False
            | Some want \<Rightarrow> want = hmac secret bytes \<and> want \<noteq> [] \<and> want \<noteq> zero_bytes (length want)))"

definition body_limit :: nat where "body_limit = 1024 * 1024"

text \<open>\<open>json.Unmarshal(body, &inputs)\<close> with its error ignored: an object, or nothing.\<close>

definition webhook_inputs :: "(string \<Rightarrow> wire) \<Rightarrow> string \<Rightarrow> json_obj option" where
  "webhook_inputs parse bytes =
     (if bytes = [] then None
      else (case parse bytes of Some (JObj es) \<Rightarrow> Some es | _ \<Rightarrow> None))"

text \<open>\<open>bytes\<close> is the body as sent, \<open>None\<close> when reading it fails.\<close>

definition webhook_handler ::
  "(string \<Rightarrow> string \<Rightarrow> string) \<Rightarrow> (string \<Rightarrow> wire) \<Rightarrow> box \<Rightarrow> gen \<Rightarrow> ctx \<Rightarrow> string \<Rightarrow> string
    \<Rightarrow> string \<Rightarrow> string option \<Rightarrow> 'k world \<Rightarrow> response \<times> 'k world" where
  "webhook_handler hmac parse b g c agent name header bytes w =
     (case db_read (find_webhook b agent name) w of
        (Inl e, w1) \<Rightarrow>
          if is_not_found e then (http_error ''not found'' 404, w1)
          else (http_error (err_text e) 500, w1)
      | (Inr (t, secret), w1) \<Rightarrow>
          (case bytes of
             None \<Rightarrow> (http_error ''bad request'' 400, w1)
           | Some sent \<Rightarrow>
               if \<not> verify_signature hmac header (take body_limit sent) secret then
                 (http_error ''bad signature'' 401, w1)
               else
                 (case db_read (agents_get (tg_tenant t) agent) w1 of
                    (Inl e, w2) \<Rightarrow> (agent_err e, w2)
                  | (Inr a, w2) \<Rightarrow>
                      if \<not> runnable a then (http_error ''agent not runnable in v1 spine'' 422, w2)
                      else
                        (case db_write (runs_create (g_uuid g) (g_now g) (tg_tenant t) (ag_id a)
                                 (webhook_inputs parse (take body_limit sent)) (g_trace g)) w2 of
                           (Inl e, w3) \<Rightarrow> (http_error (err_text e) 500, w3)
                         | (Inr r, w3) \<Rightarrow>
                             (case publish SubjectRunRequested
                                     (marshal_run_requested
                                       (run_event g (tg_tenant t) a r
                                          (webhook_inputs parse (take body_limit sent)) [])) w3 of
                                (Inl e, w4) \<Rightarrow> (http_error (''queue: '' @ err_text e) 502, w4)
                              | (Inr _, w4) \<Rightarrow>
                                  (write_json 202 (JObj [(''runId'', JStr (rn_id r))]),
                                   audit_log g
                                     (with_identity c \<lparr>id_tenant = tg_tenant t,
                                        id_user = ''webhook:'' @ tg_name t\<rparr>)
                                     ''invoke'' ''trigger'' (tg_id t)
                                     (Some (JObj [(''agentId'', JStr (ag_id a)),
                                        (''runId'', JStr (rn_id r))])) w4))))))"

section \<open>Lemmas\<close>

lemma verify_signature_iff:
  "verify_signature hmac header bytes secret \<longleftrightarrow>
     (\<exists>hex. header = ''sha256='' @ hex \<and> hex_decode hex = Some (hmac secret bytes)) \<and>
     hmac secret bytes \<noteq> zero_bytes (length (hmac secret bytes))"
proof (cases "has_prefix header ''sha256=''")
  case True
  then obtain hex where h: "header = ''sha256='' @ hex" by (auto simp: has_prefix_iff)
  have "drop (length ''sha256='') header = hex" unfolding h
    by (rule append_eq_conv_conj [THEN iffD1, THEN conjunct2, symmetric, OF refl])
  with True h show ?thesis
    by (auto simp: verify_signature_def zero_bytes_def split: option.splits)
qed (auto simp: verify_signature_def has_prefix_iff)

text \<open>The signature that a sender of the secret computes is accepted.\<close>

lemma verify_signature_signed:
  "hmac secret bytes \<noteq> zero_bytes (length (hmac secret bytes)) \<Longrightarrow>
    verify_signature hmac (''sha256='' @ hex_encode (hmac secret bytes)) bytes secret"
  unfolding verify_signature_iff using hex_decode_encode [of "hmac secret bytes"] by blast

text \<open>Whether the request carries the HMAC of its bytes under the secret stored for the trigger.\<close>

definition webhook_signed ::
  "(string \<Rightarrow> string \<Rightarrow> string) \<Rightarrow> box \<Rightarrow> string \<Rightarrow> string \<Rightarrow> string \<Rightarrow> string option \<Rightarrow> database \<Rightarrow> bool" where
  "webhook_signed hmac b agent name header bytes d \<longleftrightarrow>
     (\<exists>t secret sent hex. find_webhook b agent name d = Inr (t, secret) \<and> bytes = Some sent \<and>
        header = ''sha256='' @ hex \<and> hex_decode hex = Some (hmac secret (take body_limit sent)))"

lemma webhook_unsigned:
  assumes "\<not> webhook_signed hmac b agent name header bytes (w_db w)"
  shows "fst (fst (webhook_handler hmac parse b g c agent name header bytes w)) \<in> {400, 401, 404, 500} \<and>
    w_db (snd (webhook_handler hmac parse b g c agent name header bytes w)) = w_db w \<and>
    w_kube (snd (webhook_handler hmac parse b g c agent name header bytes w)) = w_kube w \<and>
    w_sent (snd (webhook_handler hmac parse b g c agent name header bytes w)) = w_sent w \<and>
    w_raw (snd (webhook_handler hmac parse b g c agent name header bytes w)) = w_raw w"
proof (cases "fst (db_read (find_webhook b agent name) w)")
  case (Inl e)
  then show ?thesis by (simp add: webhook_handler_def split_beta)
next
  case (Inr ts)
  obtain t secret where ts: "ts = (t, secret)" by (cases ts)
  note f = db_read_Inr [OF Inr [unfolded ts]]
  show ?thesis
  proof (cases bytes)
    case None
    with Inr show ?thesis by (simp add: webhook_handler_def split_beta)
  next
    case (Some sent)
    have "\<not> verify_signature hmac header (take body_limit sent) secret"
      using assms f Some unfolding webhook_signed_def verify_signature_iff by blast
    with Inr ts Some show ?thesis by (simp add: webhook_handler_def split_beta)
  qed
qed

section \<open>Properties\<close>

text \<open>
  C11: the public webhook receiver has no effect on the database or the bus, and answers with
  an error, unless the header carries the HMAC of the received bytes (cut at one MiB) under
  the secret stored for that agent and trigger name.
\<close>

theorem webhook_requires_signature:
  assumes "\<not> webhook_signed hmac b agent name header bytes (w_db w)"
  shows "fst (fst (webhook_handler hmac parse b g c agent name header bytes w)) \<in> {400, 401, 404, 500} \<and>
    w_db (snd (webhook_handler hmac parse b g c agent name header bytes w)) = w_db w \<and>
    w_sent (snd (webhook_handler hmac parse b g c agent name header bytes w)) = w_sent w"
  using webhook_unsigned [OF assms] by blast

definition sample_box :: box where
  "sample_box = \<lparr>box_aead = tag_aead, box_key = replicate 32 (CHR ''k'')\<rparr>"

theorem webhook_requires_signature_witness:
  "fst (fst (webhook_handler (\<lambda>k m. k @ m) (\<lambda>_. None) sample_box sample_gen None ''a'' ''hook'' ''sha256=00'' (Some ''x'')
     (quiet_world sample_db ()))) \<in> {400, 401, 404, 500} \<and>
   w_db (snd (webhook_handler (\<lambda>k m. k @ m) (\<lambda>_. None) sample_box sample_gen None ''a'' ''hook'' ''sha256=00'' (Some ''x'')
     (quiet_world sample_db ()))) = w_db (quiet_world sample_db ()) \<and>
   w_sent (snd (webhook_handler (\<lambda>k m. k @ m) (\<lambda>_. None) sample_box sample_gen None ''a'' ''hook'' ''sha256=00'' (Some ''x'')
     (quiet_world sample_db ()))) = w_sent (quiet_world sample_db ())"
  by (rule webhook_requires_signature)
    (simp add: webhook_signed_def find_webhook_def quiet_world_def sample_db_def KindWebhook_def)

text \<open>
  Like a manual trigger, the webhook receiver publishes at most one message whatever
  fails, and the message names a pending row already in the database.
\<close>

lemma webhook_publishes_only_stored_runs:
  "published_run w (snd (webhook_handler hmac parse b g c agent name header bytes w))"
  unfolding webhook_handler_def split_beta
  by (auto intro: published_run_refl intro!: published_run_audit publish_created_run
      split: sum.split option.split)


definition sample_hook :: "(error + trigger \<times> string) \<times> database" where
  "sample_hook = triggers_create sample_box ''r'' (replicate 12 (CHR ''n'')) ''g2'' 1 ''t'' ''a''
     KindWebhook ''hook'' [] sample_db"


end
