(* ===== verification/Tenants_Repo.thy ===== *)
theory Tenants_Repo
  imports Contracts
begin

text \<open>
  \<open>internal/tenants/repo.go\<close>: lookup, upsert and delete of tenants. A delete cascades into
  every child table of the schema.
\<close>

definition tenants_get :: "string \<Rightarrow> database \<Rightarrow> error + tenant" where
  "tenants_get i d =
     (case find_row (\<lambda>t. tn_id t = i) (d_tenants d) of
        None \<Rightarrow> Inl ErrNotFound | Some t \<Rightarrow> Inr t)"

text \<open>
  \<open>INSERT ... ON CONFLICT (id) DO UPDATE SET slug, name\<close>: a slug that another tenant holds
  violates the unique key of the column.
\<close>

definition tenants_upsert ::
  "gotime \<Rightarrow> string \<Rightarrow> string \<Rightarrow> string \<Rightarrow> database \<Rightarrow> (error + tenant) \<times> database" where
  "tenants_upsert now i slug name d =
     (if \<exists>t\<in>set (d_tenants d). tn_slug t = slug \<and> tn_id t \<noteq> i then (Inl pg_unique, d)
      else (case find_row (\<lambda>t. tn_id t = i) (d_tenants d) of
              None \<Rightarrow>
                (let t = \<lparr>tn_id = i, tn_slug = slug, tn_name = name, tn_created = now\<rparr>
                 in (Inr t, d\<lparr>d_tenants := d_tenants d @ [t]\<rparr>))
            | Some t \<Rightarrow>
                (Inr (t\<lparr>tn_slug := slug, tn_name := name\<rparr>),
                 d\<lparr>d_tenants := update_where (\<lambda>t. tn_id t = i)
                      (\<lambda>t. t\<lparr>tn_slug := slug, tn_name := name\<rparr>) (d_tenants d)\<rparr>)))"

definition tenants_delete :: "string \<Rightarrow> database \<Rightarrow> (error + unit) \<times> database" where
  "tenants_delete i d =
     (if tenant_exists i d then (Inr (), delete_tenants (\<lambda>t. tn_id t = i) d)
      else (Inl ErrNotFound, d))"

lemma tenants_get_after_upsert:
  assumes "tenants_upsert now i slug name d = (Inr t, d')"
  shows "tenants_get i d' = Inr t"
proof (cases "find_row (\<lambda>t. tn_id t = i) (d_tenants d)")
  case None
  with assms show ?thesis
    by (auto simp: tenants_upsert_def tenants_get_def Let_def find_row_append split: if_splits)
next
  case (Some r)
  then have "tn_id r = i" using find_row_SomeD by fastforce
  with assms Some show ?thesis
    by (auto simp: tenants_upsert_def tenants_get_def find_row_update_where split: if_splits)
qed

lemma tenants_upsert_twice:
  assumes "tenants_upsert now i slug name d = (Inr t, d')"
  shows "tenants_upsert now' i slug name d' = (Inr t, d')"
proof (cases "find_row (\<lambda>t. tn_id t = i) (d_tenants d)")
  case None
  have "update_where (\<lambda>t. tn_id t = i) (\<lambda>t. t\<lparr>tn_slug := slug, tn_name := name\<rparr>) (d_tenants d)
    = d_tenants d"
    using None by (intro update_where_cong_id) (auto simp: find_row_None_iff)
  moreover from None assms have "t = \<lparr>tn_id = i, tn_slug = slug, tn_name = name, tn_created = now\<rparr>"
    "d' = d\<lparr>d_tenants := d_tenants d @ [t]\<rparr>"
    and "\<forall>t\<in>set (d_tenants d). tn_slug t = slug \<longrightarrow> tn_id t = i"
    by (auto simp: tenants_upsert_def Let_def split: if_splits)
  ultimately show ?thesis
    using None by (simp add: tenants_upsert_def find_row_append update_where_def)
next
  case (Some r)
  let ?f = "\<lambda>t. t\<lparr>tn_slug := slug, tn_name := name\<rparr>"
  let ?rows = "update_where (\<lambda>t. tn_id t = i) ?f (d_tenants d)"
  from Some assms have t: "t = ?f r" and d': "d' = d\<lparr>d_tenants := ?rows\<rparr>"
    and slugs: "\<forall>t\<in>set (d_tenants d). tn_slug t = slug \<longrightarrow> tn_id t = i"
    by (auto simp: tenants_upsert_def split: if_splits)
  have "\<forall>t\<in>set ?rows. tn_slug t = slug \<longrightarrow> tn_id t = i"
    using slugs by (simp add: set_update_where ball_Un)
  then have "\<not> (\<exists>t\<in>set ?rows. tn_slug t = slug \<and> tn_id t \<noteq> i)" by blast
  moreover have "find_row (\<lambda>t. tn_id t = i) ?rows = Some t"
    using find_row_SomeD [OF Some] by (simp add: find_row_update_where Some t)
  moreover have "update_where (\<lambda>t. tn_id t = i) ?f ?rows = ?rows"
    by (rule update_where_twice) simp
  ultimately show ?thesis
    by (simp add: tenants_upsert_def d' t)
qed

lemma delete_tenants_gone:
  "tenants_get i (delete_tenants (\<lambda>t. tn_id t = i) d) = Inl ErrNotFound"
  by (auto simp: tenants_get_def delete_tenants_def Let_def find_row_None_iff split: option.splits
      dest: find_row_SomeD)

lemma delete_tenants_children:
  assumes "d' = delete_tenants (\<lambda>t. tn_id t = i) d" and "tenant_exists i d"
  shows "(\<forall>a\<in>set (d_agents d'). ag_tenant a \<noteq> i) \<and> (\<forall>r\<in>set (d_runs d'). rn_tenant r \<noteq> i) \<and>
    (\<forall>t\<in>set (d_triggers d'). tg_tenant t \<noteq> i) \<and> (\<forall>b\<in>set (d_builds d'). bd_tenant b \<noteq> i) \<and>
    (\<forall>u\<in>set (d_usage d'). us_tenant u \<noteq> i) \<and> (\<forall>s\<in>set (d_secrets d'). sc_tenant s \<noteq> i) \<and>
    (\<forall>e\<in>set (d_audit d'). au_tenant e \<noteq> i)"
proof -
  have "i \<in> tn_id ` set (filter (\<lambda>t. tn_id t = i) (d_tenants d))"
    using assms(2) by (auto simp: tenant_exists_def)
  then show ?thesis
    unfolding assms(1) delete_tenants_def Let_def by (auto simp: delete_agents_def Let_def)
qed

lemma delete_tenants_keeps_others:
  "r \<in> set (d_tenants (delete_tenants p d)) \<longleftrightarrow> r \<in> set (d_tenants d) \<and> \<not> p r"
  by (simp add: delete_tenants_def Let_def)

lemma tenant_exists_delete_tenants:
  "tenant_exists t d \<Longrightarrow> t \<notin> tn_id ` set (filter p (d_tenants d)) \<Longrightarrow>
    tenant_exists t (delete_tenants p d)"
  by (auto simp: tenant_exists_def delete_tenants_def Let_def)

lemma delete_tenants_keys: "keys_ok d \<Longrightarrow> keys_ok (delete_tenants p d)"
  using delete_agents_keys [of d "\<lambda>a. ag_tenant a \<in> tn_id ` set (filter p (d_tenants d))"]
  by (simp add: keys_ok_def delete_tenants_def Let_def distinct_map_delete_where)

lemma delete_tenants_status: "status_ok d \<Longrightarrow> status_ok (delete_tenants p d)"
  using delete_agents_status [of d "\<lambda>a. ag_tenant a \<in> tn_id ` set (filter p (d_tenants d))"]
  by (auto simp: status_ok_def delete_tenants_def Let_def)

lemma delete_tenants_refs:
  assumes "refs_ok d"
  shows "refs_ok (delete_tenants p d)"
proof -
  let ?gone = "tn_id ` set (filter p (d_tenants d))"
  let ?d1 = "delete_agents (\<lambda>a. ag_tenant a \<in> ?gone) d"
  let ?e = "delete_tenants p d"
  have r1: "refs_ok ?d1" by (rule delete_agents_refs [OF assms])
  have t: "tenant_exists t ?e" if "tenant_exists t ?d1" "t \<notin> ?gone" for t
    using that by (intro tenant_exists_delete_tenants) (simp_all add: tenant_exists_def)
  have a: "agent_exists i ?e = agent_exists i ?d1" for i
    by (simp add: agent_exists_def delete_tenants_def Let_def)
  have own: "ag_tenant x \<notin> ?gone" if "x \<in> set (d_agents ?d1)" for x
    using that by (simp add: delete_agents_def Let_def)
  have rows: "set (d_agents ?e) = set (d_agents ?d1)"
    "set (d_runs ?e) = {x \<in> set (d_runs ?d1). rn_tenant x \<notin> ?gone}"
    "set (d_triggers ?e) = {x \<in> set (d_triggers ?d1). tg_tenant x \<notin> ?gone}"
    "set (d_builds ?e) = {x \<in> set (d_builds ?d1). bd_tenant x \<notin> ?gone}"
    "set (d_secrets ?e) = {x \<in> set (d_secrets ?d1). sc_tenant x \<notin> ?gone}"
    "set (d_audit ?e) = {x \<in> set (d_audit ?d1). au_tenant x \<notin> ?gone}"
    by (simp_all add: delete_tenants_def Let_def)
  show ?thesis
    unfolding refs_ok_def rows a using r1 [unfolded refs_ok_def] t own by blast
qed

lemma delete_tenants_usage:
  assumes "usage_ok d"
  shows "usage_ok (delete_tenants p d)"
proof -
  let ?gone = "tn_id ` set (filter p (d_tenants d))"
  let ?d1 = "delete_agents (\<lambda>a. ag_tenant a \<in> ?gone) d"
  let ?runs = "rn_id ` set (filter (\<lambda>r. rn_tenant r \<in> ?gone) (d_runs ?d1))"
  let ?us = "delete_where (\<lambda>u. us_tenant u \<in> ?gone) (d_usage ?d1)"
  have u1: "usage_ok ?d1" by (rule delete_agents_usage [OF assms])
  have us: "d_usage (delete_tenants p d) = map (clear_usage {} ?runs) ?us"
    by (simp add: delete_tenants_def Let_def)
  have "distinct (map (\<lambda>u. (us_run u, us_kind u)) (filter (\<lambda>u. us_run u \<noteq> None \<and> the (us_run u) \<notin> ?runs) ?us))"
    unfolding delete_where_def filter_filter
    by (rule distinct_map_filter_mono [of _ "\<lambda>u. us_run u \<noteq> None"])
      (use u1 in \<open>auto simp: usage_ok_def\<close>)
  then have "distinct (map (\<lambda>u. (us_run u, us_kind u))
      (filter (\<lambda>u. us_run u \<noteq> None) (d_usage (delete_tenants p d))))"
    unfolding us clear_usage_index .
  moreover have "tenant_exists (us_tenant u) (delete_tenants p d) \<and> us_kind u \<in> set usage_kinds \<and>
      (\<forall>a. us_agent u = Some a \<longrightarrow> agent_exists a (delete_tenants p d)) \<and>
      (\<forall>r. us_run u = Some r \<longrightarrow> run_exists r (delete_tenants p d))"
    if u: "u \<in> set (d_usage (delete_tenants p d))" for u
  proof -
    from u us obtain v where v: "v \<in> set (d_usage ?d1)" "us_tenant v \<notin> ?gone"
      "u = clear_usage {} ?runs v" by auto
    from u1 v have v1: "tenant_exists (us_tenant v) ?d1" "us_kind v \<in> set usage_kinds"
      "\<And>a. us_agent v = Some a \<Longrightarrow> agent_exists a ?d1" "\<And>r. us_run v = Some r \<Longrightarrow> run_exists r ?d1"
      by (auto simp: usage_ok_def)
    have "tenant_exists (us_tenant v) d" using v1(1) by (simp add: tenant_exists_def)
    then have "tenant_exists (us_tenant v) (delete_tenants p d)"
      using v(2) by (rule tenant_exists_delete_tenants)
    moreover have "agent_exists a (delete_tenants p d)" if "agent_exists a ?d1" for a
      using that by (simp add: agent_exists_def delete_tenants_def Let_def)
    moreover have "run_exists r (delete_tenants p d)" if "run_exists r ?d1" "r \<notin> ?runs" for r
      using that unfolding run_exists_def delete_tenants_def Let_def by auto
    ultimately show ?thesis
      using v1(2-4) unfolding v(3) by (auto dest!: clear_usage_agentD clear_usage_runD)
  qed
  ultimately show ?thesis by (simp add: usage_ok_def)
qed

lemma tenants_delete_keeps [keeps]: "db_ok d \<Longrightarrow> db_ok (snd (tenants_delete i d))"
  by (simp add: tenants_delete_def db_ok_def delete_tenants_keys delete_tenants_status
      delete_tenants_refs delete_tenants_usage)

lemma replace_tenants_ok:
  assumes "db_ok d" and "distinct (map tn_id ts)" and "distinct (map tn_slug ts)"
    and "tn_id ` set (d_tenants d) \<subseteq> tn_id ` set ts"
  shows "db_ok (d\<lparr>d_tenants := ts\<rparr>)"
proof -
  have "tenant_exists i d \<Longrightarrow> tenant_exists i (d\<lparr>d_tenants := ts\<rparr>)" for i
    using assms(4) by (auto simp: tenant_exists_def)
  moreover have "agent_exists i (d\<lparr>d_tenants := ts\<rparr>) = agent_exists i d"
    "run_exists i (d\<lparr>d_tenants := ts\<rparr>) = run_exists i d" for i
    by (simp_all add: agent_exists_def run_exists_def)
  ultimately show ?thesis
    using assms(1-3) by (simp add: db_ok_def keys_ok_def status_ok_def refs_ok_def usage_ok_def)
qed

lemma distinct_slugs_update:
  assumes "distinct (map tn_slug ts)" and "distinct (map tn_id ts)"
    and "\<forall>t\<in>set ts. tn_slug t = slug \<longrightarrow> tn_id t = i"
  shows "distinct (map tn_slug (update_where (\<lambda>t. tn_id t = i)
    (\<lambda>t. t\<lparr>tn_slug := slug, tn_name := name\<rparr>) ts))"
  using assms
proof (induction ts)
  case (Cons a ts)
  show ?case
  proof (cases "tn_id a = i")
    case True
    have "update_where (\<lambda>t. tn_id t = i) (\<lambda>t. t\<lparr>tn_slug := slug, tn_name := name\<rparr>) ts = ts"
      using Cons.prems(2) True by (intro update_where_cong_id) (auto simp: image_iff)
    moreover have "slug \<notin> tn_slug ` set ts" using Cons.prems(2,3) True by (force simp: image_iff)
    ultimately show ?thesis using Cons.prems(1) True by simp
  next
    case False
    with Cons show ?thesis by (auto simp: set_update_where)
  qed
qed simp

lemma tenants_upsert_keeps [keeps]:
  assumes "db_ok d"
  shows "db_ok (snd (tenants_upsert now i slug name d))"
proof (cases "\<exists>t\<in>set (d_tenants d). tn_slug t = slug \<and> tn_id t \<noteq> i")
  case True
  with assms show ?thesis by (simp add: tenants_upsert_def)
next
  case False
  have keys: "distinct (map tn_id (d_tenants d))" "distinct (map tn_slug (d_tenants d))"
    using assms by (auto simp: db_ok_def keys_ok_def)
  show ?thesis
  proof (cases "find_row (\<lambda>t. tn_id t = i) (d_tenants d)")
    case None
    let ?t = "\<lparr>tn_id = i, tn_slug = slug, tn_name = name, tn_created = now\<rparr>"
    have "db_ok (d\<lparr>d_tenants := d_tenants d @ [?t]\<rparr>)"
      using None False keys by (intro replace_tenants_ok [OF assms]) (auto simp: find_row_None_iff)
    with assms None show ?thesis by (simp add: tenants_upsert_def Let_def)
  next
    case (Some r)
    let ?ts = "update_where (\<lambda>t. tn_id t = i) (\<lambda>t. t\<lparr>tn_slug := slug, tn_name := name\<rparr>) (d_tenants d)"
    have ids: "map tn_id ?ts = map tn_id (d_tenants d)" by (simp add: map_update_where)
    have "tn_id ` set (d_tenants d) \<subseteq> tn_id ` set ?ts"
      using arg_cong [OF ids, of set] by simp
    moreover have "\<forall>t\<in>set (d_tenants d). tn_slug t = slug \<longrightarrow> tn_id t = i" using False by blast
    ultimately have "db_ok (d\<lparr>d_tenants := ?ts\<rparr>)"
      using distinct_slugs_update [OF keys(2,1)] keys ids
      by (intro replace_tenants_ok [OF assms]) simp_all
    with assms Some show ?thesis by (simp add: tenants_upsert_def)
  qed
qed

end
