(* ===== verification/Tenants_Api.thy ===== *)
theory Tenants_Api
  imports World Tenants_Repo
begin

text \<open>
  \<open>internal/tenants/webhook.go\<close> and \<open>internal/tenants/me.go\<close>: the WorkOS organization
  webhook, which mirrors organizations into the tenants table behind an HMAC signature with a
  timestamp, and \<open>/v1/me\<close>. HMAC-SHA256, version-5 UUIDs and the parsing of JSON text are the
  parameters \<open>hmac key msg\<close>, \<open>uuid5 namespace name\<close> and \<open>parse bytes\<close>.
\<close>

section \<open>The signature\<close>

record webhook_config =
  wc_secret :: string
  wc_tolerance :: duration

text \<open>The loop over the parts of the header: the last \<open>t=\<close> and the last \<open>v1=\<close> win.\<close>

fun signature_parts :: "string list \<Rightarrow> string \<times> string \<Rightarrow> string \<times> string" where
  "signature_parts [] acc = acc"
| "signature_parts (p # ps) (ts, v1) =
     (let q = trim_space p in
      if has_prefix q ''t='' then signature_parts ps (trim_prefix q ''t='', v1)
      else if has_prefix q ''v1='' then signature_parts ps (ts, trim_prefix q ''v1='')
      else signature_parts ps (ts, v1))"

text \<open>Seconds between Go's zero time and the Unix epoch.\<close>

definition unix_to_internal :: int where "unix_to_internal = 62135596800"

definition time_unix :: "int \<Rightarrow> gotime" where
  "time_unix s = (s + unix_to_internal) * second"

definition webhook_tolerance :: "webhook_config \<Rightarrow> duration" where
  "webhook_tolerance h = (if wc_tolerance h = 0 then 5 * minute else wc_tolerance h)"

definition verify_workos ::
  "(string \<Rightarrow> string \<Rightarrow> string) \<Rightarrow> webhook_config \<Rightarrow> gotime \<Rightarrow> string \<Rightarrow> string \<Rightarrow> error option" where
  "verify_workos hmac h now header bytes =
     (if wc_secret h = [] then Some (ErrText ''webhook signing secret not configured'')
      else case signature_parts (split_on (CHR '','') header) ([], []) of (ts_str, v1) \<Rightarrow>
        if ts_str = [] \<or> v1 = [] then Some (ErrText ''malformed signature header'')
        else (case parse_int64 ts_str of
                None \<Rightarrow> Some (ErrText ''bad timestamp'')
              | Some ts \<Rightarrow>
                  (let delta = time_sub now (time_unix ts) in
                   if delta > webhook_tolerance h \<or> delta < - webhook_tolerance h
                   then Some (ErrText ''signature timestamp outside tolerance'')
                   else (case hex_decode v1 of
                           None \<Rightarrow> Some (ErrText ''bad signature hex'')
                         | Some want \<Rightarrow>
                             if want = hmac (wc_secret h) (ts_str @ ''.'' @ bytes) then None
                             else Some (ErrText ''signature mismatch'')))))"

section \<open>The handler\<close>

definition workos_namespace :: string where
  "workos_namespace = ''8c0e8b3a-3a4f-4f9b-9c1f-3b0c1b6f3a4e''"

definition tenant_id_for_org :: "(string \<Rightarrow> string \<Rightarrow> string) \<Rightarrow> string \<Rightarrow> string" where
  "tenant_id_for_org uuid5 org = uuid5 workos_namespace org"

record workos_event =
  we_event :: string
  we_data :: "json_obj option"

definition unmarshal_workos :: "wire \<Rightarrow> workos_event option" where
  "unmarshal_workos = unmarshal
     [(''event'', set_str (\<lambda>x r. r\<lparr>we_event := x\<rparr>)), (''data'', set_any_map (\<lambda>x r. r\<lparr>we_data := x\<rparr>))]
     \<lparr>we_event = [], we_data = None\<rparr>"

text \<open>\<open>s, _ := ev.Data[k].(string)\<close>; a later duplicate of a key replaced the earlier one.\<close>

definition data_str :: "workos_event \<Rightarrow> string \<Rightarrow> string" where
  "data_str ev k =
     (case we_data ev of None \<Rightarrow> []
      | Some es \<Rightarrow> (case map_of (rev es) k of Some (JStr s) \<Rightarrow> s | _ \<Rightarrow> []))"

definition workos_body_limit :: nat where "workos_body_limit = 256 * 1024"

text \<open>What a verified event does; \<open>tenant\<close> is the derived id.\<close>

definition apply_workos ::
  "gen \<Rightarrow> ctx \<Rightarrow> workos_event \<Rightarrow> string \<Rightarrow> 'k world \<Rightarrow> response \<times> 'k world" where
  "apply_workos g c ev tenant w =
     (let org = data_str ev ''id'';
          slug = (if data_str ev ''slug'' = [] then org else data_str ev ''slug'');
          name = data_str ev ''name'';
          c1 = with_identity c \<lparr>id_tenant = tenant, id_user = ''workos:'' @ we_event ev\<rparr>
      in if we_event ev = ''organization.created'' \<or> we_event ev = ''organization.updated'' then
           (case db_write (tenants_upsert (g_now g) tenant slug name) w of
              (Inl e, w1) \<Rightarrow> (http_error (''upsert: '' @ err_text e) 500, w1)
            | (Inr _, w1) \<Rightarrow>
                ((204, No_Body),
                 audit_log g c1 (if we_event ev = ''organization.updated'' then ''update'' else ''create'')
                   ''tenant'' tenant
                   (Some (JObj [(''name'', JStr name), (''slug'', JStr slug), (''workosOrgId'', JStr org)])) w1))
         else if we_event ev = ''organization.deleted'' then
           (case db_write (tenants_delete tenant) w of
              (Inl e, w1) \<Rightarrow>
                if is_not_found e then
                  ((204, No_Body),
                   audit_log g c1 ''delete'' ''tenant'' tenant (Some (JObj [(''workosOrgId'', JStr org)])) w1)
                else (http_error (''delete: '' @ err_text e) 500, w1)
            | (Inr _, w1) \<Rightarrow>
                ((204, No_Body),
                 audit_log g c1 ''delete'' ''tenant'' tenant (Some (JObj [(''workosOrgId'', JStr org)])) w1))
         else ((204, No_Body), w))"

definition workos_handler ::
  "(string \<Rightarrow> string \<Rightarrow> string) \<Rightarrow> (string \<Rightarrow> string \<Rightarrow> string) \<Rightarrow> (string \<Rightarrow> wire) \<Rightarrow> webhook_config
    \<Rightarrow> gen \<Rightarrow> ctx \<Rightarrow> string \<Rightarrow> string option \<Rightarrow> 'k world \<Rightarrow> response \<times> 'k world" where
  "workos_handler hmac uuid5 parse h g c header bytes w =
     (case bytes of
        None \<Rightarrow> (http_error ''read body'' 400, w)
      | Some sent \<Rightarrow>
          (case verify_workos hmac h (g_now g) header (take workos_body_limit sent) of
             Some e \<Rightarrow> (http_error ''bad signature'' 401, w)
           | None \<Rightarrow>
               (case unmarshal_workos (parse (take workos_body_limit sent)) of
                  None \<Rightarrow> (http_error ''bad json'' 400, w)
                | Some ev \<Rightarrow>
                    if data_str ev ''id'' = [] then (http_error ''missing data.id'' 400, w)
                    else apply_workos g c ev (tenant_id_for_org uuid5 (data_str ev ''id'')) w)))"

section \<open>The caller's own data\<close>

definition me_handler :: "ctx \<Rightarrow> 'k world \<Rightarrow> response \<times> 'k world" where
  "me_handler c w =
     (case from_context c of
        None \<Rightarrow> (unauthorized, w)
      | Some i \<Rightarrow>
          (let dto = (\<lambda>t. write_json 200 (JObj [(''userId'', JStr (id_user i)), (''seatCount'', JInt 1),
                 (''tenant'', JObj [(''id'', JStr (tn_id t)), (''slug'', JStr (tn_slug t)),
                    (''name'', JStr (tn_name t)), (''createdAt'', JTime (tn_created t))])]))
           in case db_read (tenants_get (id_tenant i)) w of
                (Inl e, w1) \<Rightarrow>
                  if is_not_found e then
                    (dto \<lparr>tn_id = id_tenant i, tn_slug = [], tn_name = ''(unprovisioned)'', tn_created = 0\<rparr>, w1)
                  else (http_error (err_text e) 500, w1)
              | (Inr t, w1) \<Rightarrow> (dto t, w1)))"

section \<open>Lemmas\<close>

lemma apply_workos_keeps [keeps]: "db_ok (w_db w) \<Longrightarrow> db_ok (w_db (snd (apply_workos g c ev t w)))"
  by (simp add: apply_workos_def Let_def split_beta keeps split: sum.split)

lemma verify_workos_None:
  "verify_workos hmac h now header bytes = None \<longleftrightarrow>
     wc_secret h \<noteq> [] \<and>
     (\<exists>ts_str v1 ts. signature_parts (split_on (CHR '','') header) ([], []) = (ts_str, v1) \<and>
        ts_str \<noteq> [] \<and> v1 \<noteq> [] \<and> parse_int64 ts_str = Some ts \<and>
        time_sub now (time_unix ts) \<le> webhook_tolerance h \<and>
        - webhook_tolerance h \<le> time_sub now (time_unix ts) \<and>
        hex_decode v1 = Some (hmac (wc_secret h) (ts_str @ ''.'' @ bytes)))"
  by (auto simp: verify_workos_def Let_def split: prod.splits option.splits)

lemma tenants_upsert_tenants:
  "fst (db_write (tenants_upsert now i slug name) w) = Inr t \<Longrightarrow>
    tenants_get i (w_db (snd (db_write (tenants_upsert now i slug name) w))) = Inr t"
proof -
  assume a: "fst (db_write (tenants_upsert now i slug name) w) = Inr t"
  note w = db_write_Inr [OF a]
  then have "tenants_upsert now i slug name (w_db w) = (Inr t, snd (tenants_upsert now i slug name (w_db w)))"
    by (metis prod.collapse)
  from tenants_get_after_upsert [OF this] w show ?thesis by simp
qed

text \<open>A request WorkOS sent: a timestamp within the tolerance and the HMAC of it and the bytes.\<close>

definition workos_signed ::
  "(string \<Rightarrow> string \<Rightarrow> string) \<Rightarrow> webhook_config \<Rightarrow> gotime \<Rightarrow> string \<Rightarrow> string option \<Rightarrow> bool" where
  "workos_signed hmac h now header bytes \<longleftrightarrow>
     (\<exists>sent ts_str v1 ts. bytes = Some sent \<and> wc_secret h \<noteq> [] \<and>
        signature_parts (split_on (CHR '','') header) ([], []) = (ts_str, v1) \<and>
        parse_int64 ts_str = Some ts \<and>
        \<bar>time_sub now (time_unix ts)\<bar> \<le> webhook_tolerance h \<and>
        hex_decode v1 = Some (hmac (wc_secret h) (ts_str @ ''.'' @ take workos_body_limit sent)))"

lemma workos_unsigned:
  "snd (workos_handler hmac uuid5 parse h g c header bytes w) = w \<and>
     fst (fst (workos_handler hmac uuid5 parse h g c header bytes w)) \<in> {400, 401} \<or>
   workos_signed hmac h (g_now g) header bytes"
proof (cases bytes)
  case None
  then show ?thesis by (simp add: workos_handler_def)
next
  case (Some sent)
  show ?thesis
  proof (cases "verify_workos hmac h (g_now g) header (take workos_body_limit sent)")
    case None
    then show ?thesis
      unfolding verify_workos_None workos_signed_def using Some by (auto simp: abs_le_iff)
  next
    case e: (Some e)
    with Some show ?thesis by (simp add: workos_handler_def)
  qed
qed

section \<open>Properties\<close>

text \<open>
  C13: the WorkOS webhook acts only on a request whose header carries a timestamp within the
  tolerance and the HMAC, under the configured secret, of that timestamp and the received
  bytes; any other request is answered 400 or 401 and changes nothing, and with no secret
  configured every request is refused.
\<close>

theorem workos_requires_fresh_signature:
  "snd (workos_handler hmac uuid5 parse h g c header bytes w) = w \<and>
     fst (fst (workos_handler hmac uuid5 parse h g c header bytes w)) \<in> {400, 401} \<or>
   (\<exists>sent ts_str v1 ts. bytes = Some sent \<and> wc_secret h \<noteq> [] \<and>
      signature_parts (split_on (CHR '','') header) ([], []) = (ts_str, v1) \<and>
      parse_int64 ts_str = Some ts \<and>
      \<bar>time_sub (g_now g) (time_unix ts)\<bar> \<le> webhook_tolerance h \<and>
      hex_decode v1 = Some (hmac (wc_secret h) (ts_str @ ''.'' @ take workos_body_limit sent)))"
  using workos_unsigned unfolding workos_signed_def .

text \<open>
  WorkOS may deliver an event again: applying a created or updated event a second time
  leaves the tenants table as the first application left it, and the tenant is found under
  the id derived from the organization with the slug (the organization id when WorkOS sends
  none) and the name of the event.
\<close>

lemma workos_upsert_idempotent:
  assumes "we_event ev = ''organization.created'' \<or> we_event ev = ''organization.updated''"
    and "w_script w = []"
    and "fst (fst (apply_workos g c ev tenant w)) = 204"
    and "w1 = snd (apply_workos g c ev tenant w)"
  shows "(\<exists>t. tenants_get tenant (w_db w1) = Inr t \<and> tn_name t = data_str ev ''name'' \<and>
      tn_slug t = (if data_str ev ''slug'' = [] then data_str ev ''id'' else data_str ev ''slug'')) \<and>
    d_tenants (w_db (snd (apply_workos g' c ev tenant w1))) = d_tenants (w_db w1)"
proof -
  let ?slug = "if data_str ev ''slug'' = [] then data_str ev ''id'' else data_str ev ''slug''"
  let ?f = "\<lambda>now. tenants_upsert now tenant ?slug (data_str ev ''name'')"
  obtain t where t: "fst (?f (g_now g) (w_db w)) = Inr t"
    using assms(1-3) by (cases "fst (?f (g_now g) (w_db w))") (auto simp: apply_workos_def Let_def)
  then have once: "?f (g_now g) (w_db w) = (Inr t, snd (?f (g_now g) (w_db w)))"
    by (metis prod.collapse)
  have tn: "d_tenants (w_db w1) = d_tenants (snd (?f (g_now g) (w_db w)))"
    using assms(1,2) t unfolding assms(4) by (auto simp: apply_workos_def Let_def)
  have get_cong: "tenants_get tenant x = tenants_get tenant y" if "d_tenants x = d_tenants y" for x y
    using that by (simp add: tenants_get_def)
  have "tenants_get tenant (w_db w1) = Inr t"
    using tenants_get_after_upsert [OF once] get_cong [OF tn] by simp
  moreover have "tn_name t = data_str ev ''name'' \<and> tn_slug t = ?slug"
    using once by (auto simp: tenants_upsert_def Let_def split: if_splits option.splits)
  moreover have "d_tenants (snd (?f now (w_db w1))) = d_tenants (w_db w1)" for now
  proof -
    have "?f now (snd (?f (g_now g) (w_db w))) = (Inr t, snd (?f (g_now g) (w_db w)))"
      by (rule tenants_upsert_twice [OF once])
    moreover have "d_tenants (snd (?f now x)) = d_tenants (snd (?f now y))"
      if "d_tenants x = d_tenants y" for x y
      using that by (auto simp: tenants_upsert_def Let_def split: option.split)
    ultimately show ?thesis using tn by (metis snd_conv)
  qed
  moreover have "d_tenants (w_db (snd (apply_workos g' c ev tenant w1))) = d_tenants (w_db w1) \<or>
      d_tenants (w_db (snd (apply_workos g' c ev tenant w1))) = d_tenants (snd (?f (g_now g') (w_db w1)))"
    using assms(1) db_write_db [of "?f (g_now g')" w1]
    by (auto simp: apply_workos_def Let_def split_beta split: sum.split)
  ultimately show ?thesis by auto
qed

definition sample_org :: workos_event where
  "sample_org = \<lparr>we_event = ''organization.created'', we_data = Some [(''id'', JStr ''org_1''),
     (''name'', JStr ''Org'')]\<rparr>"


definition sample_deletion :: workos_event where
  "sample_deletion = \<lparr>we_event = ''organization.deleted'', we_data = Some [(''id'', JStr ''org_1'')]\<rparr>"

definition after_deletion :: "unit world" where
  "after_deletion = snd (apply_workos sample_gen None sample_deletion ''t'' (quiet_world sample_db ()))"


text \<open>
  The audit entry of a deletion can therefore never be written: its tenant is gone, and the
  insert violates the foreign key.
\<close>

lemma deletion_is_not_audited:
  "\<not> tenant_exists tenant d \<Longrightarrow>
    audit_insert aid now tenant user ''delete'' ''tenant'' tenant meta req d = (Inl pg_foreign, d)"
  by (simp add: audit_insert_def)

end
