(* ===== verification/Builds_Repo.thy ===== *)
theory Builds_Repo
  imports Agents_Repo
begin

text \<open>
  \<open>internal/builds/repo.go\<close>: the builds table. \<open>builds_mark_completed\<close> is the transaction
  that writes the terminal row and, on success, points the agent at the new image.
\<close>

definition BuildPending :: string where "BuildPending = ''pending''"
definition BuildRunning :: string where "BuildRunning = ''running''"
definition BuildSucceeded :: string where "BuildSucceeded = ''succeeded''"
definition BuildFailed :: string where "BuildFailed = ''failed''"
definition BuildBlocked :: string where "BuildBlocked = ''blocked''"

lemmas build_status_defs = BuildPending_def BuildRunning_def BuildSucceeded_def BuildFailed_def
  BuildBlocked_def

definition build_terminal :: "string \<Rightarrow> bool" where
  "build_terminal s \<longleftrightarrow> s \<in> {BuildSucceeded, BuildFailed, BuildBlocked}"

definition builds_create ::
  "string \<Rightarrow> gotime \<Rightarrow> string \<Rightarrow> string \<Rightarrow> string \<Rightarrow> database \<Rightarrow> (error + build) \<times> database" where
  "builds_create uuid now tenant agent source d =
     (let b = \<lparr>bd_id = uuid, bd_tenant = tenant, bd_agent = agent, bd_status = BuildPending,
               bd_source = source, bd_image = None, bd_error = None, bd_created = now,
               bd_ended = None\<rparr>
      in if uuid \<in> bd_id ` set (d_builds d) then (Inl pg_unique, d)
         else if \<not> tenant_exists tenant d \<or> \<not> agent_exists agent d then (Inl pg_foreign, d)
         else (Inr b, d\<lparr>d_builds := d_builds d @ [b]\<rparr>))"

definition builds_get :: "string \<Rightarrow> string \<Rightarrow> database \<Rightarrow> error + build" where
  "builds_get tenant i d =
     (case find_row (\<lambda>b. bd_id b = i \<and> bd_tenant b = tenant) (d_builds d) of
        None \<Rightarrow> Inl ErrNotFound | Some b \<Rightarrow> Inr b)"

definition builds_mark_running :: "string \<Rightarrow> database \<Rightarrow> database" where
  "builds_mark_running i d =
     d\<lparr>d_builds := update_where (\<lambda>b. bd_id b = i \<and> bd_status b = BuildPending)
         (\<lambda>b. b\<lparr>bd_status := BuildRunning\<rparr>) (d_builds d)\<rparr>"

record build_result =
  br_status :: string
  br_image :: string
  br_error :: string
  br_ended :: gotime

definition finish_build :: "build_result \<Rightarrow> build \<Rightarrow> build" where
  "finish_build x b =
     b\<lparr>bd_status := br_status x, bd_image := null_if_empty (br_image x),
       bd_error := null_if_empty (br_error x), bd_ended := Some (br_ended x)\<rparr>"

definition finish_builds :: "string \<Rightarrow> build_result \<Rightarrow> build list \<Rightarrow> build list" where
  "finish_builds i x bs =
     update_where (\<lambda>b. bd_id b = i \<and> \<not> build_terminal (bd_status b)) (finish_build x) bs"

text \<open>\<open>UPDATE agents SET image = $2 WHERE id = $1 AND tenant_id = $3\<close>.\<close>

definition set_agent_image :: "string \<Rightarrow> string \<Rightarrow> string \<Rightarrow> database \<Rightarrow> database" where
  "set_agent_image agent tenant img d =
     d\<lparr>d_agents := update_where (\<lambda>a. ag_id a = agent \<and> ag_tenant a = tenant)
         (\<lambda>a. a\<lparr>ag_image := Some img\<rparr>) (d_agents d)\<rparr>"

definition builds_mark_completed ::
  "string \<Rightarrow> build_result \<Rightarrow> database \<Rightarrow> (error + unit) \<times> database" where
  "builds_mark_completed i x d =
     (case find_row (\<lambda>b. bd_id b = i \<and> \<not> build_terminal (bd_status b)) (d_builds d) of
        None \<Rightarrow> (Inr (), d)
      | Some b \<Rightarrow>
          if br_status x \<notin> set build_statuses then (Inl pg_check, d)
          else
            (let d1 = d\<lparr>d_builds := finish_builds i x (d_builds d)\<rparr>
             in (Inr (), if br_status x = BuildSucceeded \<and> br_image x \<noteq> []
                         then set_agent_image (bd_agent b) (bd_tenant b) (br_image x) d1
                         else d1)))"

section \<open>Interfaces\<close>

interpretation builds: tenant_scoped builds_get d_builds bd_id bd_tenant
  by unfold_locales (simp add: builds_get_def)

interpretation build_end: terminal_rows bd_id "\<lambda>b. build_terminal (bd_status b)" finish_build
  "\<lambda>x. build_terminal (br_status x)" finish_builds
  by unfold_locales (simp_all add: finish_builds_def finish_build_def)

section \<open>Lemmas\<close>

lemma build_status_cases:
  "s \<in> set build_statuses \<longleftrightarrow> s = BuildPending \<or> s = BuildRunning \<or> build_terminal s"
  by (auto simp: build_statuses_def build_terminal_def build_status_defs)

lemma finish_build_simps [simp]:
  "bd_id (finish_build x b) = bd_id b" "bd_tenant (finish_build x b) = bd_tenant b"
  "bd_agent (finish_build x b) = bd_agent b" "bd_status (finish_build x b) = br_status x"
  by (simp_all add: finish_build_def)

lemma update_builds_ok:
  assumes "db_ok d" and "\<And>b. bd_id (f b) = bd_id b \<and> bd_tenant (f b) = bd_tenant b \<and> bd_agent (f b) = bd_agent b"
    and "\<And>b. p b \<Longrightarrow> bd_status (f b) \<in> set build_statuses"
  shows "db_ok (d\<lparr>d_builds := update_where p f (d_builds d)\<rparr>)"
proof -
  let ?d = "d\<lparr>d_builds := update_where p f (d_builds d)\<rparr>"
  have "map bd_id (update_where p f (d_builds d)) = map bd_id (d_builds d)"
    using assms(2) by (simp add: map_update_where)
  then have "keys_ok ?d" using assms(1) by (simp add: db_ok_def keys_ok_def)
  moreover have "status_ok ?d"
    using assms(1,3) by (auto simp: db_ok_def status_ok_def set_update_where)
  moreover have "tenant_exists i ?d = tenant_exists i d" "agent_exists i ?d = agent_exists i d"
    "run_exists i ?d = run_exists i d" for i
    by (simp_all add: tenant_exists_def agent_exists_def run_exists_def)
  ultimately show ?thesis
    using assms(1,2) by (auto simp: db_ok_def usage_ok_def refs_ok_def set_update_where)
qed

lemma set_agent_image_ok:
  assumes "db_ok d"
  shows "db_ok (set_agent_image agent tenant img d)"
proof -
  let ?f = "\<lambda>a. a\<lparr>ag_image := Some img\<rparr>"
  let ?d = "set_agent_image agent tenant img d"
  have m: "map ag_id (d_agents ?d) = map ag_id (d_agents d)"
    "map (\<lambda>a. (ag_tenant a, ag_name a)) (d_agents ?d) = map (\<lambda>a. (ag_tenant a, ag_name a)) (d_agents d)"
    "map ag_tenant (d_agents ?d) = map ag_tenant (d_agents d)"
    by (simp_all add: set_agent_image_def map_update_where)
  have rest: "d_tenants ?d = d_tenants d" "d_runs ?d = d_runs d" "d_triggers ?d = d_triggers d"
    "d_builds ?d = d_builds d" "d_usage ?d = d_usage d" "d_secrets ?d = d_secrets d"
    "d_audit ?d = d_audit d"
    by (simp_all add: set_agent_image_def)
  have ex: "tenant_exists i ?d = tenant_exists i d" "agent_exists i ?d = agent_exists i d"
    "run_exists i ?d = run_exists i d" for i
    using arg_cong [OF m(1), of set] by (simp_all add: tenant_exists_def agent_exists_def
        run_exists_def rest)
  have "tenant_exists (ag_tenant a) d" if "a \<in> set (d_agents ?d)" for a
    using assms that arg_cong [OF m(3), of set] unfolding db_ok_def refs_ok_def
    by (metis (no_types, lifting) imageE imageI list.set_map)
  moreover have "ag_mode a \<in> set agent_modes \<and> ag_runtime a \<in> set agent_runtimes" if "a \<in> set (d_agents ?d)" for a
    using assms that by (auto simp: db_ok_def status_ok_def set_agent_image_def set_update_where split: if_splits)
  ultimately show ?thesis
    using assms ex m(1,2) rest by (simp add: db_ok_def keys_ok_def status_ok_def refs_ok_def usage_ok_def)
qed

lemma builds_mark_running_ok [keeps]: "db_ok d \<Longrightarrow> db_ok (builds_mark_running i d)"
  unfolding builds_mark_running_def by (rule update_builds_ok) (simp_all add: build_status_cases)

lemma builds_mark_completed_ok:
  assumes "db_ok d" and "builds_mark_completed i x d = (res, d')"
  shows "db_ok d'"
proof -
  have "db_ok (d\<lparr>d_builds := finish_builds i x (d_builds d)\<rparr>)"
    if "br_status x \<in> set build_statuses"
    unfolding finish_builds_def using assms(1) that by (intro update_builds_ok) simp_all
  with assms show ?thesis
    by (auto simp: builds_mark_completed_def Let_def set_agent_image_ok split: option.splits if_splits)
qed

lemma builds_create_ok:
  assumes "db_ok d" and "builds_create uuid now tenant agent source d = (res, d')"
  shows "db_ok d'"
proof (cases res)
  case (Inr b)
  then have b: "d' = d\<lparr>d_builds := d_builds d @ [b]\<rparr>" "bd_id b \<notin> bd_id ` set (d_builds d)"
    "tenant_exists (bd_tenant b) d" "agent_exists (bd_agent b) d" "bd_status b = BuildPending"
    using assms(2) by (auto simp: builds_create_def Let_def split: if_splits)
  have "tenant_exists i d' = tenant_exists i d" "agent_exists i d' = agent_exists i d"
    "run_exists i d' = run_exists i d" for i
    by (simp_all add: b(1) tenant_exists_def agent_exists_def run_exists_def)
  with b assms(1) show ?thesis
    by (simp add: db_ok_def keys_ok_def status_ok_def refs_ok_def usage_ok_def build_status_cases)
next
  case (Inl e)
  with assms show ?thesis by (auto simp: builds_create_def Let_def split: if_splits)
qed

text \<open>The agent's image changes only with a build that succeeds, to that build's image.\<close>

lemma builds_mark_completed_images:
  assumes "builds_mark_completed i x d = (res, d')"
    and "br_status x \<noteq> BuildSucceeded \<or> br_image x = []"
  shows "d_agents d' = d_agents d"
  using assms by (auto simp: builds_mark_completed_def Let_def split: option.splits if_splits)

lemma builds_mark_completed_again:
  assumes "builds_mark_completed i x d = (Inr (), d')" and "build_terminal (br_status x)"
  shows "builds_mark_completed i y d' = (Inr (), d')"
proof (cases "find_row (\<lambda>b. bd_id b = i \<and> \<not> build_terminal (bd_status b)) (d_builds d)")
  case None
  with assms(1) show ?thesis by (simp add: builds_mark_completed_def)
next
  case (Some b)
  with assms have "d_builds d' = finish_builds i x (d_builds d)"
    by (auto simp: builds_mark_completed_def Let_def set_agent_image_def split: if_splits)
  then have "find_row (\<lambda>b. bd_id b = i \<and> \<not> build_terminal (bd_status b)) (d_builds d') = None"
    using build_end.mark_settles [OF assms(2)] by (simp add: find_row_None_iff)
  then show ?thesis by (simp add: builds_mark_completed_def)
qed

lemma builds_mark_completed_keeps [keeps]: "db_ok d \<Longrightarrow> db_ok (snd (builds_mark_completed i x d))"
  by (rule builds_mark_completed_ok, assumption, rule surjective_pairing)

lemma builds_create_keeps [keeps]: "db_ok d \<Longrightarrow> db_ok (snd (builds_create uuid now tenant agent source d))"
  by (rule builds_create_ok, assumption, rule surjective_pairing)

end
