(* ===== verification/Builder.thy ===== *)
theory Builder
  imports Agents_Api Builds_Repo
begin

text \<open>
  \<open>internal/builds/handlers.go\<close> and \<open>cmd/builder/main.go\<close>: the request of a build, and the
  worker that runs the pipeline of Jobs (Kaniko, Trivy, cosign) and records the outcome. The
  clock is threaded through: a handler runs under a context that expires at \<open>ctx_end\<close> (30
  seconds after delivery, by \<open>internal/eventbus/nats.go\<close>), after which every call fails without
  an effect; \<open>lat t\<close> is the extra time, beyond the three-second pause, that a poll started at
  time \<open>t\<close> takes.
\<close>

section \<open>The request\<close>

definition build_dto :: "build \<Rightarrow> json" where
  "build_dto b = JObj (
     always ''id'' (JStr (bd_id b)) @
     always ''agentId'' (JStr (bd_agent b)) @
     always ''status'' (JStr (bd_status b)) @
     always ''createdAt'' (JTime (bd_created b)))"

definition unmarshal_build_request :: "wire \<Rightarrow> string option" where
  "unmarshal_build_request = unmarshal [(''sourceUrl'', set_str (\<lambda>x r. x))] []"

definition builds_create_handler :: "gen \<Rightarrow> ctx \<Rightarrow> string \<Rightarrow> wire \<Rightarrow> 'k world \<Rightarrow> response \<times> 'k world" where
  "builds_create_handler g c agent req_body w =
     (case from_context c of
        None \<Rightarrow> (unauthorized, w)
      | Some i \<Rightarrow>
          (case db_read (agents_get (id_tenant i) agent) w of
             (Inl e, w1) \<Rightarrow> (agent_err e, w1)
           | (Inr a, w1) \<Rightarrow>
               (case unmarshal_build_request req_body of
                  None \<Rightarrow> (http_error ''bad request: sourceUrl required'' 400, w1)
                | Some url \<Rightarrow>
                    if url = [] then (http_error ''bad request: sourceUrl required'' 400, w1)
                    else
                      (case db_write (builds_create (g_uuid g) (g_now g) (id_tenant i) agent url) w1 of
                         (Inl e, w2) \<Rightarrow> (http_error (err_text e) 500, w2)
                       | (Inr b, w2) \<Rightarrow>
                           (case publish SubjectBuildRequested
                                   (marshal_build_requested
                                     \<lparr>bq_tenant = id_tenant i, bq_agent = agent, bq_build = bd_id b,
                                      bq_source_url = url, bq_trace_ctx = g_trace_ctx g, bq_at = g_now g\<rparr>) w2 of
                              (Inl e, w3) \<Rightarrow> (http_error (''queue: '' @ err_text e) 502, w3)
                            | (Inr _, w3) \<Rightarrow>
                                (write_json 202 (build_dto b),
                                 audit_log g c ''create'' ''build'' (bd_id b)
                                   (Some (JObj [(''agentId'', JStr agent), (''sourceUrl'', JStr url)])) w3))))))"

section \<open>Job builders\<close>

record build_config =
  bf_registry :: string
  bf_namespace :: string
  bf_kaniko :: string
  bf_trivy :: bool
  bf_trivy_image :: string
  bf_severity :: string
  bf_cosign :: bool
  bf_cosign_image :: string
  bf_cosign_secret :: string
  bf_key_path :: string
  bf_build_timeout :: duration
  bf_scan_timeout :: duration
  bf_sign_timeout :: duration

definition one_shot_job :: "string \<Rightarrow> string \<Rightarrow> container \<Rightarrow> (string \<times> string) list \<Rightarrow> job" where
  "one_shot_job name ns c volumes =
     \<lparr>jb_meta = new_meta name ns [] [], jb_parallelism = 1, jb_completions = 1, jb_backoff = 0,
      jb_pod_labels = [], jb_restart = ''Never'', jb_containers = [c], jb_volumes = volumes,
      jb_status = no_job_status\<rparr>"

definition build_kaniko_job :: "string \<Rightarrow> string \<Rightarrow> string \<Rightarrow> string \<Rightarrow> string \<Rightarrow> job" where
  "build_kaniko_job name ns img source_url destination =
     one_shot_job name ns ((plain_container ''kaniko'' img)
       \<lparr>ct_args := [''--context='' @ trim_prefix source_url ''git+'', ''--destination='' @ destination,
          ''--cache=false'', ''--insecure'', ''--skip-tls-verify'']\<rparr>) []"

definition build_trivy_job :: "string \<Rightarrow> string \<Rightarrow> string \<Rightarrow> string \<Rightarrow> string \<Rightarrow> job" where
  "build_trivy_job name ns img severity target =
     one_shot_job name ns ((plain_container ''trivy'' img)
       \<lparr>ct_args := [''image'', ''--severity'', severity, ''--ignore-unfixed'', ''--exit-code'', ''1'',
          ''--no-progress'', target]\<rparr>) []"

definition filename_of :: "string \<Rightarrow> string" where
  "filename_of p = (case last_index (CHR ''/'') p of Some i \<Rightarrow> drop (Suc i) p | None \<Rightarrow> p)"

definition build_cosign_job :: "string \<Rightarrow> string \<Rightarrow> string \<Rightarrow> string \<Rightarrow> string \<Rightarrow> string \<Rightarrow> job" where
  "build_cosign_job name ns img secret_name key_path target =
     (let mount_dir = trim_suffix key_path (''/'' @ filename_of key_path) in
      one_shot_job name ns ((plain_container ''cosign'' img)
        \<lparr>ct_args := [''sign'', ''--yes'', ''--key'', key_path, target],
         ct_mounts := [(''cosign-key'', mount_dir, True)],
         ct_env := [Env_Secret ''COSIGN_PASSWORD'' secret_name ''cosign.password'' True]\<rparr>)
        [(''cosign-key'', secret_name)])"

definition last_failure_message :: "job \<Rightarrow> string" where
  "last_failure_message j =
     (case find_row (\<lambda>(t, m). t = ''Failed'') (js_conditions (jb_status j)) of
        Some (t, m) \<Rightarrow> m | None \<Rightarrow> ''job failed'')"

section \<open>Running a Job\<close>

definition ctx_error :: error where "ctx_error = ErrText ''context deadline exceeded''"

definition poll_pause :: duration where "poll_pause = 3 * second"

definition with_ctx :: "gotime \<Rightarrow> gotime \<Rightarrow> ('k world \<Rightarrow> (error + 'a) \<times> 'k world) \<Rightarrow> 'k world
    \<Rightarrow> (error + 'a) \<times> 'k world" where
  "with_ctx ctx_end now f w = (if ctx_end \<le> now then (Inl ctx_error, w) else f w)"

text \<open>The result of a Job, the time it was known and the world: \<open>kerr_error\<close> on a failed call.\<close>

function poll_job ::
  "'k kube_api \<Rightarrow> okey \<Rightarrow> (gotime \<Rightarrow> nat) \<Rightarrow> gotime \<Rightarrow> gotime \<Rightarrow> gotime \<Rightarrow> 'k world
    \<Rightarrow> (error + unit) \<times> gotime \<times> 'k world" where
  "poll_job K key lat deadline ctx_end now w =
     (case with_ctx ctx_end now (\<lambda>w. case kube_call (k_get K key) w of
              (Inl e, w1) \<Rightarrow> (Inl (kerr_error e), w1) | (Inr x, w1) \<Rightarrow> (Inr x, w1)) w of
        (Inl e, w1) \<Rightarrow> (Inl e, now, w1)
      | (Inr (O_Job j), w1) \<Rightarrow>
          if js_succeeded (jb_status j) > 0 then (Inr (), now, w1)
          else if js_failed (jb_status j) > 0 then
            (Inl (ErrText (snd (snd key) @ '' failed: '' @ last_failure_message j)), now, w1)
          else if now > deadline then (Inl (ErrText (snd (snd key) @ '' timed out'')), now, w1)
          else if ctx_end \<le> now + poll_pause then (Inl ctx_error, max now ctx_end, w1)
          else poll_job K key lat deadline ctx_end (now + poll_pause + int (lat now)) w1
      | (Inr _, w1) \<Rightarrow> (Inl (ErrText ''kind''), now, w1))"
  by pat_completeness auto
termination
  by (relation "measure (\<lambda>(K, key, lat, deadline, ctx_end, now, w). nat (deadline + 1 - now))")
    (auto simp: poll_pause_def)

declare poll_job.simps [simp del]

definition run_job ::
  "'k kube_api \<Rightarrow> job \<Rightarrow> duration \<Rightarrow> (gotime \<Rightarrow> nat) \<Rightarrow> gotime \<Rightarrow> gotime \<Rightarrow> 'k world
    \<Rightarrow> (error + unit) \<times> gotime \<times> 'k world" where
  "run_job K j timeout lat ctx_end now w =
     (let name = om_name (jb_meta j) in
      case with_ctx ctx_end now (\<lambda>w. case kube_call (k_create K (O_Job j)) w of
              (Inl e, w1) \<Rightarrow> (if e = Exists then Inr () else Inl (kerr_error e), w1)
            | (Inr u, w1) \<Rightarrow> (Inr u, w1)) w of
        (Inl e, w1) \<Rightarrow> (Inl (Wrapped (''create '' @ name) e), now, w1)
      | (Inr _, w1) \<Rightarrow>
          poll_job K (K_Job, om_ns (jb_meta j), name) lat (now + timeout) ctx_end now w1)"

section \<open>The worker\<close>

definition event_build_status :: "string \<Rightarrow> string" where
  "event_build_status s =
     (if s = BuildSucceeded then BuildStatusSucceeded
      else if s = BuildBlocked then BuildStatusBlocked
      else BuildStatusFailed)"

record build_outcome =
  bo_status :: string
  bo_image :: string
  bo_error :: string

definition complete_build ::
  "gotime \<Rightarrow> gotime \<Rightarrow> build_requested \<Rightarrow> build_outcome \<Rightarrow> 'k world \<Rightarrow> (error + unit) \<times> 'k world" where
  "complete_build ctx_end now e out w =
     (let w1 = snd (with_ctx ctx_end now (db_write (builds_mark_completed (bq_build e)
            \<lparr>br_status = bo_status out, br_image = bo_image out, br_error = bo_error out,
             br_ended = now\<rparr>)) w)
      in with_ctx ctx_end now (publish SubjectBuildCompleted (marshal_build_completed
           \<lparr>bc_tenant = bq_tenant e, bc_agent = bq_agent e, bc_build = bq_build e,
            bc_status = event_build_status (bo_status out), bc_image = bo_image out,
            bc_error = bo_error out, bc_ended_at = now\<rparr>)) w1)"

definition image_ref :: "build_config \<Rightarrow> build_requested \<Rightarrow> agent \<Rightarrow> string" where
  "image_ref f e a = bf_registry f @ ''/'' @ bq_tenant e @ ''/'' @ ag_name a @ '':'' @ bq_build e"

definition kaniko_for :: "build_config \<Rightarrow> build_requested \<Rightarrow> agent \<Rightarrow> job" where
  "kaniko_for f e a = build_kaniko_job (''build-'' @ bq_build e) (bf_namespace f) (bf_kaniko f)
     (bq_source_url e) (image_ref f e a)"

definition trivy_for :: "build_config \<Rightarrow> build_requested \<Rightarrow> agent \<Rightarrow> job" where
  "trivy_for f e a = build_trivy_job (''scan-'' @ bq_build e) (bf_namespace f) (bf_trivy_image f)
     (bf_severity f) (image_ref f e a)"

definition cosign_for :: "build_config \<Rightarrow> build_requested \<Rightarrow> agent \<Rightarrow> job" where
  "cosign_for f e a = build_cosign_job (''sign-'' @ bq_build e) (bf_namespace f) (bf_cosign_image f)
     (bf_cosign_secret f) (bf_key_path f) (image_ref f e a)"

text \<open>The three stages; a stage that is not enabled is skipped.\<close>

definition run_stage ::
  "bool \<Rightarrow> 'k kube_api \<Rightarrow> job \<Rightarrow> duration \<Rightarrow> (gotime \<Rightarrow> nat) \<Rightarrow> gotime \<Rightarrow> gotime \<Rightarrow> 'k world
    \<Rightarrow> (error + unit) \<times> gotime \<times> 'k world" where
  "run_stage enabled K j timeout lat ctx_end now w =
     (if enabled then run_job K j timeout lat ctx_end now w else (Inr (), now, w))"

definition run_pipeline ::
  "'k kube_api \<Rightarrow> build_config \<Rightarrow> (gotime \<Rightarrow> nat) \<Rightarrow> gotime \<Rightarrow> build_requested \<Rightarrow> agent \<Rightarrow> gotime
    \<Rightarrow> 'k world \<Rightarrow> build_outcome \<times> gotime \<times> 'k world" where
  "run_pipeline K f lat ctx_end e a now w =
     (case run_job K (kaniko_for f e a) (bf_build_timeout f) lat ctx_end now w of
        (Inl x, now1, w1) \<Rightarrow>
          (\<lparr>bo_status = BuildFailed, bo_image = [], bo_error = ''kaniko: '' @ err_text x\<rparr>, now1, w1)
      | (Inr _, now1, w1) \<Rightarrow>
          (case run_stage (bf_trivy f) K (trivy_for f e a) (bf_scan_timeout f) lat ctx_end now1 w1 of
             (Inl x, now2, w2) \<Rightarrow>
               (\<lparr>bo_status = BuildBlocked, bo_image = [], bo_error = ''trivy: '' @ err_text x\<rparr>, now2, w2)
           | (Inr _, now2, w2) \<Rightarrow>
               (case run_stage (bf_cosign f) K (cosign_for f e a) (bf_sign_timeout f) lat ctx_end now2 w2 of
                  (Inl x, now3, w3) \<Rightarrow>
                    (\<lparr>bo_status = BuildFailed, bo_image = [], bo_error = ''cosign: '' @ err_text x\<rparr>, now3, w3)
                | (Inr _, now3, w3) \<Rightarrow>
                    (\<lparr>bo_status = BuildSucceeded, bo_image = image_ref f e a, bo_error = []\<rparr>, now3, w3))))"

definition handle_build ::
  "'k kube_api \<Rightarrow> build_config \<Rightarrow> (gotime \<Rightarrow> nat) \<Rightarrow> gotime \<Rightarrow> gotime \<Rightarrow> wire \<Rightarrow> 'k world
    \<Rightarrow> (error + unit) \<times> 'k world" where
  "handle_build K f lat ctx_end now msg w =
     (case unmarshal_build_requested msg of
        None \<Rightarrow> (Inl (ErrText ''unmarshal''), w)
      | Some e \<Rightarrow>
          (let w1 = snd (with_ctx ctx_end now
                 (db_write (\<lambda>d. (Inr (), builds_mark_running (bq_build e) d))) w)
           in case with_ctx ctx_end now (db_read (agents_get (bq_tenant e) (bq_agent e))) w1 of
                (Inl x, w2) \<Rightarrow>
                  (Inr (), snd (complete_build ctx_end now e
                     \<lparr>bo_status = BuildFailed, bo_image = [], bo_error = ''resolve agent: '' @ err_text x\<rparr> w2))
              | (Inr a, w2) \<Rightarrow>
                  (case run_pipeline K f lat ctx_end e a now w2 of
                     (out, now3, w3) \<Rightarrow> (Inr (), snd (complete_build ctx_end now3 e out w3)))))"

text \<open>The handler as the bus runs it: under a context of 30 seconds.\<close>

definition handler_timeout :: duration where "handler_timeout = 30 * second"

definition build_consumer ::
  "'k kube_api \<Rightarrow> build_config \<Rightarrow> (gotime \<Rightarrow> nat) \<Rightarrow> gotime \<Rightarrow> wire \<Rightarrow> 'k world \<Rightarrow> (error + unit) \<times> 'k world" where
  "build_consumer K f lat now msg w = handle_build K f lat (now + handler_timeout) now msg w"

section \<open>Lemmas\<close>

lemma with_ctx_frame:
  "(\<And>w. w_db (snd (f w)) = w_db w) \<Longrightarrow> w_db (snd (with_ctx c n f w)) = w_db w"
  by (simp add: with_ctx_def)

lemma poll_job_frame:
  "w_db (snd (snd (poll_job K key lat dl ce now w))) = w_db w \<and>
   w_sent (snd (snd (poll_job K key lat dl ce now w))) = w_sent w"
proof (induction K key lat dl ce now w rule: poll_job.induct)
  case (1 K key lat dl ce now w)
  note IH = 1
  show ?case
    by (subst (1 2) poll_job.simps)
      (auto simp: with_ctx_def split_beta IH split: sum.splits kobj.splits)
qed


lemma run_job_frame:
  "w_db (snd (snd (run_job K j timeout lat ce now w))) = w_db w \<and>
   w_sent (snd (snd (run_job K j timeout lat ce now w))) = w_sent w"
  using poll_job_frame [of K "(K_Job, om_ns (jb_meta j), om_name (jb_meta j))" lat "now + timeout" ce now]
  by (auto simp: run_job_def Let_def with_ctx_def split_beta split: sum.split)

lemma run_stage_frame:
  "w_db (snd (snd (run_stage en K j timeout lat ce now w))) = w_db w \<and>
   w_sent (snd (snd (run_stage en K j timeout lat ce now w))) = w_sent w"
  by (simp add: run_stage_def run_job_frame)

lemma run_pipeline_frame:
  "w_db (snd (snd (run_pipeline K f lat ce e a now w))) = w_db w \<and>
   w_sent (snd (snd (run_pipeline K f lat ce e a now w))) = w_sent w"
  by (simp add: run_pipeline_def split_beta run_job_frame run_stage_frame split: sum.split)

definition job_done :: "('k \<Rightarrow> okey \<rightharpoonup> kobj) \<Rightarrow> 'k \<Rightarrow> job \<Rightarrow> bool" where
  "job_done view k j \<longleftrightarrow>
     (\<exists>x. view k (K_Job, om_ns (jb_meta j), om_name (jb_meta j)) = Some (O_Job x) \<and>
        js_succeeded (jb_status x) > 0)"

lemma poll_job_store:
  assumes "kube_store K view"
  shows "view (w_kube (snd (snd (poll_job K key lat dl ce now w)))) = view (w_kube w) \<and>
    (fst (poll_job K key lat dl ce now w) = Inr () \<longrightarrow>
      (\<exists>x. view (w_kube w) key = Some (O_Job x) \<and> js_succeeded (jb_status x) > 0))"
  using assms
proof (induction K key lat dl ce now w rule: poll_job.induct)
  case (1 K key lat dl ce now w)
  note IH = 1(1) and K = 1(2)
  let ?g = "k_get K key (w_kube w)"
  have v: "view (snd ?g) = view (w_kube w)" by (rule kube_store_get(1) [OF K])
  show ?case
  proof (cases "\<not> ce \<le> now \<and> (\<exists>j. fst ?g = Inr (O_Job j))")
    case False
    then show ?thesis
      using v by (subst (1 2) poll_job.simps) (auto simp: with_ctx_def split_beta split: sum.splits kobj.splits)
  next
    case True
    then obtain j where j: "fst ?g = Inr (O_Job j)" by blast
    have here: "view (w_kube w) key = Some (O_Job j)" by (rule kube_store_get(2) [OF K j])
    let ?w1 = "snd (kube_call (k_get K key) w)"
    let ?again = "\<not> js_succeeded (jb_status j) > 0 \<and> \<not> js_failed (jb_status j) > 0 \<and> \<not> now > dl \<and>
      \<not> ce \<le> now + poll_pause"
    show ?thesis
    proof (cases ?again)
      case no: False
      then show ?thesis
        using True j v here
        by (subst (1 2) poll_job.simps) (auto simp: with_ctx_def split_beta)
    next
      case yes: True
      have eq: "poll_job K key lat dl ce now w =
          poll_job K key lat dl ce (now + poll_pause + int (lat now)) ?w1"
        using yes True j by (subst poll_job.simps) (simp add: with_ctx_def split_beta)
      have "view (w_kube (snd (snd (poll_job K key lat dl ce (now + poll_pause + int (lat now)) ?w1)))) =
          view (w_kube ?w1) \<and>
        (fst (poll_job K key lat dl ce (now + poll_pause + int (lat now)) ?w1) = Inr () \<longrightarrow>
          (\<exists>x. view (w_kube ?w1) key = Some (O_Job x) \<and> js_succeeded (jb_status x) > 0))"
        using yes True j
        by (intro IH [where x = "Inr (O_Job j)" and y = ?w1] K) (auto simp: with_ctx_def split_beta)
      then show ?thesis unfolding eq by (simp add: v)
    qed
  qed
qed

lemma job_done_create:
  assumes "kube_store K view" and "job_done view k i"
  shows "job_done view (snd (k_create K x k)) i"
  using assms kube_store_create_present [OF assms(1)] unfolding job_done_def by blast

lemma run_job_store:
  assumes K: "kube_store K view"
  shows "(job_done view (w_kube w) i \<longrightarrow> job_done view (w_kube (snd (snd (run_job K j timeout lat ce now w)))) i) \<and>
    (fst (run_job K j timeout lat ce now w) = Inr () \<longrightarrow>
      job_done view (w_kube (snd (snd (run_job K j timeout lat ce now w)))) j)"
proof -
  let ?c = "k_create K (O_Job j) (w_kube w)"
  let ?w1 = "snd (kube_call (k_create K (O_Job j)) w)"
  let ?p = "poll_job K (K_Job, om_ns (jb_meta j), om_name (jb_meta j)) lat (now + timeout) ce now ?w1"
  note p = poll_job_store [OF K, of "(K_Job, om_ns (jb_meta j), om_name (jb_meta j))" lat "now + timeout" ce now ?w1]
  consider (late) "ce \<le> now" | (err) e where "\<not> ce \<le> now" "fst ?c = Inl e" "e \<noteq> Exists"
    | (go) "\<not> ce \<le> now" "fst ?c = Inl Exists \<or> (\<exists>u. fst ?c = Inr u)"
    by (cases "fst ?c") blast+
  then show ?thesis
  proof cases
    case late
    then show ?thesis by (simp add: run_job_def Let_def with_ctx_def)
  next
    case err
    then show ?thesis
      using job_done_create [OF K] by (simp add: run_job_def Let_def with_ctx_def split_beta)
  next
    case go
    then have "run_job K j timeout lat ce now w = ?p"
      by (auto simp: run_job_def Let_def with_ctx_def split_beta)
    then show ?thesis
      using p job_done_create [OF K, of "w_kube w" i "O_Job j"] by (auto simp: job_done_def)
  qed
qed

lemma run_stage_store:
  assumes K: "kube_store K view"
  shows "(job_done view (w_kube w) i \<longrightarrow>
      job_done view (w_kube (snd (snd (run_stage en K j timeout lat ce now w)))) i) \<and>
    (fst (run_stage en K j timeout lat ce now w) = Inr () \<longrightarrow> en \<longrightarrow>
      job_done view (w_kube (snd (snd (run_stage en K j timeout lat ce now w)))) j)"
  using run_job_store [OF K] by (simp add: run_stage_def)

lemma run_pipeline_succeeds:
  assumes K: "kube_store K view"
    and ok: "bo_status (fst (run_pipeline K f lat ce e a now w)) = BuildSucceeded"
  shows "bo_image (fst (run_pipeline K f lat ce e a now w)) = image_ref f e a \<and>
    job_done view (w_kube (snd (snd (run_pipeline K f lat ce e a now w)))) (kaniko_for f e a) \<and>
    (bf_trivy f \<longrightarrow> job_done view (w_kube (snd (snd (run_pipeline K f lat ce e a now w)))) (trivy_for f e a)) \<and>
    (bf_cosign f \<longrightarrow> job_done view (w_kube (snd (snd (run_pipeline K f lat ce e a now w)))) (cosign_for f e a))"
proof -
  let ?s1 = "run_job K (kaniko_for f e a) (bf_build_timeout f) lat ce now w"
  let ?s2 = "run_stage (bf_trivy f) K (trivy_for f e a) (bf_scan_timeout f) lat ce (fst (snd ?s1)) (snd (snd ?s1))"
  let ?s3 = "run_stage (bf_cosign f) K (cosign_for f e a) (bf_sign_timeout f) lat ce (fst (snd ?s2)) (snd (snd ?s2))"
  have s: "fst ?s1 = Inr ()" "fst ?s2 = Inr ()" "fst ?s3 = Inr ()"
    using ok by (auto simp: run_pipeline_def split_beta build_status_defs split: sum.splits)
  have res: "run_pipeline K f lat ce e a now w =
      (\<lparr>bo_status = BuildSucceeded, bo_image = image_ref f e a, bo_error = []\<rparr>, snd ?s3)"
    using s by (simp add: run_pipeline_def split_beta)
  have k1: "job_done view (w_kube (snd (snd ?s1))) (kaniko_for f e a)"
    using run_job_store [OF K] s(1) by blast
  have k2: "job_done view (w_kube (snd (snd ?s2))) (kaniko_for f e a)"
    "bf_trivy f \<Longrightarrow> job_done view (w_kube (snd (snd ?s2))) (trivy_for f e a)"
    using run_stage_store [OF K] s(2) k1 by blast+
  have k3: "job_done view (w_kube (snd (snd ?s3))) (kaniko_for f e a)"
    "bf_trivy f \<Longrightarrow> job_done view (w_kube (snd (snd ?s3))) (trivy_for f e a)"
    "bf_cosign f \<Longrightarrow> job_done view (w_kube (snd (snd ?s3))) (cosign_for f e a)"
    using run_stage_store [OF K] s(3) k2 by blast+
  then show ?thesis unfolding res by simp
qed

lemma complete_build_agents:
  assumes "bo_status out \<noteq> BuildSucceeded \<or> bo_image out = []"
  shows "d_agents (w_db (snd (complete_build ce now e out w))) = d_agents (w_db w)"
proof -
  let ?f = "builds_mark_completed (bq_build e)
     \<lparr>br_status = bo_status out, br_image = bo_image out, br_error = bo_error out, br_ended = now\<rparr>"
  have "d_agents (snd (?f d)) = d_agents d" for d
    using assms by (intro builds_mark_completed_images [OF surjective_pairing]) simp
  then have "d_agents (w_db (snd (db_write ?f w))) = d_agents (w_db w)"
    using db_write_db [of ?f w] by auto
  then show ?thesis
    by (simp add: complete_build_def Let_def with_ctx_def)
qed

lemma complete_build_kube: "w_kube (snd (complete_build ce now e out w)) = w_kube w"
  by (simp add: complete_build_def Let_def with_ctx_def)

section \<open>Properties\<close>


definition sample_build_config :: build_config where
  "sample_build_config = \<lparr>bf_registry = ''reg'', bf_namespace = ''b'', bf_kaniko = ''k'', bf_trivy = True,
     bf_trivy_image = ''t'', bf_severity = ''HIGH'', bf_cosign = False, bf_cosign_image = [],
     bf_cosign_secret = [], bf_key_path = ''/keys/cosign.key'', bf_build_timeout = 30 * minute,
     bf_scan_timeout = 10 * minute, bf_sign_timeout = 5 * minute\<rparr>"

definition sample_build :: build_requested where
  "sample_build = \<lparr>bq_tenant = ''t'', bq_agent = ''a'', bq_build = ''b'', bq_source_url = ''git+x'',
     bq_trace_ctx = None, bq_at = 1\<rparr>"

definition succeeded_jobs :: "kobj list" where
  "succeeded_jobs = map (\<lambda>j. O_Job (j\<lparr>jb_status := no_job_status\<lparr>js_succeeded := 1\<rparr>\<rparr>))
     [kaniko_for sample_build_config sample_build (hd (d_agents sample_db)),
      trivy_for sample_build_config sample_build (hd (d_agents sample_db))]"

lemma sample_build_wire: "unmarshal_build_requested (Some (marshal_build_requested sample_build)) = Some sample_build"
  by (rule build_requested_wire) (simp add: build_requested_sendable_def sample_build_def)


lemma poll_job_time:
  assumes "\<And>t. int (lat t) \<le> slack"
  shows "now \<le> fst (snd (poll_job K key lat dl ce now w)) \<and>
    fst (snd (poll_job K key lat dl ce now w)) \<le> max now (dl + poll_pause + slack)"
  using assms
proof (induction K key lat dl ce now w rule: poll_job.induct)
  case (1 K key lat dl ce now w)
  note IH = 1(1)
  have lat: "int (lat t) \<le> slack" for t by (rule 1(2))
  have slack: "0 \<le> slack" using lat [of 0] by linarith
  have pp: "0 < poll_pause" by (simp add: poll_pause_def)
  let ?g = "k_get K key (w_kube w)"
  let ?w1 = "snd (kube_call (k_get K key) w)"
  show ?case
  proof (cases "\<not> ce \<le> now \<and> (\<exists>j. fst ?g = Inr (O_Job j) \<and> \<not> js_succeeded (jb_status j) > 0 \<and>
      \<not> js_failed (jb_status j) > 0 \<and> \<not> now > dl \<and> \<not> ce \<le> now + poll_pause)")
    case True
    then obtain j where j: "fst ?g = Inr (O_Job j)" "\<not> js_succeeded (jb_status j) > 0"
      "\<not> js_failed (jb_status j) > 0" "\<not> now > dl" "\<not> ce \<le> now + poll_pause" "\<not> ce \<le> now" by blast
    let ?now = "now + poll_pause + int (lat now)"
    have eq: "poll_job K key lat dl ce now w = poll_job K key lat dl ce ?now ?w1"
      using j by (subst poll_job.simps) (simp add: with_ctx_def split_beta)
    have "?now \<le> fst (snd (poll_job K key lat dl ce ?now ?w1)) \<and>
      fst (snd (poll_job K key lat dl ce ?now ?w1)) \<le> max ?now (dl + poll_pause + slack)"
      using j lat by (intro IH [where x = "Inr (O_Job j)" and y = ?w1]) (auto simp: with_ctx_def split_beta)
    moreover have "?now \<le> dl + poll_pause + slack" using j(4) lat [of now] by linarith
    ultimately show ?thesis unfolding eq using pp by auto
  next
    case False
    have "fst (snd (poll_job K key lat dl ce now w)) = now \<or>
        (fst (snd (poll_job K key lat dl ce now w)) = max now ce \<and> \<not> now > dl \<and> ce \<le> now + poll_pause)"
      using False by (subst (1 2) poll_job.simps)
        (auto simp: with_ctx_def split_beta split: sum.splits kobj.splits)
    then show ?thesis using pp slack by auto
  qed
qed

text \<open>
  C19: waiting for a Job ends: the poll loop returns for every cluster and every latency, never
  going back in time, and at the latest one pause and one round's latency after the timeout of
  the Job.
\<close>

theorem poll_job_returns_in_time:
  assumes "\<And>t. int (lat t) \<le> slack"
  shows "now \<le> fst (snd (poll_job K key lat deadline ctx_end now w)) \<and>
    fst (snd (poll_job K key lat deadline ctx_end now w)) \<le> max now (deadline + poll_pause + slack)"
  by (rule poll_job_time [OF assms])

theorem poll_job_returns_in_time_witness:
  "5 \<le> fst (snd (poll_job mem_kube (K_Job, ''b'', ''build-b'') (\<lambda>_. 7) 60 100 5 (quiet_world sample_db []))) \<and>
   fst (snd (poll_job mem_kube (K_Job, ''b'', ''build-b'') (\<lambda>_. 7) 60 100 5 (quiet_world sample_db []))) \<le>
     max 5 (60 + poll_pause + 7)"
  by (rule poll_job_returns_in_time) simp

text \<open>
  The context of the bus ends long before the timeouts of the stages: a build whose Kaniko Job
  is still running after 30 seconds is acknowledged without any record of its outcome: its row
  stays running and no build.completed is published.
\<close>

lemma slow_build_leaves_no_record:
  "fst (build_consumer mem_kube sample_build_config (\<lambda>_. 0) 5 (Some (marshal_build_requested sample_build))
      (quiet_world sample_db [])) = Inr () \<and>
   map bd_status (d_builds (w_db (snd (build_consumer mem_kube sample_build_config (\<lambda>_. 0) 5
      (Some (marshal_build_requested sample_build)) (quiet_world sample_db []))))) = [''running''] \<and>
   w_sent (snd (build_consumer mem_kube sample_build_config (\<lambda>_. 0) 5
      (Some (marshal_build_requested sample_build)) (quiet_world sample_db []))) = []"
  by code_simp

end
