(* ===== verification/Checkpoints.thy ===== *)
theory Checkpoints
  imports World "HOL-Library.Multiset"
begin

text \<open>
  The checkpoint tables \<open>usage_shipper_state\<close> and \<open>audit_export_state\<close>, which
  \<open>internal/billing/shipper.go\<close> and \<open>internal/audit/export.go\<close> read and advance with the same
  statements, and the contract both loops keep: a pass hands over the rows above the
  checkpoint in the order of their ids and moves the checkpoint only over rows that were
  accepted. The contract is a locale over a pass, its checkpoint and its log.
\<close>

section \<open>The statements\<close>

definition no_rows :: error where "no_rows = ErrText ''no rows in result set''"

definition read_checkpoint :: "string \<Rightarrow> checkpoint list \<Rightarrow> error + int" where
  "read_checkpoint dest cs =
     (case find_row (\<lambda>c. ck_dest c = dest) cs of None \<Rightarrow> Inl no_rows | Some c \<Rightarrow> Inr (ck_last c))"

definition next_batch :: "('r \<Rightarrow> int) \<Rightarrow> int \<Rightarrow> nat \<Rightarrow> 'r list \<Rightarrow> 'r list" where
  "next_batch ident p n rows = take n (sort_key ident (filter (\<lambda>r. p < ident r) rows))"

definition advance_checkpoint :: "gotime \<Rightarrow> string \<Rightarrow> int \<Rightarrow> checkpoint list \<Rightarrow> checkpoint list" where
  "advance_checkpoint now dest new cs =
     update_where (\<lambda>c. ck_dest c = dest \<and> ck_last c < new)
       (\<lambda>c. c\<lparr>ck_last := new, ck_at := Some now\<rparr>) cs"

definition position_of :: "string \<Rightarrow> checkpoint list \<Rightarrow> int option" where
  "position_of dest cs = map_option ck_last (find_row (\<lambda>c. ck_dest c = dest) cs)"

lemma read_checkpoint_Inr: "read_checkpoint dest cs = Inr p \<longleftrightarrow> position_of dest cs = Some p"
  by (auto simp: read_checkpoint_def position_of_def split: option.splits)

lemma position_advance:
  "position_of dest (advance_checkpoint now dest new cs) = map_option (\<lambda>p. max p new) (position_of dest cs)"
  unfolding position_of_def advance_checkpoint_def
  using find_row_SomeD [of "\<lambda>c. ck_dest c = dest" cs]
  by (subst find_row_update_where)
    (auto simp: max_def split: option.split cong: option.map_cong, (cases "find_row (\<lambda>c. ck_dest c = dest) cs", auto))

lemma next_batch_above:
  "r \<in> set (next_batch ident p n rows) \<Longrightarrow> r \<in> set rows \<and> p < ident r"
  by (auto simp: next_batch_def dest: in_set_takeD)

lemma next_batch_sorted: "sorted (map ident (next_batch ident p n rows))"
  unfolding next_batch_def take_map [symmetric]
  by (simp add: sorted_wrt_take)

text \<open>The batch has every row between the checkpoint and its own last row.\<close>

lemma sorted_take_cover:
  assumes "sorted (map f xs)" and "distinct (map f xs)" and "x \<in> set xs"
    and "f x \<le> f (last (take n xs))" and "take n xs \<noteq> []"
  shows "x \<in> set (take n xs)"
proof (rule ccontr)
  assume "x \<notin> set (take n xs)"
  with assms(3) have d: "x \<in> set (drop n xs)" by (metis Un_iff append_take_drop_id set_append)
  have l: "last (take n xs) \<in> set (take n xs)" using assms(5) by simp
  have a: "f y \<le> f z" if "y \<in> set (take n xs)" "z \<in> set (drop n xs)" for y z
    using assms(1) that sorted_append [of "map f (take n xs)" "map f (drop n xs)"]
    by (metis append_take_drop_id image_eqI list.set_map map_append)
  have "f (last (take n xs)) \<noteq> f x"
    using assms(2,3) l d \<open>x \<notin> set (take n xs)\<close> by (metis distinct_map_eqD in_set_takeD)
  with a [OF l d] have "f (last (take n xs)) < f x" by simp
  with assms(4) show False by simp
qed

lemma next_batch_covers:
  assumes "distinct (map ident rows)" and "r \<in> set rows" and "p < ident r"
    and "next_batch ident p n rows \<noteq> []" and "ident r \<le> ident (last (next_batch ident p n rows))"
  shows "r \<in> set (next_batch ident p n rows)"
  unfolding next_batch_def
proof (rule sorted_take_cover [where f = ident])
  let ?ys = "sort_key ident (filter (\<lambda>r. p < ident r) rows)"
  show "sorted (map ident ?ys)" by simp
  show "r \<in> set ?ys" using assms(2,3) by simp
  show "distinct (map ident ?ys)"
    using assms(1) by (simp add: distinct_map inj_on_def) 
  show "ident r \<le> ident (last (take n ?ys))" "take n ?ys \<noteq> []"
    using assms(4,5) by (simp_all add: next_batch_def)
qed

lemma next_batch_last:
  assumes "next_batch ident p n rows \<noteq> []"
  shows "p < ident (last (next_batch ident p n rows))"
  using next_batch_above [of "last (next_batch ident p n rows)" ident p n rows] assms by simp

lemma sorted_last_ge: "sorted (map f xs) \<Longrightarrow> x \<in> set xs \<Longrightarrow> f x \<le> f (last xs)"
  by (induction xs rule: rev_induct) (auto simp: sorted_append)

lemma length_filter_sort: "length (filter P (sort_key f xs)) = length (filter P xs)"
  by (metis mset_filter mset_sort size_mset)

lemma next_batch_rest:
  assumes "distinct (map ident rows)" and "next_batch ident p n rows \<noteq> []"
  shows "length (filter (\<lambda>i. ident (last (next_batch ident p n rows)) < i) (map ident rows)) =
    length (filter (\<lambda>i. p < i) (map ident rows)) - n"
proof -
  let ?xs = "sort_key ident (filter (\<lambda>r. p < ident r) rows)" and ?q = "ident (last (next_batch ident p n rows))"
  have b: "next_batch ident p n rows = take n ?xs" by (simp add: next_batch_def)
  have pq: "p < ?q" using next_batch_last [OF assms(2)] .
  have s: "sorted (map ident (take n ?xs))" using next_batch_sorted [of ident p n rows] b by simp
  have t: "filter (\<lambda>r. ?q < ident r) (take n ?xs) = []"
  proof -
    have "ident r \<le> ?q" if "r \<in> set (take n ?xs)" for r
      using sorted_last_ge [OF s that] unfolding b .
    then show ?thesis by (auto simp: filter_empty_conv not_less)
  qed
  have d: "filter (\<lambda>r. ?q < ident r) (drop n ?xs) = drop n ?xs"
  proof -
    have "?q < ident r" if r: "r \<in> set (drop n ?xs)" for r
    proof (rule ccontr)
      assume "\<not> ?q < ident r"
      moreover have "r \<in> set rows" "p < ident r" using in_set_dropD [OF r] by simp_all
      ultimately have "r \<in> set (take n ?xs)"
        using next_batch_covers [OF assms(1) _ _ assms(2)] unfolding b by simp
      moreover have "distinct ?xs"
        using assms(1) by (simp add: distinct_map)
      ultimately show False using r set_take_disj_set_drop_if_distinct [of ?xs n n] by auto
    qed
    then show ?thesis by (auto simp: filter_id_conv)
  qed
  have "length (filter (\<lambda>r. ?q < ident r) rows) = length (filter (\<lambda>r. ?q < ident r) (filter (\<lambda>r. p < ident r) rows))"
    using pq by (auto intro!: arg_cong [where f = length] filter_cong)
  also have "\<dots> = length (filter (\<lambda>r. ?q < ident r) ?xs)" by (simp add: length_filter_sort)
  also have "\<dots> = length (filter (\<lambda>r. ?q < ident r) (take n ?xs @ drop n ?xs))" by simp
  also have "\<dots> = length (drop n ?xs)" unfolding filter_append t d by simp
  finally show ?thesis by (simp add: filter_map comp_def)
qed

lemma next_batch_Nil: "0 < n \<Longrightarrow> next_batch ident p n rows = [] \<longleftrightarrow> (\<forall>r\<in>set rows. ident r \<le> p)"
  using length_sort [of ident "filter (\<lambda>r. p < ident r) rows"]
  by (auto simp: next_batch_def filter_empty_conv not_less simp del: length_sort)

section \<open>The contract\<close>

text \<open>
  A history of a log: passes of the loop and, in between, what the rest of the platform does to
  the state. \<open>passes\<close> runs it and collects what the destination accepted; \<open>orderly\<close> says that
  the others leave the checkpoint alone, add rows above it and drop only rows at or below it.
\<close>

fun passes :: "('x \<Rightarrow> 's \<Rightarrow> 's \<times> 'e list) \<Rightarrow> ('x + 's) list \<Rightarrow> 's \<Rightarrow> 's \<times> 'e list" where
  "passes f [] s = (s, [])"
| "passes f (Inl x # ys) s =
     (case f x s of (s1, es) \<Rightarrow> (case passes f ys s1 of (s2, fs) \<Rightarrow> (s2, es @ fs)))"
| "passes f (Inr s1 # ys) s = passes f ys s1"

definition orderly_change :: "('s \<Rightarrow> int option) \<Rightarrow> ('s \<Rightarrow> int list) \<Rightarrow> 's \<Rightarrow> 's \<Rightarrow> bool" where
  "orderly_change pos ids s s1 \<longleftrightarrow>
     pos s1 = pos s \<and> distinct (ids s1) \<and>
     (\<forall>i\<in>set (ids s1). i \<in> set (ids s) \<or> pos s = None \<or> the (pos s) < i) \<and>
     (\<forall>i\<in>set (ids s). i \<in> set (ids s1) \<or> pos s \<noteq> None \<and> i \<le> the (pos s))"

fun orderly :: "('x \<Rightarrow> 's \<Rightarrow> 's \<times> 'e list) \<Rightarrow> ('s \<Rightarrow> int option) \<Rightarrow> ('s \<Rightarrow> int list) \<Rightarrow> ('x + 's) list
    \<Rightarrow> 's \<Rightarrow> bool" where
  "orderly f pos ids [] s \<longleftrightarrow> True"
| "orderly f pos ids (Inl x # ys) s \<longleftrightarrow> orderly f pos ids ys (fst (f x s))"
| "orderly f pos ids (Inr s1 # ys) s \<longleftrightarrow> orderly_change pos ids s s1 \<and> orderly f pos ids ys s1"

locale checkpointed_log =
  fixes pass :: "'x \<Rightarrow> 's \<Rightarrow> 's \<times> 'e list"
    and pos :: "'s \<Rightarrow> int option"
    and ids :: "'s \<Rightarrow> int list"
    and tag :: "'e \<Rightarrow> 'l"
    and label :: "int \<Rightarrow> 'l"
  assumes ids_kept: "ids (fst (pass x s)) = ids s"
    and pass_covers: "distinct (ids s) \<Longrightarrow> pos (fst (pass x s)) = pos s \<or>
      (\<exists>p q. pos s = Some p \<and> pos (fst (pass x s)) = Some q \<and> p < q \<and>
         label ` {i \<in> set (ids s). p < i \<and> i \<le> q} \<subseteq> tag ` set (snd (pass x s)))"
begin

lemma checkpoint_monotone:
  assumes "distinct (ids s)" and "pos s = Some p"
  obtains q where "pos (fst (pass x s)) = Some q" "p \<le> q"
  using pass_covers [OF assms(1), of x] assms(2) by fastforce

lemma older_kept:
  assumes "orderly pass pos ids ys s" and "distinct (ids s)" and "pos s = Some p"
    and "i \<in> set (ids (fst (passes pass ys s)))"
  shows "i \<in> set (ids s) \<or> p < i"
  using assms
proof (induction ys arbitrary: s p)
  case (Cons y ys)
  show ?case
  proof (cases y)
    case (Inr s1)
    have o1: "orderly_change pos ids s s1" and o: "orderly pass pos ids ys s1"
      using Cons.prems(1) Inr by simp_all
    have c: "distinct (ids s1)" "pos s1 = Some p" "\<forall>j\<in>set (ids s1). j \<in> set (ids s) \<or> p < j"
      using o1 Cons.prems(3) unfolding orderly_change_def by auto
    have "i \<in> set (ids (fst (passes pass ys s1)))" using Cons.prems(4) Inr by simp
    from Cons.IH [OF o c(1,2) this] c(3) show ?thesis by blast
  next
    case (Inl x)
    have o: "orderly pass pos ids ys (fst (pass x s))" using Cons.prems(1) Inl by simp
    have d: "distinct (ids (fst (pass x s)))" using Cons.prems(2) ids_kept by simp
    obtain p1 where p1: "pos (fst (pass x s)) = Some p1" "p \<le> p1"
      using checkpoint_monotone [OF Cons.prems(2,3)] .
    have "i \<in> set (ids (fst (passes pass ys (fst (pass x s)))))"
      using Cons.prems(4) Inl by (simp add: split_beta)
    from Cons.IH [OF o d p1(1) this] p1(2) ids_kept show ?thesis by auto
  qed
qed simp

text \<open>Nothing between the old and the new checkpoint is skipped, and no row is lost.\<close>

lemma history_keeps:
  assumes "orderly pass pos ids ys s" and "distinct (ids s)" and "pos s = Some p"
  shows "distinct (ids (fst (passes pass ys s))) \<and>
    (\<exists>q. pos (fst (passes pass ys s)) = Some q \<and> p \<le> q \<and>
       (\<forall>i\<in>set (ids (fst (passes pass ys s))). p < i \<and> i \<le> q \<longrightarrow>
          label i \<in> tag ` set (snd (passes pass ys s))) \<and>
       (\<forall>i\<in>set (ids s). p < i \<longrightarrow>
          i \<in> set (ids (fst (passes pass ys s))) \<and> q < i \<or>
          label i \<in> tag ` set (snd (passes pass ys s))))"
  using assms
proof (induction ys arbitrary: s p)
  case Nil
  then show ?case by auto
next
  case (Cons y ys)
  show ?case
  proof (cases y)
    case (Inr s1)
    have o1: "orderly_change pos ids s s1" and o: "orderly pass pos ids ys s1"
      using Cons.prems(1) Inr by simp_all
    have c: "distinct (ids s1)" "pos s1 = Some p" "\<forall>i\<in>set (ids s). p < i \<longrightarrow> i \<in> set (ids s1)"
      using o1 Cons.prems(3) unfolding orderly_change_def by auto
    have e: "passes pass (y # ys) s = passes pass ys s1" using Inr by simp
    show ?thesis unfolding e using Cons.IH [OF o c(1,2)] c(3) by blast
  next
    case (Inl x)
    let ?s1 = "fst (pass x s)" and ?es = "snd (pass x s)"
    have o: "orderly pass pos ids ys ?s1" using Cons.prems(1) Inl by simp
    have d: "distinct (ids ?s1)" using Cons.prems(2) ids_kept by simp
    obtain p1 where p1: "pos ?s1 = Some p1" "p \<le> p1"
      "\<forall>i\<in>set (ids s). p < i \<and> i \<le> p1 \<longrightarrow> label i \<in> tag ` set ?es"
      using pass_covers [OF Cons.prems(2), of x] Cons.prems(3) by fastforce
    let ?r = "passes pass ys ?s1"
    have e: "fst (passes pass (y # ys) s) = fst ?r" "snd (passes pass (y # ys) s) = ?es @ snd ?r"
      using Inl by (simp_all add: split_beta)
    obtain q where q: "distinct (ids (fst ?r))" "pos (fst ?r) = Some q" "p1 \<le> q"
      "\<forall>i\<in>set (ids (fst ?r)). p1 < i \<and> i \<le> q \<longrightarrow> label i \<in> tag ` set (snd ?r)"
      "\<forall>i\<in>set (ids s). p1 < i \<longrightarrow> i \<in> set (ids (fst ?r)) \<and> q < i \<or> label i \<in> tag ` set (snd ?r)"
      using Cons.IH [OF o d p1(1)] unfolding ids_kept by blast
    have old: "i \<in> set (ids s)" if "i \<in> set (ids (fst ?r))" "p < i" "i \<le> p1" for i
      using older_kept [OF o d p1(1) that(1)] that(3) ids_kept by auto
    show ?thesis
      unfolding e set_append image_Un
    proof (intro conjI exI [of _ q] ballI impI)
      fix i assume "i \<in> set (ids (fst ?r))" "p < i \<and> i \<le> q"
      then show "label i \<in> tag ` set ?es \<union> tag ` set (snd ?r)"
        using q(4) p1(3) old by (cases "p1 < i") auto
    next
      fix i assume "i \<in> set (ids s)" "p < i"
      then show "i \<in> set (ids (fst ?r)) \<and> q < i \<or> label i \<in> tag ` set ?es \<union> tag ` set (snd ?r)"
        using q(5) p1(3) by (cases "p1 < i") auto
    qed (use q p1(2) in simp_all)
  qed
qed

end

section \<open>Passes over a table\<close>

text \<open>
  The shape both loops have, over a checkpoint table (\<open>cps\<close>, written by \<open>set_cps\<close>), a log
  (\<open>rows\<close> with their \<open>ident\<close>) and a destination that answers what it is given.
\<close>

definition log_pass ::
  "(database \<Rightarrow> checkpoint list) \<Rightarrow> (checkpoint list \<Rightarrow> database \<Rightarrow> database) \<Rightarrow> (database \<Rightarrow> 'r list)
    \<Rightarrow> ('r \<Rightarrow> int) \<Rightarrow> string \<Rightarrow> nat \<Rightarrow> ('r \<Rightarrow> 'e) \<Rightarrow> ('e list \<Rightarrow> error + unit) \<Rightarrow> gotime \<Rightarrow> 'k world
    \<Rightarrow> 'k world \<times> 'e list" where
  "log_pass cps set_cps rows ident dest n entry dl now w =
     (case db_read (\<lambda>d. read_checkpoint dest (cps d)) w of
        (Inl e, w1) \<Rightarrow> (w1, [])
      | (Inr p, w1) \<Rightarrow>
          (case db_read (\<lambda>d. Inr (next_batch ident p n (rows d))) w1 of
             (Inl e, w2) \<Rightarrow> (w2, [])
           | (Inr b, w2) \<Rightarrow>
               if b = [] then (w2, [])
               else (case dl (map entry b) of
                       Inl e \<Rightarrow> (w2, [])
                     | Inr _ \<Rightarrow>
                         (snd (db_write (\<lambda>d. (Inr (),
                            set_cps (advance_checkpoint now dest (ident (last b)) (cps d)) d)) w2),
                          map entry b))))"

locale checkpoint_table =
  fixes cps :: "database \<Rightarrow> checkpoint list"
    and set_cps :: "checkpoint list \<Rightarrow> database \<Rightarrow> database"
    and rows :: "database \<Rightarrow> 'r list"
    and ident :: "'r \<Rightarrow> int"
    and entry :: "'r \<Rightarrow> 'e"
    and tag :: "'e \<Rightarrow> 'l"
    and label :: "int \<Rightarrow> 'l"
    and dest :: string
    and n :: nat
  assumes cps_set [simp]: "cps (set_cps c d) = c"
    and rows_set [simp]: "rows (set_cps c d) = rows d"
    and tag_entry: "tag (entry r) = label (ident r)"
    and label_inj: "inj label"
begin

abbreviation run :: "('e list \<Rightarrow> error + unit) \<Rightarrow> gotime \<Rightarrow> 'k world \<Rightarrow> 'k world \<times> 'e list" where
  "run \<equiv> log_pass cps set_cps rows ident dest n entry"

abbreviation log_ids :: "'k world \<Rightarrow> int list" where
  "log_ids w \<equiv> map ident (rows (w_db w))"

abbreviation log_pos :: "'k world \<Rightarrow> int option" where
  "log_pos w \<equiv> position_of dest (cps (w_db w))"

abbreviation batch :: "int \<Rightarrow> 'k world \<Rightarrow> 'r list" where
  "batch p w \<equiv> next_batch ident p n (rows (w_db w))"

lemma run_rows: "rows (w_db (fst (run dl now w))) = rows (w_db w)"
  by (auto simp: log_pass_def split_beta db_write_def split: sum.split outcome.split)

text \<open>What a pass can have done: nothing to the checkpoint, or it handed over the whole batch.\<close>

lemma run_cases:
  "cps (w_db (fst (run dl now w))) = cps (w_db w) \<and> snd (run dl now w) = [] \<or>
    (\<exists>p. log_pos w = Some p \<and> batch p w \<noteq> [] \<and> snd (run dl now w) = map entry (batch p w) \<and>
       (cps (w_db (fst (run dl now w))) = cps (w_db w) \<or>
        cps (w_db (fst (run dl now w))) =
          advance_checkpoint now dest (ident (last (batch p w))) (cps (w_db w))))"
proof -
  let ?q1 = "\<lambda>d. read_checkpoint dest (cps d)"
  let ?w1 = "snd (db_read ?q1 w)"
  show ?thesis
  proof (cases "fst (db_read ?q1 w)")
    case (Inl e)
    then show ?thesis by (simp add: log_pass_def split_beta)
  next
    case (Inr p)
    then have p: "log_pos w = Some p" using db_read_Inr read_checkpoint_Inr by fastforce
    let ?q2 = "\<lambda>d. Inr (next_batch ident p n (rows d))"
    show ?thesis
    proof (cases "fst (db_read ?q2 ?w1)")
      case (Inl e)
      with Inr show ?thesis by (simp add: log_pass_def split_beta)
    next
      case got: (Inr b)
      have b: "b = batch p w" using db_read_Inr [OF got] by simp
      let ?w2 = "snd (db_read ?q2 ?w1)"
      let ?f = "\<lambda>d. (Inr (), set_cps (advance_checkpoint now dest (ident (last b)) (cps d)) d)"
      have w3: "cps (w_db (snd (db_write ?f ?w2))) = cps (w_db w) \<or>
        cps (w_db (snd (db_write ?f ?w2))) = advance_checkpoint now dest (ident (last b)) (cps (w_db w))"
        using db_write_db [of ?f ?w2] by auto
      have res: "run dl now w =
        (if b = [] then (?w2, [])
         else case dl (map entry b) of
             Inl e \<Rightarrow> (?w2, []) | Inr _ \<Rightarrow> (snd (db_write ?f ?w2), map entry b))"
        using Inr got by (simp add: log_pass_def split_beta)
      show ?thesis
      proof (cases "b = []")
        case True
        then show ?thesis by (simp add: res)
      next
        case False
        with w3 p show ?thesis unfolding b by (cases "dl (map entry b)") (auto simp: res b)
      qed
    qed
  qed
qed

lemma run_covers:
  assumes "distinct (log_ids w)"
  shows "log_pos (fst (run dl now w)) = log_pos w \<or>
      (\<exists>p q. log_pos w = Some p \<and> log_pos (fst (run dl now w)) = Some q \<and> p < q \<and>
         label ` {i \<in> set (log_ids w). p < i \<and> i \<le> q} \<subseteq> tag ` set (snd (run dl now w)))"
proof (cases "cps (w_db (fst (run dl now w))) = cps (w_db w)")
  case False
  then obtain p where p: "log_pos w = Some p" and ne: "batch p w \<noteq> []"
    and e: "snd (run dl now w) = map entry (batch p w)"
    and d: "cps (w_db (fst (run dl now w))) =
      advance_checkpoint now dest (ident (last (batch p w))) (cps (w_db w))"
    using run_cases [of dl now w] by blast
  let ?q = "ident (last (batch p w))"
  have pq: "p < ?q" using next_batch_last [OF ne] .
  then have q: "log_pos (fst (run dl now w)) = Some ?q"
    using p by (simp add: d position_advance)
  have "label (ident r) \<in> tag ` set (snd (run dl now w))"
    if "r \<in> set (rows (w_db w))" "p < ident r" "ident r \<le> ?q" for r
  proof -
    have "r \<in> set (batch p w)"
      by (rule next_batch_covers [OF assms that(1,2) ne that(3)])
    then show ?thesis by (auto simp: e tag_entry [symmetric])
  qed
  with p q pq show ?thesis by auto
qed simp

lemma run_old_rows:
  assumes "log_pos w = Some p" and "i \<le> p"
  shows "label i \<notin> tag ` set (snd (run dl now w))"
proof
  assume a: "label i \<in> tag ` set (snd (run dl now w))"
  then have "snd (run dl now w) = map entry (batch p w)"
    using run_cases [of dl now w] assms(1) by auto
  with a obtain r where r: "r \<in> set (batch p w)" "label i = label (ident r)"
    by (auto simp: tag_entry)
  with label_inj next_batch_above [OF r(1)] assms(2) show False by (auto dest: injD)
qed

text \<open>With no failure, a pass delivers the oldest rows and leaves those after the batch.\<close>

lemma run_healthy:
  assumes "w_script w = []" and "log_pos w = Some p" and "distinct (log_ids w)" and "0 < n"
    and "dl (map entry (batch p w)) = Inr ()"
  shows "snd (run dl now w) = map entry (batch p w) \<and>
    (\<exists>q. log_pos (fst (run dl now w)) = Some q \<and>
       length (filter (\<lambda>i. q < i) (log_ids (fst (run dl now w)))) =
         length (filter (\<lambda>i. p < i) (log_ids w)) - n)"
proof (cases "batch p w = []")
  case True
  then have "filter (\<lambda>i. p < i) (log_ids w) = []"
    using next_batch_Nil [OF assms(4), of ident p "rows (w_db w)"]
    by (auto simp: filter_empty_conv not_less)
  moreover have "run dl now w = (w, [])"
    using assms(1,2) True by (simp add: log_pass_def read_checkpoint_Inr [THEN iffD2])
  ultimately show ?thesis using assms(2) True by (simp add: comp_def filter_map)
next
  case False
  let ?q = "ident (last (batch p w))"
  let ?w = "w\<lparr>w_db := set_cps (advance_checkpoint now dest ?q (cps (w_db w))) (w_db w)\<rparr>"
  have t: "run dl now w = (?w, map entry (batch p w))"
    using assms(1,2,5) False by (simp add: log_pass_def read_checkpoint_Inr [THEN iffD2])
  have "log_pos ?w = Some ?q"
    using next_batch_last [OF False] assms(2) by (simp add: position_advance)
  moreover have "length (filter (\<lambda>i. ?q < i) (log_ids ?w)) = length (filter (\<lambda>i. p < i) (log_ids w)) - n"
    using next_batch_rest [OF assms(3) False] by simp
  ultimately show ?thesis by (simp add: t)
qed

end

text \<open>Every such table keeps the contract of a checkpointed log.\<close>

sublocale checkpoint_table \<subseteq> contract: checkpointed_log
    "\<lambda>x. log_pass cps set_cps rows ident dest n entry (fst x) (snd x)"
    "\<lambda>w. position_of dest (cps (w_db w))" "\<lambda>w. map ident (rows (w_db w))" tag label
  by unfold_locales (simp only: run_rows, rule run_covers)

end
