(* ===== verification/Audit_Export.thy ===== *)
theory Audit_Export
  imports Checkpoints
begin

text \<open>
  Reading the audit trail: the list endpoint of \<open>internal/audit/handlers.go\<close> and the export
  to S3 of \<open>internal/audit/export.go\<close>. The upload is a parameter from bucket, key and the
  lines of the batch (before compression) to an error or success, \<open>date\<close> the UTC date of a
  time as text, and loading the AWS configuration an argument.
\<close>

section \<open>The list endpoint\<close>

text \<open>The format of the timestamps has no fraction of a second.\<close>

definition whole_seconds :: "gotime \<Rightarrow> gotime" where
  "whole_seconds t = t - t mod second"

definition event_dto :: "audit_event \<Rightarrow> json" where
  "event_dto e =
     JObj (always ''id'' (JInt (au_id e)) @ omit_str ''userId'' (coalesce_str (au_user e)) @
       always ''action'' (JStr (au_action e)) @ always ''resourceType'' (JStr (au_rtype e)) @
       omit_str ''resourceId'' (coalesce_str (au_rid e)) @
       (case au_metadata e of Some (JObj (x # xs)) \<Rightarrow> [(''metadata'', JObj (x # xs))] | _ \<Rightarrow> []) @
       omit_str ''requestId'' (coalesce_str (au_request e)) @
       always ''createdAt'' (JTime (whole_seconds (au_created e))))"

definition requested_limit :: "string \<Rightarrow> int" where
  "requested_limit v = (if v = [] then 100 else case parse_int64 v of Some i \<Rightarrow> i | None \<Rightarrow> 100)"

definition audit_list_handler :: "ctx \<Rightarrow> string \<Rightarrow> 'k world \<Rightarrow> response \<times> 'k world" where
  "audit_list_handler c limit w =
     (case from_context c of
        None \<Rightarrow> (unauthorized, w)
      | Some i \<Rightarrow>
          (case db_read (\<lambda>d. Inr (audit_list (id_tenant i) (requested_limit limit) d)) w of
             (Inl e, w1) \<Rightarrow> (http_error (err_text e) 500, w1)
           | (Inr es, w1) \<Rightarrow>
               (write_json 200 (JObj [(''events'', JArr (map event_dto es))]), w1)))"

section \<open>The exporter\<close>

record exporter_config =
  xc_bucket :: string
  xc_prefix :: string
  xc_batch :: int

record exporter =
  ex_bucket :: string
  ex_prefix :: string
  ex_batch :: nat

text \<open>No exporter without a bucket; \<open>aws\<close> is the result of loading the AWS configuration.\<close>

definition new_exporter :: "error + unit \<Rightarrow> exporter_config \<Rightarrow> error + exporter option" where
  "new_exporter aws cfg =
     (if xc_bucket cfg = [] then Inr None
      else case aws of
        Inl e \<Rightarrow> Inl (Wrapped ''aws config'' e)
      | Inr _ \<Rightarrow> Inr (Some
          \<lparr>ex_bucket = xc_bucket cfg,
           ex_prefix = trim_char CHR ''/'' (if xc_prefix cfg = [] then ''audit'' else xc_prefix cfg),
           ex_batch = (if xc_batch cfg \<le> 0 then 5000 else nat (xc_batch cfg))\<rparr>))"

definition export_line :: "audit_event \<Rightarrow> json" where
  "export_line e =
     JObj (always ''id'' (JInt (au_id e)) @ always ''tenantId'' (JStr (au_tenant e)) @
       omit_str ''userId'' (coalesce_str (au_user e)) @ always ''action'' (JStr (au_action e)) @
       always ''resourceType'' (JStr (au_rtype e)) @ omit_str ''resourceId'' (coalesce_str (au_rid e)) @
       omit_none ''metadata'' id (au_metadata e) @ omit_str ''requestId'' (coalesce_str (au_request e)) @
       always ''createdAt'' (JTime (au_created e)))"

definition object_key :: "(gotime \<Rightarrow> string) \<Rightarrow> exporter \<Rightarrow> gen \<Rightarrow> string" where
  "object_key date x g = ex_prefix x @ ''/dt='' @ date (g_now g) @ ''/'' @ g_uuid g @ ''.jsonl.gz''"

text \<open>One pass: its result, the world after it and the lines that were stored.\<close>

definition export_run ::
  "(gotime \<Rightarrow> string) \<Rightarrow> exporter option \<Rightarrow> (string \<Rightarrow> string \<Rightarrow> json list \<Rightarrow> error + unit) \<Rightarrow> gen \<Rightarrow> 'k world
    \<Rightarrow> (error + unit) \<times> 'k world \<times> json list" where
  "export_run date ex put g w =
     (case ex of
        None \<Rightarrow> (Inr (), w, [])
      | Some x \<Rightarrow>
          (case db_read (\<lambda>d. read_checkpoint ''s3'' (d_export d)) w of
             (Inl e, w1) \<Rightarrow> (Inl (Wrapped ''checkpoint read'' e), w1, [])
           | (Inr last_id, w1) \<Rightarrow>
               (case db_read (\<lambda>d. Inr (next_batch au_id last_id (ex_batch x) (d_audit d))) w1 of
                  (Inl e, w2) \<Rightarrow> (Inl (Wrapped ''query'' e), w2, [])
                | (Inr rows, w2) \<Rightarrow>
                    if rows = [] then (Inr (), w2, [])
                    else
                      (let newest = au_id (last rows); key = object_key date x g in
                       case put (ex_bucket x) key (map export_line rows) of
                         Inl e \<Rightarrow> (Inl (Wrapped (''s3 put '' @ key) e), w2, [])
                       | Inr _ \<Rightarrow>
                           (case db_write (\<lambda>d. (Inr (),
                                   d\<lparr>d_export := advance_checkpoint (g_now g) ''s3'' newest (d_export d)\<rparr>)) w2 of
                              (Inl e, w3) \<Rightarrow>
                                (Inl (Wrapped ''advance checkpoint'' e), w3, map export_line rows)
                            | (Inr _, w3) \<Rightarrow> (Inr (), w3, map export_line rows))))))"

section \<open>Lemmas\<close>

definition audit_ids :: "'k world \<Rightarrow> int list" where
  "audit_ids w = map au_id (d_audit (w_db w))"

definition exported_up_to :: "'k world \<Rightarrow> int option" where
  "exported_up_to w = position_of ''s3'' (d_export (w_db w))"

definition line_id :: "json \<Rightarrow> json option" where
  "line_id j = (case j of JObj es \<Rightarrow> map_of es ''id'' | _ \<Rightarrow> None)"

lemma line_id_export [simp]: "line_id (export_line e) = Some (JInt (au_id e))"
  by (simp add: line_id_def export_line_def always_def)

definition export_pass :: "(gotime \<Rightarrow> string) \<Rightarrow> exporter \<Rightarrow> (string \<Rightarrow> string \<Rightarrow> json list \<Rightarrow> error + unit) \<times> gen
    \<Rightarrow> 'k world \<Rightarrow> 'k world \<times> json list" where
  "export_pass date x y w = snd (export_run date (Some x) (fst y) (snd y) w)"

interpretation audit_log: checkpoint_table d_export "\<lambda>c d. d\<lparr>d_export := c\<rparr>" d_audit au_id
    export_line line_id "\<lambda>i. Some (JInt i)" "''s3''" "ex_batch x"
  for x :: exporter
  by unfold_locales (simp_all add: inj_def)

lemma export_pass_is_log_pass:
  "export_pass date x y = log_pass d_export (\<lambda>c d. d\<lparr>d_export := c\<rparr>) d_audit au_id ''s3'' (ex_batch x)
     export_line (fst y (ex_bucket x) (object_key date x (snd y))) (g_now (snd y))"
  by (intro ext) (simp add: export_pass_def export_run_def log_pass_def Let_def split_beta split: sum.split)

interpretation audit_log_passes: checkpointed_log "export_pass date x" exported_up_to audit_ids line_id "\<lambda>i. Some (JInt i)"
  for date and x :: exporter
proof unfold_locales
  fix y and w :: "'a world"
  show "audit_ids (fst (export_pass date x y w)) = audit_ids w"
    by (simp add: audit_ids_def export_pass_is_log_pass audit_log.run_rows)
  assume "distinct (audit_ids w)"
  then show "exported_up_to (fst (export_pass date x y w)) = exported_up_to w \<or>
      (\<exists>p q. exported_up_to w = Some p \<and> exported_up_to (fst (export_pass date x y w)) = Some q \<and> p < q \<and>
         (\<lambda>i. Some (JInt i)) ` {i \<in> set (audit_ids w). p < i \<and> i \<le> q} \<subseteq>
           line_id ` set (snd (export_pass date x y w)))"
    unfolding audit_ids_def exported_up_to_def export_pass_is_log_pass by (rule audit_log.run_covers)
qed

section \<open>Properties\<close>

text \<open>
  C28: the export of the audit trail has no gap: whatever fails in each pass, and with events
  written in between, every event above the first checkpoint is at the end still waiting above
  the checkpoint or is a line of an object that was stored, and the checkpoint never moves back.
\<close>

theorem audit_export_has_no_gap:
  assumes "orderly (export_pass date x) exported_up_to audit_ids ys w"
    and "distinct (audit_ids w)" and "exported_up_to w = Some p"
  shows "\<exists>q. exported_up_to (fst (passes (export_pass date x) ys w)) = Some q \<and> p \<le> q \<and>
    (\<forall>e\<in>set (d_audit (w_db w)). p < au_id e \<longrightarrow>
       au_id e \<in> set (audit_ids (fst (passes (export_pass date x) ys w))) \<and> q < au_id e \<or>
       (\<exists>l\<in>set (snd (passes (export_pass date x) ys w)). line_id l = Some (JInt (au_id e))))"
proof -
  obtain q where q: "exported_up_to (fst (passes (export_pass date x) ys w)) = Some q" "p \<le> q"
    "\<forall>i\<in>set (audit_ids w). p < i \<longrightarrow>
       i \<in> set (audit_ids (fst (passes (export_pass date x) ys w))) \<and> q < i \<or>
       Some (JInt i) \<in> line_id ` set (snd (passes (export_pass date x) ys w))"
    using audit_log_passes.history_keeps [OF assms] by blast
  show ?thesis
  proof (intro exI [of _ q] conjI ballI impI)
    fix e assume "e \<in> set (d_audit (w_db w))" "p < au_id e"
    then show "au_id e \<in> set (audit_ids (fst (passes (export_pass date x) ys w))) \<and> q < au_id e \<or>
       (\<exists>l\<in>set (snd (passes (export_pass date x) ys w)). line_id l = Some (JInt (au_id e)))"
      using q(3) by (fastforce simp: audit_ids_def)
  qed (use q in simp_all)
qed

definition sample_audit :: "int \<Rightarrow> audit_event" where
  "sample_audit i = \<lparr>au_id = i, au_tenant = ''t'', au_user = None, au_action = ''create'',
     au_rtype = ''agent'', au_rid = None, au_metadata = None, au_request = None, au_created = 1\<rparr>"

definition audit_world :: "int list \<Rightarrow> kobj list world" where
  "audit_world is = quiet_world (sample_db\<lparr>d_audit := map sample_audit is\<rparr>) []"

definition sample_exporter :: exporter where
  "sample_exporter = \<lparr>ex_bucket = ''b'', ex_prefix = ''audit'', ex_batch = 2\<rparr>"

text \<open>A failed upload, a new event, and two uploads that succeed.\<close>

definition sample_history :: "(((string \<Rightarrow> string \<Rightarrow> json list \<Rightarrow> error + unit) \<times> gen) + kobj list world) list" where
  "sample_history = [Inl (\<lambda>_ _ _. Inl ErrNotFound, sample_gen), Inr (audit_world [1, 2, 3]),
     Inl (\<lambda>_ _ _. Inr (), sample_gen), Inl (\<lambda>_ _ _. Inr (), sample_gen)]"

theorem audit_export_has_no_gap_witness:
  "\<exists>q. exported_up_to (fst (passes (export_pass (\<lambda>_. ''d'') sample_exporter)
      sample_history (audit_world [1, 2]))) = Some q \<and> 0 \<le> q \<and>
    (\<forall>e\<in>set (d_audit (w_db (audit_world [1, 2]))). 0 < au_id e \<longrightarrow>
       au_id e \<in> set (audit_ids (fst (passes (export_pass (\<lambda>_. ''d'') sample_exporter)
          sample_history (audit_world [1, 2])))) \<and> q < au_id e \<or>
       (\<exists>l\<in>set (snd (passes (export_pass (\<lambda>_. ''d'') sample_exporter)
          sample_history (audit_world [1, 2]))).
          line_id l = Some (JInt (au_id e))))"
proof (rule audit_export_has_no_gap)
  show "orderly (export_pass (\<lambda>_. ''d'') sample_exporter) exported_up_to audit_ids sample_history (audit_world [1, 2])"
    by code_simp
  show "distinct (audit_ids (audit_world [1, 2]))" by code_simp
  show "exported_up_to (audit_world [1, 2]) = Some 0" by code_simp
qed

text \<open>
  The audit endpoint shows a caller only the trail of its own tenant, at most 500 events
  and newest first, whatever limit the query asks for, and it changes nothing.
\<close>

lemma audit_list_is_own:
  assumes "fst (audit_list_handler c limit w) = (200, b)"
  shows "\<exists>i es. c = Some i \<and> b = Payload (JObj [(''events'', JArr (map event_dto es))]) \<and>
    set es \<subseteq> {e \<in> set (d_audit (w_db w)). au_tenant e = id_tenant i} \<and>
    length es \<le> 500 \<and> sorted (map (\<lambda>e. - au_id e) es) \<and>
    w_db (snd (audit_list_handler c limit w)) = w_db w"
proof -
  obtain i where i: "c = Some i" using assms
    by (cases c) (auto simp: audit_list_handler_def from_context_def unauthorized_def http_error_def)
  let ?q = "\<lambda>d. Inr (audit_list (id_tenant i) (requested_limit limit) d)"
  obtain es where es: "fst (db_read ?q w) = Inr es"
    using assms i by (cases "fst (db_read ?q w)")
      (auto simp: audit_list_handler_def from_context_def http_error_def split_beta)
  then have e: "es = audit_list (id_tenant i) (requested_limit limit) (w_db w)"
    using db_read_Inr by fastforce
  have "set es \<subseteq> {e \<in> set (d_audit (w_db w)). au_tenant e = id_tenant i}"
    unfolding e audit_list_def by (auto dest: in_set_takeD)
  moreover have "length es \<le> 500"
    using audit_limit_bound [of "requested_limit limit"] by (auto simp: e audit_list_def min_def)
  moreover have "b = Payload (JObj [(''events'', JArr (map event_dto es))])"
    using assms i es by (simp add: audit_list_handler_def from_context_def write_json_def split_beta)
  moreover have "w_db (snd (audit_list_handler c limit w)) = w_db w"
    using i es by (simp add: audit_list_handler_def from_context_def split_beta)
  ultimately show ?thesis using i audit_list_newest_first [of "id_tenant i" "requested_limit limit" "w_db w"] e
    by blast
qed

end
