(* ===== verification/Hub.thy ===== *)
theory Hub
  imports World Events Manifest_Json Runs_Repo
begin

text \<open>
  \<open>internal/runs/events_pubsub.go\<close> and \<open>internal/runs/events_handler.go\<close>: the hub that fans run
  events out to the local subscribers of an API replica, over the bus, and the SSE endpoint
  that reads it. A channel is the list of its buffered events; its capacity is 32.
\<close>

section \<open>Run events\<close>

record run_event =
  re_kind :: string
  re_started :: "run_started option"
  re_completed :: "run_completed option"

definition zero_run_event :: run_event where
  "zero_run_event = \<lparr>re_kind = [], re_started = None, re_completed = None\<rparr>"

definition marshal_run_event :: "run_event \<Rightarrow> json" where
  "marshal_run_event e = JObj (
     always ''kind'' (JStr (re_kind e)) @
     omit_none ''started'' marshal_run_started (re_started e) @
     omit_none ''completed'' marshal_run_completed (re_completed e))"

definition run_event_fields :: "(string \<times> run_event setter) list" where
  "run_event_fields =
     [(''kind'', set_str (\<lambda>x r. r\<lparr>re_kind := x\<rparr>)),
      (''started'', set_pointer run_started_fields zero_run_started re_started (\<lambda>x r. r\<lparr>re_started := x\<rparr>)),
      (''completed'', set_pointer run_completed_fields zero_run_completed re_completed
         (\<lambda>x r. r\<lparr>re_completed := x\<rparr>))]"

definition unmarshal_run_event :: "wire \<Rightarrow> run_event option" where
  "unmarshal_run_event m = unmarshal run_event_fields zero_run_event m"

definition run_event_sendable :: "run_event \<Rightarrow> bool" where
  "run_event_sendable e \<longleftrightarrow>
     (case re_completed e of None \<Rightarrow> True | Some c \<Rightarrow> run_completed_sendable c)"

section \<open>The hub\<close>

record subscription =
  sub_run :: string
  sub_buffer :: "run_event list"

record hub =
  hb_next :: int
  hb_subs :: "(int \<times> subscription) list"

definition new_hub :: hub where "new_hub = \<lparr>hb_next = 0, hb_subs = []\<rparr>"

definition buffer_size :: nat where "buffer_size = 32"

definition subscribe :: "string \<Rightarrow> hub \<Rightarrow> int \<times> hub" where
  "subscribe run h =
     (hb_next h, h\<lparr>hb_next := hb_next h + 1,
        hb_subs := (hb_next h, \<lparr>sub_run = run, sub_buffer = []\<rparr>) # hb_subs h\<rparr>)"

text \<open>\<open>cancel\<close> closes and forgets the channel once; a second call finds nothing.\<close>

definition cancel_sub :: "int \<Rightarrow> hub \<Rightarrow> hub" where
  "cancel_sub i h = h\<lparr>hb_subs := filter (\<lambda>(k, s). k \<noteq> i) (hb_subs h)\<rparr>"

definition offer :: "string \<Rightarrow> run_event \<Rightarrow> subscription \<Rightarrow> subscription" where
  "offer run e s =
     (if sub_run s \<noteq> run then s
      else if length (sub_buffer s) < buffer_size then s\<lparr>sub_buffer := sub_buffer s @ [e]\<rparr>
      else s)"

definition deliver_local :: "string \<Rightarrow> run_event \<Rightarrow> hub \<Rightarrow> hub" where
  "deliver_local run e h = h\<lparr>hb_subs := map (\<lambda>(k, s). (k, offer run e s)) (hb_subs h)\<rparr>"

definition run_events_prefix :: string where "run_events_prefix = ''run.events.''"

definition deliver_from_bus :: "string \<Rightarrow> wire \<Rightarrow> hub \<Rightarrow> hub" where
  "deliver_from_bus subject msg h =
     (case unmarshal_run_event msg of
        None \<Rightarrow> h
      | Some e \<Rightarrow> deliver_local (trim_prefix subject run_events_prefix) e h)"

definition broadcast :: "bool \<Rightarrow> string \<Rightarrow> run_event \<Rightarrow> hub \<times> 'k world \<Rightarrow> hub \<times> 'k world" where
  "broadcast has_bus run e s =
     (case s of (h, w) \<Rightarrow>
        if \<not> has_bus then (deliver_local run e h, w)
        else (h, snd (publish_raw (run_events_prefix @ run) (marshal_run_event e) w)))"

text \<open>The receiver takes the oldest event of its channel.\<close>

definition receive :: "int \<Rightarrow> hub \<Rightarrow> run_event option \<times> hub" where
  "receive i h =
     (case map_of (hb_subs h) i of
        None \<Rightarrow> (None, h)
      | Some s \<Rightarrow>
          (case sub_buffer s of
             [] \<Rightarrow> (None, h)
           | e # es \<Rightarrow>
               (Some e, h\<lparr>hb_subs := map (\<lambda>(k, s'). (k, if k = i then s'\<lparr>sub_buffer := es\<rparr> else s'))
                  (hb_subs h)\<rparr>)))"

section \<open>The SSE endpoint\<close>

text \<open>An SSE frame: the event name and the payload.\<close>

type_synonym frame = "string \<times> json"

definition terminal_summary :: "run \<Rightarrow> json" where
  "terminal_summary r = JObj (
     omit_none ''endedAt'' JTime (rn_ended r) @
     omit_none ''exitCode'' JInt (rn_exit r) @
     always ''runId'' (JStr (rn_id r)) @
     omit_none ''startedAt'' JTime (rn_started r) @
     always ''status'' (JStr (rn_status r)) @
     always ''tenantId'' (JStr (rn_tenant r)))"

text \<open>What opening a stream leads to: an error, a finished stream, or a live subscription.\<close>

datatype sse = Sse_Error response | Sse_Finished "frame list" | Sse_Live int

fun sse_opened :: "sse \<Rightarrow> bool" where
  "sse_opened (Sse_Error r) = False"
| "sse_opened x = True"

definition stream_open :: "bool \<Rightarrow> bool \<Rightarrow> ctx \<Rightarrow> string \<Rightarrow> hub \<times> 'k world \<Rightarrow> sse \<times> (hub \<times> 'k world)" where
  "stream_open has_hub can_flush c run s =
     (case s of (h, w) \<Rightarrow>
        if \<not> has_hub then (Sse_Error (http_error ''events unavailable: hub not configured'' 503), s)
        else (case from_context c of
                None \<Rightarrow> (Sse_Error unauthorized, s)
              | Some i \<Rightarrow>
                  (case db_read (runs_get (id_tenant i) run) w of
                     (Inl e, w1) \<Rightarrow>
                       (Sse_Error (if is_not_found e then http_error ''not found'' 404
                                   else http_error (err_text e) 500), (h, w1))
                   | (Inr r, w1) \<Rightarrow>
                       if \<not> can_flush then (Sse_Error (http_error ''streaming unsupported'' 500), (h, w1))
                       else (case subscribe run h of (k, h1) \<Rightarrow>
                               if terminal_status (rn_status r)
                               then (Sse_Finished [(''completed'', terminal_summary r)], (cancel_sub k h1, w1))
                               else (Sse_Live k, (h1, w1))))))"

text \<open>The body of the loop: the frames an event writes, and whether the loop goes on.\<close>

definition stream_event :: "run_event \<Rightarrow> frame list \<times> bool" where
  "stream_event e =
     (if re_kind e = ''started'' then
        (case re_started e of None \<Rightarrow> [] | Some x \<Rightarrow> [(''started'', marshal_run_started x)], True)
      else if re_kind e = ''completed'' then
        (case re_completed e of None \<Rightarrow> [] | Some x \<Rightarrow> [(''completed'', marshal_run_completed x)], False)
      else ([], True))"

text \<open>The frames written for the events received in order, until one ends the stream.\<close>

fun stream_frames :: "run_event list \<Rightarrow> frame list \<times> bool" where
  "stream_frames [] = ([], True)"
| "stream_frames (e # es) =
     (case stream_event e of
        (fs, False) \<Rightarrow> (fs, False)
      | (fs, True) \<Rightarrow> (case stream_frames es of (gs, b) \<Rightarrow> (fs @ gs, b)))"

section \<open>Lemmas\<close>

lemma started_decode:
  "decode_fields run_started_fields (always ''tenantId'' (JStr (rs_tenant x)) @
     always ''agentId'' (JStr (rs_agent x)) @ always ''runId'' (JStr (rs_run x)) @
     always ''at'' (JTime (rs_at x))) zero_run_started = Some x"
  using run_started_wire [of x] by (simp add: unmarshal_run_started_def marshal_run_started_def)

lemma unmarshal_obj:
  "unmarshal fs r (Some (JObj es)) = Some x \<Longrightarrow> decode_fields fs es r = Some x"
  by simp

lemma pointer_decode:
  assumes "unmarshal fs z (Some j) = Some x" and "j = JObj es" and "sel r = None"
  shows "set_pointer fs z sel put j r = Some (put (Some x) r)"
  using assms by (simp add: set_pointer_def)

lemma run_event_wire:
  assumes "run_event_sendable e"
  shows "unmarshal_run_event (Some (marshal_run_event e)) = Some e"
proof -
  have s: "set_pointer run_started_fields zero_run_started re_started put (marshal_run_started x) r =
      Some (put (Some x) r)" if "re_started r = None" for x r put
    using run_started_wire [of x] that
    by (intro pointer_decode) (auto simp: unmarshal_run_started_def marshal_run_started_def)
  have c: "set_pointer run_completed_fields zero_run_completed re_completed put (marshal_run_completed x) r =
      Some (put (Some x) r)" if "re_completed r = None" "run_completed_sendable x" for x r put
    using run_completed_wire [OF that(2)] that(1)
    by (intro pointer_decode) (auto simp: unmarshal_run_completed_def marshal_run_completed_def)
  show ?thesis
    using assms
    by (cases e) (simp add: unmarshal_run_event_def marshal_run_event_def run_event_fields_def
        zero_run_event_def run_event_sendable_def decode_rules set_str_def s c split: option.splits)
qed

text \<open>Identifiers are below the counter and distinct, buffers within their capacity.\<close>

definition hub_ok :: "hub \<Rightarrow> bool" where
  "hub_ok h \<longleftrightarrow> distinct (map fst (hb_subs h)) \<and>
     (\<forall>(k, s)\<in>set (hb_subs h). k < hb_next h \<and> length (sub_buffer s) \<le> buffer_size)"

lemma offer_run [simp]: "sub_run (offer run e s) = sub_run s"
  by (simp add: offer_def)

lemma offer_length: "length (sub_buffer s) \<le> buffer_size \<Longrightarrow> length (sub_buffer (offer run e s)) \<le> buffer_size"
  by (auto simp: offer_def)

lemma map_of_deliver:
  "map_of (hb_subs (deliver_local run e h)) k = map_option (offer run e) (map_of (hb_subs h) k)"
  by (simp add: deliver_local_def map_of_map_snd)

lemma new_hub_ok: "hub_ok new_hub"
  by (simp add: hub_ok_def new_hub_def)

lemma subscribe_ok: "hub_ok h \<Longrightarrow> hub_ok (snd (subscribe run h))"
  by (auto simp: hub_ok_def subscribe_def buffer_size_def)

lemma cancel_ok: "hub_ok h \<Longrightarrow> hub_ok (cancel_sub i h)"
  by (auto simp: hub_ok_def cancel_sub_def distinct_map_filter)

lemma deliver_local_ok: "hub_ok h \<Longrightarrow> hub_ok (deliver_local run e h)"
  by (auto simp: hub_ok_def deliver_local_def comp_def split_beta intro: offer_length)

lemma cancel_sub_twice: "cancel_sub i (cancel_sub i h) = cancel_sub i h"
  by (simp add: cancel_sub_def)

section \<open>Properties\<close>

lemma offers_in_order:
  "fold (\<lambda>(r, e). offer r e) ds s =
     s\<lparr>sub_buffer := sub_buffer s @
        take (buffer_size - length (sub_buffer s)) (map snd (filter (\<lambda>m. fst m = sub_run s) ds))\<rparr>"
proof (induction ds arbitrary: s)
  case (Cons d ds)
  obtain r e where d: "d = (r, e)" by (cases d)
  have first: "fold (\<lambda>(r, e). offer r e) (d # ds) s = fold (\<lambda>(r, e). offer r e) ds (offer r e s)"
    by (simp add: d)
  have rest: "(offer r e s)\<lparr>sub_buffer := sub_buffer (offer r e s) @
        take (buffer_size - length (sub_buffer (offer r e s)))
          (map snd (filter (\<lambda>m. fst m = sub_run (offer r e s)) ds))\<rparr> =
      s\<lparr>sub_buffer := sub_buffer s @
        take (buffer_size - length (sub_buffer s)) (map snd (filter (\<lambda>m. fst m = sub_run s) (d # ds)))\<rparr>"
  proof (cases "sub_run s = r \<and> length (sub_buffer s) < buffer_size")
    case True
    then obtain n where "buffer_size - length (sub_buffer s) = Suc n"
      by (metis Suc_diff_Suc)
    moreover from this have "buffer_size - Suc (length (sub_buffer s)) = n" by arith
    ultimately show ?thesis using True by (simp add: d offer_def)
  next
    case False
    then show ?thesis by (auto simp: d offer_def)
  qed
  show ?case unfolding first Cons.IH by (rule rest)
qed simp

lemma deliveries_map_of:
  "map_of (hb_subs (fold (\<lambda>(r, e). deliver_local r e) ds h)) k =
     map_option (fold (\<lambda>(r, e). offer r e) ds) (map_of (hb_subs h) k)"
  by (induction ds arbitrary: h)
    (auto simp: map_of_deliver option.map_comp comp_def id_def option.map_ident split: prod.split)



definition sample_started :: run_event where
  "sample_started = \<lparr>re_kind = ''started'', re_started = Some \<lparr>rs_tenant = ''t'', rs_agent = ''a'', rs_run = ''r1'',
     rs_at = 1\<rparr>, re_completed = None\<rparr>"


text \<open>
  A caller can only stream the events of a run of its own tenant; a run that is already
  terminal gets exactly one synthetic completed frame and leaves no subscription behind, and
  any other one a live subscription to that run.
\<close>

lemma stream_open_is_scoped:
  assumes "stream_open has_hub can_flush c run (h, w) = (res, h', w')"
    and "sse_opened res" and "hub_ok h"
  shows "\<exists>i r. c = Some i \<and> runs_get (id_tenant i) run (w_db w) = Inr r \<and> rn_tenant r = id_tenant i \<and>
    (if terminal_status (rn_status r)
     then res = Sse_Finished [(''completed'', terminal_summary r)] \<and> hb_subs h' = hb_subs h
     else res = Sse_Live (hb_next h) \<and> h' = snd (subscribe run h))"
proof -
  obtain i where i: "c = Some i"
    using assms(1,2) by (auto simp: stream_open_def from_context_def split: if_splits option.splits)
  let ?q = "runs_get (id_tenant i) run"
  obtain r where r: "fst (db_read ?q w) = Inr r"
    using assms(1,2) i
    by (cases "fst (db_read ?q w)") (auto simp: stream_open_def from_context_def split_beta split: if_splits)
  note g = db_read_Inr [OF r]
  have "filter (\<lambda>(k, s). k \<noteq> hb_next h) (hb_subs h) = hb_subs h"
    using assms(3) by (auto simp: hub_ok_def filter_id_conv)
  then have "hb_subs (cancel_sub (hb_next h) (snd (subscribe run h))) = hb_subs h"
    by (simp add: cancel_sub_def subscribe_def)
  with assms(1,2) i r g runs.get_Inr [OF g] show ?thesis
    by (auto simp: stream_open_def from_context_def split_beta subscribe_def split: if_splits)
qed

lemma stream_open_is_scoped_witness:
  "\<exists>i r. sample_ctx = Some i \<and> runs_get (id_tenant i) ''r3'' (w_db (quiet_world sample_db ())) = Inr r \<and>
    rn_tenant r = id_tenant i \<and>
    (if terminal_status (rn_status r)
     then fst (stream_open True True sample_ctx ''r3'' (new_hub, quiet_world sample_db ())) =
        Sse_Finished [(''completed'', terminal_summary r)] \<and>
        hb_subs (fst (snd (stream_open True True sample_ctx ''r3'' (new_hub, quiet_world sample_db ())))) = hb_subs new_hub
     else fst (stream_open True True sample_ctx ''r3'' (new_hub, quiet_world sample_db ())) = Sse_Live (hb_next new_hub) \<and>
        fst (snd (stream_open True True sample_ctx ''r3'' (new_hub, quiet_world sample_db ()))) =
          snd (subscribe ''r3'' new_hub))"
proof (rule stream_open_is_scoped)
  show "stream_open True True sample_ctx ''r3'' (new_hub, quiet_world sample_db ()) =
    (fst (stream_open True True sample_ctx ''r3'' (new_hub, quiet_world sample_db ())),
     fst (snd (stream_open True True sample_ctx ''r3'' (new_hub, quiet_world sample_db ()))),
     snd (snd (stream_open True True sample_ctx ''r3'' (new_hub, quiet_world sample_db ()))))"
    by simp
  show "sse_opened (fst (stream_open True True sample_ctx ''r3'' (new_hub, quiet_world sample_db ())))"
    by (simp add: stream_open_def sample_ctx_def from_context_def quiet_world_def runs_get_def sample_db_def
        sample_run_def terminal_status_def run_status_defs subscribe_def new_hub_def)
qed (rule new_hub_ok)

end
