(* ===== verification/Run_Logs.thy ===== *)
theory Run_Logs
  imports World Runs_Repo Manifest_Json
begin

text \<open>
  Reading the logs of a run: \<open>internal/runs/logs.go\<close> and the client of
  \<open>internal/loki/client.go\<close>. Parameters are the log stream of a pod (its lines, and the error
  that ended it, a cancelled context being none), the HTTP call to Loki and \<open>unix_nano\<close>, the
  text of a time's Unix nanoseconds.
\<close>

section \<open>Loki\<close>

record loki_request =
  lq_url :: string
  lq_query :: string
  lq_start :: string
  lq_end :: string
  lq_limit :: string
  lq_direction :: string

text \<open>A request fails before it is sent, when its URL is bad, or on the way.\<close>

datatype http_failure = Bad_Url error | Transport error

type_synonym loki_http = "loki_request \<Rightarrow> http_failure + (nat \<times> string \<times> wire)"

definition loki_new :: "string \<Rightarrow> string" where
  "loki_new base = trim_right_char CHR ''/'' base"

text \<open>A client is its base URL; no client and an empty URL are both disabled.\<close>

definition loki_disabled :: "string option \<Rightarrow> bool" where
  "loki_disabled c \<longleftrightarrow> coalesce_str c = []"

definition logql_for_run :: "string \<Rightarrow> string \<Rightarrow> string" where
  "logql_for_run tenant run =
     ''{namespace=\"tenant-'' @ tenant @ ''\", pod=~\"run-'' @ run @ ''-.*\"}''"

text \<open>The answer: a list of series, each with its \<open>[nanoseconds, line]\<close> pairs.\<close>

definition value_pair :: "json \<Rightarrow> string option" where
  "value_pair j =
     (case j of
        JNull \<Rightarrow> Some []
      | JArr [] \<Rightarrow> Some []
      | JArr [a] \<Rightarrow> map_option (\<lambda>_. []) (str_elem a)
      | JArr (a # b # _) \<Rightarrow> (case str_elem a of None \<Rightarrow> None | Some _ \<Rightarrow> str_elem b)
      | _ \<Rightarrow> None)"

definition series_fields :: "(string \<times> (string list) setter) list" where
  "series_fields = [(''stream'', set_str_map (\<lambda>_ r. r)), (''values'', set_list value_pair (\<lambda>x r. x))]"

definition series_elem :: "json \<Rightarrow> string list option" where
  "series_elem j =
     (case j of JNull \<Rightarrow> Some [] | JObj es \<Rightarrow> decode_fields series_fields es [] | _ \<Rightarrow> None)"

definition data_fields :: "(string \<times> (string list list) setter) list" where
  "data_fields = [(''resultType'', set_str (\<lambda>_ r. r)), (''result'', set_list series_elem (\<lambda>x r. x))]"

definition response_fields :: "(string \<times> (string list list) setter) list" where
  "response_fields = [(''status'', set_str (\<lambda>_ r. r)), (''data'', set_nested data_fields (\<lambda>r. r) (\<lambda>x r. x))]"

definition loki_lines :: "wire \<Rightarrow> string list option" where
  "loki_lines w = map_option concat (unmarshal response_fields [] w)"

definition loki_request_for :: "(gotime \<Rightarrow> string) \<Rightarrow> string option \<Rightarrow> string \<Rightarrow> gotime \<Rightarrow> gotime \<Rightarrow> int \<Rightarrow> loki_request" where
  "loki_request_for unix_nano c query s e n =
     \<lparr>lq_url = coalesce_str c @ ''/loki/api/v1/query_range'', lq_query = query,
       lq_start = unix_nano s, lq_end = unix_nano e, lq_limit = show_int n, lq_direction = ''forward''\<rparr>"

definition loki_query ::
  "(gotime \<Rightarrow> string) \<Rightarrow> loki_http \<Rightarrow> string option \<Rightarrow> string \<Rightarrow> gotime \<Rightarrow> gotime \<Rightarrow> int \<Rightarrow> gotime
    \<Rightarrow> error + string list" where
  "loki_query unix_nano http c query start_at end_at limit now =
     (if loki_disabled c then Inl (ErrText ''loki: disabled (LOKI_URL unset)'')
      else
        (let e = (if end_at = 0 then now else end_at);
             s = (if start_at = 0 then e - 24 * hour else start_at);
             n = (if limit \<le> 0 then 5000 else limit)
         in case http (loki_request_for unix_nano c query s e n) of
              Inl (Bad_Url x) \<Rightarrow> Inl x
            | Inl (Transport x) \<Rightarrow> Inl (Wrapped ''loki'' x)
            | Inr (status, text, body) \<Rightarrow>
                if status \<ge> 400
                then Inl (ErrText (''loki '' @ show_nat status @ '': '' @ trim_space (take 4096 text)))
                else (case loki_lines body of
                        None \<Rightarrow> Inl (ErrText ''decode loki response'')
                      | Some ls \<Rightarrow> Inr ls)))"

section \<open>The log stream of a run\<close>

datatype log_frame = Log_Line string | Log_Error string

fun log_text :: "log_frame \<Rightarrow> string" where
  "log_text (Log_Line l) = ''data: '' @ l @ [CHR 0x0A, CHR 0x0A]"
| "log_text (Log_Error e) = ''event: error'' @ [CHR 0x0A] @ ''data: '' @ e @ [CHR 0x0A, CHR 0x0A]"

datatype log_reply = Log_Refused response | Log_Stream "log_frame list"

definition find_pod :: "'k kube_api \<Rightarrow> string \<Rightarrow> string \<Rightarrow> 'k world \<Rightarrow> (error + string) \<times> 'k world" where
  "find_pod K ns run w =
     (case kube_call (k_list K K_Pod ns) w of
        (Inl e, w1) \<Rightarrow> (Inl (kerr_error e), w1)
      | (Inr pods, w1) \<Rightarrow>
          (case filter (\<lambda>p. map_of (om_labels (obj_meta p)) ''ailab.uipath.com/run'' = Some run) pods of
             [] \<Rightarrow> (Inl (ErrText ''no pod for run''), w1)
           | p # _ \<Rightarrow> (Inr (om_name (obj_meta p)), w1)))"

definition stream_from_pod ::
  "(string \<Rightarrow> string \<Rightarrow> error + string list \<times> error option) \<Rightarrow> string \<Rightarrow> string \<Rightarrow> log_frame list" where
  "stream_from_pod pod_logs ns pod =
     (case pod_logs ns pod of
        Inl e \<Rightarrow> [Log_Error (err_text e)]
      | Inr (ls, fin) \<Rightarrow>
          map Log_Line ls @ (case fin of None \<Rightarrow> [] | Some e \<Rightarrow> [Log_Error (err_text e)]))"

definition stream_from_loki ::
  "(gotime \<Rightarrow> string) \<Rightarrow> loki_http \<Rightarrow> string option \<Rightarrow> string \<Rightarrow> string \<Rightarrow> gotime \<Rightarrow> log_frame list" where
  "stream_from_loki unix_nano http c tenant run now =
     (case loki_query unix_nano http c (logql_for_run tenant run) 0 0 0 now of
        Inl e \<Rightarrow> [Log_Error (err_text e)]
      | Inr ls \<Rightarrow> map Log_Line ls)"

definition stream_logs ::
  "'k kube_api option \<Rightarrow> (string \<Rightarrow> string \<Rightarrow> error + string list \<times> error option) \<Rightarrow> (gotime \<Rightarrow> string)
    \<Rightarrow> loki_http \<Rightarrow> string option \<Rightarrow> bool \<Rightarrow> gotime \<Rightarrow> ctx \<Rightarrow> string \<Rightarrow> 'k world \<Rightarrow> log_reply \<times> 'k world" where
  "stream_logs Ko pod_logs unix_nano http loki flusher now c run w =
     (case from_context c of
        None \<Rightarrow> (Log_Refused unauthorized, w)
      | Some i \<Rightarrow>
          (case db_read (runs_get (id_tenant i) run) w of
             (Inl e, w1) \<Rightarrow>
               (Log_Refused (if is_not_found e then http_error ''not found'' 404
                             else http_error (err_text e) 500), w1)
           | (Inr r, w1) \<Rightarrow>
               if \<not> flusher then (Log_Refused (http_error ''streaming unsupported'' 500), w1)
               else
                 (let ns = ''tenant-'' @ rn_tenant r;
                      (pod, w2) = (case Ko of None \<Rightarrow> (Inl (ErrText []), w1) | Some K \<Rightarrow> find_pod K ns run w1)
                  in case pod of
                       Inr p \<Rightarrow> (Log_Stream (stream_from_pod pod_logs ns p), w2)
                     | Inl _ \<Rightarrow>
                         if \<not> loki_disabled loki
                         then (Log_Stream (stream_from_loki unix_nano http loki (rn_tenant r) run now), w2)
                         else (Log_Stream [Log_Error ''no live pod and Loki not configured''], w2))))"

section \<open>Lemmas\<close>

text \<open>Several series are read one after the other, each in its own order.\<close>

lemma loki_lines_series:
  "loki_lines (Some (JObj [(''data'', JObj [(''result'',
       JArr (map (\<lambda>ls. JObj [(''values'', JArr (map (\<lambda>l. JArr [JStr [], JStr l]) ls))]) lss))])])) =
     Some (concat lss)"
proof -
  have v: "decode_all value_pair (map (\<lambda>l. JArr [JStr [], JStr l]) ls) = Some ls" for ls
    by (rule decode_all_map) (simp add: value_pair_def str_elem_def)
  have "series_elem (JObj [(''values'', JArr (map (\<lambda>l. JArr [JStr [], JStr l]) ls))]) = Some ls" for ls
    by (simp add: series_elem_def series_fields_def field_for_def set_list_def v)
  then have "decode_all series_elem (map (\<lambda>ls. JObj [(''values'', JArr (map (\<lambda>l. JArr [JStr [], JStr l]) ls))]) lss) = Some lss"
    by (intro decode_all_map) simp
  then show ?thesis
    by (simp add: loki_lines_def response_fields_def data_fields_def field_for_def set_nested_def set_list_def)
qed

lemma find_pod_Inr:
  assumes "kube_lists K view" and "fst (find_pod K ns run w) = Inr p" and "ns \<noteq> []"
  shows "\<exists>x. view (w_kube w) (K_Pod, ns, p) = Some x \<and>
    map_of (om_labels (obj_meta x)) ''ailab.uipath.com/run'' = Some run"
proof -
  obtain xs where xs: "fst (k_list K K_Pod ns (w_kube w)) = Inr xs"
    using assms(2) by (cases "fst (k_list K K_Pod ns (w_kube w))") (auto simp: find_pod_def split_beta)
  then obtain x ys where x: "filter (\<lambda>p. map_of (om_labels (obj_meta p)) ''ailab.uipath.com/run'' = Some run) xs = x # ys"
    "p = om_name (obj_meta x)"
    using assms(2) by (auto simp: find_pod_def split_beta split: list.splits)
  then have m: "x \<in> set xs" and l: "map_of (om_labels (obj_meta x)) ''ailab.uipath.com/run'' = Some run"
    by (auto dest: filter_eq_ConsD)
  have "view (w_kube w) (K_Pod, ns, p) = Some x"
    using kube_lists_item [OF assms(1) xs m] x(2) assms(3) by auto
  with l show ?thesis by blast
qed

lemma find_pod_frame [simp]: "w_db (snd (find_pod K ns run w)) = w_db w"
  by (auto simp: find_pod_def split_beta split: sum.splits list.splits)

lemma stream_from_pod_line:
  "Log_Line l \<in> set (stream_from_pod pod_logs ns p) \<Longrightarrow> \<exists>ls fin. pod_logs ns p = Inr (ls, fin) \<and> l \<in> set ls"
  by (auto simp: stream_from_pod_def split: sum.splits prod.splits option.splits)

lemma loki_query_Inr:
  assumes "loki_query unix_nano http c query s e n now = Inr ls"
  shows "\<exists>q status text body. lq_query q = query \<and> http q = Inr (status, text, body) \<and> loki_lines body = Some ls"
proof -
  obtain s' e' n' where "\<exists>status text body. http (loki_request_for unix_nano c query s' e' n') = Inr (status, text, body) \<and>
      loki_lines body = Some ls"
    using assms by (force simp: loki_query_def Let_def split: if_splits sum.splits option.splits prod.splits http_failure.splits)
  moreover have "lq_query (loki_request_for unix_nano c query s' e' n') = query"
    by (simp add: loki_request_for_def)
  ultimately show ?thesis by blast
qed

lemma stream_from_loki_line:
  "Log_Line l \<in> set (stream_from_loki unix_nano http c tenant run now) \<Longrightarrow>
    \<exists>q status text body ls. lq_query q = logql_for_run tenant run \<and>
      http q = Inr (status, text, body) \<and> loki_lines body = Some ls \<and> l \<in> set ls"
  by (fastforce simp: stream_from_loki_def split: sum.splits dest: loki_query_Inr)

lemma stream_logs_db [simp]:
  "w_db (snd (stream_logs Ko pod_logs unix_nano http loki flusher now c run w)) = w_db w"
  by (auto simp: stream_logs_def from_context_def Let_def split_beta split: option.splits sum.splits)

lemma stream_logs_opened:
  assumes "fst (stream_logs (Some K) pod_logs unix_nano http loki flusher now c run w) = Log_Stream fs"
  shows "\<exists>i r w1. c = Some i \<and> runs_get (id_tenant i) run (w_db w) = Inr r \<and> w_kube w1 = w_kube w \<and>
    (case fst (find_pod K (''tenant-'' @ rn_tenant r) run w1) of
       Inr p \<Rightarrow> fs = stream_from_pod pod_logs (''tenant-'' @ rn_tenant r) p
     | Inl _ \<Rightarrow> fs = (if loki_disabled loki then [Log_Error ''no live pod and Loki not configured'']
                       else stream_from_loki unix_nano http loki (rn_tenant r) run now))"
proof -
  obtain i where i: "c = Some i"
    using assms by (cases c) (auto simp: stream_logs_def from_context_def)
  let ?q = "runs_get (id_tenant i) run"
  obtain r where r: "fst (db_read ?q w) = Inr r"
    using assms i by (cases "fst (db_read ?q w)") (auto simp: stream_logs_def from_context_def split_beta)
  show ?thesis
    using assms i r db_read_Inr [OF r]
    by (intro exI [of _ i] exI [of _ r] exI [of _ "snd (db_read ?q w)"])
      (auto simp: stream_logs_def from_context_def Let_def split_beta split: if_splits sum.splits)
qed

text \<open>A live pod of the sample run and the stream it has.\<close>

definition run_pod :: pod where
  "run_pod = \<lparr>pd_meta = new_meta ''run-r2-x'' ''tenant-t'' [(''ailab.uipath.com/run'', ''r2'')] []\<rparr>"

definition sample_pod_logs :: "string \<Rightarrow> string \<Rightarrow> error + string list \<times> error option" where
  "sample_pod_logs ns p = Inr ([''one'', ''two''], None)"

definition no_loki :: loki_http where
  "no_loki q = Inl (Transport (ErrText ''unreachable''))"

section \<open>Properties\<close>



end
