(* ===== verification/Api_Server.thy ===== *)
theory Api_Server
  imports Config Triggers_Api Tenants_Api Builder Audit_Export Hub Run_Logs
begin

text \<open>
  The public API of \<open>cmd/api/main.go\<close>: the routes its packages mount, which of them lie behind
  the authentication middleware, and the service of one request. Matching is chi's and a
  parameter, \<open>route\<close>, with the law that it answers with a registered route that matches; so
  are the verification of tokens, HMAC-SHA256, the JSON parser and the log backends. Contexts
  that expire and the request-id, real-ip, recoverer and tracing middleware are not modelled.
\<close>

section \<open>Routes\<close>

datatype segment = Lit string | Param string

datatype endpoint =
    E_Health | E_Webhook | E_Workos
  | E_Agents_List | E_Agents_Create | E_Agent_Get | E_Agent_Delete | E_Deploy | E_Undeploy
  | E_Runs_List | E_Run_Trigger | E_Run_Get | E_Run_Logs | E_Run_Events
  | E_Trigger_Create | E_Trigger_List | E_Build_Create
  | E_Secrets_List | E_Secret_Put | E_Secret_Delete | E_Audit_List | E_Me

text \<open>A route: the method, the pattern, whether the middleware guards it, and the handler.\<close>

type_synonym api_route = "string \<times> segment list \<times> bool \<times> endpoint"

definition on :: "string \<Rightarrow> segment list \<Rightarrow> endpoint \<Rightarrow> api_route list" where
  "on meth path e = [(meth, path, False, e)]"

definition mount :: "segment list \<Rightarrow> api_route list \<Rightarrow> api_route list" where
  "mount prefix rs = map (\<lambda>(m, p, b, e). (m, prefix @ p, b, e)) rs"

text \<open>\<open>r.Use(auth.Middleware(verifier))\<close>.\<close>

definition guarded :: "api_route list \<Rightarrow> api_route list" where
  "guarded rs = map (\<lambda>(m, p, b, e). (m, p, True, e)) rs"

definition agents_routes :: "api_route list" where
  "agents_routes = on ''GET'' [] E_Agents_List @ on ''POST'' [] E_Agents_Create @
     mount [Param ''agentId''] (on ''GET'' [] E_Agent_Get @ on ''DELETE'' [] E_Agent_Delete)"

definition deploy_routes :: "api_route list" where
  "deploy_routes = on ''POST'' [] E_Deploy @ on ''DELETE'' [] E_Undeploy"

definition runs_routes :: "api_route list" where
  "runs_routes =
     mount [Lit ''agents'', Param ''agentId'', Lit ''runs'']
       (on ''GET'' [] E_Runs_List @ on ''POST'' [] E_Run_Trigger) @
     mount [Lit ''runs'', Param ''runId'']
       (on ''GET'' [] E_Run_Get @ on ''GET'' [Lit ''logs''] E_Run_Logs @
        on ''GET'' [Lit ''events''] E_Run_Events)"

definition triggers_auth_routes :: "api_route list" where
  "triggers_auth_routes = on ''POST'' [] E_Trigger_Create @ on ''GET'' [] E_Trigger_List"

definition triggers_public_routes :: "api_route list" where
  "triggers_public_routes =
     on ''POST'' [Lit ''v1'', Lit ''agents'', Param ''agentId'', Lit ''webhooks'', Param ''name''] E_Webhook"

definition builds_routes :: "api_route list" where
  "builds_routes = on ''POST'' [] E_Build_Create"

definition secrets_routes :: "api_route list" where
  "secrets_routes = on ''GET'' [] E_Secrets_List @ on ''POST'' [] E_Secret_Put @
     on ''DELETE'' [Param ''name''] E_Secret_Delete"

definition audit_routes :: "api_route list" where
  "audit_routes = on ''GET'' [] E_Audit_List"

definition me_routes :: "api_route list" where
  "me_routes = on ''GET'' [] E_Me"

definition workos_routes :: "api_route list" where
  "workos_routes = on ''POST'' [Lit ''workos''] E_Workos"

definition v1_routes :: "api_route list" where
  "v1_routes = guarded
     (mount [Lit ''agents''] agents_routes @
      mount [Lit ''agents'', Param ''agentId'', Lit ''deploy''] deploy_routes @
      runs_routes @
      mount [Lit ''agents'', Param ''agentId'', Lit ''triggers''] triggers_auth_routes @
      mount [Lit ''agents'', Param ''agentId'', Lit ''builds''] builds_routes @
      mount [Lit ''secrets''] secrets_routes @
      mount [Lit ''audit''] audit_routes @
      mount [Lit ''me''] me_routes)"

definition api_routes :: "api_config \<Rightarrow> api_route list" where
  "api_routes cfg =
     on ''GET'' [Lit ''healthz''] E_Health @
     triggers_public_routes @
     (if ac_webhook_secret cfg \<noteq> [] then mount [Lit ''v1'', Lit ''webhooks''] workos_routes else []) @
     mount [Lit ''v1''] v1_routes"

lemmas route_defs = on_def mount_def guarded_def agents_routes_def deploy_routes_def runs_routes_def
  triggers_auth_routes_def triggers_public_routes_def builds_routes_def secrets_routes_def
  audit_routes_def me_routes_def workos_routes_def v1_routes_def api_routes_def

section \<open>Matching\<close>

definition segments :: "string \<Rightarrow> string list" where
  "segments path =
     (let ps = tl (split_on (CHR ''/'') path)
      in if ps \<noteq> [] \<and> last ps = [] then butlast ps else ps)"

fun matches :: "segment list \<Rightarrow> string list \<Rightarrow> (string \<times> string) list option" where
  "matches [] [] = Some []"
| "matches (Lit s # ps) (x # xs) = (if s = x then matches ps xs else None)"
| "matches (Param n # ps) (x # xs) = map_option (\<lambda>r. (n, x) # r) (matches ps xs)"
| "matches _ _ = None"

text \<open>
  What the router decides on a method and a path: a route with its URL parameters, or none, with
  the response it gives and whether the middleware of a mounted router runs first.
\<close>

type_synonym router =
  "api_route list \<Rightarrow> string \<Rightarrow> string \<Rightarrow> (bool \<times> response) + (bool \<times> endpoint \<times> (string \<times> string) list)"

definition router_law :: "router \<Rightarrow> bool" where
  "router_law route \<longleftrightarrow>
     (\<forall>rs m path.
        case route rs m path of
          Inr (b, e, ps) \<Rightarrow> \<exists>p. (m, p, b, e) \<in> set rs \<and> matches p (segments path) = Some ps
        | Inl (b, r) \<Rightarrow> fst r \<in> {404, 405} \<and>
            ([] \<in> set (tl (split_on (CHR ''/'') path)) \<or>
             (\<forall>p b e. (m, p, b, e) \<in> set rs \<longrightarrow> matches p (segments path) = None)))"

text \<open>A router that tries the routes in order, to evaluate the model with.\<close>

fun first_match :: "api_route list \<Rightarrow> string \<Rightarrow> string list \<Rightarrow> (bool \<times> endpoint \<times> (string \<times> string) list) option"
where
  "first_match [] m xs = None"
| "first_match ((m', p, b, e) # rs) m xs =
     (case (if m' = m then matches p xs else None) of
        Some ps \<Rightarrow> Some (b, e, ps) | None \<Rightarrow> first_match rs m xs)"

definition in_order :: router where
  "in_order rs m path =
     (case first_match rs m (segments path) of
        Some r \<Rightarrow> Inr r | None \<Rightarrow> Inl (has_prefix path ''/v1'', http_error ''404 page not found'' 404))"

lemma first_match_Some:
  "first_match rs m xs = Some (b, e, ps) \<Longrightarrow> \<exists>p. (m, p, b, e) \<in> set rs \<and> matches p xs = Some ps"
  by (induction rs m xs rule: first_match.induct) (auto split: option.splits if_splits)

lemma first_match_None:
  "first_match rs m xs = None \<Longrightarrow> (m, p, b, e) \<in> set rs \<Longrightarrow> matches p xs = None"
  by (induction rs m xs rule: first_match.induct) (auto split: option.splits if_splits)

lemma in_order_law: "router_law in_order"
  unfolding router_law_def in_order_def
  by (auto split: option.splits dest: first_match_Some first_match_None)

section \<open>Serving a request\<close>

record api_request =
  q_method :: string
  q_path :: string
  q_authorization :: string
  q_origin :: string
  q_signature :: string
  q_workos_signature :: string
  q_limit :: string
  q_length :: int
  q_body :: "string option"

text \<open>
  What the handlers are built with. \<open>av_workos\<close> is the WorkOS verifier for a client id; \<open>av_decode\<close> reads the first JSON value of a body and
  \<open>av_parse\<close> a body that is one JSON value.
\<close>

record 'k api_server =
  av_config :: api_config
  av_route :: router
  av_workos :: "string \<Rightarrow> string \<Rightarrow> error + identity"
  av_origins :: string
  av_hmac :: "string \<Rightarrow> string \<Rightarrow> string"
  av_uuid5 :: "string \<Rightarrow> string \<Rightarrow> string"
  av_decode :: "string \<Rightarrow> wire"
  av_parse :: "string \<Rightarrow> wire"
  av_box :: box
  av_kube :: "'k kube_api option"
  av_pod_logs :: "string \<Rightarrow> string \<Rightarrow> error + string list \<times> error option"
  av_unix_nano :: "gotime \<Rightarrow> string"
  av_loki :: loki_http
  av_flusher :: bool

datatype api_reply = Answer response | Logs_Answer log_reply | Events_Answer sse

definition request_wire :: "'k api_server \<Rightarrow> api_request \<Rightarrow> wire" where
  "request_wire S q = (case q_body q of None \<Rightarrow> None | Some b \<Rightarrow> av_decode S b)"

definition url_param :: "(string \<times> string) list \<Rightarrow> string \<Rightarrow> string" where
  "url_param ps n = coalesce_str (map_of ps n)"

definition answer :: "(response \<times> 'k world) \<Rightarrow> hub \<Rightarrow> api_reply \<times> hub \<times> 'k world" where
  "answer r h = (Answer (fst r), h, snd r)"

definition endpoint_handler ::
  "'k api_server \<Rightarrow> gen \<Rightarrow> api_request \<Rightarrow> endpoint \<Rightarrow> (string \<times> string) list \<Rightarrow> ctx
    \<Rightarrow> hub \<times> 'k world \<Rightarrow> api_reply \<times> hub \<times> 'k world" where
  "endpoint_handler S g q e ps c s =
     (case s of (h, w) \<Rightarrow>
      (let agent = url_param ps ''agentId'';
           run = url_param ps ''runId'';
           name = url_param ps ''name'';
           body = request_wire S q;
           b = av_box S
       in case e of
            E_Health \<Rightarrow> (Answer (200, Text ''ok''), h, w)
          | E_Webhook \<Rightarrow>
              answer (webhook_handler (av_hmac S) (av_parse S) b g c agent name (q_signature q) (q_body q) w) h
          | E_Workos \<Rightarrow>
              answer (workos_handler (av_hmac S) (av_uuid5 S) (av_parse S)
                \<lparr>wc_secret = ac_webhook_secret (av_config S), wc_tolerance = 0\<rparr> g c
                (q_workos_signature q) (q_body q) w) h
          | E_Agents_List \<Rightarrow> answer (agents_list_handler c w) h
          | E_Agents_Create \<Rightarrow> answer (agents_create_handler g c body w) h
          | E_Agent_Get \<Rightarrow> answer (agents_get_handler c agent w) h
          | E_Agent_Delete \<Rightarrow> answer (agents_delete_handler g c agent w) h
          | E_Deploy \<Rightarrow> answer (deploy_handler (av_kube S) (Some b) g c agent w) h
          | E_Undeploy \<Rightarrow> answer (undeploy_handler g c agent w) h
          | E_Runs_List \<Rightarrow> answer (runs_list_handler c agent w) h
          | E_Run_Trigger \<Rightarrow> answer (trigger_handler (av_kube S) (Some b) g c agent (q_length q) body w) h
          | E_Run_Get \<Rightarrow> answer (runs_get_handler c run w) h
          | E_Run_Logs \<Rightarrow>
              (case stream_logs (av_kube S) (av_pod_logs S) (av_unix_nano S) (av_loki S)
                      (Some (loki_new (ac_loki_url (av_config S)))) (av_flusher S) (g_now g) c run w of
                 (r, w1) \<Rightarrow> (Logs_Answer r, h, w1))
          | E_Run_Events \<Rightarrow>
              (case stream_open True (av_flusher S) c run (h, w) of (r, s1) \<Rightarrow> (Events_Answer r, s1))
          | E_Trigger_Create \<Rightarrow> answer (triggers_create_handler b g c agent body w) h
          | E_Trigger_List \<Rightarrow> answer (triggers_list_handler c agent w) h
          | E_Build_Create \<Rightarrow> answer (builds_create_handler g c agent body w) h
          | E_Secrets_List \<Rightarrow> answer (secrets_list_handler c w) h
          | E_Secret_Put \<Rightarrow> answer (secrets_upsert_handler b g c body w) h
          | E_Secret_Delete \<Rightarrow> answer (secrets_del_handler g c name w) h
          | E_Audit_List \<Rightarrow> answer (audit_list_handler c (q_limit q) w) h
          | E_Me \<Rightarrow> answer (me_handler c w) h))"

text \<open>Without a JWKS URL tokens are the development ones.\<close>

definition api_verify :: "'k api_server \<Rightarrow> string \<Rightarrow> error + identity" where
  "api_verify S =
     (if dev_mode (av_config S) then dev_verify else av_workos S (ac_workos_client (av_config S)))"

definition route_request ::
  "'k api_server \<Rightarrow> gen \<Rightarrow> api_request \<Rightarrow> hub \<times> 'k world \<Rightarrow> api_reply \<times> hub \<times> 'k world" where
  "route_request S g q s =
     (let guard = (\<lambda>b nxt. if b then middleware Answer (api_verify S) (q_authorization q) nxt None s
                           else nxt None s)
      in case av_route S (api_routes (av_config S)) (q_method q) (q_path q) of
           Inl (b, r) \<Rightarrow> guard b (\<lambda>c s. (Answer r, s))
         | Inr (b, e, ps) \<Rightarrow> guard b (endpoint_handler S g q e ps))"

definition api_serve ::
  "'k api_server \<Rightarrow> gen \<Rightarrow> api_request \<Rightarrow> hub \<times> 'k world
    \<Rightarrow> ((string \<times> string) list \<times> api_reply) \<times> hub \<times> 'k world" where
  "api_serve S g q s = cors Answer (av_origins S) (q_method q) (q_origin q) (route_request S g q) s"

section \<open>Lemmas\<close>

lemma v1_guarded: "(m, p, b, e) \<in> set v1_routes \<Longrightarrow> b"
  unfolding v1_routes_def guarded_def by auto

lemma mounted_guarded: "(m, p, b, e) \<in> set (mount prefix v1_routes) \<Longrightarrow> b"
  using v1_guarded by (force simp: mount_def)

lemma open_route:
  assumes "(m, p, False, e) \<in> set (api_routes cfg)"
  shows "p = [Lit ''healthz''] \<and> e = E_Health \<or>
    p = [Lit ''v1'', Lit ''agents'', Param ''agentId'', Lit ''webhooks'', Param ''name''] \<and> e = E_Webhook \<or>
    p = [Lit ''v1'', Lit ''webhooks'', Lit ''workos''] \<and> e = E_Workos \<and> ac_webhook_secret cfg \<noteq> []"
proof -
  have "(m, p, False, e) \<notin> set (mount [Lit ''v1''] v1_routes)"
    using mounted_guarded by blast
  with assms consider "(m, p, False, e) \<in> set (on ''GET'' [Lit ''healthz''] E_Health)"
    | "(m, p, False, e) \<in> set triggers_public_routes"
    | "ac_webhook_secret cfg \<noteq> []" "(m, p, False, e) \<in> set (mount [Lit ''v1'', Lit ''webhooks''] workos_routes)"
    unfolding api_routes_def by (auto split: if_splits)
  then show ?thesis
    by cases (simp_all add: on_def mount_def triggers_public_routes_def workos_routes_def)
qed

lemma matches_Some:
  "matches [] xs = Some ps \<longleftrightarrow> xs = [] \<and> ps = []"
  "matches (Lit s # p) xs = Some ps \<longleftrightarrow> (\<exists>ys. xs = s # ys \<and> matches p ys = Some ps)"
  "matches (Param n # p) xs = Some ps \<longleftrightarrow>
     (\<exists>x ys qs. xs = x # ys \<and> ps = (n, x) # qs \<and> matches p ys = Some qs)"
  by (cases xs; auto)+

lemma routed:
  assumes "router_law route" and "route rs m path = Inr (b, e, ps)"
  shows "\<exists>p. (m, p, b, e) \<in> set rs \<and> matches p (segments path) = Some ps"
  using assms(1) [unfolded router_law_def, rule_format, where rs = rs and m = m and path = path] assms(2) by simp

lemma open_path:
  assumes "(m, p, False, e) \<in> set (api_routes cfg)" and "matches p xs = Some ps"
  shows "e = E_Webhook \<Longrightarrow> xs = [''v1'', ''agents'', url_param ps ''agentId'', ''webhooks'', url_param ps ''name'']"
    and "e = E_Workos \<Longrightarrow> xs = [''v1'', ''webhooks'', ''workos''] \<and> ac_webhook_secret cfg \<noteq> []"
proof -
  show "xs = [''v1'', ''agents'', url_param ps ''agentId'', ''webhooks'', url_param ps ''name'']" if "e = E_Webhook"
  proof -
    have "p = [Lit ''v1'', Lit ''agents'', Param ''agentId'', Lit ''webhooks'', Param ''name'']"
      using open_route [OF assms(1)] that by blast
    with assms(2) show ?thesis by (auto simp: matches_Some url_param_def coalesce_str_def)
  qed
  show "xs = [''v1'', ''webhooks'', ''workos''] \<and> ac_webhook_secret cfg \<noteq> []" if "e = E_Workos"
  proof -
    have "p = [Lit ''v1'', Lit ''webhooks'', Lit ''workos''] \<and> ac_webhook_secret cfg \<noteq> []"
      using open_route [OF assms(1)] that by blast
    with assms(2) show ?thesis by (auto simp: matches_Some)
  qed
qed

text \<open>The database, the cluster, the bus and the hub of two states are the same.\<close>

definition same_effects :: "hub \<times> 'k world \<Rightarrow> hub \<times> 'k world \<Rightarrow> bool" where
  "same_effects s s' \<longleftrightarrow> fst s' = fst s \<and> w_db (snd s') = w_db (snd s) \<and> w_kube (snd s') = w_kube (snd s) \<and>
     w_sent (snd s') = w_sent (snd s) \<and> w_raw (snd s') = w_raw (snd s)"

lemma same_effects_refl [simp]: "same_effects s s"
  by (simp add: same_effects_def)

text \<open>Whatever the credentials are, an open endpoint acts only on a signed request.\<close>

lemma open_endpoint_effects:
  assumes "e \<in> {E_Health, E_Webhook, E_Workos}"
  shows "same_effects s (snd (endpoint_handler S g q e ps c s)) \<or>
    e = E_Webhook \<and> webhook_signed (av_hmac S) (av_box S) (url_param ps ''agentId'') (url_param ps ''name'')
      (q_signature q) (q_body q) (w_db (snd s)) \<or>
    e = E_Workos \<and> workos_signed (av_hmac S) \<lparr>wc_secret = ac_webhook_secret (av_config S), wc_tolerance = 0\<rparr>
      (g_now g) (q_workos_signature q) (q_body q)"
proof -
  obtain h w where s: "s = (h, w)" by (cases s)
  consider "e = E_Health" | "e = E_Webhook" | "e = E_Workos" using assms by auto
  then show ?thesis
  proof cases
    case 1
    then show ?thesis by (simp add: s endpoint_handler_def Let_def)
  next
    case 2
    show ?thesis
    proof (cases "webhook_signed (av_hmac S) (av_box S) (url_param ps ''agentId'') (url_param ps ''name'')
        (q_signature q) (q_body q) (w_db w)")
      case False
      from webhook_unsigned [OF this] 2 show ?thesis
        by (simp add: s endpoint_handler_def Let_def answer_def same_effects_def)
    qed (use 2 s in simp)
  next
    case 3
    then show ?thesis
      using workos_unsigned [of "av_hmac S" "av_uuid5 S" "av_parse S"
          "\<lparr>wc_secret = ac_webhook_secret (av_config S), wc_tolerance = 0\<rparr>" g c "q_workos_signature q" "q_body q" w]
      by (auto simp: s endpoint_handler_def Let_def answer_def same_effects_def)
  qed
qed

lemma api_verify_names:
  assumes "av_workos S = workos_verify jwks parse" and "api_verify S tok = Inr i"
  shows "id_tenant i \<noteq> [] \<and> id_user i \<noteq> []"
proof (cases "dev_mode (av_config S)")
  case True
  with assms(2) dev.verify_names show ?thesis by (simp add: api_verify_def)
next
  case False
  with assms have "workos_verify jwks parse (ac_workos_client (av_config S)) tok = Inr i"
    by (simp add: api_verify_def)
  then show ?thesis by (rule workos.verify_names)
qed

text \<open>A guarded request either presents a token and is served under its identity, or nothing happens.\<close>

lemma middleware_effects:
  "middleware reply verify header nxt c s = (reply unauthorized, s) \<or>
    (\<exists>tok i. header = ''Bearer '' @ tok \<and> verify tok = Inr i \<and> middleware reply verify header nxt c s = nxt (Some i) s)"
proof (cases "has_prefix header ''Bearer ''")
  case True
  then obtain tok where h: "header = ''Bearer '' @ tok" by (auto simp: has_prefix_iff)
  then have "trim_prefix header ''Bearer '' = tok" by (simp only: trim_prefix_append)
  with True h show ?thesis by (cases "verify tok") (auto simp: middleware_def with_identity_def)
qed (simp add: middleware_def)

section \<open>One tenant's view\<close>

text \<open>The database without the rows of every other tenant.\<close>

definition tenant_db :: "string \<Rightarrow> database \<Rightarrow> database" where
  "tenant_db t d = d\<lparr>
     d_tenants := filter (\<lambda>r. tn_id r = t) (d_tenants d),
     d_agents := filter (\<lambda>r. ag_tenant r = t) (d_agents d),
     d_runs := filter (\<lambda>r. rn_tenant r = t) (d_runs d),
     d_triggers := filter (\<lambda>r. tg_tenant r = t) (d_triggers d),
     d_builds := filter (\<lambda>r. bd_tenant r = t) (d_builds d),
     d_usage := filter (\<lambda>r. us_tenant r = t) (d_usage d),
     d_secrets := filter (\<lambda>r. sc_tenant r = t) (d_secrets d),
     d_audit := filter (\<lambda>r. au_tenant r = t) (d_audit d)\<rparr>"

definition narrowed :: "string \<Rightarrow> 'k world \<Rightarrow> 'k world" where
  "narrowed t w = w\<lparr>w_db := tenant_db t (w_db w)\<rparr>"

definition reads_only :: "endpoint \<Rightarrow> bool" where
  "reads_only e \<longleftrightarrow> e \<in> {E_Health, E_Agents_List, E_Agent_Get, E_Runs_List, E_Run_Get, E_Run_Logs,
     E_Run_Events, E_Trigger_List, E_Secrets_List, E_Audit_List, E_Me}"

named_theorems narrow_simps \<open>queries and steps on the narrowed database\<close>

lemma find_row_filter: "(\<And>x. p x \<Longrightarrow> q x) \<Longrightarrow> find_row p (filter q xs) = find_row p xs"
  by (induction xs) auto

lemma filter_narrow: "(\<And>x. p x \<Longrightarrow> q x) \<Longrightarrow> filter p (filter q xs) = filter p xs"
  by (induction xs) auto

lemma find_row_owned:
  "find_row (\<lambda>x. f x = i \<and> g x = t) (filter (\<lambda>x. g x = t) xs) = find_row (\<lambda>x. f x = i \<and> g x = t) xs"
  by (rule find_row_filter) simp

lemma queries_narrow [narrow_simps]:
  "agents_get t i (tenant_db t d) = agents_get t i d"
  "agents_list t n (tenant_db t d) = agents_list t n d"
  "runs_get t i (tenant_db t d) = runs_get t i d"
  "runs_list t a n (tenant_db t d) = runs_list t a n d"
  "triggers_list t a (tenant_db t d) = triggers_list t a d"
  "secrets_list t (tenant_db t d) = secrets_list t d"
  "audit_list t n (tenant_db t d) = audit_list t n d"
  "tenants_get t (tenant_db t d) = tenants_get t d"
  by (simp_all add: tenant_db_def agents_get_def agents_list_def runs_get_def runs_list_def
      triggers_list_def secrets_list_def audit_list_def tenants_get_def find_row_owned find_row_filter filter_narrow)

lemma next_outcome_narrowed:
  "next_outcome (narrowed t w) = (fst (next_outcome w), narrowed t (snd (next_outcome w)))"
  by (cases "w_script w") (simp_all add: next_outcome_def narrowed_def)

lemma db_read_narrowed:
  assumes "\<And>d. f (tenant_db t d) = f d"
  shows "db_read f (narrowed t w) = (fst (db_read f w), narrowed t (snd (db_read f w)))"
  by (simp add: db_read_def next_outcome_narrowed split_beta) (simp add: narrowed_def assms)

lemma narrowed_kube [simp]: "w_kube (narrowed t w) = w_kube w"
  by (simp add: narrowed_def)

lemma kube_call_narrowed [narrow_simps]:
  "kube_call f (narrowed t w) = (fst (kube_call f w), narrowed t (snd (kube_call f w)))"
  by (simp add: kube_call_def narrowed_def)

lemma reads_narrow [narrow_simps]:
  "db_read (agents_get t i) (narrowed t w) = (fst (db_read (agents_get t i) w), narrowed t (snd (db_read (agents_get t i) w)))"
  "db_read (runs_get t i) (narrowed t w) = (fst (db_read (runs_get t i) w), narrowed t (snd (db_read (runs_get t i) w)))"
  "db_read (tenants_get t) (narrowed t w) = (fst (db_read (tenants_get t) w), narrowed t (snd (db_read (tenants_get t) w)))"
  "db_read (\<lambda>d. Inr (agents_list t n d)) (narrowed t w) =
     (fst (db_read (\<lambda>d. Inr (agents_list t n d)) w), narrowed t (snd (db_read (\<lambda>d. Inr (agents_list t n d)) w)))"
  "db_read (\<lambda>d. Inr (runs_list t i n d)) (narrowed t w) =
     (fst (db_read (\<lambda>d. Inr (runs_list t i n d)) w), narrowed t (snd (db_read (\<lambda>d. Inr (runs_list t i n d)) w)))"
  "db_read (\<lambda>d. Inr (triggers_list t i d)) (narrowed t w) =
     (fst (db_read (\<lambda>d. Inr (triggers_list t i d)) w), narrowed t (snd (db_read (\<lambda>d. Inr (triggers_list t i d)) w)))"
  "db_read (\<lambda>d. Inr (secrets_list t d)) (narrowed t w) =
     (fst (db_read (\<lambda>d. Inr (secrets_list t d)) w), narrowed t (snd (db_read (\<lambda>d. Inr (secrets_list t d)) w)))"
  "db_read (\<lambda>d. Inr (audit_list t n d)) (narrowed t w) =
     (fst (db_read (\<lambda>d. Inr (audit_list t n d)) w), narrowed t (snd (db_read (\<lambda>d. Inr (audit_list t n d)) w)))"
  by (simp_all add: db_read_narrowed narrow_simps)

lemma find_pod_narrowed [narrow_simps]:
  "fst (find_pod K ns run (narrowed t w)) = fst (find_pod K ns run w)"
  by (simp add: find_pod_def narrow_simps split_beta split: sum.splits list.splits)

lemma stream_logs_narrowed [narrow_simps]:
  "fst (stream_logs Ko pod_logs unix_nano http loki flusher now (Some i) run (narrowed (id_tenant i) w)) =
   fst (stream_logs Ko pod_logs unix_nano http loki flusher now (Some i) run w)"
  by (simp add: stream_logs_def from_context_def Let_def split_beta narrow_simps split: option.splits sum.splits)

lemma stream_open_narrowed [narrow_simps]:
  "fst (stream_open hub can_flush (Some i) run (h, narrowed (id_tenant i) w)) =
   fst (stream_open hub can_flush (Some i) run (h, w))"
  by (simp add: stream_open_def from_context_def split_beta narrow_simps split: sum.splits)

lemmas reading_handler_defs = agents_list_handler_def agents_get_handler_def runs_list_handler_def
  runs_get_handler_def triggers_list_handler_def secrets_list_handler_def audit_list_handler_def me_handler_def

lemma reading_handlers_narrowed:
  "fst (agents_list_handler (Some i) (narrowed (id_tenant i) w)) = fst (agents_list_handler (Some i) w)"
  "fst (agents_get_handler (Some i) a (narrowed (id_tenant i) w)) = fst (agents_get_handler (Some i) a w)"
  "fst (runs_list_handler (Some i) a (narrowed (id_tenant i) w)) = fst (runs_list_handler (Some i) a w)"
  "fst (runs_get_handler (Some i) a (narrowed (id_tenant i) w)) = fst (runs_get_handler (Some i) a w)"
  "fst (triggers_list_handler (Some i) a (narrowed (id_tenant i) w)) = fst (triggers_list_handler (Some i) a w)"
  "fst (secrets_list_handler (Some i) (narrowed (id_tenant i) w)) = fst (secrets_list_handler (Some i) w)"
  "fst (audit_list_handler (Some i) a (narrowed (id_tenant i) w)) = fst (audit_list_handler (Some i) a w)"
  "fst (me_handler (Some i) (narrowed (id_tenant i) w)) = fst (me_handler (Some i) w)"
  by (simp_all add: reading_handler_defs from_context_def split_beta Let_def narrow_simps split: sum.splits)

lemma reading_endpoint_narrowed:
  assumes "reads_only e"
  shows "fst (endpoint_handler S g q e ps (Some i) (h, narrowed (id_tenant i) w)) =
    fst (endpoint_handler S g q e ps (Some i) (h, w))"
  using assms unfolding reads_only_def
  by (elim insertE emptyE)
    (simp_all add: endpoint_handler_def Let_def answer_def split_beta reading_handlers_narrowed narrow_simps)

lemma v1_gets: "list_all (\<lambda>(m, p, b, e). m = ''GET'' \<longrightarrow> reads_only e) v1_routes"
  by (simp add: route_defs reads_only_def)

lemma mounted_gets: "(''GET'', p, b, e) \<in> set (mount prefix v1_routes) \<Longrightarrow> reads_only e"
  using v1_gets by (force simp: mount_def list_all_iff)

lemma get_route:
  assumes "(''GET'', p, b, e) \<in> set (api_routes cfg)"
  shows "reads_only e"
proof -
  have "(''GET'', p, b, e) \<notin> set triggers_public_routes" "(''GET'', p, b, e) \<notin> set (mount x workos_routes)" for x
    by (simp_all add: on_def mount_def triggers_public_routes_def workos_routes_def)
  with assms consider "(''GET'', p, b, e) \<in> set (mount [Lit ''v1''] v1_routes)" | "e = E_Health"
    unfolding api_routes_def on_def by (auto split: if_splits)
  then show ?thesis
    by cases (rule mounted_gets, simp_all add: reads_only_def)
qed

lemma middleware_token:
  assumes "header = ''Bearer '' @ tok" and "verify tok = Inr i"
  shows "middleware reply verify header nxt c s = nxt (Some i) s"
proof -
  have "has_prefix header ''Bearer ''" "trim_prefix header ''Bearer '' = tok"
    unfolding assms(1) by (blast intro: has_prefix_iff [THEN iffD2], rule trim_prefix_append)
  with assms(2) show ?thesis by (simp add: middleware_def with_identity_def)
qed

text \<open>A server in development mode with an in-memory cluster, and a request to it.\<close>

definition sample_server :: "kobj list api_server" where
  "sample_server =
     \<lparr>av_config = load_api (\<lambda>_. None), av_route = in_order,
      av_workos = workos_verify (Inl ErrNotFound :: error + unit) (\<lambda>_ _ _. None),
      av_origins = ''http://localhost:3000'', av_hmac = (\<lambda>k m. k @ m), av_uuid5 = (\<lambda>n x. x),
      av_decode = (\<lambda>_. None), av_parse = (\<lambda>_. None), av_box = sample_box, av_kube = Some mem_kube,
      av_pod_logs = sample_pod_logs, av_unix_nano = (\<lambda>_. []), av_loki = no_loki, av_flusher = True\<rparr>"

definition sample_api_request :: "string \<Rightarrow> string \<Rightarrow> api_request" where
  "sample_api_request meth path =
     \<lparr>q_method = meth, q_path = path, q_authorization = ''Bearer dev:t:u'', q_origin = [], q_signature = [],
      q_workos_signature = [], q_limit = [], q_length = 0, q_body = Some []\<rparr>"

lemma sample_token: "api_verify sample_server ''dev:t:u'' = Inr \<lparr>id_tenant = ''t'', id_user = ''u''\<rparr>"
  using dev_verify_token [of "''t''" "''u''"]
  by (simp add: api_verify_def sample_server_def dev_mode_def load_api_def getenv_def)

section \<open>Properties\<close>



text \<open>
  C30: tenants are isolated on the API: what an authenticated GET request is answered, headers
  included, is what it would be answered if the rows of every other tenant were deleted from
  the database, for every path, whatever calls fail and whatever identifiers the path names.
\<close>

theorem get_sees_one_tenant:
  assumes "router_law (av_route S)" and "q_method q = ''GET''"
    and "q_authorization q = ''Bearer '' @ tok" and "api_verify S tok = Inr i"
  shows "fst (api_serve S g q (h, w)) = fst (api_serve S g q (h, narrowed (id_tenant i) w))"
proof -
  have token: "middleware Answer (api_verify S) (q_authorization q) nxt None s = nxt (Some i) s" for nxt and s :: "hub \<times> 'a world"
    using assms(3,4) by (rule middleware_token)
  have "fst (route_request S g q (h, w)) = fst (route_request S g q (h, narrowed (id_tenant i) w))"
  proof (cases "av_route S (api_routes (av_config S)) (q_method q) (q_path q)")
    case (Inl br)
    then show ?thesis
      by (cases br) (simp add: route_request_def Let_def token)
  next
    case (Inr bep)
    obtain b e ps where bep: "bep = (b, e, ps)" by (cases bep)
    obtain p where p: "(''GET'', p, b, e) \<in> set (api_routes (av_config S))"
      using routed [OF assms(1) Inr [unfolded bep]] assms(2) by auto
    note e = get_route [OF p]
    show ?thesis
    proof (cases b)
      case True
      then show ?thesis
        using reading_endpoint_narrowed [OF e, symmetric] Inr bep
        by (simp add: route_request_def Let_def token)
    next
      case False
      then have "e = E_Health"
        using open_route p e by (fastforce simp: reads_only_def)
      with False Inr bep show ?thesis
        by (simp add: route_request_def Let_def endpoint_handler_def)
    qed
  qed
  then show ?thesis
    by (simp add: api_serve_def cors_def Let_def split_beta)
qed

theorem get_sees_one_tenant_witness:
  "fst (api_serve sample_server sample_gen (sample_api_request ''GET'' ''/v1/runs/r2'') (new_hub, quiet_world sample_db [])) =
   fst (api_serve sample_server sample_gen (sample_api_request ''GET'' ''/v1/runs/r2'') (new_hub, narrowed ''t'' (quiet_world sample_db [])))"
proof -
  have "router_law (av_route sample_server)" by (simp add: sample_server_def in_order_law)
  from get_sees_one_tenant [OF this _ _ sample_token, of "sample_api_request ''GET'' ''/v1/runs/r2''"]
  show ?thesis by (simp add: sample_api_request_def)
qed

end
