(* ===== verification/Api_Errors.thy ===== *)
theory Api_Errors
  imports Api_Server
begin

text \<open>
  What a refused request leaves behind: a handler that answers with a client error has written
  nothing. The one place where that needs the database's word is the creation of a trigger
  (\<open>internal/triggers/handlers.go\<close>), which answers 400 to every error of its insert.
\<close>

definition untouched :: "'k world \<Rightarrow> 'k world \<Rightarrow> bool" where
  "untouched w w' \<longleftrightarrow>
     w_db w' = w_db w \<and> w_kube w' = w_kube w \<and> w_sent w' = w_sent w \<and> w_raw w' = w_raw w"

definition client_error :: "response \<Rightarrow> bool" where
  "client_error r \<longleftrightarrow> 400 \<le> fst r \<and> fst r < 500"

lemma untouched_refl [simp]: "untouched w w"
  by (simp add: untouched_def)

lemma untouched_read [simp]: "untouched w (snd (db_read q w'')) \<longleftrightarrow> untouched w w''"
  by (simp add: untouched_def)

lemma client_error_simps [simp]:
  "client_error (http_error m s) \<longleftrightarrow> 400 \<le> s \<and> s < 500"
  "client_error (write_json s b) \<longleftrightarrow> 400 \<le> s \<and> s < 500"
  "client_error (s, content)  \<longleftrightarrow> 400 \<le> s \<and> s < 500"
  by (simp_all add: client_error_def write_json_def)

text \<open>A write that fails without a lost acknowledgement has changed nothing.\<close>

lemma untouched_write:
  assumes "Ack_Lost \<notin> set (w_script w)" and "fst (db_write f w) = Inl e"
    and "\<And>d x. fst (f d) = Inl x \<Longrightarrow> snd (f d) = d"
  shows "untouched w (snd (db_write f w))"
  using assms
  by (auto simp: db_write_def next_outcome_def untouched_def split_beta split: list.splits outcome.splits)

lemma script_read: "Ack_Lost \<notin> set (w_script w) \<Longrightarrow> Ack_Lost \<notin> set (w_script (snd (db_read q w)))"
  by (auto simp: db_read_def next_outcome_def split_beta split: list.splits)

lemma repository_errors:
  "fst (agents_delete t i d) = Inl x \<Longrightarrow> snd (agents_delete t i d) = d"
  "fst (secrets_delete t n d) = Inl x \<Longrightarrow> snd (secrets_delete t n d) = d"
  "fst (triggers_create b r n u ts t a k nm c d) = Inl x \<Longrightarrow> snd (triggers_create b r n u ts t a k nm c d) = d"
  by (auto simp: agents_delete_def secrets_delete_def triggers_create_def split_beta
      split: if_splits option.splits)

section \<open>The handlers\<close>

named_theorems refusals

lemma agents_refusals [refusals]:
  "client_error (fst (agents_create_handler g c bdy w)) \<Longrightarrow> untouched w (snd (agents_create_handler g c bdy w))"
  "client_error (fst (deploy_handler Ko bo g c a w)) \<Longrightarrow> untouched w (snd (deploy_handler Ko bo g c a w))"
  "client_error (fst (undeploy_handler g c a w)) \<Longrightarrow> untouched w (snd (undeploy_handler g c a w))"
  by (auto simp: agents_create_handler_def deploy_handler_def undeploy_handler_def agent_err_def unauthorized_def
      split_beta split: option.splits sum.splits if_splits)

lemma runs_refusals [refusals]:
  "client_error (fst (trigger_handler Ko bo g c a n bdy w)) \<Longrightarrow> untouched w (snd (trigger_handler Ko bo g c a n bdy w))"
  "client_error (fst (webhook_handler hm ps b g c a nm hdr bs w)) \<Longrightarrow>
    untouched w (snd (webhook_handler hm ps b g c a nm hdr bs w))"
  by (auto simp: trigger_handler_def webhook_handler_def agent_err_def unauthorized_def
      split_beta split: option.splits sum.splits if_splits)

lemma other_refusals [refusals]:
  "client_error (fst (secrets_upsert_handler b g c bdy w)) \<Longrightarrow> untouched w (snd (secrets_upsert_handler b g c bdy w))"
  "client_error (fst (builds_create_handler g c a bdy w)) \<Longrightarrow> untouched w (snd (builds_create_handler g c a bdy w))"
  "client_error (fst (workos_handler hm u ps h g c hdr bs w)) \<Longrightarrow> untouched w (snd (workos_handler hm u ps h g c hdr bs w))"
  by (auto simp: secrets_upsert_handler_def builds_create_handler_def workos_handler_def apply_workos_def
      agent_err_def unauthorized_def Let_def split_beta split: option.splits sum.splits if_splits)

lemma deleting_refusals [refusals]:
  assumes "Ack_Lost \<notin> set (w_script w)"
  shows "client_error (fst (agents_delete_handler g c a w)) \<Longrightarrow> untouched w (snd (agents_delete_handler g c a w))"
    and "client_error (fst (secrets_del_handler g c n w)) \<Longrightarrow> untouched w (snd (secrets_del_handler g c n w))"
  using untouched_write [OF assms _ repository_errors(1)] untouched_write [OF assms _ repository_errors(2)]
  by (auto simp: agents_delete_handler_def secrets_del_handler_def unauthorized_def
      split_beta split: option.splits sum.splits if_splits)

lemma trigger_refusals [refusals]:
  assumes "Ack_Lost \<notin> set (w_script w)"
  shows "client_error (fst (triggers_create_handler b g c a bdy w)) \<Longrightarrow>
    untouched w (snd (triggers_create_handler b g c a bdy w))"
proof -
  have "untouched w (snd (db_write (triggers_create b r n u ts t ag k nm cr) (snd (db_read q w))))"
    if "fst (db_write (triggers_create b r n u ts t ag k nm cr) (snd (db_read q w))) = Inl e"
    for r n u ts t ag k nm cr e and q :: "database \<Rightarrow> error + agent"
    using untouched_write [OF script_read [OF assms] that repository_errors(3)] by (simp add: untouched_def)
  then show "client_error (fst (triggers_create_handler b g c a bdy w)) \<Longrightarrow>
    untouched w (snd (triggers_create_handler b g c a bdy w))"
    by (auto simp: triggers_create_handler_def agent_err_def unauthorized_def
        split_beta split: option.splits sum.splits if_splits)
qed

lemma reading_refusals [refusals]:
  "untouched w (snd (agents_list_handler c w))" "untouched w (snd (agents_get_handler c a w))"
  "untouched w (snd (runs_list_handler c a w))" "untouched w (snd (runs_get_handler c a w))"
  "untouched w (snd (triggers_list_handler c a w))" "untouched w (snd (secrets_list_handler c w))"
  "untouched w (snd (audit_list_handler c a w))" "untouched w (snd (me_handler c w))"
  by (simp_all add: reading_handler_defs Let_def split_beta split: option.split sum.split)

section \<open>The property\<close>

lemma endpoint_refusals:
  assumes "Ack_Lost \<notin> set (w_script w)"
    and "fst (endpoint_handler S g q e ps c (h, w)) = Answer r" and "client_error r"
  shows "untouched w (snd (snd (endpoint_handler S g q e ps c (h, w)))) \<and>
    fst (snd (endpoint_handler S g q e ps c (h, w))) = h"
  using assms(2,3)
  by (cases e) (simp_all add: endpoint_handler_def answer_def Let_def split_beta refusals assms(1))



text \<open>
  Without that assumption a trigger can be refused and yet be stored: its insert is committed,
  the acknowledgement is lost, and the caller is told 400.
\<close>

lemma refused_trigger_can_be_stored:
  "fst (fst (triggers_create_handler sample_box sample_gen sample_ctx ''a''
      (Some (JObj [(''kind'', JStr ''cron''), (''name'', JStr ''n''), (''cron'', JStr ''@daily'')]))
      ((quiet_world sample_db ())\<lparr>w_script := [Done, Ack_Lost]\<rparr>))) = 400"
  "length (d_triggers (w_db (snd (triggers_create_handler sample_box sample_gen sample_ctx ''a''
      (Some (JObj [(''kind'', JStr ''cron''), (''name'', JStr ''n''), (''cron'', JStr ''@daily'')]))
      ((quiet_world sample_db ())\<lparr>w_script := [Done, Ack_Lost]\<rparr>))))) = 2"
  by code_simp+

end
