(* ===== verification/Audit_Trail.thy ===== *)
theory Audit_Trail
  imports Api_Server
begin

text \<open>
  The audit trail of the API: the vocabulary of \<open>internal/audit/repo.go\<close>, and what the handlers
  record of the changes they make.
\<close>

section \<open>The vocabulary\<close>

definition ActionCreate :: string where "ActionCreate = ''create''"
definition ActionUpdate :: string where "ActionUpdate = ''update''"
definition ActionDelete :: string where "ActionDelete = ''delete''"
definition ActionTrigger :: string where "ActionTrigger = ''trigger''"
definition ActionDeploy :: string where "ActionDeploy = ''deploy''"
definition ActionUndeploy :: string where "ActionUndeploy = ''undeploy''"
definition ActionRotate :: string where "ActionRotate = ''rotate''"
definition ActionInvoke :: string where "ActionInvoke = ''invoke''"

definition ResourceAgent :: string where "ResourceAgent = ''agent''"
definition ResourceRun :: string where "ResourceRun = ''run''"
definition ResourceTrigger :: string where "ResourceTrigger = ''trigger''"
definition ResourceBuild :: string where "ResourceBuild = ''build''"
definition ResourceSecret :: string where "ResourceSecret = ''secret''"
definition ResourceDeployment :: string where "ResourceDeployment = ''deployment''"

lemmas vocabulary_defs = ActionCreate_def ActionUpdate_def ActionDelete_def ActionTrigger_def ActionDeploy_def
  ActionUndeploy_def ActionRotate_def ActionInvoke_def ResourceAgent_def ResourceRun_def ResourceTrigger_def
  ResourceBuild_def ResourceSecret_def ResourceDeployment_def

text \<open>The action and the resource type that a changing endpoint records for its caller.\<close>

definition audited_as :: "endpoint \<Rightarrow> (string \<times> string) option" where
  "audited_as e =
     (case e of
        E_Agents_Create \<Rightarrow> Some (ActionCreate, ResourceAgent)
      | E_Agent_Delete \<Rightarrow> Some (ActionDelete, ResourceAgent)
      | E_Deploy \<Rightarrow> Some (ActionDeploy, ResourceDeployment)
      | E_Undeploy \<Rightarrow> Some (ActionUndeploy, ResourceDeployment)
      | E_Run_Trigger \<Rightarrow> Some (ActionTrigger, ResourceRun)
      | E_Trigger_Create \<Rightarrow> Some (ActionCreate, ResourceTrigger)
      | E_Build_Create \<Rightarrow> Some (ActionCreate, ResourceBuild)
      | E_Secret_Put \<Rightarrow> Some (ActionUpdate, ResourceSecret)
      | E_Secret_Delete \<Rightarrow> Some (ActionDelete, ResourceSecret)
      | _ \<Rightarrow> None)"

text \<open>Behind the middleware only the endpoints that read record nothing.\<close>

lemma guarded_endpoints_audited: "(m, p, True, e) \<in> set (api_routes cfg) \<Longrightarrow> audited_as e \<noteq> None \<or> reads_only e"
  by (auto simp: route_defs audited_as_def reads_only_def split: if_splits)

section \<open>What a handler records\<close>

definition records :: "gen \<Rightarrow> identity \<Rightarrow> string \<times> string \<Rightarrow> database \<Rightarrow> database \<Rightarrow> bool" where
  "records g i what d d' \<longleftrightarrow>
     (\<exists>x. d_audit d' = d_audit d @ [x] \<and> au_tenant x = id_tenant i \<and> au_user x = Some (id_user i) \<and>
        (au_action x, au_rtype x) = what \<and> au_created x = g_now g \<and> au_request x = null_if_empty (g_request g))"

definition audits :: "gen \<Rightarrow> identity \<Rightarrow> string \<times> string \<Rightarrow> 'k world \<Rightarrow> response \<times> 'k world \<Rightarrow> bool" where
  "audits g i what w res \<longleftrightarrow>
     (if fst (fst res) < 300 then records g i what (w_db w) (w_db (snd res))
      else d_audit (w_db (snd res)) = d_audit (w_db w))"

named_theorems trail_simps \<open>what an operation leaves of the audit table, the tenants and the script\<close>

lemma audit_frames [trail_simps]:
  "d_audit (snd (agents_create u n t m d)) = d_audit d" "d_tenants (snd (agents_create u n t m d)) = d_tenants d"
  "d_audit (snd (agents_delete t a d)) = d_audit d" "d_tenants (snd (agents_delete t a d)) = d_tenants d"
  "d_audit (snd (runs_create u n t a ins tr d)) = d_audit d" "d_tenants (snd (runs_create u n t a ins tr d)) = d_tenants d"
  "d_audit (snd (triggers_create b raw nn u n t a kd nm cr d)) = d_audit d"
  "d_tenants (snd (triggers_create b raw nn u n t a kd nm cr d)) = d_tenants d"
  "d_audit (snd (builds_create u n t a src d)) = d_audit d" "d_tenants (snd (builds_create u n t a src d)) = d_tenants d"
  "d_audit (snd (secrets_upsert b nn u n t nm v d)) = d_audit d"
  "d_tenants (snd (secrets_upsert b nn u n t nm v d)) = d_tenants d"
  "d_audit (snd (secrets_delete t nm d)) = d_audit d" "d_tenants (snd (secrets_delete t nm d)) = d_tenants d"
  by (simp_all add: agents_create_def agents_delete_def delete_agents_def runs_create_def triggers_create_def builds_create_def
      secrets_upsert_def secrets_delete_def Let_def split: option.split sum.split prod.split)

lemma cluster_scripts [trail_simps]:
  "w_script (snd (ensure_tenant_namespace K t w)) = w_script w"
  "w_script (snd (upsert_secret K ns nm dat labels w)) = w_script w"
  "w_script (snd (project_for_run K t r dat w)) = w_script w"
  "w_script (snd (project_for_agent K t a dat w)) = w_script w"
proof -
  show s: "w_script (snd (upsert_secret K ns nm dat labels w)) = w_script w" for ns nm dat labels
    by (simp add: upsert_secret_def Let_def split_beta split: sum.split kerr.split kobj.split)
  show "w_script (snd (ensure_tenant_namespace K t w)) = w_script w"
    by (simp add: ensure_tenant_namespace_def Let_def split_beta split: sum.split kerr.split)
  show "w_script (snd (project_for_run K t r dat w)) = w_script w"
    "w_script (snd (project_for_agent K t a dat w)) = w_script w"
    by (simp_all add: project_for_run_def project_for_agent_def Let_def split_beta s split: sum.split)
qed

lemma projection_scripts [trail_simps]:
  "w_script w = [] \<Longrightarrow> w_script (snd (project_run_secrets Ko bo t ns r w)) = []"
  "w_script w = [] \<Longrightarrow> w_script (snd (project_agent_secrets Ko bo t a ns w)) = []"
  by (simp_all add: project_run_secrets_def project_agent_secrets_def cluster_scripts split_beta split: option.split sum.split)

lemma logged:
  assumes "w_script w' = []" and "tenant_exists (id_tenant i) (w_db w')" and "d_audit (w_db w') = d_audit (w_db w)"
  shows "records g i (a, t) (w_db w) (w_db (audit_log g (Some i) a t rid meta w'))"
  using assms by (simp add: audit_log_def from_context_def audit_insert_def records_def)

text \<open>Refusals have an error status.\<close>

lemma refusal_status [simp]:
  "fst (http_error m st) = st" "fst (write_json st j) = st" "fst unauthorized = 401"
  "fst (agent_err e) = (if is_not_found e then 404 else 500)"
  by (simp_all add: http_error_def write_json_def unauthorized_def agent_err_def)

lemma agents_audit:
  assumes "w_script w = []" and "tenant_exists (id_tenant i) (w_db w)"
  shows "audits g i (''create'', ''agent'') w (agents_create_handler g (Some i) bdy w)"
    "audits g i (''delete'', ''agent'') w (agents_delete_handler g (Some i) a w)"
    "audits g i (''deploy'', ''deployment'') w (deploy_handler Ko bo g (Some i) a w)"
    "audits g i (''undeploy'', ''deployment'') w (undeploy_handler g (Some i) a w)"
  using assms
  by (simp_all add: audits_def agents_create_handler_def agents_delete_handler_def deploy_handler_def undeploy_handler_def
      from_context_def split_beta logged tenant_exists_def trail_simps split: option.split sum.split)

lemma other_audit:
  assumes "w_script w = []" and "tenant_exists (id_tenant i) (w_db w)"
  shows "audits g i (''trigger'', ''run'') w (trigger_handler Ko bo g (Some i) a n bdy w)"
    "audits g i (''create'', ''trigger'') w (triggers_create_handler b g (Some i) a bdy w)"
    "audits g i (''create'', ''build'') w (builds_create_handler g (Some i) a bdy w)"
    "audits g i (''update'', ''secret'') w (secrets_upsert_handler b g (Some i) bdy w)"
    "audits g i (''delete'', ''secret'') w (secrets_del_handler g (Some i) nm w)"
  using assms
  by (simp_all add: audits_def trigger_handler_def triggers_create_handler_def builds_create_handler_def
      secrets_upsert_handler_def secrets_del_handler_def from_context_def split_beta logged tenant_exists_def trail_simps
      split: option.split sum.split)

lemma endpoint_audits:
  assumes "w_script w = []" and "tenant_exists (id_tenant i) (w_db w)" and "audited_as e = Some what"
  shows "\<exists>r w'. endpoint_handler S g q e ps (Some i) (h, w) = (Answer r, h, w') \<and> audits g i what w (r, w')"
  using assms agents_audit [OF assms(1,2)] other_audit [OF assms(1,2)]
  by (cases e) (auto simp: audited_as_def vocabulary_defs endpoint_handler_def Let_def answer_def)

section \<open>The property\<close>

text \<open>
  C31: the audit trail is complete and truthful: when no call to the database or the bus fails, a
  request with an accepted token to any endpoint behind the middleware that changes something
  appends exactly one audit event when it is accepted, with the tenant and the user of the token,
  the action and resource type of the endpoint, the time and the request id, and none when it
  is refused.
\<close>

theorem accepted_changes_are_audited:
  assumes "av_route S (api_routes (av_config S)) (q_method q) (q_path q) = Inr (True, e, ps)"
    and "audited_as e = Some what" and "q_method q \<noteq> ''OPTIONS''"
    and "q_authorization q = ''Bearer '' @ tok" and "api_verify S tok = Inr i"
    and "w_script w = []" and "tenant_exists (id_tenant i) (w_db w)"
  shows "\<exists>hs r w'. api_serve S g q (h, w) = ((hs, Answer r), h, w') \<and>
    (if fst r < 300 then records g i what (w_db w) (w_db w') else d_audit (w_db w') = d_audit (w_db w))"
proof -
  obtain r w' where r: "endpoint_handler S g q e ps (Some i) (h, w) = (Answer r, h, w')" "audits g i what w (r, w')"
    using endpoint_audits [OF assms(6,7,2)] by blast
  have "middleware Answer (api_verify S) (q_authorization q) nxt None s = nxt (Some i) s"
    for nxt and s :: "hub \<times> 'a world"
    using assms(4,5) by (rule middleware_token)
  then have "route_request S g q (h, w) = (Answer r, h, w')"
    using r(1) assms(1) by (simp add: route_request_def)
  then have "api_serve S g q (h, w) = ((cors_headers (av_origins S) (q_origin q), Answer r), h, w')"
    using assms(3) by (simp add: api_serve_def cors_def Let_def)
  with r(2) [unfolded audits_def fst_conv snd_conv] show ?thesis by blast
qed

text \<open>Deleting the agent of the sample database.\<close>

theorem accepted_changes_are_audited_witness:
  "\<exists>x. d_audit (w_db (snd (snd (api_serve sample_server sample_gen (sample_api_request ''DELETE'' ''/v1/agents/a'')
      (new_hub, quiet_world sample_db []))))) = d_audit sample_db @ [x] \<and>
    au_tenant x = ''t'' \<and> au_user x = Some ''u'' \<and> au_action x = ''delete'' \<and> au_rtype x = ''agent''"
proof -
  let ?q = "sample_api_request ''DELETE'' ''/v1/agents/a''"
  let ?i = "\<lparr>id_tenant = ''t'', id_user = ''u''\<rparr>"
  let ?w = "quiet_world sample_db [] :: kobj list world"
  have a: "av_route sample_server (api_routes (av_config sample_server)) (q_method ?q) (q_path ?q) =
      Inr (True, E_Agent_Delete, [(''agentId'', ''a'')])" by code_simp
  have b: "audited_as E_Agent_Delete = Some (''delete'', ''agent'')" by (simp add: audited_as_def vocabulary_defs)
  have c: "q_method ?q \<noteq> ''OPTIONS''" "q_authorization ?q = ''Bearer '' @ ''dev:t:u''"
    by (simp_all add: sample_api_request_def)
  have d: "w_script ?w = []" "tenant_exists (id_tenant ?i) (w_db ?w)"
    by (simp_all add: quiet_world_def sample_db_def tenant_exists_def)
  from accepted_changes_are_audited [OF a b c sample_token d, of sample_gen new_hub] obtain hs r w' where
    w': "api_serve sample_server sample_gen ?q (new_hub, ?w) = ((hs, Answer r), new_hub, w')"
    "if fst r < 300 then records sample_gen ?i (''delete'', ''agent'') (w_db ?w) (w_db w')
     else d_audit (w_db w') = d_audit (w_db ?w)" by blast
  have "(case snd (fst (api_serve sample_server sample_gen ?q (new_hub, ?w))) of Answer r \<Rightarrow> fst r < 300 | _ \<Rightarrow> False)"
    by code_simp
  then have "fst r < 300" by (simp add: w'(1))
  with w' show ?thesis by (auto simp: records_def quiet_world_def)
qed

end
