(* ===== verification/Billing.thy ===== *)
theory Billing
  imports Checkpoints
begin

text \<open>
  The billing shipper: \<open>internal/billing/orb.go\<close> (the Orb destination) and
  \<open>internal/billing/shipper.go\<close> (one tick of the polling loop). The HTTP client is a
  parameter from the request to a transport error or a status and body, so are \<open>quantity\<close>,
  the JSON number that a \<open>NUMERIC\<close> becomes on its way through \<open>fmt.Sscanf\<close> and float64, and a
  destination, which answers each batch it is shipped.
\<close>

section \<open>Destinations\<close>

record billing_event =
  be_name :: string
  be_customer :: string
  be_time :: gotime
  be_key :: string
  be_props :: json_obj

definition marshal_billing_event :: "billing_event \<Rightarrow> json" where
  "marshal_billing_event e =
     JObj (always ''event_name'' (JStr (be_name e)) @
       always ''external_customer_id'' (JStr (be_customer e)) @
       always ''timestamp'' (JTime (be_time e)) @
       always ''idempotency_key'' (JStr (be_key e)) @
       omit_map ''properties'' id (Some (be_props e)))"

record orb_client =
  ob_key :: string
  ob_base :: string

definition new_orb :: "string \<Rightarrow> string \<Rightarrow> orb_client" where
  "new_orb key base =
     \<lparr>ob_key = key,
      ob_base = trim_right_char CHR ''/'' (if base = [] then ''https://api.withorb.com'' else base)\<rparr>"

record http_request =
  hr_url :: string
  hr_auth :: string
  hr_body :: json

definition orb_ship ::
  "orb_client \<Rightarrow> (http_request \<Rightarrow> error + (nat \<times> string)) \<Rightarrow> billing_event list \<Rightarrow> error + unit" where
  "orb_ship c http events =
     (if ob_key c = [] then Inl (ErrText ''orb: API key not configured'')
      else if events = [] then Inr ()
      else (case http \<lparr>hr_url = ob_base c @ ''/v1/ingest'', hr_auth = ''Bearer '' @ ob_key c,
                       hr_body = JObj [(''events'', JArr (map marshal_billing_event events))]\<rparr> of
              Inl e \<Rightarrow> Inl e
            | Inr (status, text) \<Rightarrow>
                if status \<ge> 400
                then Inl (ErrText (''orb '' @ show_nat status @ '': '' @ trim_space (take 1024 text)))
                else Inr ()))"

section \<open>The shipper\<close>

record shipper =
  sh_dest :: string
  sh_batch :: nat

definition new_shipper :: "string \<Rightarrow> shipper" where
  "new_shipper dest = \<lparr>sh_dest = dest, sh_batch = 200\<rparr>"

definition idempotency_key :: "string \<Rightarrow> int \<Rightarrow> string" where
  "idempotency_key dest i = dest @ ''/'' @ show_int i"

definition event_for :: "(rat \<Rightarrow> json) \<Rightarrow> string \<Rightarrow> usage_event \<Rightarrow> billing_event" where
  "event_for quantity dest r =
     \<lparr>be_name = us_kind r, be_customer = us_tenant r, be_time = us_recorded r,
      be_key = idempotency_key dest (us_id r),
      be_props =
        (if coalesce_str (us_agent r) = [] then [] else [(''agent_id'', JStr (coalesce_str (us_agent r)))]) @
        [(''quantity'', quantity (us_quantity r))] @
        (if coalesce_str (us_run r) = [] then [] else [(''run_id'', JStr (coalesce_str (us_run r)))])\<rparr>"

text \<open>
  One tick: its result, the world after it and the events the destination accepted. \<open>now\<close> is
  the time the database stamps the checkpoint with.
\<close>

definition ship_tick ::
  "(rat \<Rightarrow> json) \<Rightarrow> shipper \<Rightarrow> (billing_event list \<Rightarrow> error + unit) \<Rightarrow> gotime \<Rightarrow> 'k world
    \<Rightarrow> (error + unit) \<times> 'k world \<times> billing_event list" where
  "ship_tick quantity s ship now w =
     (case db_read (\<lambda>d. read_checkpoint (sh_dest s) (d_shipper d)) w of
        (Inl e, w1) \<Rightarrow> (Inl (Wrapped ''checkpoint read'' e), w1, [])
      | (Inr last_id, w1) \<Rightarrow>
          (case db_read (\<lambda>d. Inr (next_batch us_id last_id (sh_batch s) (d_usage d))) w1 of
             (Inl e, w2) \<Rightarrow> (Inl e, w2, [])
           | (Inr batch, w2) \<Rightarrow>
               if batch = [] then (Inr (), w2, [])
               else
                 (let events = map (event_for quantity (sh_dest s)) batch;
                      new = us_id (last batch)
                  in case ship events of
                       Inl e \<Rightarrow> (Inl (Wrapped ''ship'' e), w2, [])
                     | Inr _ \<Rightarrow>
                         (case db_write (\<lambda>d. (Inr (),
                                 d\<lparr>d_shipper := advance_checkpoint now (sh_dest s) new (d_shipper d)\<rparr>)) w2 of
                            (Inl e, w3) \<Rightarrow> (Inl (Wrapped ''advance checkpoint'' e), w3, events)
                          | (Inr _, w3) \<Rightarrow> (Inr (), w3, events)))))"

section \<open>Lemmas\<close>

lemma show_int_inject: "show_int i = show_int j \<longleftrightarrow> i = j"
proof
  assume h: "show_int i = show_int j"
  have neg: "show_nat m \<noteq> CHR ''-'' # t" for m t using hd_show_nat_digit by blast
  from h neg neg [symmetric] show "i = j"
    by (auto simp: show_int_def show_nat_inject split: if_splits)
qed simp

lemma idempotency_key_inject: "idempotency_key dest i = idempotency_key dest j \<longleftrightarrow> i = j"
  by (simp add: idempotency_key_def show_int_inject)

definition usage_ids :: "'k world \<Rightarrow> int list" where
  "usage_ids w = map us_id (d_usage (w_db w))"

definition shipped_up_to :: "shipper \<Rightarrow> 'k world \<Rightarrow> int option" where
  "shipped_up_to s w = position_of (sh_dest s) (d_shipper (w_db w))"

definition pending_batch :: "shipper \<Rightarrow> int \<Rightarrow> 'k world \<Rightarrow> usage_event list" where
  "pending_batch s p w = next_batch us_id p (sh_batch s) (d_usage (w_db w))"

definition tick_pass :: "(rat \<Rightarrow> json) \<Rightarrow> shipper \<Rightarrow> (billing_event list \<Rightarrow> error + unit) \<times> gotime \<Rightarrow> 'k world
    \<Rightarrow> 'k world \<times> billing_event list" where
  "tick_pass quantity s x w = snd (ship_tick quantity s (fst x) (snd x) w)"

interpretation usage_log: checkpoint_table d_shipper "\<lambda>c d. d\<lparr>d_shipper := c\<rparr>" d_usage us_id
    "event_for quantity (sh_dest s)" be_key "idempotency_key (sh_dest s)" "sh_dest s" "sh_batch s"
  for quantity and s :: shipper
  by unfold_locales (simp_all add: event_for_def inj_def idempotency_key_inject)

lemma tick_pass_is_log_pass:
  "tick_pass quantity s = (\<lambda>x. log_pass d_shipper (\<lambda>c d. d\<lparr>d_shipper := c\<rparr>) d_usage us_id
     (sh_dest s) (sh_batch s) (event_for quantity (sh_dest s)) (fst x) (snd x))"
  by (intro ext) (simp add: tick_pass_def ship_tick_def log_pass_def Let_def split_beta split: sum.split)

lemma shipped_up_to_eq: "shipped_up_to s = (\<lambda>w. position_of (sh_dest s) (d_shipper (w_db w)))"
  by (intro ext) (simp add: shipped_up_to_def)

lemma usage_ids_eq: "usage_ids = (\<lambda>w. map us_id (d_usage (w_db w)))"
  by (intro ext) (simp add: usage_ids_def)

lemmas usage_history = usage_log.contract.history_keeps
  [folded tick_pass_is_log_pass shipped_up_to_eq usage_ids_eq, folded shipped_up_to_def usage_ids_def]

section \<open>Properties\<close>

text \<open>
  C24: no usage is lost on its way to billing: whatever fails in each tick (the database, the
  destination, lost acknowledgements included), and with rows inserted above the checkpoint and
  shipped rows pruned in between, every usage row above the first checkpoint is at the end
  still waiting above the checkpoint, or was accepted by the destination under its own
  idempotency key, which no other row has; and the checkpoint never moves back.
\<close>

theorem no_usage_is_lost:
  assumes "orderly (tick_pass quantity s) (shipped_up_to s) usage_ids ys w"
    and "distinct (usage_ids w)" and "shipped_up_to s w = Some p"
  shows "\<exists>q. shipped_up_to s (fst (passes (tick_pass quantity s) ys w)) = Some q \<and> p \<le> q \<and>
    (\<forall>r\<in>set (d_usage (w_db w)). p < us_id r \<longrightarrow>
       us_id r \<in> set (usage_ids (fst (passes (tick_pass quantity s) ys w))) \<and> q < us_id r \<or>
       (\<exists>e\<in>set (snd (passes (tick_pass quantity s) ys w)).
          \<forall>i. be_key e = idempotency_key (sh_dest s) i \<longleftrightarrow> i = us_id r))"
proof -
  obtain q where q: "shipped_up_to s (fst (passes (tick_pass quantity s) ys w)) = Some q" "p \<le> q"
    "\<forall>i\<in>set (usage_ids w). p < i \<longrightarrow>
       i \<in> set (usage_ids (fst (passes (tick_pass quantity s) ys w))) \<and> q < i \<or>
       idempotency_key (sh_dest s) i \<in> be_key ` set (snd (passes (tick_pass quantity s) ys w))"
    using usage_history [OF assms] by blast
  show ?thesis
  proof (intro exI [of _ q] conjI ballI impI)
    fix r assume "r \<in> set (d_usage (w_db w))" "p < us_id r"
    then have "us_id r \<in> set (usage_ids (fst (passes (tick_pass quantity s) ys w))) \<and> q < us_id r \<or>
       idempotency_key (sh_dest s) (us_id r) \<in> be_key ` set (snd (passes (tick_pass quantity s) ys w))"
      using q(3) by (simp add: usage_ids_def)
    then show "us_id r \<in> set (usage_ids (fst (passes (tick_pass quantity s) ys w))) \<and> q < us_id r \<or>
       (\<exists>e\<in>set (snd (passes (tick_pass quantity s) ys w)).
          \<forall>i. be_key e = idempotency_key (sh_dest s) i \<longleftrightarrow> i = us_id r)"
    proof (elim disjE imageE)
      fix e assume "idempotency_key (sh_dest s) (us_id r) = be_key e"
        and e: "e \<in> set (snd (passes (tick_pass quantity s) ys w))"
      then have "\<forall>i. be_key e = idempotency_key (sh_dest s) i \<longleftrightarrow> i = us_id r"
        using idempotency_key_inject by metis
      with e show ?thesis by blast
    qed blast
  qed (use q in simp_all)
qed

definition sample_usage :: "int \<Rightarrow> usage_event" where
  "sample_usage i = \<lparr>us_id = i, us_tenant = ''t'', us_agent = Some ''a'', us_run = None,
     us_kind = ''build.minutes'', us_quantity = 1, us_recorded = 1\<rparr>"

definition usage_world :: "int list \<Rightarrow> kobj list world" where
  "usage_world is = quiet_world (sample_db\<lparr>d_usage := map sample_usage is\<rparr>) []"

theorem no_usage_is_lost_witness:
  "\<exists>q. shipped_up_to (new_shipper ''orb'') (fst (passes (tick_pass (\<lambda>_. JInt 1) (new_shipper ''orb''))
        [Inl (\<lambda>_. Inl ErrNotFound, 5), Inr (usage_world [1, 2, 3]), Inl (\<lambda>_. Inr (), 6)] (usage_world [1, 2]))) = Some q \<and> 0 \<le> q \<and>
    (\<forall>r\<in>set (d_usage (w_db (usage_world [1, 2]))). 0 < us_id r \<longrightarrow>
       us_id r \<in> set (usage_ids (fst (passes (tick_pass (\<lambda>_. JInt 1) (new_shipper ''orb''))
        [Inl (\<lambda>_. Inl ErrNotFound, 5), Inr (usage_world [1, 2, 3]), Inl (\<lambda>_. Inr (), 6)] (usage_world [1, 2])))) \<and> q < us_id r \<or>
       (\<exists>e\<in>set (snd (passes (tick_pass (\<lambda>_. JInt 1) (new_shipper ''orb''))
        [Inl (\<lambda>_. Inl ErrNotFound, 5), Inr (usage_world [1, 2, 3]), Inl (\<lambda>_. Inr (), 6)] (usage_world [1, 2]))).
          \<forall>i. be_key e = idempotency_key (sh_dest (new_shipper ''orb'')) i \<longleftrightarrow> i = us_id r))"
proof (rule no_usage_is_lost)
  show "orderly (tick_pass (\<lambda>_. JInt 1) (new_shipper ''orb'')) (shipped_up_to (new_shipper ''orb'')) usage_ids
      [Inl (\<lambda>_. Inl ErrNotFound, 5), Inr (usage_world [1, 2, 3]), Inl (\<lambda>_. Inr (), 6)] (usage_world [1, 2])"
    by code_simp
  show "distinct (usage_ids (usage_world [1, 2]))" by code_simp
  show "shipped_up_to (new_shipper ''orb'') (usage_world [1, 2]) = Some 0" by code_simp
qed

text \<open>
  C25: a tick on a healthy platform makes progress: it ships exactly the oldest rows above the
  checkpoint, at most a batch of them, in the order of their ids, and moves the checkpoint to
  the last of them, so the rows that are still waiting are those after the batch.
\<close>

theorem healthy_tick_drains:
  assumes "w_script w = []" and "shipped_up_to s w = Some p" and "distinct (usage_ids w)"
    and "0 < sh_batch s" and "ship (map (event_for quantity (sh_dest s)) (pending_batch s p w)) = Inr ()"
  shows "fst (ship_tick quantity s ship now w) = Inr () \<and>
    snd (snd (ship_tick quantity s ship now w)) = map (event_for quantity (sh_dest s)) (pending_batch s p w) \<and>
    (\<exists>q. shipped_up_to s (fst (snd (ship_tick quantity s ship now w))) = Some q \<and>
       length (filter (\<lambda>i. q < i) (usage_ids (fst (snd (ship_tick quantity s ship now w))))) =
         length (filter (\<lambda>i. p < i) (usage_ids w)) - sh_batch s)"
proof -
  have "fst (ship_tick quantity s ship now w) = Inr ()"
    using assms(1,2,5) unfolding pending_batch_def
    by (simp add: ship_tick_def shipped_up_to_def read_checkpoint_Inr [THEN iffD2] Let_def)
  moreover have "snd (ship_tick quantity s ship now w) = tick_pass quantity s (ship, now) w"
    by (simp add: tick_pass_def)
  ultimately show ?thesis
    using usage_log.run_healthy [of w s p ship quantity now] assms
    by (simp add: tick_pass_is_log_pass shipped_up_to_def usage_ids_def pending_batch_def)
qed

theorem healthy_tick_drains_witness:
  "fst (ship_tick (\<lambda>_. JInt 1) (new_shipper ''orb'') (\<lambda>_. Inr ()) 5 (usage_world [2, 1])) = Inr () \<and>
    snd (snd (ship_tick (\<lambda>_. JInt 1) (new_shipper ''orb'') (\<lambda>_. Inr ()) 5 (usage_world [2, 1]))) =
      map (event_for (\<lambda>_. JInt 1) (sh_dest (new_shipper ''orb''))) (pending_batch (new_shipper ''orb'') 0 (usage_world [2, 1])) \<and>
    (\<exists>q. shipped_up_to (new_shipper ''orb'') (fst (snd (ship_tick (\<lambda>_. JInt 1) (new_shipper ''orb'') (\<lambda>_. Inr ()) 5 (usage_world [2, 1])))) = Some q \<and>
       length (filter (\<lambda>i. q < i) (usage_ids (fst (snd (ship_tick (\<lambda>_. JInt 1) (new_shipper ''orb'') (\<lambda>_. Inr ()) 5 (usage_world [2, 1])))))) =
         length (filter (\<lambda>i. 0 < i) (usage_ids (usage_world [2, 1]))) - sh_batch (new_shipper ''orb''))"
proof (rule healthy_tick_drains)
  show "w_script (usage_world [2, 1]) = []" by (simp add: usage_world_def quiet_world_def)
  show "shipped_up_to (new_shipper ''orb'') (usage_world [2, 1]) = Some 0" by code_simp
  show "distinct (usage_ids (usage_world [2, 1]))" by code_simp
qed (simp_all add: new_shipper_def)

text \<open>
  The ids are serial numbers drawn before the row commits: a row that commits with an id at or
  below the checkpoint is never read again, whatever the ticks do.
\<close>

lemma late_commit_is_never_shipped:
  assumes "shipped_up_to s w = Some p" and "i \<le> p"
  shows "idempotency_key (sh_dest s) i \<notin> be_key ` set (snd (tick_pass quantity s x w))"
  using usage_log.run_old_rows assms by (simp add: tick_pass_is_log_pass shipped_up_to_def)

end
