(* ===== verification/Process.thy ===== *)
theory Process
  imports Config "HOL-Library.State_Monad"
begin

text \<open>
  A service process, as its \<open>main\<close> sees it: calls that may fail, resources with a deferred
  release, and the end of the process. \<open>log.Fatalf\<close> and \<open>os.Exit\<close> end it at once, without
  the deferred calls; a return and a panic run them, the last one first. \<open>ps_works\<close> says
  which calls succeed, so a statement for every \<open>ps_works\<close> is one for every failure at
  start-up. \<open>ps_state\<close> is what the service works on. What a stopped process would have
  done next is not done.
\<close>

section \<open>The process\<close>

datatype resource =
    R_Telemetry string
  | R_Postgres string
  | R_Bus string
  | R_Cron
  | R_Ticker duration

datatype action =
    Called string string
  | Opened resource
  | Closed resource
  | Subscribed string string
  | Used "resource list"

datatype proc_status = P_Running | P_Exited | P_Returned | P_Panicked

record 's process =
  ps_status :: proc_status
  ps_works :: "action \<Rightarrow> bool"
  ps_trace :: "action list"
  ps_deferred :: "action list"
  ps_state :: 's

definition new_process :: "(action \<Rightarrow> bool) \<Rightarrow> 's \<Rightarrow> 's process" where
  "new_process works s =
     \<lparr>ps_status = P_Running, ps_works = works, ps_trace = [], ps_deferred = [], ps_state = s\<rparr>"

type_synonym ('s, 'a) proc = "('s process, 'a) state"

definition live :: "'a \<Rightarrow> ('s process \<Rightarrow> 'a \<times> 's process) \<Rightarrow> ('s, 'a) proc" where
  "live x f = State (\<lambda>p. if ps_status p = P_Running then f p else (x, p))"

definition perform :: "action \<Rightarrow> ('s, unit) proc" where
  "perform a = live () (\<lambda>p. ((), p\<lparr>ps_trace := ps_trace p @ [a]\<rparr>))"

text \<open>A call that may fail, and one whose failure ends the process.\<close>

definition attempt :: "action \<Rightarrow> ('s, bool) proc" where
  "attempt a = live False (\<lambda>p.
     if ps_works p a then (True, p\<lparr>ps_trace := ps_trace p @ [a]\<rparr>) else (False, p))"

definition fatal :: "('s, unit) proc" where
  "fatal = live () (\<lambda>p. ((), p\<lparr>ps_status := P_Exited\<rparr>))"

definition ensure :: "bool \<Rightarrow> ('s, unit) proc" where
  "ensure b = (if b then State_Monad.return () else fatal)"

definition require :: "action \<Rightarrow> ('s, unit) proc" where
  "require a = do { ok \<leftarrow> attempt a; ensure ok }"

text \<open>A resource whose constructor succeeded is released by a deferred call.\<close>

definition defer_release :: "resource \<Rightarrow> ('s, unit) proc" where
  "defer_release r = live () (\<lambda>p.
     ((), p\<lparr>ps_trace := ps_trace p @ [Opened r], ps_deferred := Closed r # ps_deferred p\<rparr>))"

definition acquire :: "('s, bool) proc \<Rightarrow> resource \<Rightarrow> ('s, unit) proc" where
  "acquire m r = do { ok \<leftarrow> m; if ok then defer_release r else fatal }"

definition leave :: "proc_status \<Rightarrow> ('s, unit) proc" where
  "leave st = live () (\<lambda>p.
     ((), p\<lparr>ps_status := st, ps_trace := ps_trace p @ ps_deferred p, ps_deferred := []\<rparr>))"

definition finish :: "('s, unit) proc" where "finish = leave P_Returned"

definition panic :: "('s, unit) proc" where "panic = leave P_Panicked"

definition subscribe_bus :: "string \<Rightarrow> string \<Rightarrow> ('s, bool) proc" where
  "subscribe_bus durable subject = attempt (Subscribed durable subject)"

text \<open>A step of the service on its state, over the resources it needs.\<close>

definition work :: "resource list \<Rightarrow> 'a \<Rightarrow> ('s \<Rightarrow> 'a \<times> 's) \<Rightarrow> ('s, 'a) proc" where
  "work rs x f = live x (\<lambda>p.
     (fst (f (ps_state p)), p\<lparr>ps_trace := ps_trace p @ [Used rs], ps_state := snd (f (ps_state p))\<rparr>))"

primrec each :: "('e \<Rightarrow> ('s, unit) proc) \<Rightarrow> 'e list \<Rightarrow> ('s, unit) proc" where
  "each m [] = State_Monad.return ()"
| "each m (e # es) = do { m e; each m es }"

section \<open>The discipline of a trace\<close>

text \<open>
  The open resources after a trace, the last opened first: nothing when a resource was
  released out of order, a subscription made without a bus, or work done with a resource
  that is not open.
\<close>

definition is_bus :: "resource \<Rightarrow> bool" where
  "is_bus r = (case r of R_Bus _ \<Rightarrow> True | _ \<Rightarrow> False)"

definition replay_step :: "action \<Rightarrow> resource list \<Rightarrow> resource list option" where
  "replay_step a st =
     (case a of
        Called f x \<Rightarrow> Some st
      | Opened r \<Rightarrow> Some (r # st)
      | Closed r \<Rightarrow> (case st of [] \<Rightarrow> None | q # rest \<Rightarrow> if q = r then Some rest else None)
      | Subscribed d s \<Rightarrow> if list_ex is_bus st then Some st else None
      | Used rs \<Rightarrow> if set rs \<subseteq> set st then Some st else None)"

primrec replay :: "action list \<Rightarrow> resource list \<Rightarrow> resource list option" where
  "replay [] st = Some st"
| "replay (a # as) st = (case replay_step a st of None \<Rightarrow> None | Some st' \<Rightarrow> replay as st')"

text \<open>
  \<open>holding rs p\<close>: the process has kept the discipline, its deferred calls release what is
  open in reverse order, and while it runs the resources \<open>rs\<close> are open.
\<close>

definition holding :: "resource list \<Rightarrow> 's process \<Rightarrow> bool" where
  "holding rs p \<longleftrightarrow>
     (case replay (ps_trace p) [] of
        None \<Rightarrow> False
      | Some st \<Rightarrow>
          (ps_status p = P_Running \<longrightarrow> ps_deferred p = map Closed st \<and> set rs \<subseteq> set st) \<and>
          (ps_status p \<in> {P_Returned, P_Panicked} \<longrightarrow> st = []))"

definition keeps :: "resource list \<Rightarrow> ('s, 'a) proc \<Rightarrow> ('a \<Rightarrow> resource list) \<Rightarrow> bool" where
  "keeps rs m rs' \<longleftrightarrow>
     (\<forall>p. holding rs p \<longrightarrow> holding (rs' (fst (run_state m p))) (snd (run_state m p)))"

section \<open>Lemmas\<close>

lemma replay_append:
  "replay (xs @ ys) st = (case replay xs st of None \<Rightarrow> None | Some st' \<Rightarrow> replay ys st')"
  by (induction xs arbitrary: st) (simp_all split: option.split)

lemma replay_releases: "replay (map Closed st) st = Some []"
  by (induction st) (simp_all add: replay_step_def)

lemma run_live [simp]:
  "run_state (live x f) p = (if ps_status p = P_Running then f p else (x, p))"
  by (simp add: live_def)

lemma new_process_holding [simp]: "holding [] (new_process works s)"
  by (simp add: holding_def new_process_def)

named_theorems keeping

lemma keeps_return [keeping]: "keeps rs (State_Monad.return x) (\<lambda>_. rs)"
  by (simp add: keeps_def)

lemma keeps_bind:
  assumes "keeps rs m rs1" and "\<And>x. keeps (rs1 x) (f x) rs2"
  shows "keeps rs (State_Monad.bind m f) rs2"
  using assms by (simp add: keeps_def split_beta)

text \<open>A step that opens nothing, in front of what follows.\<close>

lemma keeps_then [keeping]:
  "keeps rs m (\<lambda>_. rs) \<Longrightarrow> (\<And>x. keeps rs (f x) rs') \<Longrightarrow> keeps rs (State_Monad.bind m f) rs'"
  by (rule keeps_bind)

lemma keeps_if [keeping]:
  "(b \<Longrightarrow> keeps rs m rs') \<Longrightarrow> (\<not> b \<Longrightarrow> keeps rs n rs') \<Longrightarrow> keeps rs (if b then m else n) rs'"
  by simp

lemma keeps_live:
  assumes "\<And>p st. replay (ps_trace p) [] = Some st \<Longrightarrow> ps_status p = P_Running \<Longrightarrow>
      ps_deferred p = map Closed st \<Longrightarrow> set rs \<subseteq> set st \<Longrightarrow> holding (rs' (fst (f p))) (snd (f p))"
  shows "keeps rs (live x f) rs'"
  using assms by (auto simp: keeps_def holding_def split: option.splits)

lemma keeps_perform [keeping]:
  "(\<And>st. set rs \<subseteq> set st \<Longrightarrow> replay_step a st = Some st) \<Longrightarrow> keeps rs (perform a) (\<lambda>_. rs)"
  unfolding perform_def by (rule keeps_live) (simp add: holding_def replay_append)

lemma keeps_attempt [keeping]:
  "(\<And>st. set rs \<subseteq> set st \<Longrightarrow> replay_step a st = Some st) \<Longrightarrow> keeps rs (attempt a) (\<lambda>_. rs)"
  unfolding attempt_def by (rule keeps_live) (simp add: holding_def replay_append)

lemma keeps_fatal [keeping]: "keeps rs fatal (\<lambda>_. rs')"
  unfolding fatal_def by (rule keeps_live) (simp add: holding_def)

lemma keeps_ensure [keeping]: "keeps rs (ensure b) (\<lambda>_. rs)"
  by (simp add: ensure_def keeps_return keeps_fatal)

lemma keeps_require [keeping]:
  "(\<And>st. set rs \<subseteq> set st \<Longrightarrow> replay_step a st = Some st) \<Longrightarrow> keeps rs (require a) (\<lambda>_. rs)"
  unfolding require_def by (rule keeps_bind, rule keeps_attempt) (simp_all add: keeps_ensure)

lemma keeps_defer_release [keeping]: "keeps rs (defer_release r) (\<lambda>_. r # rs)"
  unfolding defer_release_def
  by (rule keeps_live) (auto simp: holding_def replay_append replay_step_def)

lemma keeps_acquire [keeping]:
  assumes "keeps rs m (\<lambda>_. rs)"
  shows "keeps rs (acquire m r) (\<lambda>_. r # rs)"
  unfolding acquire_def
  by (rule keeps_bind, rule assms) (simp add: keeps_defer_release keeps_fatal)

lemma keeps_acquire_then:
  "keeps rs m (\<lambda>_. rs) \<Longrightarrow> (\<And>x. keeps (r # rs) (f x) rs') \<Longrightarrow> keeps rs (State_Monad.bind (acquire m r) f) rs'"
  by (rule keeps_bind [OF keeps_acquire])

lemma keeps_leave: "st \<in> {P_Returned, P_Panicked} \<Longrightarrow> keeps rs (leave st) (\<lambda>_. rs')"
  unfolding leave_def
  by (rule keeps_live) (auto simp: holding_def replay_append replay_releases)

lemma keeps_finish [keeping]: "keeps rs finish (\<lambda>_. rs')" and keeps_panic [keeping]: "keeps rs panic (\<lambda>_. rs')"
  by (simp_all add: finish_def panic_def keeps_leave)

lemma keeps_subscribe [keeping]: "list_ex is_bus rs \<Longrightarrow> keeps rs (subscribe_bus d s) (\<lambda>_. rs)"
  unfolding subscribe_bus_def
  by (rule keeps_attempt) (auto simp: replay_step_def list_ex_iff)

lemma keeps_work [keeping]: "set need \<subseteq> set rs \<Longrightarrow> keeps rs (work need x f) (\<lambda>_. rs)"
  unfolding work_def by (rule keeps_live) (auto simp: holding_def replay_append replay_step_def)

lemma keeps_each [keeping]: "(\<And>e. keeps rs (m e) (\<lambda>_. rs)) \<Longrightarrow> keeps rs (each m es) (\<lambda>_. rs)"
  by (induction es) (auto intro!: keeping)

lemma called_is_free [simp]: "replay_step (Called f x) st = Some st"
  by (simp add: replay_step_def)

text \<open>A process that ends with a return, a fatal call or a panic does not run on.\<close>

definition ends :: "('s, 'a) proc \<Rightarrow> bool" where
  "ends m \<longleftrightarrow> (\<forall>p. ps_status (snd (run_state m p)) \<noteq> P_Running)"

lemma ends_leave: "st \<noteq> P_Running \<Longrightarrow> ends (leave st)"
  by (simp add: ends_def leave_def)

lemma ends_simps [simp]: "ends fatal" "ends finish" "ends panic"
  by (simp_all add: ends_def fatal_def finish_def panic_def leave_def)

lemma ends_bind: "(\<And>x. ends (f x)) \<Longrightarrow> ends (State_Monad.bind m f)"
  by (simp add: ends_def split_beta)

text \<open>How a process should have ended.\<close>

definition ended_well :: "'s process \<Rightarrow> bool" where
  "ended_well p \<longleftrightarrow> ps_status p \<noteq> P_Running \<and> replay (ps_trace p) [] \<noteq> None \<and>
     (ps_status p \<in> {P_Returned, P_Panicked} \<longrightarrow> replay (ps_trace p) [] = Some [])"

lemma holding_ended_well: "holding rs p \<Longrightarrow> ps_status p \<noteq> P_Running \<Longrightarrow> ended_well p"
  unfolding ended_well_def holding_def by (cases "replay (ps_trace p) []") simp_all

lemma disciplined_ends_well:
  assumes "keeps [] m rs" and "ends m"
  shows "ended_well (snd (run_state m (new_process works s)))"
proof (rule holding_ended_well)
  from assms(1) show "holding (rs (fst (run_state m (new_process works s)))) (snd (run_state m (new_process works s)))"
    unfolding keeps_def by (elim allE impE) (rule new_process_holding)
  from assms(2) show "ps_status (snd (run_state m (new_process works s))) \<noteq> P_Running"
    unfolding ends_def by (rule spec)
qed

section \<open>The state of a process\<close>

text \<open>A property of the state that every piece of work keeps holds throughout.\<close>

definition state_keeps :: "('s \<Rightarrow> bool) \<Rightarrow> ('s, 'a) proc \<Rightarrow> bool" where
  "state_keeps P m \<longleftrightarrow> (\<forall>p. P (ps_state p) \<longrightarrow> P (ps_state (snd (run_state m p))))"

named_theorems state_keeping

lemma state_keeps_return [state_keeping]: "state_keeps P (State_Monad.return x)"
  by (simp add: state_keeps_def)

lemma state_keeps_bind [state_keeping]:
  "state_keeps P m \<Longrightarrow> (\<And>x. state_keeps P (f x)) \<Longrightarrow> state_keeps P (State_Monad.bind m f)"
  by (simp add: state_keeps_def split_beta)

lemma state_keeps_if [state_keeping]:
  "state_keeps P m \<Longrightarrow> state_keeps P n \<Longrightarrow> state_keeps P (if b then m else n)"
  by simp

lemma state_keeps_steps [state_keeping]:
  "state_keeps P (perform a)" "state_keeps P (attempt a)" "state_keeps P fatal" "state_keeps P (ensure b)"
  "state_keeps P (defer_release r)" "state_keeps P (leave st)" "state_keeps P finish" "state_keeps P panic"
  "state_keeps P (subscribe_bus d s)" "state_keeps P (require a)"
  by (simp_all add: state_keeps_def perform_def attempt_def fatal_def ensure_def defer_release_def leave_def
      finish_def panic_def subscribe_bus_def require_def split_beta)

lemma state_keeps_acquire [state_keeping]: "state_keeps P m \<Longrightarrow> state_keeps P (acquire m r)"
  unfolding acquire_def by (intro state_keeping)

lemma state_keeps_work [state_keeping]:
  "(\<And>s. P s \<Longrightarrow> P (snd (f s))) \<Longrightarrow> state_keeps P (work need x f)"
  by (simp add: state_keeps_def work_def)

lemma state_keeps_each [state_keeping]: "(\<And>e. state_keeps P (m e)) \<Longrightarrow> state_keeps P (each m es)"
  by (induction es) (auto intro!: state_keeping)

end
