(* ===== verification/Clients.thy ===== *)
theory Clients
  imports Process Go_Strings Events
begin

text \<open>
  How a service reaches what it depends on: \<open>internal/telemetry\<close>, \<open>internal/db/db.go\<close>,
  \<open>internal/eventbus/nats.go\<close> (\<open>Connect\<close>, \<open>Subscribe\<close> and the stream and consumers they
  declare), \<open>internal/kube/client.go\<close> and the verifier of \<open>internal/auth/workos.go\<close>. Each
  constructor is the sequence of library calls that the code makes, every one of which may
  fail; its value says whether it succeeded.
\<close>

section \<open>Telemetry\<close>

definition truthy :: "string \<Rightarrow> bool" where
  "truthy s \<longleftrightarrow> to_lower s \<in> set [''1'', ''true'', ''yes'', ''on'']"

definition otel_endpoint :: "environ \<Rightarrow> string" where
  "otel_endpoint e =
     trim_prefix (trim_prefix (getenv e ''OTEL_EXPORTER_OTLP_ENDPOINT'') ''https://'') ''http://''"

definition telemetry_init :: "environ \<Rightarrow> string \<Rightarrow> ('s, bool) proc" where
  "telemetry_init e service =
     (if getenv e ''OTEL_EXPORTER_OTLP_ENDPOINT'' = [] then
        do { perform (Called ''otel.SetTracerProvider'' []);
             perform (Called ''otel.SetTextMapPropagator'' ''tracecontext'');
             State_Monad.return True }
      else
        do { ok \<leftarrow> attempt (Called (if truthy (getenv e ''OTEL_EXPORTER_OTLP_INSECURE'')
                 then ''otlptrace.New insecure'' else ''otlptrace.New'') (otel_endpoint e));
             if \<not> ok then State_Monad.return False
             else do {
               merged \<leftarrow> attempt (Called ''resource.Merge'' service);
               if \<not> merged then State_Monad.return False
               else do {
                 perform (Called ''otel.SetTracerProvider'' service);
                 perform (Called ''otel.SetTextMapPropagator'' ''tracecontext,baggage'');
                 State_Monad.return True } } })"

text \<open>\<open>errors.Join\<close> of what the two shutdowns return: no error when neither has one.\<close>

definition errors_join :: "error option list \<Rightarrow> error list option" where
  "errors_join es = (let xs = List.map_filter id es in if xs = [] then None else Some xs)"

definition telemetry_shutdown :: "environ \<Rightarrow> error option \<Rightarrow> error option \<Rightarrow> error list option" where
  "telemetry_shutdown e provider exporter =
     (if getenv e ''OTEL_EXPORTER_OTLP_ENDPOINT'' = [] then None else errors_join [provider, exporter])"

text \<open>
  The carrier of a trace context: what the propagator writes into an empty map, or nothing;
  \<open>extract_ctx\<close> leaves the context alone when there is no carrier.
\<close>

definition carrier_get :: "(string \<times> string) list \<Rightarrow> string \<Rightarrow> string" where
  "carrier_get m key = (case map_of m key of None \<Rightarrow> [] | Some v \<Rightarrow> v)"

definition carrier_set :: "string \<Rightarrow> string \<Rightarrow> (string \<times> string) list \<Rightarrow> (string \<times> string) list" where
  "carrier_set key v m = (key, v) # filter (\<lambda>(k, _). k \<noteq> key) m"

definition carrier_keys :: "(string \<times> string) list \<Rightarrow> string list" where
  "carrier_keys m = remdups (map fst m)"

definition inject_ctx :: "((string \<times> string) list \<Rightarrow> (string \<times> string) list) \<Rightarrow> (string \<times> string) list option" where
  "inject_ctx propagate = (let c = propagate [] in if c = [] then None else Some c)"

definition extract_ctx :: "((string \<times> string) list \<Rightarrow> 'c \<Rightarrow> 'c) \<Rightarrow> (string \<times> string) list option \<Rightarrow> 'c \<Rightarrow> 'c" where
  "extract_ctx restore carrier ctx =
     (case carrier of None \<Rightarrow> ctx | Some m \<Rightarrow> if m = [] then ctx else restore m ctx)"

section \<open>Postgres\<close>

definition db_open :: "string \<Rightarrow> ('s, bool) proc" where
  "db_open url = do {
     ok \<leftarrow> attempt (Called ''pgxpool.ParseConfig'' url);
     if \<not> ok then State_Monad.return False
     else do {
       ok2 \<leftarrow> attempt (Called ''pgxpool.NewWithConfig'' url);
       if \<not> ok2 then State_Monad.return False
       else do {
         ok3 \<leftarrow> attempt (Called ''pool.Ping'' url);
         if \<not> ok3 then do { perform (Called ''pool.Close'' url); State_Monad.return False }
         else State_Monad.return True } } }"

section \<open>NATS\<close>

record stream_config =
  sc_name :: string
  sc_subjects :: "string list"
  sc_max_age :: duration

definition platform_stream :: stream_config where
  "platform_stream = \<lparr>sc_name = ''ailab'', sc_subjects = [''run.>'', ''build.>'', ''deployment.>''],
     sc_max_age = 7 * 24 * hour\<rparr>"

definition bus_connect :: "string \<Rightarrow> ('s, bool) proc" where
  "bus_connect url = do {
     ok \<leftarrow> attempt (Called ''nats.Connect'' url);
     if \<not> ok then State_Monad.return False
     else do {
       ok2 \<leftarrow> attempt (Called ''jetstream.New'' url);
       if \<not> ok2 then do { perform (Called ''nc.Close'' url); State_Monad.return False }
       else do {
         ok3 \<leftarrow> attempt (Called ''CreateOrUpdateStream'' (sc_name platform_stream));
         if \<not> ok3 then do { perform (Called ''nc.Close'' url); State_Monad.return False }
         else State_Monad.return True } } }"

text \<open>A durable consumer: explicit acknowledgement, ten deliveries, thirty seconds to answer.\<close>

record consumer_config =
  cf_durable :: string
  cf_filter :: string
  cf_max_deliver :: nat
  cf_ack_wait :: duration

definition consumer_for :: "string \<Rightarrow> string \<Rightarrow> consumer_config" where
  "consumer_for durable subject =
     \<lparr>cf_durable = durable, cf_filter = subject, cf_max_deliver = 10, cf_ack_wait = 30 * second\<rparr>"

definition bus_subscribe :: "string \<Rightarrow> string \<Rightarrow> ('s, bool) proc" where
  "bus_subscribe durable subject = do {
     ok \<leftarrow> attempt (Called ''CreateOrUpdateConsumer'' (cf_durable (consumer_for durable subject)));
     if \<not> ok then State_Monad.return False
     else subscribe_bus durable (cf_filter (consumer_for durable subject)) }"

text \<open>A subscription without JetStream; it ends with the connection.\<close>

definition subscribe_raw :: "string \<Rightarrow> ('s, bool) proc" where
  "subscribe_raw subject = attempt (Called ''nc.Subscribe'' subject)"

text \<open>What the callback of \<open>Consume\<close> does with one message.\<close>

datatype ack = Ack | Nak

definition consume_message :: "(wire \<Rightarrow> 's \<Rightarrow> (error + unit) \<times> 's) \<Rightarrow> wire \<Rightarrow> 's \<Rightarrow> ack \<times> 's" where
  "consume_message h msg s = (case h msg s of (Inl e, s') \<Rightarrow> (Nak, s') | (Inr _, s') \<Rightarrow> (Ack, s'))"

section \<open>Kubernetes\<close>

definition kube_load_config :: "('s, bool) proc" where
  "kube_load_config = do {
     inside \<leftarrow> attempt (Called ''rest.InClusterConfig'' []);
     if inside then State_Monad.return True else attempt (Called ''loader.ClientConfig'' []) }"

definition kube_new :: "('s, bool) proc" where
  "kube_new = do {
     ok \<leftarrow> kube_load_config;
     if \<not> ok then State_Monad.return False else attempt (Called ''kubernetes.NewForConfig'' []) }"

text \<open>The gateway's variant: the second value says that the configuration is the one of the Pod.\<close>

definition load_kube_config :: "('s, bool \<times> bool) proc" where
  "load_kube_config = do {
     inside \<leftarrow> attempt (Called ''rest.InClusterConfig'' []);
     if inside then State_Monad.return (True, True)
     else do { ok \<leftarrow> attempt (Called ''loader.ClientConfig'' []); State_Monad.return (ok, False) } }"

section \<open>The WorkOS verifier\<close>

definition new_workos_verifier :: "string \<Rightarrow> ('s, bool) proc" where
  "new_workos_verifier jwks =
     (if jwks = [] then State_Monad.return False
      else do {
        ok \<leftarrow> attempt (Called ''jwk.Register'' jwks);
        if \<not> ok then State_Monad.return False else attempt (Called ''jwk.Refresh'' jwks) })"

section \<open>Lemmas\<close>

text \<open>The constructors open nothing that they leave open themselves and change no state.\<close>

lemma keeps_calls:
  "keeps rs (perform (Called f x)) (\<lambda>_. rs)" "keeps rs (attempt (Called f x)) (\<lambda>_. rs)"
  by (simp_all add: keeps_perform keeps_attempt)

lemma keeps_clients [keeping]:
  "keeps rs (telemetry_init e service) (\<lambda>_. rs)" "keeps rs (db_open url) (\<lambda>_. rs)"
  "keeps rs (bus_connect url) (\<lambda>_. rs)" "keeps rs load_kube_config (\<lambda>_. rs)"
  "keeps rs kube_new (\<lambda>_. rs)" "keeps rs (new_workos_verifier jwks) (\<lambda>_. rs)"
  unfolding telemetry_init_def db_open_def bus_connect_def load_kube_config_def kube_new_def
    kube_load_config_def new_workos_verifier_def split_beta
  by (intro keeps_if keeps_then keeps_return keeps_calls)+

lemma keeps_subscribe_raw [keeping]: "keeps rs (subscribe_raw s) (\<lambda>_. rs)"
  by (simp add: subscribe_raw_def keeps_calls)

lemma keeps_bus_subscribe [keeping]: "list_ex is_bus rs \<Longrightarrow> keeps rs (bus_subscribe d s) (\<lambda>_. rs)"
  unfolding bus_subscribe_def by (intro keeps_if keeps_then keeps_return keeps_calls keeps_subscribe)

lemma state_keeps_clients [state_keeping]:
  "state_keeps P (telemetry_init e service)" "state_keeps P (db_open url)" "state_keeps P (bus_connect url)"
  "state_keeps P load_kube_config" "state_keeps P kube_new" "state_keeps P (new_workos_verifier jwks)"
  "state_keeps P (bus_subscribe d s)" "state_keeps P (subscribe_raw s)"
  unfolding telemetry_init_def db_open_def bus_connect_def load_kube_config_def kube_new_def
    kube_load_config_def new_workos_verifier_def bus_subscribe_def subscribe_raw_def split_beta
  by (intro state_keeping)+

text \<open>\<open>Inject\<close> never gives an empty carrier, which the events rely on.\<close>

lemma inject_not_empty: "inject_ctx propagate \<noteq> Some []"
  by (simp add: inject_ctx_def Let_def)

lemma extract_nothing: "extract_ctx restore None ctx = ctx" "extract_ctx restore (Some []) ctx = ctx"
  by (simp_all add: extract_ctx_def)

text \<open>What was injected is what is extracted, for a propagator that reads back what it wrote.\<close>

lemma extract_inject:
  assumes "\<And>c. restore (propagate []) c = ctx" and "propagate [] = [] \<Longrightarrow> c = ctx"
  shows "extract_ctx restore (inject_ctx propagate) c = ctx"
  using assms by (simp add: extract_ctx_def inject_ctx_def Let_def)

lemma errors_join_None: "errors_join es = None \<longleftrightarrow> (\<forall>e\<in>set es. e = None)"
  by (induction es) (auto simp: errors_join_def List.map_filter_simps Let_def split: option.splits)

text \<open>
  NATS's full wildcard: \<open>p.>\<close> matches every subject below \<open>p\<close>. Every event of the platform is
  captured by its stream, whose name and filters the consumers share; so are the live run
  events that the hub publishes without JetStream.
\<close>

definition full_wildcard :: "(string \<Rightarrow> string \<Rightarrow> bool) \<Rightarrow> bool" where
  "full_wildcard matches \<longleftrightarrow> (\<forall>p s. s \<noteq> [] \<longrightarrow> matches (p @ ''.>'') (p @ ''.'' @ s))"

lemma stream_captures:
  assumes "full_wildcard matches" and "s \<noteq> []" and "p \<in> {''run'', ''build'', ''deployment''}"
  shows "\<exists>q\<in>set (sc_subjects platform_stream). matches q (p @ ''.'' @ s)"
proof -
  have "matches (p @ ''.>'') (p @ ''.'' @ s)" using assms(1,2) by (simp add: full_wildcard_def)
  moreover have "p @ ''.>'' \<in> set (sc_subjects platform_stream)"
    using assms(3) by (auto simp: platform_stream_def)
  ultimately show ?thesis by blast
qed

lemma events_are_captured:
  assumes "full_wildcard matches"
    and "subject \<in> {SubjectRunRequested, SubjectRunStarted, SubjectRunCompleted, SubjectBuildRequested,
      SubjectBuildCompleted, SubjectDeploymentRequested, SubjectDeploymentStopped}"
  shows "\<exists>q\<in>set (sc_subjects platform_stream). matches q subject"
proof -
  note c = stream_captures [OF assms(1)]
  from assms(2) show ?thesis
    using c [of "''requested''" "''run''"] c [of "''started''" "''run''"] c [of "''completed''" "''run''"]
      c [of "''requested''" "''build''"] c [of "''completed''" "''build''"]
      c [of "''requested''" "''deployment''"] c [of "''stopped''" "''deployment''"]
    by (auto simp: SubjectRunRequested_def SubjectRunStarted_def SubjectRunCompleted_def SubjectBuildRequested_def
        SubjectBuildCompleted_def SubjectDeploymentRequested_def SubjectDeploymentStopped_def)
qed

lemma live_events_are_captured:
  assumes "full_wildcard matches"
  shows "\<exists>q\<in>set (sc_subjects platform_stream). matches q (''run.events.'' @ run)"
  using stream_captures [OF assms, of "''events.'' @ run" "''run''"] by simp

end
