(* ===== verification/Cron_Scheduler.thy ===== *)
theory Cron_Scheduler
  imports Triggers_Api
begin

text \<open>
  \<open>cmd/triggers/main.go\<close>: the cron scheduler. \<open>refresh\<close> reconciles the entries of the cron
  library with the cron rows of the triggers table, \<open>fire\<close> starts a run. The cron library is
  third-party: a record of its two operations over a state of any type, with its documented
  behaviour as \<open>cron_table\<close>. SHA-256 is the parameter \<open>hash\<close>.
\<close>

section \<open>The cron library\<close>

record 'c cron_api =
  c_add :: "string \<Rightarrow> trigger \<Rightarrow> 'c \<Rightarrow> (unit + int) \<times> 'c"
  c_remove :: "int \<Rightarrow> 'c \<Rightarrow> 'c"

text \<open>
  \<open>view\<close> are the live entries: \<open>AddFunc\<close> files the job under a new id, or fails on an
  expression it cannot parse and changes nothing; \<open>Remove\<close> drops an entry.
\<close>

definition cron_table :: "'c cron_api \<Rightarrow> ('c \<Rightarrow> int \<rightharpoonup> trigger) \<Rightarrow> (string \<Rightarrow> bool) \<Rightarrow> bool" where
  "cron_table C view valid \<longleftrightarrow>
     (\<forall>x t c. if valid x
        then \<exists>e. fst (c_add C x t c) = Inr e \<and> view c e = None \<and> view (snd (c_add C x t c)) = (view c)(e \<mapsto> t)
        else fst (c_add C x t c) = Inl () \<and> view (snd (c_add C x t c)) = view c) \<and>
     (\<forall>e c. view (c_remove C e c) = (view c)(e := None))"

text \<open>A cron library for evaluation: entries in a list, every expression but bad parses.\<close>

definition list_cron :: "(int \<times> (int \<times> trigger) list) cron_api" where
  "list_cron =
     \<lparr>c_add = (\<lambda>x t (n, es). if x = ''bad'' then (Inl (), (n, es)) else (Inr n, (n + 1, (n, t) # es))),
      c_remove = (\<lambda>e (n, es). (n, filter (\<lambda>(i, t). i \<noteq> e) es))\<rparr>"

section \<open>The scheduler\<close>

definition checksum :: "(string \<Rightarrow> string) \<Rightarrow> string \<Rightarrow> string \<Rightarrow> string" where
  "checksum hash agent expr = hex_encode (take 8 (hash (agent @ ''|'' @ expr)))"

definition trigger_sum :: "(string \<Rightarrow> string) \<Rightarrow> trigger \<Rightarrow> string" where
  "trigger_sum hash t = checksum hash (tg_agent t) (coalesce_str (tg_cron t))"

text \<open>\<open>registered\<close>, a map from trigger ids to the entry id and the checksum.\<close>

type_synonym registry = "(string \<times> (int \<times> string)) list"

definition set_entry :: "string \<Rightarrow> int \<times> string \<Rightarrow> registry \<Rightarrow> registry" where
  "set_entry k v reg = (k, v) # filter (\<lambda>(i, x). i \<noteq> k) reg"

definition refresh_row ::
  "'c cron_api \<Rightarrow> (string \<Rightarrow> string) \<Rightarrow> trigger \<Rightarrow> 'c \<times> registry \<Rightarrow> 'c \<times> registry" where
  "refresh_row C hash t s =
     (case s of (c, reg) \<Rightarrow>
      case map_of reg (tg_id t) of
        Some (e, old) \<Rightarrow>
          if old = trigger_sum hash t then s
          else (case c_add C (coalesce_str (tg_cron t)) t (c_remove C e c) of
                  (Inl _, c2) \<Rightarrow> (c2, reg)
                | (Inr e', c2) \<Rightarrow> (c2, set_entry (tg_id t) (e', trigger_sum hash t) reg))
      | None \<Rightarrow>
          (case c_add C (coalesce_str (tg_cron t)) t c of
             (Inl _, c2) \<Rightarrow> (c2, reg)
           | (Inr e', c2) \<Rightarrow> (c2, set_entry (tg_id t) (e', trigger_sum hash t) reg)))"

definition drop_entry :: "'c cron_api \<Rightarrow> string list \<Rightarrow> string \<times> (int \<times> string) \<Rightarrow> 'c \<Rightarrow> 'c" where
  "drop_entry C seen r c = (if fst r \<in> set seen then c else c_remove C (fst (snd r)) c)"

definition refresh_rows ::
  "'c cron_api \<Rightarrow> (string \<Rightarrow> string) \<Rightarrow> trigger list \<Rightarrow> 'c \<times> registry \<Rightarrow> 'c \<times> registry" where
  "refresh_rows C hash rows s =
     (case fold (refresh_row C hash) rows s of (c, reg) \<Rightarrow>
        (fold (drop_entry C (map tg_id rows)) reg c, filter (\<lambda>r. fst r \<in> tg_id ` set rows) reg))"

definition refresh ::
  "'c cron_api \<Rightarrow> (string \<Rightarrow> string) \<Rightarrow> 'c \<times> registry \<Rightarrow> 'k world
    \<Rightarrow> (error + unit) \<times> ('c \<times> registry) \<times> 'k world" where
  "refresh C hash s w =
     (case db_read (\<lambda>d. Inr (list_all_cron d)) w of
        (Inl e, w1) \<Rightarrow> (Inl e, s, w1)
      | (Inr rows, w1) \<Rightarrow> (Inr (), refresh_rows C hash rows s, w1))"

definition fire :: "gen \<Rightarrow> trigger \<Rightarrow> 'k world \<Rightarrow> (error + unit) \<times> 'k world" where
  "fire g t w =
     (case db_read (agents_get (tg_tenant t) (tg_agent t)) w of
        (Inl e, w1) \<Rightarrow> (Inl (Wrapped ''resolve agent'' e), w1)
      | (Inr a, w1) \<Rightarrow>
          if \<not> runnable a then
            (Inl (ErrText (''agent '' @ ag_id a @ '' not runnable in v1 spine'')), w1)
          else
            (case db_write (runs_create (g_uuid g) (g_now g) (tg_tenant t) (ag_id a) None (g_trace g)) w1 of
               (Inl e, w2) \<Rightarrow> (Inl (Wrapped ''insert run'' e), w2)
             | (Inr r, w2) \<Rightarrow>
                 (case publish SubjectRunRequested
                         (marshal_run_requested (run_event g (tg_tenant t) a r None [])) w2 of
                    (Inl e, w3) \<Rightarrow> (Inl (Wrapped ''publish'' e), w3)
                  | (Inr _, w3) \<Rightarrow> (Inr (), w3))))"

section \<open>Invariants\<close>

text \<open>
  Every live entry is the registered entry of its trigger, under the checksum of the row it
  was made from; so no trigger has two live entries.
\<close>

definition live_registered ::
  "('c \<Rightarrow> int \<rightharpoonup> trigger) \<Rightarrow> (string \<Rightarrow> string) \<Rightarrow> 'c \<times> registry \<Rightarrow> bool" where
  "live_registered view hash s \<longleftrightarrow>
     distinct (map fst (snd s)) \<and>
     (\<forall>e t. view (fst s) e = Some t \<longrightarrow> map_of (snd s) (tg_id t) = Some (e, trigger_sum hash t))"

text \<open>Every registered entry is live.\<close>

definition no_stale :: "('c \<Rightarrow> int \<rightharpoonup> trigger) \<Rightarrow> 'c \<times> registry \<Rightarrow> bool" where
  "no_stale view s \<longleftrightarrow>
     (\<forall>i e x. map_of (snd s) i = Some (e, x) \<longrightarrow> (\<exists>t. view (fst s) e = Some t \<and> tg_id t = i))"

lemma map_of_set_entry: "map_of (set_entry k v reg) i = (if i = k then Some v else map_of reg i)"
proof -
  have "map_of (filter (\<lambda>(i, x). i \<noteq> k) reg) i = map_of reg i" if "i \<noteq> k"
    using that by (induction reg) auto
  then show ?thesis by (simp add: set_entry_def)
qed

lemma set_entry_distinct: "distinct (map fst reg) \<Longrightarrow> distinct (map fst (set_entry k v reg))"
  by (auto simp: set_entry_def distinct_map inj_on_def)

lemma map_of_filter_keys:
  "map_of (filter (\<lambda>r. fst r \<in> S) reg) i = (if i \<in> S then map_of reg i else None)"
  by (induction reg) auto

lemma cron_table_add:
  assumes "cron_table C view valid"
  shows "fst (c_add C x t c) = Inr e \<Longrightarrow> view c e = None \<and> view (snd (c_add C x t c)) = (view c)(e \<mapsto> t)"
    "fst (c_add C x t c) = Inl u \<Longrightarrow> view (snd (c_add C x t c)) = view c"
    "valid x \<Longrightarrow> \<exists>e. fst (c_add C x t c) = Inr e"
proof -
  have "if valid x
        then \<exists>e. fst (c_add C x t c) = Inr e \<and> view c e = None \<and> view (snd (c_add C x t c)) = (view c)(e \<mapsto> t)
        else fst (c_add C x t c) = Inl () \<and> view (snd (c_add C x t c)) = view c"
    using assms unfolding cron_table_def by blast
  then show "fst (c_add C x t c) = Inr e \<Longrightarrow> view c e = None \<and> view (snd (c_add C x t c)) = (view c)(e \<mapsto> t)"
    "fst (c_add C x t c) = Inl u \<Longrightarrow> view (snd (c_add C x t c)) = view c"
    "valid x \<Longrightarrow> \<exists>e. fst (c_add C x t c) = Inr e"
    by (auto split: if_splits)
qed

lemma cron_table_remove: "cron_table C view valid \<Longrightarrow> view (c_remove C e c) = (view c)(e := None)"
  by (simp add: cron_table_def)

text \<open>Adding an entry for a trigger without a live entry.\<close>

lemma add_entry_live:
  assumes C: "cron_table C view valid" and l: "live_registered view hash (c, reg)"
    and none: "\<And>e u. view c e = Some u \<Longrightarrow> tg_id u \<noteq> tg_id t"
    and add: "fst (c_add C x t c) = Inr e"
  shows "live_registered view hash (snd (c_add C x t c), set_entry (tg_id t) (e, trigger_sum hash t) reg)"
  using cron_table_add(1) [OF C add] l none set_entry_distinct
  by (auto simp: live_registered_def map_of_set_entry split: if_splits)

lemma remove_entry_live:
  assumes C: "cron_table C view valid" and l: "live_registered view hash (c, reg)"
  shows "live_registered view hash (c_remove C e c, reg)"
  using l by (auto simp: live_registered_def cron_table_remove [OF C] split: if_splits)

lemma refresh_row_Some:
  "map_of reg (tg_id t) = Some (e, old) \<Longrightarrow> refresh_row C hash t (c, reg) =
     (if old = trigger_sum hash t then (c, reg)
      else case fst (c_add C (coalesce_str (tg_cron t)) t (c_remove C e c)) of
          Inl u \<Rightarrow> (snd (c_add C (coalesce_str (tg_cron t)) t (c_remove C e c)), reg)
        | Inr e' \<Rightarrow> (snd (c_add C (coalesce_str (tg_cron t)) t (c_remove C e c)),
                     set_entry (tg_id t) (e', trigger_sum hash t) reg))"
  by (simp add: refresh_row_def split_beta)

lemma refresh_row_None:
  "map_of reg (tg_id t) = None \<Longrightarrow> refresh_row C hash t (c, reg) =
     (case fst (c_add C (coalesce_str (tg_cron t)) t c) of
          Inl u \<Rightarrow> (snd (c_add C (coalesce_str (tg_cron t)) t c), reg)
        | Inr e' \<Rightarrow> (snd (c_add C (coalesce_str (tg_cron t)) t c),
                     set_entry (tg_id t) (e', trigger_sum hash t) reg))"
  by (simp add: refresh_row_def split_beta)

lemma refresh_row_live:
  assumes C: "cron_table C view valid" and l: "live_registered view hash s"
  shows "live_registered view hash (refresh_row C hash t s)"
proof -
  obtain c reg where s: "s = (c, reg)" by (cases s)
  note l = l [unfolded s]
  show ?thesis
  proof (cases "map_of reg (tg_id t)")
    case None
    have fresh: "tg_id u \<noteq> tg_id t" if "view c e = Some u" for e u
      using l None that unfolding live_registered_def fst_conv snd_conv
      by (metis option.distinct(1))
    show ?thesis
    proof (cases "fst (c_add C (coalesce_str (tg_cron t)) t c)")
      case (Inl u)
      with None l cron_table_add(2) [OF C Inl] show ?thesis
        by (simp add: s refresh_row_def split_beta live_registered_def)
    next
      case (Inr e)
      with None add_entry_live [OF C l fresh Inr] show ?thesis
        by (simp add: s refresh_row_def split_beta)
    qed
  next
    case (Some r)
    obtain e old where r: "r = (e, old)" by (cases r)
    let ?c = "c_remove C e c"
    note l1 = remove_entry_live [OF C l, of e]
    have fresh: "tg_id u \<noteq> tg_id t" if "view ?c e' = Some u" for e' u
    proof
      assume eq: "tg_id u = tg_id t"
      from that have "e' \<noteq> e" "view c e' = Some u"
        by (simp_all add: cron_table_remove [OF C] split: if_splits)
      moreover from this(2) l have "map_of reg (tg_id u) = Some (e', trigger_sum hash u)"
        unfolding live_registered_def fst_conv snd_conv by blast
      ultimately show False using eq Some r by (simp del: map_of_eq_Some_iff)
    qed
    let ?add = "c_add C (coalesce_str (tg_cron t)) t ?c"
    have eq: "refresh_row C hash t s =
        (if old = trigger_sum hash t then (c, reg)
         else case fst ?add of Inl u \<Rightarrow> (snd ?add, reg)
           | Inr e' \<Rightarrow> (snd ?add, set_entry (tg_id t) (e', trigger_sum hash t) reg))"
      unfolding s by (rule refresh_row_Some) (simp only: Some r)
    have "live_registered view hash (snd ?add, reg)" if "fst ?add = Inl u" for u
      using l1 unfolding live_registered_def fst_conv snd_conv cron_table_add(2) [OF C that] .
    moreover have "live_registered view hash (snd ?add, set_entry (tg_id t) (e', trigger_sum hash t) reg)"
      if "fst ?add = Inr e'" for e'
      by (rule add_entry_live [OF C l1 fresh that])
    ultimately show ?thesis
      unfolding eq using l by (cases "fst ?add") simp_all
  qed
qed

lemma refresh_fold_live:
  "cron_table C view valid \<Longrightarrow> live_registered view hash s \<Longrightarrow>
    live_registered view hash (fold (refresh_row C hash) rows s)"
  by (induction rows arbitrary: s) (simp_all add: refresh_row_live)

lemma drop_entries_view:
  assumes "cron_table C view valid"
  shows "view (fold (drop_entry C seen) reg c) =
    (\<lambda>e. if \<exists>i x. (i, e, x) \<in> set reg \<and> i \<notin> set seen then None else view c e)"
proof (induction reg arbitrary: c)
  case (Cons r reg)
  then show ?case
    by (cases r) (auto simp: drop_entry_def cron_table_remove [OF assms] fun_eq_iff)
qed simp

text \<open>The checksum and id that a row settles.\<close>

definition settled ::
  "('c \<Rightarrow> int \<rightharpoonup> trigger) \<Rightarrow> (string \<Rightarrow> string) \<Rightarrow> trigger \<Rightarrow> 'c \<times> registry \<Rightarrow> bool" where
  "settled view hash t s \<longleftrightarrow>
     (\<exists>e u. map_of (snd s) (tg_id t) = Some (e, trigger_sum hash t) \<and> view (fst s) e = Some u \<and>
        tg_id u = tg_id t)"


lemma no_stale_set_entry:
  assumes "\<And>i e x. map_of reg i = Some (e, x) \<Longrightarrow> i \<noteq> tg_id t \<Longrightarrow> \<exists>u. view c e = Some u \<and> tg_id u = i"
    and "view c e0 = None" and "view c' = (view c)(e0 \<mapsto> t)"
  shows "no_stale view (c', set_entry (tg_id t) (e0, x0) reg)"
  using assms unfolding no_stale_def fst_conv snd_conv map_of_set_entry
  by (metis fun_upd_other fun_upd_same option.distinct(1) option.inject prod.inject)

lemma refresh_row_settles:
  assumes C: "cron_table C view valid" and n: "no_stale view s" and v: "valid (coalesce_str (tg_cron t))"
  shows "no_stale view (refresh_row C hash t s) \<and> settled view hash t (refresh_row C hash t s) \<and>
    (\<forall>u. tg_id u \<noteq> tg_id t \<longrightarrow> settled view hash u s \<longrightarrow> settled view hash u (refresh_row C hash t s))"
proof -
  obtain c reg where s: "s = (c, reg)" by (cases s)
  note n = n [unfolded s]
  have keep: "settled view hash u (c', set_entry (tg_id t) v reg)"
    if "settled view hash u (c, reg)" "tg_id u \<noteq> tg_id t"
      "\<And>e y. view c e = Some y \<Longrightarrow> tg_id y \<noteq> tg_id t \<Longrightarrow> view c' e = Some y" for u c' v
    using that unfolding settled_def fst_conv snd_conv map_of_set_entry by metis
  have own: "settled view hash t (c', set_entry (tg_id t) (e, trigger_sum hash t) reg)"
    if "view c' e = Some t" for c' e
    using that by (simp add: settled_def map_of_set_entry)
  show ?thesis
  proof (cases "map_of reg (tg_id t)")
    case None
    obtain e where e: "fst (c_add C (coalesce_str (tg_cron t)) t c) = Inr e"
      using cron_table_add(3) [OF C v] by blast
    let ?c' = "snd (c_add C (coalesce_str (tg_cron t)) t c)"
    note a = cron_table_add(1) [OF C e]
    have "refresh_row C hash t s = (?c', set_entry (tg_id t) (e, trigger_sum hash t) reg)"
      using None e by (simp add: s refresh_row_def split_beta)
    moreover have "no_stale view (?c', set_entry (tg_id t) (e, trigger_sum hash t) reg)"
      using n a by (intro no_stale_set_entry [of reg t view c]) (auto simp: no_stale_def)
    moreover have "view ?c' e2 = Some y" if "view c e2 = Some y" for e2 y
      using that a by auto
    ultimately show ?thesis
      using own [of ?c' e] keep [of _ ?c'] a s by auto
  next
    case (Some r)
    obtain e old where r: "r = (e, old)" by (cases r)
    obtain u where u: "view c e = Some u" "tg_id u = tg_id t"
      using n Some r by (auto simp: no_stale_def)
    show ?thesis
    proof (cases "old = trigger_sum hash t")
      case True
      with Some r u n s show ?thesis by (simp add: refresh_row_def settled_def)
    next
      case False
      let ?c1 = "c_remove C e c"
      obtain e' where e': "fst (c_add C (coalesce_str (tg_cron t)) t ?c1) = Inr e'"
        using cron_table_add(3) [OF C v] by blast
      let ?c' = "snd (c_add C (coalesce_str (tg_cron t)) t ?c1)"
      note a = cron_table_add(1) [OF C e']
      have others: "view ?c1 e2 = Some y" if "view c e2 = Some y" "tg_id y \<noteq> tg_id t" for e2 y
        using that u by (auto simp: cron_table_remove [OF C])
      have "refresh_row C hash t s = (?c', set_entry (tg_id t) (e', trigger_sum hash t) reg)"
        using Some r False e' by (simp add: s refresh_row_def split_beta)
      moreover have "no_stale view (?c', set_entry (tg_id t) (e', trigger_sum hash t) reg)"
      proof (rule no_stale_set_entry)
        fix i e2 x
        assume "map_of reg i = Some (e2, x)" "i \<noteq> tg_id t"
        with n obtain y where "view c e2 = Some y" "tg_id y = i"
          unfolding no_stale_def fst_conv snd_conv by blast
        with others \<open>i \<noteq> tg_id t\<close> show "\<exists>u. view ?c1 e2 = Some u \<and> tg_id u = i" by blast
      qed (use a in auto)
      moreover have "view ?c' e2 = Some y" if "view c e2 = Some y" "tg_id y \<noteq> tg_id t" for e2 y
        using others [OF that] a by auto
      ultimately show ?thesis
        using own [of ?c' e'] keep [of _ ?c'] a s by auto
    qed
  qed
qed

lemma refresh_fold_settles:
  assumes C: "cron_table C view valid"
  shows "no_stale view s \<Longrightarrow> distinct (map tg_id rows) \<Longrightarrow>
    (\<And>t. t \<in> set rows \<Longrightarrow> valid (coalesce_str (tg_cron t))) \<Longrightarrow>
    no_stale view (fold (refresh_row C hash) rows s) \<and>
    (\<forall>t\<in>set rows. settled view hash t (fold (refresh_row C hash) rows s)) \<and>
    (\<forall>u. tg_id u \<notin> tg_id ` set rows \<longrightarrow> settled view hash u s \<longrightarrow>
      settled view hash u (fold (refresh_row C hash) rows s))"
proof (induction rows arbitrary: s)
  case (Cons t rows)
  have "valid (coalesce_str (tg_cron t))" using Cons.prems(3) by simp
  note row = refresh_row_settles [OF C Cons.prems(1) this, of hash]
  have ih: "no_stale view (fold (refresh_row C hash) rows (refresh_row C hash t s)) \<and>
    (\<forall>t'\<in>set rows. settled view hash t' (fold (refresh_row C hash) rows (refresh_row C hash t s))) \<and>
    (\<forall>u. tg_id u \<notin> tg_id ` set rows \<longrightarrow> settled view hash u (refresh_row C hash t s) \<longrightarrow>
      settled view hash u (fold (refresh_row C hash) rows (refresh_row C hash t s)))"
    using Cons.prems(2,3) row by (intro Cons.IH) auto
  with row Cons.prems(2) show ?case by auto
qed simp

lemma refresh_row_entries:
  assumes C: "cron_table C view valid" and l: "live_registered view hash s"
    and e: "view (fst (refresh_row C hash t s)) e = Some u"
  shows "(tg_id u \<noteq> tg_id t \<and> view (fst s) e = Some u) \<or>
    (tg_id u = tg_id t \<and> trigger_sum hash u = trigger_sum hash t)"
proof (cases "tg_id u = tg_id t")
  case True
  let ?s = "refresh_row C hash t s"
  have "map_of (snd ?s) (tg_id t) = Some (e, trigger_sum hash u)"
    using refresh_row_live [OF C l, of t] e True unfolding live_registered_def by metis
  moreover have "map_of (snd ?s) (tg_id t) = Some (e, trigger_sum hash u) \<Longrightarrow>
      trigger_sum hash u = trigger_sum hash t"
  proof -
    obtain c reg where s: "s = (c, reg)" by (cases s)
    assume m: "map_of (snd ?s) (tg_id t) = Some (e, trigger_sum hash u)"
    show ?thesis
    proof (cases "map_of reg (tg_id t)")
      case None
      with m s show ?thesis
        by (auto simp: refresh_row_def split_beta map_of_set_entry split: sum.splits)
    next
      case (Some r)
      obtain e0 old where r: "r = (e0, old)" by (cases r)
      let ?add = "c_add C (coalesce_str (tg_cron t)) t (c_remove C e0 c)"
      show ?thesis
      proof (cases "old \<noteq> trigger_sum hash t \<and> (\<exists>x. fst ?add = Inl x)")
        case True
        then obtain x where x: "fst ?add = Inl x" by blast
        have "view (fst ?s) = (view c)(e0 := None)"
          using True x Some r s cron_table_add(2) [OF C x] cron_table_remove [OF C, of e0 c]
          by (auto simp: refresh_row_def split_beta)
        moreover have "e = e0" using m x True Some r s by (simp add: refresh_row_def split_beta)
        ultimately show ?thesis using e by simp
      next
        case False
        with m Some r s show ?thesis
          by (auto simp: refresh_row_def split_beta map_of_set_entry split: sum.splits if_splits)
      qed
    qed
  qed
  ultimately show ?thesis using True by blast
next
  case False
  obtain c reg where s: "s = (c, reg)" by (cases s)
  have add: "view c0 e = Some u" if "view (snd (c_add C x t c0)) e = Some u" for x c0
  proof (cases "fst (c_add C x t c0)")
    case (Inl z)
    with that cron_table_add(2) [OF C Inl] show ?thesis by simp
  next
    case (Inr z)
    with that cron_table_add(1) [OF C Inr] False show ?thesis by (auto split: if_splits)
  qed
  have rem: "view c e = Some u" if "view (c_remove C e0 c) e = Some u" for e0
    using that by (simp add: cron_table_remove [OF C] split: if_splits)
  have "view c e = Some u"
  proof (cases "map_of reg (tg_id t)")
    case None
    have "view (snd (c_add C (coalesce_str (tg_cron t)) t c)) e = Some u"
      using e unfolding s refresh_row_None [of reg t, OF None] by (simp split: sum.splits)
    then show ?thesis by (rule add)
  next
    case (Some r)
    obtain e0 old where r: "r = (e0, old)" by (cases r)
    show ?thesis
    proof (cases "old = trigger_sum hash t")
      case True
      with e show ?thesis unfolding s refresh_row_Some [of reg t, OF Some [unfolded r]] by simp
    next
      case False
      have "view (snd (c_add C (coalesce_str (tg_cron t)) t (c_remove C e0 c))) e = Some u"
        using e False unfolding s refresh_row_Some [of reg t, OF Some [unfolded r]]
        by (simp split: sum.splits)
      then show ?thesis by (rule rem [OF add])
    qed
  qed
  with False show ?thesis by (simp add: s)
qed

lemma refresh_fold_entries:
  assumes C: "cron_table C view valid"
  shows "live_registered view hash s \<Longrightarrow> view (fst (fold (refresh_row C hash) rows s)) e = Some u \<Longrightarrow>
    tg_id u \<in> tg_id ` set rows \<Longrightarrow>
    \<exists>t\<in>set rows. tg_id t = tg_id u \<and> trigger_sum hash u = trigger_sum hash t"
proof (induction rows rule: rev_induct)
  case (snoc t rows)
  let ?s = "fold (refresh_row C hash) rows s"
  have "(tg_id u \<noteq> tg_id t \<and> view (fst ?s) e = Some u) \<or>
      (tg_id u = tg_id t \<and> trigger_sum hash u = trigger_sum hash t)"
    using snoc.prems by (intro refresh_row_entries [OF C refresh_fold_live [OF C]]) simp_all
  then show ?case
  proof
    assume a: "tg_id u \<noteq> tg_id t \<and> view (fst ?s) e = Some u"
    then have "tg_id u \<in> tg_id ` set rows" using snoc.prems(3) by auto
    from snoc.IH [OF snoc.prems(1) conjunct2 [OF a] this] show ?thesis by auto
  qed auto
qed simp


lemma drop_entries_live:
  assumes C: "cron_table C view valid" and l: "live_registered view hash (c, reg)"
  shows "live_registered view hash
      (fold (drop_entry C seen) reg c, filter (\<lambda>r. fst r \<in> set seen) reg) \<and>
    (\<forall>e u. view (fold (drop_entry C seen) reg c) e = Some u \<longrightarrow>
       tg_id u \<in> set seen \<and> view c e = Some u)"
proof -
  have sub: "tg_id u \<in> set seen \<and> view c e = Some u"
    if "view (fold (drop_entry C seen) reg c) e = Some u" for e u
  proof -
    from that have v: "view c e = Some u" and kept: "\<nexists>i x. (i, e, x) \<in> set reg \<and> i \<notin> set seen"
      by (auto simp: drop_entries_view [OF C] split: if_splits)
    from v l have "map_of reg (tg_id u) = Some (e, trigger_sum hash u)"
      unfolding live_registered_def fst_conv snd_conv by blast
    with kept v show ?thesis using map_of_SomeD by fastforce
  qed
  then show ?thesis
    using l by (simp add: live_registered_def map_of_filter_keys distinct_map_filter del: map_of_eq_Some_iff)
qed

lemma refresh_rows_live:
  assumes C: "cron_table C view valid" and l: "live_registered view hash s"
  shows "live_registered view hash (refresh_rows C hash rows s) \<and>
    (\<forall>e u. view (fst (refresh_rows C hash rows s)) e = Some u \<longrightarrow>
       tg_id u \<in> tg_id ` set rows \<and> view (fst (fold (refresh_row C hash) rows s)) e = Some u)"
proof -
  obtain c reg where f: "fold (refresh_row C hash) rows s = (c, reg)" by fastforce
  have "live_registered view hash (c, reg)"
    using refresh_fold_live [OF C l, of rows] by (simp only: f)
  from drop_entries_live [OF C this, of "map tg_id rows"] show ?thesis
    unfolding refresh_rows_def f prod.case fst_conv set_map .
qed

section \<open>Properties\<close>


definition cron_view :: "int \<times> (int \<times> trigger) list \<Rightarrow> int \<Rightarrow> trigger option" where
  "cron_view c e = (if e < fst c then map_of (snd c) e else None)"

lemma list_cron_table: "cron_table list_cron cron_view (\<lambda>x. x \<noteq> ''bad'')"
proof -
  have "map_of (filter (\<lambda>(i, t). i \<noteq> e) es) = (map_of es)(e := None)" for e and es :: "(int \<times> trigger) list"
    by (rule ext, induction es) auto
  then show ?thesis
    by (auto simp: cron_table_def list_cron_def cron_view_def fun_eq_iff)
qed




text \<open>
  Firing a cron trigger publishes at most one message whatever fails, and the message
  names a pending row already in the database.
\<close>

lemma fire_publishes_only_stored_runs:
  "published_run w (snd (fire g t w))"
  unfolding fire_def split_beta
  by (auto intro: published_run_refl intro!: publish_created_run split: sum.split option.split)

text \<open>
  The premise on the expressions is needed: a row whose expression is edited to one that does
  not parse and then back is never scheduled again, because the failed registration keeps
  the old checksum.
\<close>

definition row_with :: "string \<Rightarrow> trigger" where
  "row_with expr = (hd (d_triggers sample_db))\<lparr>tg_cron := Some expr\<rparr>"

lemma refresh_loses_restored_row:
  "snd (fst (refresh_rows list_cron id [row_with ''0 * * * *'']
     (refresh_rows list_cron id [row_with ''bad'']
       (refresh_rows list_cron id [row_with ''0 * * * *''] ((0, []), []))))) = []"
  by code_simp

end
