(* ===== verification/Json_Schema.thy ===== *)
theory Json_Schema
  imports Manifest_Json
begin

text \<open>
  The part of OpenAPI's schema language that the documents of the repository use, as a type
  system on JSON. Formats of strings other than \<open>date-time\<close> are not checked.
\<close>

section \<open>Schemas\<close>

datatype schema =
    S_String
  | S_Enum "string list"
  | S_Time
  | S_Integer
  | S_Object "property list"
  | S_Array schema
  | S_Map schema
and property = Property string bool bool schema

text \<open>
  \<open>Property k required nullable s\<close>. \<open>S_Object\<close> names properties and allows others; \<open>S_Map s\<close> is an
  object whose \<open>additionalProperties\<close> have schema \<open>s\<close>.
\<close>

abbreviation "needs k s \<equiv> Property k True False s"
abbreviation "may k s \<equiv> Property k False False s"
abbreviation "may_null k s \<equiv> Property k False True s"

fun conforms :: "schema \<Rightarrow> json \<Rightarrow> bool" and has_property :: "property \<Rightarrow> json_obj \<Rightarrow> bool" where
  "conforms S_String j = (case j of JStr _ \<Rightarrow> True | _ \<Rightarrow> False)"
| "conforms (S_Enum xs) j = (case j of JStr x \<Rightarrow> x \<in> set xs | _ \<Rightarrow> False)"
| "conforms S_Time j = (case j of JTime _ \<Rightarrow> True | _ \<Rightarrow> False)"
| "conforms S_Integer j = (case j of JInt _ \<Rightarrow> True | _ \<Rightarrow> False)"
| "conforms (S_Object ps) j = (case j of JObj o' \<Rightarrow> (\<forall>p\<in>set ps. has_property p o') | _ \<Rightarrow> False)"
| "conforms (S_Array s) j = (case j of JArr js \<Rightarrow> (\<forall>x\<in>set js. conforms s x) | _ \<Rightarrow> False)"
| "conforms (S_Map s) j = (case j of JObj o' \<Rightarrow> (\<forall>e\<in>set o'. conforms s (snd e)) | _ \<Rightarrow> False)"
| "has_property (Property k required nullable s) o' =
     (case map_of o' k of
        None \<Rightarrow> \<not> required
      | Some j \<Rightarrow> nullable \<and> j = JNull \<or> conforms s j)"

section \<open>Fields\<close>

text \<open>The lookup of a field in an object written field by field.\<close>

lemma map_of_fields:
  "map_of (always k v @ o') k' = (if k' = k then Some v else map_of o' k')"
  "map_of (omit_none k f x @ o') k' =
     (if k' = k then (case x of None \<Rightarrow> map_of o' k' | Some a \<Rightarrow> Some (f a)) else map_of o' k')"
  "map_of (omit_str k t @ o') k' =
     (if k' = k then (if t = [] then map_of o' k' else Some (JStr t)) else map_of o' k')"
  "map_of (omit_map k g m @ o') k' =
     (if k' = k then (case m of None \<Rightarrow> map_of o' k' | Some [] \<Rightarrow> map_of o' k'
        | Some es \<Rightarrow> Some (JObj (map (\<lambda>(n, v). (n, g v)) es))) else map_of o' k')"
  "map_of (omit_list k h xs @ o') k' =
     (if k' = k then (if xs = [] then map_of o' k' else Some (JArr (map h xs))) else map_of o' k')"
  by (auto simp: always_def omit_none_def omit_str_def omit_map_def omit_list_def split: option.split list.split)

end
