(* ===== verification/Custom_Resources.thy ===== *)
theory Custom_Resources
  imports Kube Json_Schema
begin

text \<open>
  The custom resources of \<open>internal/runs/types.go\<close> outside the program: their registration with
  the scheme of the Kubernetes library, their JSON form as the struct tags give it, and the
  CustomResourceDefinitions of the chart, with which the API server checks and prunes what is
  written. The JSON of \<open>ObjectMeta\<close> is the library's and a parameter, \<open>md\<close>; so is \<open>sec\<close>, the time
  that is left when \<open>metav1.Time\<close> has written a time in seconds.
\<close>

section \<open>Registration\<close>

record group_version =
  gv_group :: string
  gv_version :: string

definition GroupVersion :: group_version where
  "GroupVersion = \<lparr>gv_group = ''ailab.uipath.com'', gv_version = ''v1alpha1''\<rparr>"

text \<open>\<open>schema.GroupVersion.String\<close>.\<close>

definition gv_string :: "group_version \<Rightarrow> string" where
  "gv_string g = (if gv_group g = [] then gv_version g else gv_group g @ ''/'' @ gv_version g)"

text \<open>
  A Go type by its package and name, and the types that the kinds of a scheme stand for.
  \<open>AddKnownTypes\<close> registers a type under its own name, and panics (\<open>None\<close>) when the name belongs to
  another one.
\<close>

type_synonym go_type = "string \<times> string"
type_synonym scheme = "((group_version \<times> string) \<times> go_type) list"

fun add_known_types :: "group_version \<Rightarrow> go_type list \<Rightarrow> scheme \<Rightarrow> scheme option" where
  "add_known_types g [] s = Some s"
| "add_known_types g (t # ts) s =
     (case map_of s (g, snd t) of
        Some t' \<Rightarrow> if t' = t then add_known_types g ts s else None
      | None \<Rightarrow> add_known_types g ts (((g, snd t), t) # s))"

text \<open>\<open>AddToScheme\<close>; \<open>meta\<close> is \<open>metav1.AddToGroupVersion\<close>.\<close>

definition custom_types :: "go_type list" where
  "custom_types = map (Pair ''runs'') [''AgentRun'', ''AgentRunList'', ''AgentDeployment'', ''AgentDeploymentList'']"

definition add_to_scheme :: "(group_version \<Rightarrow> scheme \<Rightarrow> scheme option) \<Rightarrow> scheme \<Rightarrow> scheme option" where
  "add_to_scheme meta s = Option.bind (add_known_types GroupVersion custom_types s) (meta GroupVersion)"

text \<open>Registration keeps what is there, and makes every type of the list known.\<close>

lemma add_known_types_keeps:
  "add_known_types g ts s = Some s' \<Longrightarrow> map_of s k = Some t \<Longrightarrow> map_of s' k = Some t"
proof (induction ts arbitrary: s)
  case (Cons x ts)
  show ?case
  proof (cases "map_of s (g, snd x)")
    case None
    with Cons.prems have "add_known_types g ts (((g, snd x), x) # s) = Some s'" by simp
    moreover have "map_of (((g, snd x), x) # s) k = Some t"
      using None Cons.prems(2) by (cases "k = (g, snd x)") simp_all
    ultimately show ?thesis by (rule Cons.IH)
  next
    case (Some y)
    with Cons.prems(1) have "add_known_types g ts s = Some s'" by (simp split: if_splits)
    then show ?thesis using Cons.prems(2) by (rule Cons.IH)
  qed
qed simp

lemma add_known_types_known:
  "add_known_types g ts s = Some s' \<Longrightarrow> t \<in> set ts \<Longrightarrow> map_of s' (g, snd t) = Some t"
proof (induction ts arbitrary: s)
  case (Cons x ts)
  obtain s1 where s1: "add_known_types g ts s1 = Some s'" "map_of s1 (g, snd x) = Some x"
    using Cons.prems(1) by (cases "map_of s (g, snd x)") (auto split: if_splits)
  from Cons.IH [OF s1(1)] add_known_types_keeps [OF s1] Cons.prems(2) show ?case by auto
qed simp

lemma add_to_scheme_known:
  assumes "add_to_scheme meta s = Some s'" and "t \<in> set custom_types"
    and "\<And>g s s' k t. meta g s = Some s' \<Longrightarrow> map_of s k = Some t \<Longrightarrow> map_of s' k = Some t"
  shows "map_of s' (GroupVersion, snd t) = Some t"
proof -
  obtain s1 where s1: "add_known_types GroupVersion custom_types s = Some s1" "meta GroupVersion s1 = Some s'"
    using assms(1) unfolding add_to_scheme_def by (auto simp: bind_eq_Some_conv)
  from assms(3) [OF s1(2) add_known_types_known [OF s1(1) assms(2)]] show ?thesis .
qed

text \<open>On a scheme without kinds of the group it does not panic, and doing it twice changes nothing.\<close>

lemma add_to_scheme_fresh:
  assumes "\<And>k. map_of s (GroupVersion, k) = None"
  shows "\<exists>s'. add_known_types GroupVersion custom_types s = Some s' \<and>
    add_known_types GroupVersion custom_types s' = Some s'"
  using assms by (simp add: custom_types_def)

text \<open>The resource that the gateway asks the API server for, and the names of the two definitions.\<close>

record group_version_resource =
  gvr_group :: string
  gvr_version :: string
  gvr_resource :: string

definition agentDeploymentGVR :: group_version_resource where
  "agentDeploymentGVR = \<lparr>gvr_group = ''ailab.uipath.com'', gvr_version = ''v1alpha1'', gvr_resource = ''agentdeployments''\<rparr>"

record crd_names =
  cn_group :: string
  cn_version :: string
  cn_kind :: string
  cn_list_kind :: string
  cn_plural :: string

definition crd_list :: "crd_names list" where
  "crd_list =
     [\<lparr>cn_group = ''ailab.uipath.com'', cn_version = ''v1alpha1'', cn_kind = ''AgentRun'',
        cn_list_kind = ''AgentRunList'', cn_plural = ''agentruns''\<rparr>,
      \<lparr>cn_group = ''ailab.uipath.com'', cn_version = ''v1alpha1'', cn_kind = ''AgentDeployment'',
        cn_list_kind = ''AgentDeploymentList'', cn_plural = ''agentdeployments''\<rparr>]"

text \<open>
  The three agree: the definitions have the registered group, version and kinds, and the gateway
  asks for the resource whose kind is AgentDeployment.
\<close>

lemma definitions_are_registered:
  "list_all (\<lambda>d. cn_group d = gv_group GroupVersion \<and> cn_version d = gv_version GroupVersion \<and>
     (''runs'', cn_kind d) \<in> set custom_types \<and> (''runs'', cn_list_kind d) \<in> set custom_types) crd_list"
  "map cn_kind (filter (\<lambda>d. cn_group d = gvr_group agentDeploymentGVR \<and> cn_version d = gvr_version agentDeploymentGVR \<and>
     cn_plural d = gvr_resource agentDeploymentGVR) crd_list) = [''AgentDeployment'']"
  by (simp_all add: crd_list_def GroupVersion_def agentDeploymentGVR_def custom_types_def)

section \<open>JSON\<close>

text \<open>The embedded \<open>TypeMeta\<close> as the program sets it, and a custom resource as a whole.\<close>

definition resource_json :: "(object_meta \<Rightarrow> json) \<Rightarrow> string \<Rightarrow> object_meta \<Rightarrow> json_obj \<Rightarrow> json_obj \<Rightarrow> json_obj" where
  "resource_json md kind m spec status =
     always ''kind'' (JStr kind) @ always ''apiVersion'' (JStr (gv_string GroupVersion)) @
     always ''metadata'' (md m) @ always ''spec'' (JObj spec) @ always ''status'' (JObj status)"

definition agent_run_spec_json :: "agent_run_spec \<Rightarrow> json_obj" where
  "agent_run_spec_json s =
     always ''tenantId'' (JStr (rsp_tenant s)) @ always ''agentName'' (JStr (rsp_agent s)) @
     always ''image'' (JStr (rsp_image s)) @ omit_str ''inputs'' (rsp_inputs s) @
     omit_map ''env'' JStr (Some (rsp_env s)) @ omit_list ''secrets'' JStr (rsp_secrets s) @
     omit_str ''secretRef'' (rsp_secret_ref s) @ omit_str ''cpu'' (rsp_cpu s) @
     omit_str ''memory'' (rsp_memory s) @ omit_str ''timeout'' (rsp_timeout s) @ omit_str ''traceId'' (rsp_trace s) @ []"

definition agent_run_status_json :: "(gotime \<Rightarrow> gotime) \<Rightarrow> agent_run_status \<Rightarrow> json_obj" where
  "agent_run_status_json sec s =
     omit_str ''phase'' (rst_phase s) @ omit_str ''jobName'' (rst_job s) @
     omit_none ''startedAt'' (\<lambda>t. JTime (sec t)) (rst_started s) @
     omit_none ''endedAt'' (\<lambda>t. JTime (sec t)) (rst_ended s) @ omit_none ''exitCode'' JInt (rst_exit s) @
     omit_str ''message'' (rst_message s) @ []"

definition agent_run_json :: "(gotime \<Rightarrow> gotime) \<Rightarrow> (object_meta \<Rightarrow> json) \<Rightarrow> agent_run \<Rightarrow> json_obj" where
  "agent_run_json sec md r =
     resource_json md ''AgentRun'' (ar_meta r) (agent_run_spec_json (ar_spec r)) (agent_run_status_json sec (ar_status r))"

text \<open>An integer field tagged \<open>omitempty\<close>.\<close>

definition omit_zero :: "string \<Rightarrow> int \<Rightarrow> json_obj" where
  "omit_zero k i = (if i = 0 then [] else [(k, JInt i)])"

definition agent_deployment_spec_json :: "agent_deployment_spec \<Rightarrow> json_obj" where
  "agent_deployment_spec_json s =
     always ''tenantId'' (JStr (dsp_tenant s)) @ always ''agentName'' (JStr (dsp_agent s)) @
     always ''image'' (JStr (dsp_image s)) @ always ''port'' (JInt (dsp_port s)) @
     omit_str ''healthPath'' (dsp_health s) @ omit_str ''idleTimeout'' (dsp_idle s) @
     omit_map ''env'' JStr (Some (dsp_env s)) @ omit_list ''secrets'' JStr (dsp_secrets s) @
     omit_str ''secretRef'' (dsp_secret_ref s) @ []"

definition agent_deployment_status_json :: "agent_deployment_status \<Rightarrow> json_obj" where
  "agent_deployment_status_json s =
     omit_str ''url'' (dst_url s) @ omit_zero ''readyReplicas'' (dst_ready s) @ omit_str ''message'' (dst_message s) @ []"

definition agent_deployment_json :: "(object_meta \<Rightarrow> json) \<Rightarrow> agent_deployment \<Rightarrow> json_obj" where
  "agent_deployment_json md a =
     resource_json md ''AgentDeployment'' (ad_meta a) (agent_deployment_spec_json (ad_spec a))
       (agent_deployment_status_json (ad_status a))"

section \<open>The custom resource definitions\<close>

text \<open>
  Pruning: the API server drops what the schema of a custom resource does not name.
\<close>

fun prune :: "schema \<Rightarrow> json \<Rightarrow> json" and prune_entry :: "property list \<Rightarrow> string \<Rightarrow> json \<Rightarrow> json option" where
  "prune (S_Object ps) (JObj o') =
     JObj (List.map_filter (\<lambda>(k, v). map_option (Pair k) (prune_entry ps k v)) o')"
| "prune (S_Array s) (JArr js) = JArr (map (prune s) js)"
| "prune (S_Map s) (JObj o') = JObj (map (\<lambda>(k, v). (k, prune s v)) o')"
| "prune _ j = j"
| "prune_entry [] k v = None"
| "prune_entry (Property k' required nullable s # ps) k v = (if k = k' then Some (prune s v) else prune_entry ps k v)"

text \<open>The API server takes an object of the definition as it is: valid, and with nothing to prune.\<close>

definition crd_accepts :: "property list \<Rightarrow> json_obj \<Rightarrow> bool" where
  "crd_accepts ps o' \<longleftrightarrow>
     list_all (\<lambda>p. has_property p o') ps \<and>
     list_all (\<lambda>(k, v). k \<in> {''kind'', ''apiVersion'', ''metadata''} \<or> prune_entry ps k v = Some v) o'"

definition run_spec_crd :: "property list" where
  "run_spec_crd =
     [needs ''tenantId'' S_String, needs ''agentName'' S_String, needs ''image'' S_String, may ''inputs'' S_String,
      may ''env'' (S_Map S_String), may ''secrets'' (S_Array S_String), may ''secretRef'' S_String, may ''cpu'' S_String,
      may ''memory'' S_String, may ''timeout'' S_String, may ''traceId'' S_String]"

definition run_status_crd :: "property list" where
  "run_status_crd =
     [may ''phase'' (S_Enum [''Pending'', ''Running'', ''Succeeded'', ''Failed'']), may ''jobName'' S_String,
      may ''startedAt'' S_Time, may ''endedAt'' S_Time, may ''exitCode'' S_Integer, may ''message'' S_String]"

definition run_crd :: "property list" where
  "run_crd = [may ''spec'' (S_Object run_spec_crd), may ''status'' (S_Object run_status_crd)]"

definition deployment_spec_crd :: "property list" where
  "deployment_spec_crd =
     [needs ''tenantId'' S_String, needs ''agentName'' S_String, needs ''image'' S_String, needs ''port'' S_Integer,
      may ''healthPath'' S_String, may ''idleTimeout'' S_String, may ''env'' (S_Map S_String),
      may ''secrets'' (S_Array S_String), may ''secretRef'' S_String]"

definition deployment_status_crd :: "property list" where
  "deployment_status_crd = [may ''url'' S_String, may ''readyReplicas'' S_Integer, may ''message'' S_String]"

definition deployment_crd :: "property list" where
  "deployment_crd = [may ''spec'' (S_Object deployment_spec_crd), may ''status'' (S_Object deployment_status_crd)]"

lemmas crd_defs = run_crd_def run_spec_crd_def run_status_crd_def deployment_crd_def deployment_spec_crd_def
  deployment_status_crd_def

section \<open>What the types write is taken as it is\<close>

text \<open>Entry by entry: a statement on all fields of an object, and their pruning.\<close>

lemma all_fields:
  "list_all P (always k v @ o') \<longleftrightarrow> P (k, v) \<and> list_all P o'"
  "list_all P (omit_str k x @ o') \<longleftrightarrow> (x \<noteq> [] \<longrightarrow> P (k, JStr x)) \<and> list_all P o'"
  "list_all P (omit_none k f y @ o') \<longleftrightarrow> (\<forall>a. y = Some a \<longrightarrow> P (k, f a)) \<and> list_all P o'"
  "list_all P (omit_zero k i @ o') \<longleftrightarrow> (i \<noteq> 0 \<longrightarrow> P (k, JInt i)) \<and> list_all P o'"
  "list_all P (omit_list k g xs @ o') \<longleftrightarrow> (xs \<noteq> [] \<longrightarrow> P (k, JArr (map g xs))) \<and> list_all P o'"
  "list_all P (omit_map k h (Some es) @ o') \<longleftrightarrow>
     (es \<noteq> [] \<longrightarrow> P (k, JObj (map (\<lambda>(n, v). (n, h v)) es))) \<and> list_all P o'"
  by (auto simp: always_def omit_str_def omit_none_def omit_zero_def omit_list_def omit_map_def split: option.split list.split)

lemma map_of_omit_zero:
  "map_of (omit_zero k i @ o') k' = (if k' = k \<and> i \<noteq> 0 then Some (JInt i) else map_of o' k')"
  by (simp add: omit_zero_def)

lemma kept_all:
  "list_all (\<lambda>(k, v). f k v = Some v) o' \<Longrightarrow> List.map_filter (\<lambda>(k, v). map_option (Pair k) (f k v)) o' = o'"
  by (induction o') (auto simp: List.map_filter_simps)

lemma pruned_object: "list_all (\<lambda>(k, v). prune_entry ps k v = Some v) o' \<Longrightarrow> prune (S_Object ps) (JObj o') = JObj o'"
  by (simp add: kept_all)

lemma pruned_leaves [simp]:
  "prune (S_Array S_String) (JArr (map JStr xs)) = JArr (map JStr xs)"
  "prune (S_Map S_String) (JObj (map (\<lambda>(n, v). (n, JStr v)) es)) = JObj (map (\<lambda>(n, v). (n, JStr v)) es)"
  by (simp_all add: split_beta)

lemma conforming_leaves [simp]:
  "conforms (S_Array S_String) (JArr (map JStr xs))"
  "conforms (S_Map S_String) (JObj (map (\<lambda>(n, v). (n, JStr v)) es))"
  by auto

lemmas json_defs = agent_run_spec_json_def agent_run_status_json_def agent_deployment_spec_json_def
  agent_deployment_status_json_def

lemma specs_kept:
  "list_all (\<lambda>(k, v). prune_entry run_spec_crd k v = Some v) (agent_run_spec_json s)"
  "list_all (\<lambda>(k, v). prune_entry run_status_crd k v = Some v) (agent_run_status_json sec st)"
  "list_all (\<lambda>(k, v). prune_entry deployment_spec_crd k v = Some v) (agent_deployment_spec_json ds)"
  "list_all (\<lambda>(k, v). prune_entry deployment_status_crd k v = Some v) (agent_deployment_status_json dst)"
  unfolding json_defs by (simp_all only: all_fields list.pred_inject(1) prod.case) (simp_all add: crd_defs del: prune.simps(2,3))

lemma specs_conform:
  "conforms (S_Object run_spec_crd) (JObj (agent_run_spec_json s))"
  "conforms (S_Object deployment_spec_crd) (JObj (agent_deployment_spec_json ds))"
  "conforms (S_Object deployment_status_crd) (JObj (agent_deployment_status_json dst))"
  by (simp_all add: crd_defs json_defs map_of_fields map_of_omit_zero split_beta del: append_Nil2 map_of_append
      split: list.split)

text \<open>The phases a status may have: none yet, or one of the four.\<close>

definition phase_known :: "string \<Rightarrow> bool" where
  "phase_known p \<longleftrightarrow> p \<in> {[], PhasePending, PhaseRunning, PhaseSucceeded, PhaseFailed}"

lemma run_status_conforms:
  "conforms (S_Object run_status_crd) (JObj (agent_run_status_json sec st)) \<longleftrightarrow> phase_known (rst_phase st)"
  by (simp add: crd_defs json_defs map_of_fields phase_known_def phase_defs del: append_Nil2 map_of_append split: option.split)

lemma accepted_resource:
  "crd_accepts [may ''spec'' (S_Object ps), may ''status'' (S_Object qs)] (resource_json md k m spec st) \<longleftrightarrow>
    conforms (S_Object ps) (JObj spec) \<and> conforms (S_Object qs) (JObj st)"
  if "list_all (\<lambda>(k, v). prune_entry ps k v = Some v) spec" "list_all (\<lambda>(k, v). prune_entry qs k v = Some v) st"
  using that by (simp add: crd_accepts_def resource_json_def always_def pruned_object del: conforms.simps prune.simps)

lemma run_accepted: "crd_accepts run_crd (agent_run_json sec md r) \<longleftrightarrow> phase_known (rst_phase (ar_status r))"
  unfolding run_crd_def agent_run_json_def accepted_resource [OF specs_kept(1,2)]
  using specs_conform(1) run_status_conforms by blast

lemma deployment_accepted: "crd_accepts deployment_crd (agent_deployment_json md a)"
  unfolding deployment_crd_def agent_deployment_json_def accepted_resource [OF specs_kept(3,4)]
  using specs_conform(2,3) by blast

section \<open>Reading it back\<close>

definition list_or_nil :: "'a list option \<Rightarrow> 'a list" where
  "list_or_nil m = (case m of None \<Rightarrow> [] | Some es \<Rightarrow> es)"

definition agent_run_spec_fields :: "(string \<times> agent_run_spec setter) list" where
  "agent_run_spec_fields =
     [(''tenantId'', set_str (\<lambda>x r. r\<lparr>rsp_tenant := x\<rparr>)), (''agentName'', set_str (\<lambda>x r. r\<lparr>rsp_agent := x\<rparr>)),
      (''image'', set_str (\<lambda>x r. r\<lparr>rsp_image := x\<rparr>)), (''inputs'', set_str (\<lambda>x r. r\<lparr>rsp_inputs := x\<rparr>)),
      (''env'', set_str_map (\<lambda>x r. r\<lparr>rsp_env := list_or_nil x\<rparr>)),
      (''secrets'', set_list str_elem (\<lambda>x r. r\<lparr>rsp_secrets := x\<rparr>)),
      (''secretRef'', set_str (\<lambda>x r. r\<lparr>rsp_secret_ref := x\<rparr>)), (''cpu'', set_str (\<lambda>x r. r\<lparr>rsp_cpu := x\<rparr>)),
      (''memory'', set_str (\<lambda>x r. r\<lparr>rsp_memory := x\<rparr>)), (''timeout'', set_str (\<lambda>x r. r\<lparr>rsp_timeout := x\<rparr>)),
      (''traceId'', set_str (\<lambda>x r. r\<lparr>rsp_trace := x\<rparr>))]"

definition agent_run_status_fields :: "(string \<times> agent_run_status setter) list" where
  "agent_run_status_fields =
     [(''phase'', set_str (\<lambda>x r. r\<lparr>rst_phase := x\<rparr>)), (''jobName'', set_str (\<lambda>x r. r\<lparr>rst_job := x\<rparr>)),
      (''startedAt'', set_opt_time (\<lambda>x r. r\<lparr>rst_started := x\<rparr>)),
      (''endedAt'', set_opt_time (\<lambda>x r. r\<lparr>rst_ended := x\<rparr>)),
      (''exitCode'', set_opt_int (2 ^ 31) (\<lambda>x r. r\<lparr>rst_exit := x\<rparr>)), (''message'', set_str (\<lambda>x r. r\<lparr>rst_message := x\<rparr>))]"

definition agent_deployment_spec_fields :: "(string \<times> agent_deployment_spec setter) list" where
  "agent_deployment_spec_fields =
     [(''tenantId'', set_str (\<lambda>x r. r\<lparr>dsp_tenant := x\<rparr>)), (''agentName'', set_str (\<lambda>x r. r\<lparr>dsp_agent := x\<rparr>)),
      (''image'', set_str (\<lambda>x r. r\<lparr>dsp_image := x\<rparr>)), (''port'', set_int (2 ^ 31) (\<lambda>x r. r\<lparr>dsp_port := x\<rparr>)),
      (''healthPath'', set_str (\<lambda>x r. r\<lparr>dsp_health := x\<rparr>)), (''idleTimeout'', set_str (\<lambda>x r. r\<lparr>dsp_idle := x\<rparr>)),
      (''env'', set_str_map (\<lambda>x r. r\<lparr>dsp_env := list_or_nil x\<rparr>)),
      (''secrets'', set_list str_elem (\<lambda>x r. r\<lparr>dsp_secrets := x\<rparr>)),
      (''secretRef'', set_str (\<lambda>x r. r\<lparr>dsp_secret_ref := x\<rparr>))]"

definition agent_deployment_status_fields :: "(string \<times> agent_deployment_status setter) list" where
  "agent_deployment_status_fields =
     [(''url'', set_str (\<lambda>x r. r\<lparr>dst_url := x\<rparr>)), (''readyReplicas'', set_int (2 ^ 31) (\<lambda>x r. r\<lparr>dst_ready := x\<rparr>)),
      (''message'', set_str (\<lambda>x r. r\<lparr>dst_message := x\<rparr>))]"

definition zero_run_spec :: agent_run_spec where
  "zero_run_spec = \<lparr>rsp_tenant = [], rsp_agent = [], rsp_image = [], rsp_inputs = [], rsp_env = [], rsp_secrets = [],
     rsp_secret_ref = [], rsp_cpu = [], rsp_memory = [], rsp_timeout = [], rsp_trace = []\<rparr>"

definition zero_run_status :: agent_run_status where
  "zero_run_status = \<lparr>rst_phase = [], rst_job = [], rst_started = None, rst_ended = None, rst_exit = None, rst_message = []\<rparr>"

definition zero_deployment_spec :: agent_deployment_spec where
  "zero_deployment_spec = \<lparr>dsp_tenant = [], dsp_agent = [], dsp_image = [], dsp_port = 0, dsp_health = [], dsp_idle = [],
     dsp_env = [], dsp_secrets = [], dsp_secret_ref = []\<rparr>"

definition zero_deployment_status :: agent_deployment_status where
  "zero_deployment_status = \<lparr>dst_url = [], dst_ready = 0, dst_message = []\<rparr>"

lemmas resource_field_defs = agent_run_spec_fields_def agent_run_status_fields_def agent_deployment_spec_fields_def
  agent_deployment_status_fields_def zero_run_spec_def zero_run_status_def zero_deployment_spec_def
  zero_deployment_status_def

lemma decode_omit_env:
  assumes "map_of fs k = Some (set_str_map put)" and "put (Some []) r = r"
  shows "decode_fields fs (omit_map k JStr (Some es)) r = Some (put (Some es) r)"
  using assms str_entries_str_map [of es]
  by (cases es) (auto simp: omit_map_def field_for_def set_str_map_def str_map_def)

lemma decode_omit_zero:
  assumes "map_of fs k = Some (set_int bound put)" and "put 0 r = r" and "- bound \<le> i" and "i < bound"
  shows "decode_fields fs (omit_zero k i) r = Some (put i r)"
  using assms by (simp add: omit_zero_def field_for_def set_int_def)

lemma run_spec_round_trip: "unmarshal agent_run_spec_fields zero_run_spec (Some (JObj (agent_run_spec_json s))) = Some s"
  by (simp add: agent_run_spec_json_def resource_field_defs decode_rules decode_omit_env decode_omit_list set_str_def
      list_or_nil_def)

lemma deployment_spec_round_trip:
  "- (2 ^ 31) \<le> dsp_port s \<Longrightarrow> dsp_port s < 2 ^ 31 \<Longrightarrow>
    unmarshal agent_deployment_spec_fields zero_deployment_spec (Some (JObj (agent_deployment_spec_json s))) = Some s"
  by (simp add: agent_deployment_spec_json_def resource_field_defs decode_rules decode_omit_env decode_omit_list set_str_def
      set_int_def list_or_nil_def)

lemma deployment_status_round_trip:
  "- (2 ^ 31) \<le> dst_ready s \<Longrightarrow> dst_ready s < 2 ^ 31 \<Longrightarrow>
    unmarshal agent_deployment_status_fields zero_deployment_status (Some (JObj (agent_deployment_status_json s))) = Some s"
  by (simp add: agent_deployment_status_json_def resource_field_defs decode_rules decode_omit_zero)

text \<open>The status of a run comes back with its times in seconds.\<close>

lemma run_status_round_trip:
  assumes "\<forall>x. rst_exit s = Some x \<longrightarrow> - (2 ^ 31) \<le> x \<and> x < 2 ^ 31"
  shows "unmarshal agent_run_status_fields zero_run_status (Some (JObj (agent_run_status_json sec s))) =
    Some (s\<lparr>rst_started := map_option sec (rst_started s), rst_ended := map_option sec (rst_ended s)\<rparr>)"
  using assms
  by (cases "rst_started s"; cases "rst_ended s"; cases "rst_exit s")
    (simp_all add: agent_run_status_json_def resource_field_defs decode_rules set_opt_time_def set_opt_int_def)

end
