(* ===== verification/Deployment_Controller.thy ===== *)
theory Deployment_Controller
  imports Secrets_Api
begin

text \<open>
  The controller of \<open>internal/runs/deployment_controller.go\<close>, which turns an AgentDeployment
  into a Deployment and a Service. Of the controller library it uses \<open>CreateOrUpdate\<close>,
  \<open>SetControllerReference\<close> and the order in which Go ranges over the environment map; they are
  the fields of a parameter, and \<open>controller_laws\<close> states what their documentation promises.
\<close>

section \<open>The controller library\<close>

record 'k controller_lib =
  cl_upsert :: "kobj \<Rightarrow> (kobj \<Rightarrow> error + kobj) \<Rightarrow> 'k \<Rightarrow> (error + unit) \<times> 'k"
  cl_owner :: "agent_deployment \<Rightarrow> object_meta \<Rightarrow> error + object_meta"
  cl_order :: "(string \<times> string) list \<Rightarrow> (string \<times> string) list"

text \<open>
  \<open>CreateOrUpdate\<close> applies the mutation to the stored object, or to the given one when there is
  none, and stores the result; when it fails the result may or may not have been stored.
  \<open>SetControllerReference\<close> changes only the owner references, and setting them again changes
  nothing.
\<close>

definition mutated :: "(okey \<rightharpoonup> kobj) \<Rightarrow> kobj \<Rightarrow> (kobj \<Rightarrow> error + kobj) \<Rightarrow> error + kobj" where
  "mutated m x f = f (case m (obj_key x) of None \<Rightarrow> x | Some y \<Rightarrow> y)"

definition controller_laws :: "'k controller_lib \<Rightarrow> ('k \<Rightarrow> okey \<rightharpoonup> kobj) \<Rightarrow> bool" where
  "controller_laws L view \<longleftrightarrow>
     (\<forall>x f k. (case fst (cl_upsert L x f k) of
          Inr _ \<Rightarrow> (\<exists>y. mutated (view k) x f = Inr y \<and>
                     view (snd (cl_upsert L x f k)) = (view k)(obj_key x \<mapsto> y))
        | Inl e \<Rightarrow> view (snd (cl_upsert L x f k)) = view k \<or>
                   (\<exists>y. mutated (view k) x f = Inr y \<and>
                     view (snd (cl_upsert L x f k)) = (view k)(obj_key x \<mapsto> y)))) \<and>
     (\<forall>ad m m'. cl_owner L ad m = Inr m' \<longrightarrow>
        om_name m' = om_name m \<and> om_ns m' = om_ns m \<and> om_labels m' = om_labels m \<and>
        cl_owner L ad m' = Inr m')"

section \<open>The mutations\<close>

definition port_or_default :: "int \<Rightarrow> int" where
  "port_or_default p = (if p = 0 then 8080 else p)"

definition agent_labels :: "agent_deployment \<Rightarrow> (string \<times> string) list" where
  "agent_labels ad =
     [(''ailab.uipath.com/tenant'', dsp_tenant (ad_spec ad)),
      (''ailab.uipath.com/agent'', dsp_agent (ad_spec ad)),
      (''ailab.uipath.com/deployment'', om_name (ad_meta ad))]"

definition env_from_map :: "'k controller_lib \<Rightarrow> (string \<times> string) list \<Rightarrow> env_entry list" where
  "env_from_map L env = map (\<lambda>(k, v). Env_Value k v) (cl_order L env)"

definition readiness_probe :: "string \<Rightarrow> int \<Rightarrow> probe option" where
  "readiness_probe path port =
     (if path = [] then None
      else Some \<lparr>pr_path = path, pr_port = port, pr_period = 10, pr_timeout = 3, pr_threshold = 3,
                 pr_delay = 2\<rparr>)"

definition set_container :: "'k controller_lib \<Rightarrow> agent_deployment_spec \<Rightarrow> container \<Rightarrow> container" where
  "set_container L s c =
     (let port = port_or_default (dsp_port s) in
      c\<lparr>ct_name := ''agent'', ct_image := dsp_image s, ct_ports := [(''http'', port)],
        ct_env := env_from_map L (dsp_env s),
        ct_env_from := (if dsp_secret_ref s = [] then [] else [dsp_secret_ref s]),
        ct_probe := readiness_probe (dsp_health s) port\<rparr>)"

text \<open>\<open>mergeMap\<close> through the pointer to a field, which it fills when it is nil.\<close>

definition merge_map :: "(string \<times> string) list option \<Rightarrow> (string \<times> string) list \<Rightarrow> (string \<times> string) list option" where
  "merge_map dst new = Some (merge_labels (case dst of None \<Rightarrow> [] | Some m \<Rightarrow> m) new)"

definition set_deployment :: "'k controller_lib \<Rightarrow> agent_deployment \<Rightarrow> deployment \<Rightarrow> deployment" where
  "set_deployment L ad d =
     d\<lparr>dp_meta := (dp_meta d)\<lparr>om_labels := merge_labels (om_labels (dp_meta d)) (agent_labels ad)\<rparr>,
       dp_replicas := Some 1,
       dp_selector := (case dp_selector d of
          None \<Rightarrow> Some [(''ailab.uipath.com/deployment'', om_name (ad_meta ad))] | Some s \<Rightarrow> Some s),
       dp_pod_labels := merge_map (dp_pod_labels d) (agent_labels ad),
       dp_containers := (case dp_containers d of
          [] \<Rightarrow> [set_container L (ad_spec ad) (plain_container ''agent'' [])]
        | c # cs \<Rightarrow> set_container L (ad_spec ad) c # cs)\<rparr>"

definition mutate_deployment :: "'k controller_lib \<Rightarrow> agent_deployment \<Rightarrow> kobj \<Rightarrow> error + kobj" where
  "mutate_deployment L ad x =
     (case x of
        O_Deployment d \<Rightarrow>
          (let d' = set_deployment L ad d in
           case cl_owner L ad (dp_meta d') of
             Inl e \<Rightarrow> Inl e | Inr m \<Rightarrow> Inr (O_Deployment (d'\<lparr>dp_meta := m\<rparr>)))
      | _ \<Rightarrow> Inl (ErrText ''kind''))"

definition set_service :: "agent_deployment \<Rightarrow> service \<Rightarrow> service" where
  "set_service ad s =
     (let port = port_or_default (dsp_port (ad_spec ad)) in
      s\<lparr>sv_meta := (sv_meta s)\<lparr>om_labels := merge_labels (om_labels (sv_meta s)) (agent_labels ad)\<rparr>,
        sv_selector := [(''ailab.uipath.com/deployment'', om_name (ad_meta ad))],
        sv_ports := [(''http'', port, port)],
        sv_type := (if sv_type s = [] then ''ClusterIP'' else sv_type s)\<rparr>)"

definition mutate_service :: "'k controller_lib \<Rightarrow> agent_deployment \<Rightarrow> kobj \<Rightarrow> error + kobj" where
  "mutate_service L ad x =
     (case x of
        O_Service s \<Rightarrow>
          (let s' = set_service ad s in
           case cl_owner L ad (sv_meta s') of
             Inl e \<Rightarrow> Inl e | Inr m \<Rightarrow> Inr (O_Service (s'\<lparr>sv_meta := m\<rparr>)))
      | _ \<Rightarrow> Inl (ErrText ''kind''))"

section \<open>Reconciling\<close>

definition new_deployment :: "agent_deployment \<Rightarrow> deployment" where
  "new_deployment ad =
     \<lparr>dp_meta = new_meta (om_name (ad_meta ad)) (om_ns (ad_meta ad)) [] [], dp_replicas = None,
      dp_selector = None, dp_pod_labels = None, dp_containers = [], dp_ready = 0\<rparr>"

definition new_service :: "agent_deployment \<Rightarrow> service" where
  "new_service ad =
     \<lparr>sv_meta = new_meta (om_name (ad_meta ad)) (om_ns (ad_meta ad)) [] [], sv_selector = [],
      sv_ports = [], sv_type = []\<rparr>"

definition apply_deployment :: "'k controller_lib \<Rightarrow> agent_deployment \<Rightarrow> 'k \<Rightarrow> (error + unit) \<times> 'k" where
  "apply_deployment L ad = cl_upsert L (O_Deployment (new_deployment ad)) (mutate_deployment L ad)"

definition apply_service :: "'k controller_lib \<Rightarrow> agent_deployment \<Rightarrow> 'k \<Rightarrow> (error + unit) \<times> 'k" where
  "apply_service L ad = cl_upsert L (O_Service (new_service ad)) (mutate_service L ad)"

definition service_url :: "agent_deployment \<Rightarrow> string" where
  "service_url ad =
     ''http://'' @ om_name (ad_meta ad) @ ''.'' @ om_ns (ad_meta ad) @ ''.svc.cluster.local:'' @
       show_int (port_or_default (dsp_port (ad_spec ad)))"

definition reconcile_deployment ::
  "'k controller_lib \<Rightarrow> 'k kube_api \<Rightarrow> string \<times> string \<Rightarrow> 'k \<Rightarrow> (error + unit) \<times> 'k" where
  "reconcile_deployment L K req k =
     (case k_get K (K_Agent_Deployment, req) k of
        (Inl e, k1) \<Rightarrow>
          if e = Absent then (Inr (), k1) else (Inl (Wrapped ''get agentdeployment'' (kerr_error e)), k1)
      | (Inr (O_Agent_Deployment ad), k1) \<Rightarrow>
          (case apply_deployment L ad k1 of
             (Inl e, k2) \<Rightarrow> (Inl (Wrapped ''apply deployment'' e), k2)
           | (Inr _, k2) \<Rightarrow>
               (case apply_service L ad k2 of
                  (Inl e, k3) \<Rightarrow> (Inl (Wrapped ''apply service'' e), k3)
                | (Inr _, k3) \<Rightarrow>
                    (case k_get K (K_Deployment, om_ns (ad_meta ad), om_name (ad_meta ad)) k3 of
                       (live, k4) \<Rightarrow>
                         (let ready = (case live of Inr (O_Deployment d) \<Rightarrow> dp_ready d
                                       | _ \<Rightarrow> dst_ready (ad_status ad));
                              ad' = ad\<lparr>ad_status := (ad_status ad)\<lparr>dst_ready := ready, dst_url := service_url ad\<rparr>\<rparr>
                          in case k_status K (O_Agent_Deployment ad') k4 of
                               (Inl e, k5) \<Rightarrow> (Inl (Wrapped ''status update'' (kerr_error e)), k5)
                             | (Inr _, k5) \<Rightarrow> (Inr (), k5)))))
      | (Inr _, k1) \<Rightarrow> (Inl (Wrapped ''get agentdeployment'' (ErrText ''kind'')), k1))"

section \<open>Lemmas\<close>

lemma controller_upsert_Inr:
  assumes "controller_laws L view" and "fst (cl_upsert L x f k) = Inr u"
  shows "\<exists>y. mutated (view k) x f = Inr y \<and> view (snd (cl_upsert L x f k)) = (view k)(obj_key x \<mapsto> y)"
proof -
  have "\<forall>x f k. (case fst (cl_upsert L x f k) of
          Inr _ \<Rightarrow> (\<exists>y. mutated (view k) x f = Inr y \<and>
                     view (snd (cl_upsert L x f k)) = (view k)(obj_key x \<mapsto> y))
        | Inl e \<Rightarrow> view (snd (cl_upsert L x f k)) = view k \<or>
                   (\<exists>y. mutated (view k) x f = Inr y \<and>
                     view (snd (cl_upsert L x f k)) = (view k)(obj_key x \<mapsto> y)))"
    using assms(1) unfolding controller_laws_def by blast
  from this [rule_format, of x f k] assms(2) show ?thesis by simp
qed

lemma controller_owner:
  assumes "controller_laws L view" and "cl_owner L ad m = Inr m'"
  shows "om_name m' = om_name m \<and> om_ns m' = om_ns m \<and> om_labels m' = om_labels m \<and> cl_owner L ad m' = Inr m'"
  using assms unfolding controller_laws_def by blast

lemma merge_labels_twice: "merge_labels (merge_labels old new) new = merge_labels old new"
proof -
  have "filter (\<lambda>(k, v). k \<notin> fst ` set new) new = []" by (force simp: filter_empty_conv)
  then show ?thesis by (simp add: merge_labels_def)
qed

lemma set_container_twice: "set_container L s (set_container L s c) = set_container L s c"
  by (simp add: set_container_def Let_def)

lemma set_deployment_meta: "set_deployment L ad (d\<lparr>dp_meta := m\<rparr>) =
    (set_deployment L ad d)\<lparr>dp_meta := m\<lparr>om_labels := merge_labels (om_labels m) (agent_labels ad)\<rparr>\<rparr>"
  by (simp add: set_deployment_def merge_map_def)

lemma set_deployment_twice: "set_deployment L ad (set_deployment L ad d) = set_deployment L ad d"
  by (simp add: set_deployment_def merge_map_def merge_labels_twice set_container_twice split: option.split list.split)

text \<open>Mutating what a mutation produced changes nothing: a second reconcile finds nothing to update.\<close>

lemma mutate_deployment_twice:
  assumes "controller_laws L view" and "mutate_deployment L ad x = Inr y"
  shows "mutate_deployment L ad y = Inr y"
proof -
  obtain d m where d: "x = O_Deployment d" "cl_owner L ad (dp_meta (set_deployment L ad d)) = Inr m"
    "y = O_Deployment ((set_deployment L ad d)\<lparr>dp_meta := m\<rparr>)"
    using assms(2) by (auto simp: mutate_deployment_def Let_def split: kobj.splits sum.splits)
  note o = controller_owner [OF assms(1) d(2)]
  have l: "om_labels m = merge_labels (om_labels (dp_meta d)) (agent_labels ad)"
    using o by (simp add: set_deployment_def merge_map_def)
  then have "m\<lparr>om_labels := merge_labels (om_labels m) (agent_labels ad)\<rparr> = m"
    by (simp add: merge_labels_twice)
  with o show ?thesis
    by (simp add: d(3) mutate_deployment_def set_deployment_meta set_deployment_twice)
qed

lemma mutate_service_twice:
  assumes "controller_laws L view" and "mutate_service L ad x = Inr y"
  shows "mutate_service L ad y = Inr y"
proof -
  obtain s m where s: "x = O_Service s" "cl_owner L ad (sv_meta (set_service ad s)) = Inr m"
    "y = O_Service ((set_service ad s)\<lparr>sv_meta := m\<rparr>)"
    using assms(2) by (auto simp: mutate_service_def Let_def split: kobj.splits sum.splits)
  note o = controller_owner [OF assms(1) s(2)]
  have l: "om_labels m = merge_labels (om_labels (sv_meta s)) (agent_labels ad)"
    using o by (simp add: set_service_def Let_def)
  have e: "set_service ad ((set_service ad s)\<lparr>sv_meta := m\<rparr>) =
      (set_service ad s)\<lparr>sv_meta := m\<lparr>om_labels := merge_labels (om_labels m) (agent_labels ad)\<rparr>\<rparr>"
    by (simp add: set_service_def Let_def)
  have "m\<lparr>om_labels := merge_labels (om_labels m) (agent_labels ad)\<rparr> = m"
    by (simp add: l merge_labels_twice)
  with o show ?thesis
    by (simp add: s(3) mutate_service_def e)
qed

text \<open>What a mutation establishes.\<close>

lemma mutate_deployment_sets:
  assumes "controller_laws L view" and "mutate_deployment L ad x = Inr y"
  shows "\<exists>d l c cs. y = O_Deployment d \<and> dp_pod_labels d = Some l \<and>
    map_of l ''ailab.uipath.com/deployment'' = Some (om_name (ad_meta ad)) \<and>
    dp_containers d = c # cs \<and> ct_image c = dsp_image (ad_spec ad) \<and>
    ct_ports c = [(''http'', port_or_default (dsp_port (ad_spec ad)))] \<and>
    ct_env_from c = (if dsp_secret_ref (ad_spec ad) = [] then [] else [dsp_secret_ref (ad_spec ad)]) \<and>
    dp_replicas d = Some 1"
proof -
  obtain d m where d: "x = O_Deployment d" "y = O_Deployment ((set_deployment L ad d)\<lparr>dp_meta := m\<rparr>)"
    using assms(2) by (auto simp: mutate_deployment_def Let_def split: kobj.splits sum.splits)
  have "map_of (merge_labels old (agent_labels ad)) ''ailab.uipath.com/deployment'' = Some (om_name (ad_meta ad))" for old
    by (simp add: map_of_merge_labels agent_labels_def)
  then show ?thesis
    by (simp add: d(2) set_deployment_def merge_map_def set_container_def Let_def split: list.split)
qed

lemma mutate_service_sets:
  assumes "mutate_service L ad x = Inr y"
  shows "\<exists>s. y = O_Service s \<and> sv_selector s = [(''ailab.uipath.com/deployment'', om_name (ad_meta ad))] \<and>
    sv_ports s = [(''http'', port_or_default (dsp_port (ad_spec ad)), port_or_default (dsp_port (ad_spec ad)))]"
  using assms
  by (auto simp: mutate_service_def set_service_def Let_def split: kobj.splits sum.splits)

definition reconciled_deployment :: "agent_deployment \<Rightarrow> (okey \<rightharpoonup> kobj) \<Rightarrow> bool" where
  "reconciled_deployment ad m \<longleftrightarrow>
     (\<exists>d s l c cs. m (K_Deployment, om_ns (ad_meta ad), om_name (ad_meta ad)) = Some (O_Deployment d) \<and>
        m (K_Service, om_ns (ad_meta ad), om_name (ad_meta ad)) = Some (O_Service s) \<and>
        dp_pod_labels d = Some l \<and> (\<forall>(k, v)\<in>set (sv_selector s). map_of l k = Some v) \<and>
        dp_containers d = c # cs \<and> ct_image c = dsp_image (ad_spec ad) \<and>
        ct_env_from c = (if dsp_secret_ref (ad_spec ad) = [] then [] else [dsp_secret_ref (ad_spec ad)]) \<and>
        ct_ports c = [(''http'', port_or_default (dsp_port (ad_spec ad)))] \<and>
        sv_ports s = [(''http'', port_or_default (dsp_port (ad_spec ad)), port_or_default (dsp_port (ad_spec ad)))])"

lemma reconcile_deployment_Inr:
  assumes "k_get K (K_Agent_Deployment, req) k = (Inr (O_Agent_Deployment ad), k1)"
    and "fst (reconcile_deployment L K req k) = Inr ()"
  obtains k2 k3 k4 ready where "apply_deployment L ad k1 = (Inr (), k2)" "apply_service L ad k2 = (Inr (), k3)"
    "k4 = snd (k_get K (K_Deployment, om_ns (ad_meta ad), om_name (ad_meta ad)) k3)"
    "k_status K (O_Agent_Deployment (ad\<lparr>ad_status := (ad_status ad)\<lparr>dst_ready := ready, dst_url := service_url ad\<rparr>\<rparr>)) k4 =
       (Inr (), snd (reconcile_deployment L K req k))"
proof -
  obtain r2 k2 where a: "apply_deployment L ad k1 = (r2, k2)" by fastforce
  obtain r3 k3 where b: "apply_service L ad k2 = (r3, k3)" by fastforce
  obtain live k4 where c: "k_get K (K_Deployment, om_ns (ad_meta ad), om_name (ad_meta ad)) k3 = (live, k4)" by fastforce
  let ?ready = "case live of Inr (O_Deployment d) \<Rightarrow> dp_ready d | _ \<Rightarrow> dst_ready (ad_status ad)"
  let ?ad = "ad\<lparr>ad_status := (ad_status ad)\<lparr>dst_ready := ?ready, dst_url := service_url ad\<rparr>\<rparr>"
  obtain r5 k5 where e: "k_status K (O_Agent_Deployment ?ad) k4 = (r5, k5)" by fastforce
  have "r2 = Inr ()" using assms a by (cases r2) (simp_all add: reconcile_deployment_def)
  moreover from this have "r3 = Inr ()" using assms a b by (cases r3) (simp_all add: reconcile_deployment_def)
  moreover from calculation have "r5 = Inr ()" "snd (reconcile_deployment L K req k) = k5"
    using assms a b c e by (cases r5; simp add: reconcile_deployment_def Let_def)+
  ultimately show thesis using that [of k2 k3 k4 ?ready] a b c e by simp
qed

text \<open>What a reconcile without an error leaves.\<close>

lemma reconciled_agent:
  assumes K: "kube_store K view" and L: "controller_laws L view" and wk: "well_keyed view k"
    and ad: "k_get K (K_Agent_Deployment, req) k = (Inr (O_Agent_Deployment ad), k1)"
    and ok: "fst (reconcile_deployment L K req k) = Inr ()"
  shows "reconciled_deployment ad (view (snd (reconcile_deployment L K req k))) \<and>
    (\<exists>ad'. view (snd (reconcile_deployment L K req k)) (K_Agent_Deployment, req) = Some (O_Agent_Deployment ad') \<and>
       ad_spec ad' = ad_spec ad \<and> dst_url (ad_status ad') = service_url ad)"
proof -
  obtain k2 k3 k4 ready where s: "apply_deployment L ad k1 = (Inr (), k2)" "apply_service L ad k2 = (Inr (), k3)"
    "k4 = snd (k_get K (K_Deployment, om_ns (ad_meta ad), om_name (ad_meta ad)) k3)"
    "k_status K (O_Agent_Deployment (ad\<lparr>ad_status := (ad_status ad)\<lparr>dst_ready := ready, dst_url := service_url ad\<rparr>\<rparr>)) k4 =
       (Inr (), snd (reconcile_deployment L K req k))"
    using reconcile_deployment_Inr [OF ad ok] .
  let ?ad = "ad\<lparr>ad_status := (ad_status ad)\<lparr>dst_ready := ready, dst_url := service_url ad\<rparr>\<rparr>"
  let ?nm = "(om_ns (ad_meta ad), om_name (ad_meta ad))"
  have "view k (K_Agent_Deployment, req) = Some (O_Agent_Deployment ad)"
    using kube_store_get(2) [OF K] ad by (metis fst_conv)
  then have req: "req = ?nm" using wk unfolding well_keyed_def by fastforce
  obtain d where d: "mutated (view k1) (O_Deployment (new_deployment ad)) (mutate_deployment L ad) = Inr d"
    "view k2 = (view k1)((K_Deployment, ?nm) \<mapsto> d)"
    using controller_upsert_Inr [OF L, of "O_Deployment (new_deployment ad)" "mutate_deployment L ad" k1 "()"] s(1)
    by (auto simp: apply_deployment_def new_deployment_def)
  obtain v where v: "mutated (view k2) (O_Service (new_service ad)) (mutate_service L ad) = Inr v"
    "view k3 = (view k2)((K_Service, ?nm) \<mapsto> v)"
    using controller_upsert_Inr [OF L, of "O_Service (new_service ad)" "mutate_service L ad" k2 "()"] s(2)
    by (auto simp: apply_service_def new_service_def)
  have "view k4 = view k3" using kube_store_get(1) [OF K] s(3) by simp
  moreover have "view (snd (reconcile_deployment L K req k)) = (view k4)((K_Agent_Deployment, ?nm) \<mapsto> O_Agent_Deployment ?ad)"
    using kube_store_status(1) [OF K, of "O_Agent_Deployment ?ad" k4 "()"] s(4) by simp
  ultimately have m: "view (snd (reconcile_deployment L K req k)) =
      ((view k1)((K_Deployment, ?nm) \<mapsto> d, (K_Service, ?nm) \<mapsto> v, (K_Agent_Deployment, ?nm) \<mapsto> O_Agent_Deployment ?ad))"
    using d(2) v(2) by simp
  obtain dd l c cs where dd: "d = O_Deployment dd" "dp_pod_labels dd = Some l"
    "map_of l ''ailab.uipath.com/deployment'' = Some (om_name (ad_meta ad))" "dp_containers dd = c # cs"
    "ct_image c = dsp_image (ad_spec ad)" "ct_ports c = [(''http'', port_or_default (dsp_port (ad_spec ad)))]"
    "ct_env_from c = (if dsp_secret_ref (ad_spec ad) = [] then [] else [dsp_secret_ref (ad_spec ad)])"
    using mutate_deployment_sets [OF L] d(1) unfolding mutated_def by metis
  obtain sv where sv: "v = O_Service sv" "sv_selector sv = [(''ailab.uipath.com/deployment'', om_name (ad_meta ad))]"
    "sv_ports sv = [(''http'', port_or_default (dsp_port (ad_spec ad)), port_or_default (dsp_port (ad_spec ad)))]"
    using mutate_service_sets v(1) unfolding mutated_def by metis
  have "reconciled_deployment ad (view (snd (reconcile_deployment L K req k)))"
    unfolding reconciled_deployment_def m using dd sv by simp
  moreover have "view (snd (reconcile_deployment L K req k)) (K_Agent_Deployment, req) = Some (O_Agent_Deployment ?ad)"
    unfolding m by (simp add: req)
  ultimately show ?thesis by auto
qed

section \<open>A library in memory\<close>

text \<open>A controller library over the store of \<open>mem_kube\<close>.\<close>

definition mem_lib :: "kobj list controller_lib" where
  "mem_lib =
     \<lparr>cl_upsert = (\<lambda>x f s. case mutated (mem_view s) x f of
          Inl e \<Rightarrow> (Inl e, s)
        | Inr y \<Rightarrow> if obj_key y \<noteq> obj_key x then (Inl (ErrText ''key changed''), s)
                   else (Inr (), y # mem_without (obj_key x) s)),
      cl_owner = (\<lambda>ad m. Inr (m\<lparr>om_owners := [\<lparr>ow_kind = ''AgentDeployment'', ow_name = om_name (ad_meta ad),
          ow_uid = om_uid (ad_meta ad), ow_controller = True\<rparr>]\<rparr>)),
      cl_order = (\<lambda>m. m)\<rparr>"

lemma mem_lib_laws: "controller_laws mem_lib mem_view"
proof -
  have "mem_view (y # mem_without (obj_key x) s) = (mem_view s)(obj_key x \<mapsto> y)" if "obj_key y = obj_key x" for x y s
    using that by (auto simp: mem_view_Cons mem_view_without fun_eq_iff simp del: obj_key.simps)
  then show ?thesis
    by (simp add: controller_laws_def mem_lib_def split: sum.split del: obj_key.simps)
qed

definition bot_deployment :: agent_deployment where
  "bot_deployment =
     \<lparr>ad_meta = new_meta ''bot'' ''tenant-t'' [] [],
      ad_spec = \<lparr>dsp_tenant = ''t'', dsp_agent = ''a'', dsp_image = ''img'', dsp_port = 0, dsp_health = ''/h'',
        dsp_idle = [], dsp_env = [(''A'', ''1'')], dsp_secrets = [], dsp_secret_ref = ''agent-bot-secrets''\<rparr>,
      ad_status = \<lparr>dst_url = [], dst_ready = 0, dst_message = []\<rparr>\<rparr>"

end
