(* ===== verification/Dispatch.thy ===== *)
theory Dispatch
  imports World Events
begin

text \<open>
  The consumers of the controller that turn messages into custom resources:
  \<open>internal/runs/dispatch_consumer.go\<close>, \<open>internal/runs/deployment_consumer.go\<close> and the quota
  bootstrap of \<open>internal/runs/quota.go\<close>. \<open>render\<close> is \<open>json.Marshal\<close> of a map to text. Resource
  quantities are kept as the texts that \<open>resource.MustParse\<close> reads.
\<close>

section \<open>Tenant quotas\<close>

record quota_spec =
  qs_cpu :: string
  qs_memory :: string
  qs_pods :: string

record limit_spec =
  ls_default_cpu :: string
  ls_default_memory :: string
  ls_max_cpu :: string
  ls_max_memory :: string

definition resource_entry :: "string \<Rightarrow> string \<Rightarrow> (string \<times> string) list" where
  "resource_entry k v = (if v = [] then [] else [(k, v)])"

definition upsert_ownedlessly :: "'k kube_api \<Rightarrow> kobj \<Rightarrow> 'k world \<Rightarrow> (kerr + unit) \<times> 'k world" where
  "upsert_ownedlessly K desired w =
     (case kube_call (k_create K desired) w of
        (Inr _, w1) \<Rightarrow> (Inr (), w1)
      | (Inl e, w1) \<Rightarrow>
          if e \<noteq> Exists then (Inl e, w1)
          else (case kube_call (k_get K (obj_key desired)) w1 of
                  (Inl e2, w2) \<Rightarrow> (Inl e2, w2)
                | (Inr live, w2) \<Rightarrow>
                    kube_call (k_update K (set_version (om_version (obj_meta live)) desired)) w2))"

definition ensure_resource_quota ::
  "'k kube_api \<Rightarrow> string \<Rightarrow> quota_spec \<Rightarrow> 'k world \<Rightarrow> (kerr + unit) \<times> 'k world" where
  "ensure_resource_quota K ns q w =
     (if qs_cpu q = [] \<and> qs_memory q = [] \<and> qs_pods q = [] then (Inr (), w)
      else upsert_ownedlessly K
        (O_Quota \<lparr>qt_meta = new_meta ''tenant-default'' ns [] [],
           qt_hard = resource_entry ''requests.cpu'' (qs_cpu q) @
             resource_entry ''requests.memory'' (qs_memory q) @ resource_entry ''pods'' (qs_pods q)\<rparr>) w)"

definition ensure_limit_range ::
  "'k kube_api \<Rightarrow> string \<Rightarrow> limit_spec \<Rightarrow> 'k world \<Rightarrow> (kerr + unit) \<times> 'k world" where
  "ensure_limit_range K ns l w =
     (if ls_default_cpu l = [] \<and> ls_default_memory l = [] \<and> ls_max_cpu l = [] \<and> ls_max_memory l = []
      then (Inr (), w)
      else
        (let defaults = resource_entry ''cpu'' (ls_default_cpu l) @
               resource_entry ''memory'' (ls_default_memory l)
         in upsert_ownedlessly K
              (O_Limit \<lparr>lr_meta = new_meta ''tenant-default'' ns [] [], lr_default_request = defaults,
                 lr_default = defaults,
                 lr_max = resource_entry ''cpu'' (ls_max_cpu l) @
                   resource_entry ''memory'' (ls_max_memory l)\<rparr>) w))"

definition ensure_tenant_quotas ::
  "'k kube_api \<Rightarrow> string \<Rightarrow> quota_spec \<Rightarrow> limit_spec \<Rightarrow> 'k world \<Rightarrow> (kerr + unit) \<times> 'k world" where
  "ensure_tenant_quotas K ns q l w =
     (case ensure_resource_quota K ns q w of
        (Inl e, w1) \<Rightarrow> (Inl e, w1)
      | (Inr _, w1) \<Rightarrow> ensure_limit_range K ns l w1)"

section \<open>run.requested\<close>

definition tenant_namespace :: "string \<Rightarrow> string" where
  "tenant_namespace tenant = ''tenant-'' @ tenant"

definition ensure_namespace :: "'k kube_api \<Rightarrow> string \<Rightarrow> 'k world \<Rightarrow> (kerr + unit) \<times> 'k world" where
  "ensure_namespace K name w =
     (case kube_call (k_create K (O_Namespace (new_meta name [] [] []))) w of
        (Inr _, w1) \<Rightarrow> (Inr (), w1)
      | (Inl e, w1) \<Rightarrow> if e = Exists then (Inr (), w1) else (Inl e, w1))"

definition no_run_status :: agent_run_status where
  "no_run_status = \<lparr>rst_phase = [], rst_job = [], rst_started = None, rst_ended = None, rst_exit = None,
     rst_message = []\<rparr>"

definition agent_run_for :: "(json_obj \<Rightarrow> string) \<Rightarrow> run_requested \<Rightarrow> agent_run" where
  "agent_run_for render e =
     \<lparr>ar_meta = new_meta (rq_run e) (tenant_namespace (rq_tenant e))
        [(''ailab.uipath.com/tenant'', rq_tenant e), (''ailab.uipath.com/agent'', rq_agent e)] [],
      ar_spec = \<lparr>rsp_tenant = rq_tenant e, rsp_agent = rq_agent e, rsp_image = rq_image e,
        rsp_inputs = (case rq_inputs e of None \<Rightarrow> [] | Some m \<Rightarrow> render m), rsp_env = [],
        rsp_secrets = [], rsp_secret_ref = rq_secret_ref e, rsp_cpu = [], rsp_memory = [],
        rsp_timeout = [], rsp_trace = rq_trace e\<rparr>,
      ar_status = no_run_status\<rparr>"

definition bad_message :: error where "bad_message = ErrText ''unmarshal''"

definition dispatch_run ::
  "'k kube_api \<Rightarrow> quota_spec \<Rightarrow> limit_spec \<Rightarrow> (json_obj \<Rightarrow> string) \<Rightarrow> wire \<Rightarrow> 'k world
    \<Rightarrow> (error + unit) \<times> 'k world" where
  "dispatch_run K q l render msg w =
     (case unmarshal_run_requested msg of
        None \<Rightarrow> (Inl bad_message, w)
      | Some e \<Rightarrow>
          (let ns = tenant_namespace (rq_tenant e) in
           case ensure_namespace K ns w of
             (Inl x, w1) \<Rightarrow> (Inl (Wrapped (''ensure namespace '' @ ns) (kerr_error x)), w1)
           | (Inr _, w1) \<Rightarrow>
               (let w2 = snd (ensure_tenant_quotas K ns q l w1) in
                case kube_call (k_create K (O_Run (agent_run_for render e))) w2 of
                  (Inr _, w3) \<Rightarrow> (Inr (), w3)
                | (Inl x, w3) \<Rightarrow>
                    if x = Exists then (Inr (), w3)
                    else (Inl (Wrapped ''create agentrun'' (kerr_error x)), w3))))"

section \<open>deployment.requested and deployment.stopped\<close>

definition agent_deployment_for :: "deployment_requested \<Rightarrow> agent_deployment" where
  "agent_deployment_for e =
     \<lparr>ad_meta = new_meta (dq_agent_name e) (tenant_namespace (dq_tenant e))
        [(''ailab.uipath.com/tenant'', dq_tenant e), (''ailab.uipath.com/agent'', dq_agent e)] [],
      ad_spec = \<lparr>dsp_tenant = dq_tenant e, dsp_agent = dq_agent e, dsp_image = dq_image e,
        dsp_port = dq_port e, dsp_health = dq_health_path e, dsp_idle = [], dsp_env = [],
        dsp_secrets = [], dsp_secret_ref = dq_secret_ref e\<rparr>,
      ad_status = \<lparr>dst_url = [], dst_ready = 0, dst_message = []\<rparr>\<rparr>"

definition dispatch_deployment ::
  "'k kube_api \<Rightarrow> quota_spec \<Rightarrow> limit_spec \<Rightarrow> wire \<Rightarrow> 'k world \<Rightarrow> (error + unit) \<times> 'k world" where
  "dispatch_deployment K q l msg w =
     (case unmarshal_deployment_requested msg of
        None \<Rightarrow> (Inl bad_message, w)
      | Some e \<Rightarrow>
          (let ns = tenant_namespace (dq_tenant e); desired = agent_deployment_for e in
           case ensure_namespace K ns w of
             (Inl x, w1) \<Rightarrow> (Inl (Wrapped ''ensure namespace'' (kerr_error x)), w1)
           | (Inr _, w1) \<Rightarrow>
               (let w2 = snd (ensure_tenant_quotas K ns q l w1) in
                case kube_call (k_get K (K_Agent_Deployment, ns, dq_agent_name e)) w2 of
                  (Inl x, w3) \<Rightarrow>
                    if x = Absent then
                      (case kube_call (k_create K (O_Agent_Deployment desired)) w3 of
                         (Inr _, w4) \<Rightarrow> (Inr (), w4)
                       | (Inl y, w4) \<Rightarrow>
                           if y = Exists then (Inr (), w4)
                           else (Inl (Wrapped ''create agentdeployment'' (kerr_error y)), w4))
                    else (Inl (Wrapped ''get agentdeployment'' (kerr_error x)), w3)
                | (Inr (O_Agent_Deployment live), w3) \<Rightarrow>
                    (case kube_call (k_update K (O_Agent_Deployment (live\<lparr>ad_spec := ad_spec desired\<rparr>))) w3 of
                       (Inr _, w4) \<Rightarrow> (Inr (), w4)
                     | (Inl y, w4) \<Rightarrow> (Inl (Wrapped ''update agentdeployment'' (kerr_error y)), w4))
                | (Inr _, w3) \<Rightarrow> (Inl (Wrapped ''get agentdeployment'' (ErrText ''kind'')), w3))))"

definition dispatch_stop :: "'k kube_api \<Rightarrow> wire \<Rightarrow> 'k world \<Rightarrow> (error + unit) \<times> 'k world" where
  "dispatch_stop K msg w =
     (case unmarshal_deployment_stopped msg of
        None \<Rightarrow> (Inl bad_message, w)
      | Some e \<Rightarrow>
          (case kube_call (k_delete K (K_Agent_Deployment, tenant_namespace (ds_tenant e), ds_agent_name e)) w of
             (Inr _, w1) \<Rightarrow> (Inr (), w1)
           | (Inl x, w1) \<Rightarrow>
               if x = Absent then (Inr (), w1)
               else (Inl (Wrapped ''delete agentdeployment'' (kerr_error x)), w1)))"

section \<open>Lemmas\<close>

lemma set_version_key [simp]: "obj_key (set_version v x) = obj_key x"
  by (cases x) simp_all

lemma upsert_ownedlessly_other:
  assumes "kube_store K view" and "key \<noteq> obj_key d"
  shows "view (w_kube (snd (upsert_ownedlessly K d w))) key = view (w_kube w) key"
proof -
  note [simp del] = obj_key.simps
  have u: "view (snd (k_update K (set_version v d) k)) key = view k key" for v k
    by (rule kube_store_other(2) [OF assms(1)]) (simp add: assms(2))
  show ?thesis
    using kube_store_get(1) [OF assms(1)] kube_store_other(1) [OF assms] u
    by (simp add: upsert_ownedlessly_def split_beta split: sum.split)
qed

lemma ensure_tenant_quotas_other:
  assumes "kube_store K view" and "fst key \<noteq> K_Quota" and "fst key \<noteq> K_Limit"
  shows "view (w_kube (snd (ensure_tenant_quotas K ns q l w))) key = view (w_kube w) key"
proof -
  have "view (w_kube (snd (ensure_resource_quota K ns q w))) key = view (w_kube w) key" for w
    unfolding ensure_resource_quota_def using assms(2)
    by (auto intro!: upsert_ownedlessly_other [OF assms(1)])
  moreover have "view (w_kube (snd (ensure_limit_range K ns l w))) key = view (w_kube w) key" for w
    unfolding ensure_limit_range_def using assms(3)
    by (auto simp: Let_def intro!: upsert_ownedlessly_other [OF assms(1)])
  ultimately show ?thesis
    by (simp add: ensure_tenant_quotas_def split_beta split: sum.split)
qed

lemma ensure_namespace_other:
  assumes "kube_store K view" and "fst key \<noteq> K_Namespace"
  shows "view (w_kube (snd (ensure_namespace K n w))) key = view (w_kube w) key"
  using kube_store_other(1) [OF assms(1), of key "O_Namespace (new_meta n [] [] [])"] assms(2)
  by (cases key) (auto simp: ensure_namespace_def split_beta split: sum.split)

lemma dispatch_frame [simp]:
  "w_db (snd (upsert_ownedlessly K d w)) = w_db w" "w_sent (snd (upsert_ownedlessly K d w)) = w_sent w"
  "w_script (snd (upsert_ownedlessly K d w)) = w_script w"
  "w_db (snd (ensure_namespace K n w)) = w_db w" "w_sent (snd (ensure_namespace K n w)) = w_sent w"
  "w_script (snd (ensure_namespace K n w)) = w_script w"
  by (simp_all add: upsert_ownedlessly_def ensure_namespace_def split_beta split: sum.split)

lemma quotas_frame [simp]:
  "w_db (snd (ensure_tenant_quotas K ns q l w)) = w_db w"
  "w_sent (snd (ensure_tenant_quotas K ns q l w)) = w_sent w"
  "w_script (snd (ensure_tenant_quotas K ns q l w)) = w_script w"
  by (simp_all add: ensure_tenant_quotas_def ensure_resource_quota_def ensure_limit_range_def Let_def
      split_beta split: sum.split)

lemma dispatchers_db [simp]:
  "w_db (snd (dispatch_run K q l render msg w)) = w_db w"
  "w_db (snd (dispatch_deployment K q l msg w)) = w_db w"
  "w_db (snd (dispatch_stop K msg w)) = w_db w"
  by (simp_all add: dispatch_run_def dispatch_deployment_def dispatch_stop_def Let_def split_beta
      split: option.split sum.split kobj.split)

lemma dispatched_run:
  assumes K: "kube_store K view" and e: "unmarshal_run_requested msg = Some e"
  shows "(view (w_kube w) (K_Run, tenant_namespace (rq_tenant e), rq_run e) = Some x \<longrightarrow>
      view (w_kube (snd (dispatch_run K q l render msg w)))
        (K_Run, tenant_namespace (rq_tenant e), rq_run e) = Some x) \<and>
    (view (w_kube w) (K_Run, tenant_namespace (rq_tenant e), rq_run e) = None \<longrightarrow>
      fst (dispatch_run K q l render msg w) = Inr () \<longrightarrow>
      view (w_kube (snd (dispatch_run K q l render msg w)))
        (K_Run, tenant_namespace (rq_tenant e), rq_run e) = Some (O_Run (agent_run_for render e)))"
proof -
  let ?ns = "tenant_namespace (rq_tenant e)"
  let ?key = "(K_Run, ?ns, rq_run e)"
  let ?cr = "O_Run (agent_run_for render e)"
  have key: "obj_key ?cr = ?key" by (simp add: agent_run_for_def)
  let ?w1 = "snd (ensure_namespace K ?ns w)"
  let ?w2 = "snd (ensure_tenant_quotas K ?ns q l ?w1)"
  have v2: "view (w_kube ?w2) ?key = view (w_kube w) ?key"
    using ensure_tenant_quotas_other [OF K, of ?key ?ns q l ?w1] ensure_namespace_other [OF K, of ?key ?ns w]
    by simp
  have v1: "view (w_kube ?w1) ?key = view (w_kube w) ?key"
    using ensure_namespace_other [OF K, of ?key ?ns w] by simp
  show ?thesis
  proof (cases "fst (ensure_namespace K ?ns w)")
    case (Inl y)
    with v1 show ?thesis by (simp add: dispatch_run_def e Let_def split_beta)
  next
    case (Inr u)
    let ?c = "k_create K ?cr (w_kube ?w2)"
    have res: "w_kube (snd (dispatch_run K q l render msg w)) = snd ?c"
      "fst (dispatch_run K q l render msg w) = Inr () \<Longrightarrow> fst ?c = Inr () \<or> fst ?c = Inl Exists"
      using Inr by (auto simp: dispatch_run_def e Let_def split_beta split: sum.splits if_splits)
    have "view (snd ?c) ?key = Some x" if "view (w_kube w) ?key = Some x"
      by (rule kube_store_create_present [OF K]) (simp only: v2 that)
    moreover have "view (snd ?c) ?key = Some ?cr"
      if "view (w_kube w) ?key = None" "fst ?c = Inr () \<or> fst ?c = Inl Exists"
      using that(2) kube_store_create(1) [OF K, of ?cr "w_kube ?w2" "()"]
        kube_store_create(3) [OF K, of ?cr "w_kube ?w2"] v2 that(1)
      unfolding key by auto
    ultimately show ?thesis unfolding res(1) using res(2) by blast
  qed
qed

section \<open>Properties\<close>


definition sample_request :: run_requested where
  "sample_request = \<lparr>rq_tenant = ''t'', rq_agent = ''a'', rq_run = ''r1'', rq_image = ''img'',
     rq_inputs = None, rq_trace = ''tr'', rq_secret_ref = [], rq_trace_ctx = None, rq_at = 1\<rparr>"

definition no_quota :: quota_spec where "no_quota = \<lparr>qs_cpu = [], qs_memory = ''4Gi'', qs_pods = []\<rparr>"

definition no_limit :: limit_spec where
  "no_limit = \<lparr>ls_default_cpu = [], ls_default_memory = [], ls_max_cpu = [], ls_max_memory = []\<rparr>"


lemma agent_deployment_kind:
  assumes "well_keyed view k" and "view k (K_Agent_Deployment, ns, n) = Some x"
  shows "\<exists>a. x = O_Agent_Deployment a"
  using assms unfolding well_keyed_def by (cases x) fastforce+

text \<open>The world after the bootstrap of the tenant, and the two ways a request is carried out from there.\<close>

definition bootstrapped ::
  "'k kube_api \<Rightarrow> quota_spec \<Rightarrow> limit_spec \<Rightarrow> string \<Rightarrow> 'k world \<Rightarrow> 'k world" where
  "bootstrapped K q l ns w = snd (ensure_tenant_quotas K ns q l (snd (ensure_namespace K ns w)))"

lemma bootstrapped_view:
  assumes "kube_store K view" and "fst key \<notin> {K_Namespace, K_Quota, K_Limit}"
  shows "view (w_kube (bootstrapped K q l ns w)) key = view (w_kube w) key"
  using assms ensure_tenant_quotas_other [OF assms(1), of key ns q l "snd (ensure_namespace K ns w)"]
    ensure_namespace_other [OF assms(1), of key ns w]
  by (simp add: bootstrapped_def)

lemma dispatch_deployment_steps:
  assumes "unmarshal_deployment_requested msg = Some e" and "fst (dispatch_deployment K q l msg w) = Inr ()"
  defines "k \<equiv> w_kube (bootstrapped K q l (tenant_namespace (dq_tenant e)) w)"
    and "key \<equiv> (K_Agent_Deployment, tenant_namespace (dq_tenant e), dq_agent_name e)"
    and "des \<equiv> agent_deployment_for e"
  shows "fst (k_get K key k) = Inl Absent \<and>
      fst (k_create K (O_Agent_Deployment des) (snd (k_get K key k))) \<in> {Inr (), Inl Exists} \<and>
      w_kube (snd (dispatch_deployment K q l msg w)) =
        snd (k_create K (O_Agent_Deployment des) (snd (k_get K key k))) \<or>
    (\<exists>live. fst (k_get K key k) = Inr (O_Agent_Deployment live) \<and>
      fst (k_update K (O_Agent_Deployment (live\<lparr>ad_spec := ad_spec des\<rparr>)) (snd (k_get K key k))) = Inr () \<and>
      w_kube (snd (dispatch_deployment K q l msg w)) =
        snd (k_update K (O_Agent_Deployment (live\<lparr>ad_spec := ad_spec des\<rparr>)) (snd (k_get K key k))))"
proof -
  obtain u where ns: "fst (ensure_namespace K (tenant_namespace (dq_tenant e)) w) = Inr u"
    using assms(1,2) by (cases "fst (ensure_namespace K (tenant_namespace (dq_tenant e)) w)")
      (auto simp: dispatch_deployment_def Let_def split_beta)
  show ?thesis
  proof (cases "fst (k_get K key k)")
    case (Inl x)
    with assms ns show ?thesis
      by (auto simp: dispatch_deployment_def bootstrapped_def Let_def split_beta split: sum.splits if_splits)
  next
    case (Inr y)
    with assms ns obtain live where y: "y = O_Agent_Deployment live"
      by (cases y) (auto simp: dispatch_deployment_def bootstrapped_def Let_def split_beta)
    with Inr assms ns show ?thesis
      by (cases "fst (k_update K (O_Agent_Deployment (live\<lparr>ad_spec := ad_spec des\<rparr>)) (snd (k_get K key k)))")
        (auto simp: dispatch_deployment_def bootstrapped_def Let_def split_beta)
  qed
qed

text \<open>A handled deployment.requested message is applied to the resource of the agent.\<close>

lemma applied_deployment:
  assumes K: "kube_store K view" and wk: "well_keyed view (w_kube w)"
    and e: "unmarshal_deployment_requested msg = Some e"
    and ok: "fst (dispatch_deployment K q l msg w) = Inr ()"
  shows "\<exists>a. view (w_kube (snd (dispatch_deployment K q l msg w)))
        (K_Agent_Deployment, tenant_namespace (dq_tenant e), dq_agent_name e) = Some (O_Agent_Deployment a) \<and>
      ad_spec a = ad_spec (agent_deployment_for e) \<and>
      (\<forall>b. view (w_kube w) (K_Agent_Deployment, tenant_namespace (dq_tenant e), dq_agent_name e) =
         Some (O_Agent_Deployment b) \<longrightarrow> ad_meta a = ad_meta b \<and> ad_status a = ad_status b)"
proof -
  let ?key = "(K_Agent_Deployment, tenant_namespace (dq_tenant e), dq_agent_name e)"
  let ?des = "agent_deployment_for e"
  let ?k = "w_kube (bootstrapped K q l (tenant_namespace (dq_tenant e)) w)"
  have v: "view ?k ?key = view (w_kube w) ?key" "view (snd (k_get K ?key ?k)) = view ?k"
    using bootstrapped_view [OF K] kube_store_get(1) [OF K] by simp_all
  have key: "obj_key (O_Agent_Deployment ?des) = ?key" by (simp add: agent_deployment_for_def)
  from dispatch_deployment_steps [OF e ok] show ?thesis
  proof (elim disjE conjE exE)
    assume g: "fst (k_get K ?key ?k) = Inl Absent"
      and c: "fst (k_create K (O_Agent_Deployment ?des) (snd (k_get K ?key ?k))) \<in> {Inr (), Inl Exists}"
      and w: "w_kube (snd (dispatch_deployment K q l msg w)) =
        snd (k_create K (O_Agent_Deployment ?des) (snd (k_get K ?key ?k)))"
    have none: "view ?k ?key = None" using kube_store_get(3) [OF K g] .
    then have "fst (k_create K (O_Agent_Deployment ?des) (snd (k_get K ?key ?k))) = Inr ()"
      using c kube_store_create(3) [OF K, of "O_Agent_Deployment ?des" "snd (k_get K ?key ?k)"]
      unfolding key v(2) by auto
    from kube_store_create(1) [OF K this] show ?thesis
      using none unfolding w key v by simp
  next
    fix live
    let ?new = "O_Agent_Deployment (live\<lparr>ad_spec := ad_spec ?des\<rparr>)"
    assume g: "fst (k_get K ?key ?k) = Inr (O_Agent_Deployment live)"
      and u: "fst (k_update K ?new (snd (k_get K ?key ?k))) = Inr ()"
      and w: "w_kube (snd (dispatch_deployment K q l msg w)) = snd (k_update K ?new (snd (k_get K ?key ?k)))"
    have here: "view (w_kube w) ?key = Some (O_Agent_Deployment live)"
      using kube_store_get(2) [OF K g] v(1) by simp
    then have "obj_key (O_Agent_Deployment live) = ?key" using wk unfolding well_keyed_def by blast
    then have "obj_key ?new = ?key" by simp
    with kube_store_update(1) [OF K u] here show ?thesis unfolding w by simp
  qed
qed

text \<open>Handling deployment.stopped removes the resource, and doing it again is not an error.\<close>

lemma dispatch_stop_removes:
  assumes K: "kube_store K view" and e: "unmarshal_deployment_stopped msg = Some e"
    and ok: "fst (dispatch_stop K msg w) = Inr ()"
  shows "view (w_kube (snd (dispatch_stop K msg w)))
    (K_Agent_Deployment, tenant_namespace (ds_tenant e), ds_agent_name e) = None"
proof -
  let ?key = "(K_Agent_Deployment, tenant_namespace (ds_tenant e), ds_agent_name e)"
  let ?c = "k_delete K ?key (w_kube w)"
  have w: "w_kube (snd (dispatch_stop K msg w)) = snd ?c"
    by (simp add: dispatch_stop_def e split_beta split: sum.split)
  have "(\<exists>u. fst ?c = Inr u) \<or> fst ?c = Inl Absent"
    using ok by (auto simp: dispatch_stop_def e split_beta split: sum.splits if_splits)
  then show ?thesis
    unfolding w using kube_store_delete [OF K, where key = ?key and k = "w_kube w"] by auto
qed

end
