(* ===== verification/Gateway.thy ===== *)
theory Gateway
  imports Json_Wire
begin

text \<open>
  The public ingress of \<open>cmd/gateway/main.go\<close>: the host name of a request selects an agent
  and a tenant, the AgentDeployment is looked up through the Kubernetes API behind a small
  cache with a time to live, and the request is forwarded to the agent's service, over
  service DNS or through the API server's proxy path. The answer of the API server is a
  function of namespace and name (one per request, so it may change), the upstream's answer
  a function of the forwarded request. \<open>to_int\<close> stands for Go's conversion of a float64 that
  is not an int32, which the language leaves to the implementation. Of \<open>httputil\<close>'s reverse
  proxy the rewriting of the URL is modelled, for paths without an escaped form of their own
  and a target without a query.
\<close>

section \<open>The cache\<close>

record resolved =
  rs_tenant :: string
  rs_namespace :: string
  rs_service :: string
  rs_port :: int

record cache_entry =
  ce_val :: resolved
  ce_expiry :: gotime

record cache =
  ca_ttl :: duration
  ca_map :: "string \<Rightarrow> cache_entry option"

definition new_cache :: "duration \<Rightarrow> cache" where
  "new_cache ttl = \<lparr>ca_ttl = ttl, ca_map = Map.empty\<rparr>"

definition cache_get :: "gotime \<Rightarrow> string \<Rightarrow> cache \<Rightarrow> resolved option" where
  "cache_get now k c =
     (case ca_map c k of
        None \<Rightarrow> None
      | Some e \<Rightarrow> if now > ce_expiry e then None else Some (ce_val e))"

definition cache_put :: "gotime \<Rightarrow> string \<Rightarrow> resolved \<Rightarrow> cache \<Rightarrow> cache" where
  "cache_put now k v c = c\<lparr>ca_map := (ca_map c)(k \<mapsto> \<lparr>ce_val = v, ce_expiry = now + ca_ttl c\<rparr>)\<rparr>"

section \<open>Host names\<close>

definition strip_port :: "string \<Rightarrow> string" where
  "strip_port host =
     (case last_index CHR '':'' host of
        Some i \<Rightarrow> if 0 < i then take i host else host
      | None \<Rightarrow> host)"

definition parse_host :: "string \<Rightarrow> string \<Rightarrow> (string \<times> string) option" where
  "parse_host host domain =
     (let suffix = CHR ''.'' # domain in
      if \<not> has_suffix host suffix then None
      else (case split_n CHR ''.'' 2 (trim_suffix host suffix) of
              [a, t] \<Rightarrow> Some (a, t)
            | _ \<Rightarrow> None))"

section \<open>Resolving\<close>

definition unstructured_map :: "json_obj \<Rightarrow> string \<Rightarrow> json_obj" where
  "unstructured_map obj key =
     (case map_of obj key of Some (JObj m) \<Rightarrow> m | _ \<Rightarrow> [])"

definition port_number :: "(json \<Rightarrow> int) \<Rightarrow> json_obj \<Rightarrow> int" where
  "port_number to_int spec =
     (case map_of spec ''port'' of
        Some (JInt i) \<Rightarrow> if - (2 ^ 31) \<le> i \<and> i < 2 ^ 31 then i else to_int (JInt i)
      | Some (JFrac s) \<Rightarrow> to_int (JFrac s)
      | _ \<Rightarrow> 0)"

definition resolution :: "(json \<Rightarrow> int) \<Rightarrow> string \<Rightarrow> string \<Rightarrow> json_obj \<Rightarrow> resolved" where
  "resolution to_int agent tenant obj =
     (let p = port_number to_int (unstructured_map obj ''spec'') in
      \<lparr>rs_tenant = tenant, rs_namespace = ''tenant-'' @ tenant, rs_service = agent,
       rs_port = (if p = 0 then 8080 else p)\<rparr>)"

definition cache_key :: "string \<Rightarrow> string \<Rightarrow> string" where
  "cache_key agent tenant = agent @ ''.'' @ tenant"

text \<open>The clock is read once by the cache lookup and once more when the answer is stored.\<close>

record request =
  rq_host :: string
  rq_path :: string
  rq_now :: gotime
  rq_later :: gotime
  rq_lookup :: "string \<Rightarrow> string \<Rightarrow> error + json_obj"

definition resolve ::
  "(json \<Rightarrow> int) \<Rightarrow> request \<Rightarrow> string \<Rightarrow> string \<Rightarrow> cache \<Rightarrow> (error + resolved) \<times> cache" where
  "resolve to_int r agent tenant c =
     (case cache_get (rq_now r) (cache_key agent tenant) c of
        Some v \<Rightarrow> (Inr v, c)
      | None \<Rightarrow>
          (case rq_lookup r (''tenant-'' @ tenant) agent of
             Inl e \<Rightarrow> (Inl e, c)
           | Inr obj \<Rightarrow>
               (let res = resolution to_int agent tenant obj
                in (Inr res, cache_put (rq_later r) (cache_key agent tenant) res c))))"

section \<open>Forwarding\<close>

record url =
  u_scheme :: string
  u_host :: string
  u_path :: string

record gateway =
  gw_domain :: string
  gw_api_proxy :: bool
  gw_api_host :: url

definition target_url :: "gateway \<Rightarrow> resolved \<Rightarrow> url" where
  "target_url g r =
     (if gw_api_proxy g
      then (gw_api_host g)\<lparr>u_path := ''/api/v1/namespaces/'' @ rs_namespace r @ ''/services/'' @
              rs_service r @ '':'' @ show_int (rs_port r) @ ''/proxy/''\<rparr>
      else \<lparr>u_scheme = ''http'',
            u_host = rs_service r @ ''.'' @ rs_namespace r @ ''.svc.cluster.local:'' @ show_int (rs_port r),
            u_path = []\<rparr>)"

text \<open>\<open>httputil\<close>'s \<open>singleJoiningSlash\<close>.\<close>

definition join_slash :: "string \<Rightarrow> string \<Rightarrow> string" where
  "join_slash a b =
     (if has_suffix a ''/'' \<and> has_prefix b ''/'' then a @ drop 1 b
      else if \<not> has_suffix a ''/'' \<and> \<not> has_prefix b ''/'' then a @ ''/'' @ b
      else a @ b)"

record forwarded =
  fw_url :: url
  fw_host_header :: string
  fw_api_client :: bool

definition direct :: "gateway \<Rightarrow> resolved \<Rightarrow> request \<Rightarrow> forwarded" where
  "direct g res r =
     (let target = target_url g res;
          path = join_slash (u_path target) (rq_path r);
          base = trim_suffix (u_path target) ''/''
      in if gw_api_proxy g
         then \<lparr>fw_url = target\<lparr>u_path := base @ path\<rparr>, fw_host_header = u_host target,
               fw_api_client = True\<rparr>
         else \<lparr>fw_url = target\<lparr>u_path := path\<rparr>, fw_host_header = rq_host r, fw_api_client = False\<rparr>)"

definition serve_http ::
  "gateway \<Rightarrow> (json \<Rightarrow> int) \<Rightarrow> (forwarded \<Rightarrow> error + (nat \<times> string)) \<Rightarrow> request \<Rightarrow> cache
    \<Rightarrow> (nat \<times> string) \<times> forwarded option \<times> cache" where
  "serve_http g to_int upstream r c =
     (case parse_host (strip_port (rq_host r)) (gw_domain g) of
        None \<Rightarrow> ((502, ''bad host: expected <agent>.<tenant>.'' @ gw_domain g), None, c)
      | Some (agent, tenant) \<Rightarrow>
          (case resolve to_int r agent tenant c of
             (Inl e, c1) \<Rightarrow> ((404, ''deployment not found''), None, c1)
           | (Inr res, c1) \<Rightarrow>
               (case upstream (direct g res r) of
                  Inl e \<Rightarrow> ((502, ''upstream error''), Some (direct g res r), c1)
                | Inr resp \<Rightarrow> (resp, Some (direct g res r), c1))))"

text \<open>The cache after a sequence of requests, on a gateway that starts with the empty cache.\<close>

definition served :: "gateway \<Rightarrow> (json \<Rightarrow> int) \<Rightarrow> (forwarded \<Rightarrow> error + (nat \<times> string)) \<Rightarrow> duration
    \<Rightarrow> request list \<Rightarrow> cache" where
  "served g to_int upstream ttl rs =
     fold (\<lambda>r c. snd (snd (serve_http g to_int upstream r c))) rs (new_cache ttl)"

section \<open>Lemmas\<close>

lemma parse_host_Some:
  "parse_host host domain = Some (a, t) \<Longrightarrow> CHR ''.'' \<notin> set a \<and> host = a @ ''.'' @ t @ ''.'' @ domain"
  by (auto simp: parse_host_def Let_def has_suffix_iff numeral_2_eq_2 split: list.splits if_splits
      prod.splits option.splits dest!: cut_eq)

lemma parse_host_build:
  "CHR ''.'' \<notin> set a \<Longrightarrow> parse_host (a @ ''.'' @ t @ ''.'' @ domain) domain = Some (a, t)"
  using has_suffix_append [of "a @ ''.'' @ t" "CHR ''.'' # domain"]
    trim_suffix_append [of "a @ ''.'' @ t" "CHR ''.'' # domain"]
  by (simp add: parse_host_def Let_def cut_append numeral_2_eq_2)

lemma strip_port_plain: "CHR '':'' \<notin> set h \<Longrightarrow> strip_port h = h"
  by (simp add: strip_port_def last_index_absent)

lemma strip_port_port: "CHR '':'' \<notin> set p \<Longrightarrow> h \<noteq> [] \<Longrightarrow> strip_port (h @ '':'' @ p) = h"
  by (simp add: strip_port_def last_index_append)

lemma cache_key_inject:
  assumes "CHR ''.'' \<notin> set a" and "CHR ''.'' \<notin> set b" and "cache_key a t = cache_key b u"
  shows "a = b \<and> t = u"
  using arg_cong [OF assms(3), of "cut CHR ''.''"] cut_append [OF assms(1), of t]
    cut_append [OF assms(2), of u]
  by (simp add: cache_key_def)

lemma cache_put_simps [simp]:
  "ca_ttl (cache_put now k v c) = ca_ttl c"
  "ca_map (cache_put now k v c) = (ca_map c)(k \<mapsto> \<lparr>ce_val = v, ce_expiry = now + ca_ttl c\<rparr>)"
  by (simp_all add: cache_put_def)

text \<open>An entry comes from a request of the history, for its own host and stamped with its clock.\<close>

definition answered_by :: "(json \<Rightarrow> int) \<Rightarrow> gateway \<Rightarrow> request \<Rightarrow> string \<Rightarrow> string \<Rightarrow> resolved \<Rightarrow> bool" where
  "answered_by to_int g r agent tenant v \<longleftrightarrow>
     parse_host (strip_port (rq_host r)) (gw_domain g) = Some (agent, tenant) \<and>
     (case rq_lookup r (''tenant-'' @ tenant) agent of
        Inl e \<Rightarrow> False
      | Inr obj \<Rightarrow> v = resolution to_int agent tenant obj)"

lemma answered_by_target:
  "answered_by to_int g r a t v \<Longrightarrow> rs_service v = a \<and> rs_namespace v = ''tenant-'' @ t"
  by (auto simp: answered_by_def resolution_def Let_def split: sum.splits)

definition cache_explained :: "(json \<Rightarrow> int) \<Rightarrow> gateway \<Rightarrow> request list \<Rightarrow> cache \<Rightarrow> bool" where
  "cache_explained to_int g rs c \<longleftrightarrow>
     (\<forall>k e. ca_map c k = Some e \<longrightarrow>
        (\<exists>r\<in>set rs. \<exists>a t. k = cache_key a t \<and> answered_by to_int g r a t (ce_val e) \<and>
           ce_expiry e = rq_later r + ca_ttl c))"

lemma cache_explained_more:
  "cache_explained to_int g rs c \<Longrightarrow> cache_explained to_int g (rs @ [r]) c"
  unfolding cache_explained_def set_append by blast

lemma cache_explained_put:
  assumes "cache_explained to_int g rs c" and "answered_by to_int g r a t v"
  shows "cache_explained to_int g (rs @ [r]) (cache_put (rq_later r) (cache_key a t) v c)"
  using cache_explained_more [OF assms(1), of r] assms(2)
  by (auto simp: cache_explained_def split: if_splits)

lemma resolve_explained:
  assumes "cache_explained to_int g rs c"
    and "parse_host (strip_port (rq_host r)) (gw_domain g) = Some (a, t)"
  shows "cache_explained to_int g (rs @ [r]) (snd (resolve to_int r a t c)) \<and>
    ca_ttl (snd (resolve to_int r a t c)) = ca_ttl c"
proof (cases "rq_lookup r (''tenant-'' @ t) a")
  case (Inl e)
  with cache_explained_more [OF assms(1)] show ?thesis
    by (simp add: resolve_def split: option.split)
next
  case (Inr obj)
  then have "answered_by to_int g r a t (resolution to_int a t obj)"
    using assms(2) by (simp add: answered_by_def)
  with Inr cache_explained_more [OF assms(1)] cache_explained_put [OF assms(1)] show ?thesis
    by (simp add: resolve_def Let_def split: option.split)
qed

lemma serve_explained:
  assumes "cache_explained to_int g rs c"
  shows "cache_explained to_int g (rs @ [r]) (snd (snd (serve_http g to_int up r c))) \<and>
    ca_ttl (snd (snd (serve_http g to_int up r c))) = ca_ttl c"
proof (cases "parse_host (strip_port (rq_host r)) (gw_domain g)")
  case None
  with cache_explained_more [OF assms] show ?thesis by (simp add: serve_http_def)
next
  case (Some p)
  with resolve_explained [OF assms, of r "fst p" "snd p"] show ?thesis
    by (simp add: serve_http_def split_beta split: sum.split)
qed

lemma served_explained:
  "cache_explained to_int g rs (served g to_int up ttl rs) \<and> ca_ttl (served g to_int up ttl rs) = ttl"
proof (induction rs rule: rev_induct)
  case Nil
  show ?case by (simp add: served_def new_cache_def cache_explained_def)
next
  case (snoc r rs)
  then show ?case using serve_explained [of to_int g rs "served g to_int up ttl rs" r up]
    by (simp add: served_def)
qed

text \<open>With service DNS the documented hosts reach the service of the agent.\<close>

lemma gateway_serves_host:
  assumes "CHR ''.'' \<notin> set a" and "a \<noteq> []" and "CHR '':'' \<notin> set (a @ t @ gw_domain g)"
    and "rq_host r = a @ ''.'' @ t @ ''.'' @ gw_domain g \<or>
         rq_host r = a @ ''.'' @ t @ ''.'' @ gw_domain g @ '':'' @ port \<and> CHR '':'' \<notin> set port"
    and "\<not> gw_api_proxy g" and "has_prefix (rq_path r) ''/''"
    and "cache_get (rq_now r) (cache_key a t) c = None"
    and "rq_lookup r (''tenant-'' @ t) a = Inr obj"
  shows "fst (snd (serve_http g to_int up r c)) =
    Some \<lparr>fw_url = \<lparr>u_scheme = ''http'',
            u_host = a @ ''.tenant-'' @ t @ ''.svc.cluster.local:'' @
              show_int (if port_number to_int (unstructured_map obj ''spec'') = 0 then 8080
                        else port_number to_int (unstructured_map obj ''spec'')),
            u_path = rq_path r\<rparr>,
          fw_host_header = rq_host r, fw_api_client = False\<rparr>"
proof -
  let ?h = "a @ ''.'' @ t @ ''.'' @ gw_domain g"
  have "strip_port (rq_host r) = ?h"
    using assms(3,4) strip_port_plain [of ?h] strip_port_port [of port ?h] by auto
  then have "parse_host (strip_port (rq_host r)) (gw_domain g) = Some (a, t)"
    using parse_host_build [OF assms(1)] by simp
  moreover have "join_slash [] (rq_path r) = rq_path r"
    using assms(6) by (simp add: join_slash_def has_suffix_def)
  ultimately show ?thesis
    using assms(5,7,8)
    by (simp add: serve_http_def resolve_def resolution_def direct_def target_url_def Let_def
        split: sum.split)
qed

section \<open>Properties\<close>


definition sample_gateway :: gateway where
  "sample_gateway = \<lparr>gw_domain = ''run.local'', gw_api_proxy = False,
     gw_api_host = \<lparr>u_scheme = ''https'', u_host = ''k8s'', u_path = []\<rparr>\<rparr>"

definition sample_visit :: "gotime \<Rightarrow> request" where
  "sample_visit now = \<lparr>rq_host = ''bot.t.run.local:80'', rq_path = ''/mcp'', rq_now = now, rq_later = now,
     rq_lookup = (\<lambda>ns a. if now < 5 then Inr [(''spec'', JObj [(''port'', JInt 9000)])] else Inl ErrNotFound)\<rparr>"

lemma sample_visit_host:
  "parse_host (strip_port (rq_host (sample_visit n))) (gw_domain sample_gateway) = Some (''bot'', ''t'')"
  using strip_port_port [of "''80''" "''bot.t.run.local''"] parse_host_build [of "''bot''" "''t''" "''run.local''"]
  by (simp add: sample_visit_def sample_gateway_def)

lemma sample_visit_simps [simp]:
  "rq_now (sample_visit n) = n" "rq_later (sample_visit n) = n"
  "rq_lookup (sample_visit n) ns a =
     (if n < 5 then Inr [(''spec'', JObj [(''port'', JInt 9000)])] else Inl ErrNotFound)"
  by (simp_all add: sample_visit_def)


text \<open>
  Through the API server the director prepends the proxy path to a path that already has it:
  the forwarded path names the service twice.
\<close>

lemma api_proxy_repeats_its_path:
  assumes "gw_api_proxy g" and "has_prefix (rq_path r) ''/''"
  shows "u_path (fw_url (direct g v r)) =
    (let base = ''/api/v1/namespaces/'' @ rs_namespace v @ ''/services/'' @ rs_service v @ '':'' @
           show_int (rs_port v) @ ''/proxy''
     in base @ base @ rq_path r)"
proof -
  let ?b = "''/api/v1/namespaces/'' @ rs_namespace v @ ''/services/'' @ rs_service v @ '':'' @
           show_int (rs_port v) @ ''/proxy''"
  obtain p where p: "rq_path r = CHR ''/'' # p" using assms(2) by (auto simp: has_prefix_iff)
  have t: "u_path (target_url g v) = ?b @ ''/''" using assms(1) by (simp add: target_url_def)
  have "join_slash (?b @ ''/'') (rq_path r) = ?b @ rq_path r"
    using has_suffix_append [of ?b "''/''"] assms(2) unfolding join_slash_def by (simp add: p)
  then show ?thesis
    unfolding direct_def Let_def t trim_suffix_append using assms(1) by simp
qed

end
