(* ===== verification/Go_Duration.thy ===== *)
theory Go_Duration
  imports Go_Strings
begin

text \<open>
  \<open>time.ParseDuration\<close> of the Go standard library, as the janitor and \<open>agentctl\<close> use it:
  an optional sign, then decimal numbers each with a unit. The accumulator is a \<open>uint64\<close>.
  \<open>fr\<close> computes the fractional part of one number, \<open>uint64(float64(f) * (float64(unit) /
  scale))\<close>, in floating point; exact division is \<open>exact_fraction\<close>. Texts are UTF-8 bytes.
\<close>

definition is_digit :: "char \<Rightarrow> bool" where
  "is_digit c \<longleftrightarrow> digit_val c \<noteq> None"

definition digit :: "char \<Rightarrow> nat" where
  "digit c = (case digit_val c of None \<Rightarrow> 0 | Some d \<Rightarrow> d)"

text \<open>\<open>leadingInt\<close> refuses a number above $2^{63}$; \<open>leadingFraction\<close> drops digits that overflow.\<close>

fun leading_int :: "nat \<Rightarrow> string \<Rightarrow> (nat \<times> string) option" where
  "leading_int x [] = Some (x, [])"
| "leading_int x (c # s) =
     (if \<not> is_digit c then Some (x, c # s)
      else if x > 2 ^ 63 div 10 then None
      else if x * 10 + digit c > 2 ^ 63 then None
      else leading_int (x * 10 + digit c) s)"

fun leading_fraction :: "nat \<Rightarrow> nat \<Rightarrow> bool \<Rightarrow> string \<Rightarrow> nat \<times> nat \<times> string" where
  "leading_fraction x scale ov [] = (x, scale, [])"
| "leading_fraction x scale ov (c # s) =
     (if \<not> is_digit c then (x, scale, c # s)
      else if ov \<or> x > (2 ^ 63 - 1) div 10 \<or> x * 10 + digit c > 2 ^ 63
      then leading_fraction x scale True s
      else leading_fraction (x * 10 + digit c) (scale * 10) False s)"

definition duration_unit :: "string \<Rightarrow> nat option" where
  "duration_unit u = map_of
     [(''ns'', 1), (''us'', 1000), ([CHR 0xC2, CHR 0xB5, CHR ''s''], 1000), ([CHR 0xCE, CHR 0xBC, CHR ''s''], 1000),
      (''ms'', 1000000), (''s'', 1000000000), (''m'', 60000000000), (''h'', 3600000000000)] u"

definition unit_text :: "string \<Rightarrow> string" where
  "unit_text = takeWhile (\<lambda>c. c \<noteq> CHR ''.'' \<and> \<not> is_digit c)"

definition exact_fraction :: "nat \<Rightarrow> nat \<Rightarrow> nat \<Rightarrow> nat" where
  "exact_fraction f u scale = f * u div scale"

text \<open>One number with its unit: its value and the rest of the text.\<close>

definition duration_term :: "(nat \<Rightarrow> nat \<Rightarrow> nat \<Rightarrow> nat) \<Rightarrow> string \<Rightarrow> (nat \<times> string) option" where
  "duration_term fr s =
     (case s of
        [] \<Rightarrow> None
      | c # _ \<Rightarrow>
          if \<not> (c = CHR ''.'' \<or> is_digit c) then None
          else (case leading_int 0 s of
             None \<Rightarrow> None
           | Some (v, s1) \<Rightarrow>
               (let pre = length s1 \<noteq> length s;
                    frac = (case s1 of [] \<Rightarrow> None | q # s2 \<Rightarrow> if q = CHR ''.'' then Some s2 else None);
                    (f, scale, s3) = (case frac of None \<Rightarrow> (0, 1, s1) | Some s2 \<Rightarrow> leading_fraction 0 1 False s2);
                    post = (case frac of None \<Rightarrow> False | Some s2 \<Rightarrow> length s3 \<noteq> length s2)
                in if \<not> pre \<and> \<not> post then None
                   else if unit_text s3 = [] then None
                   else (case duration_unit (unit_text s3) of
                      None \<Rightarrow> None
                    | Some u \<Rightarrow>
                        if v > 2 ^ 63 div u then None
                        else (let w = v * u + (if f > 0 then fr f u scale else 0)
                              in if w > 2 ^ 63 then None else Some (w, drop (length (unit_text s3)) s3))))))"

lemma leading_int_length: "leading_int x s = Some (v, r) \<Longrightarrow> length r \<le> length s"
  by (induction x s rule: leading_int.induct) (auto split: if_splits)

lemma leading_fraction_length: "length (snd (snd (leading_fraction x sc ov s))) \<le> length s"
  by (induction x sc ov s rule: leading_fraction.induct) auto

lemma duration_term_shorter: "duration_term fr s = Some (v, r) \<Longrightarrow> length r < length s"
proof -
  assume t: "duration_term fr s = Some (v, r)"
  obtain x s1 where i: "leading_int 0 s = Some (x, s1)"
    using t by (auto simp: duration_term_def split: list.splits option.splits if_splits)
  define s3 where "s3 = snd (snd (case (case s1 of [] \<Rightarrow> None | q # s2 \<Rightarrow> if q = CHR ''.'' then Some s2 else None) of
      None \<Rightarrow> (0, 1, s1) | Some s2 \<Rightarrow> leading_fraction 0 1 False s2))"
  have "length s3 \<le> length s1"
    unfolding s3_def using leading_fraction_length [of 0 1 False]
    by (auto split: option.split list.split intro: le_SucI)
  then have l: "length s3 \<le> length s" using leading_int_length [OF i] by simp
  have "unit_text s3 \<noteq> []" "r = drop (length (unit_text s3)) s3"
    using t i unfolding s3_def
    by (auto simp: duration_term_def Let_def split_beta split: list.splits option.splits if_splits)
  moreover have "length (unit_text s3) \<le> length s3"
    by (simp add: unit_text_def length_takeWhile_le)
  ultimately show ?thesis
    using l by (cases "unit_text s3") (auto simp: unit_text_def)
qed

function duration_sum :: "(nat \<Rightarrow> nat \<Rightarrow> nat \<Rightarrow> nat) \<Rightarrow> nat \<Rightarrow> string \<Rightarrow> nat option" where
  "duration_sum fr d s =
     (if s = [] then Some d
      else (case duration_term fr s of
              None \<Rightarrow> None
            | Some (v, r) \<Rightarrow>
                if (d + v) mod 2 ^ 64 > 2 ^ 63 then None else duration_sum fr ((d + v) mod 2 ^ 64) r))"
  by pat_completeness auto
termination
  by (relation "measure (\<lambda>(fr, d, s). length s)") (auto dest: duration_term_shorter)

declare duration_sum.simps [simp del]

definition parse_duration :: "(nat \<Rightarrow> nat \<Rightarrow> nat \<Rightarrow> nat) \<Rightarrow> string \<Rightarrow> duration option" where
  "parse_duration fr s =
     (let neg = (case s of c # _ \<Rightarrow> c = CHR ''-'' | [] \<Rightarrow> False);
          t = (case s of c # r \<Rightarrow> if c = CHR ''-'' \<or> c = CHR ''+'' then r else s | [] \<Rightarrow> s)
      in if t = ''0'' then Some 0
         else if t = [] then None
         else (case duration_sum fr 0 t of
                 None \<Rightarrow> None
               | Some d \<Rightarrow>
                   if neg then Some (- int d)
                   else if d > 2 ^ 63 - 1 then None else Some (int d)))"

section \<open>Lemmas\<close>

lemma duration_sum_bound: "d \<le> 2 ^ 63 \<Longrightarrow> duration_sum fr d s = Some x \<Longrightarrow> x \<le> 2 ^ 63"
proof (induction fr d s rule: duration_sum.induct)
  case (1 fr d s)
  from 1(3) have "s = [] \<and> x = d \<or> (\<exists>v r. s \<noteq> [] \<and> duration_term fr s = Some (v, r) \<and>
      \<not> (d + v) mod 2 ^ 64 > 2 ^ 63 \<and> duration_sum fr ((d + v) mod 2 ^ 64) r = Some x)"
    unfolding duration_sum.simps [of fr d s] by (auto split: if_splits option.splits)
  then show ?case
    using 1(1) [OF _ _ refl] 1(2) by (elim disjE exE conjE) simp_all
qed

text \<open>A duration is an \<open>int64\<close>.\<close>

lemma parse_duration_range:
  "parse_duration fr s = Some d \<Longrightarrow> - (2 ^ 63) \<le> d \<and> d < 2 ^ 63"
  using duration_sum_bound [of 0 fr]
  by (force simp: parse_duration_def Let_def split: if_splits option.splits list.splits)

text \<open>A whole number of hours, minutes or seconds reads back.\<close>

lemma parse_digits_le: "parse_digits x s = Some v \<Longrightarrow> x \<le> v"
  by (induction x s rule: parse_digits.induct) (force split: option.splits)+

lemma leading_int_digits:
  "parse_digits x s = Some v \<Longrightarrow> v \<le> 2 ^ 63 \<Longrightarrow> (case r of [] \<Rightarrow> True | c # _ \<Rightarrow> \<not> is_digit c) \<Longrightarrow>
   leading_int x (s @ r) = Some (v, r)"
proof (induction x s rule: parse_digits.induct)
  case (1 x)
  then show ?case by (cases r) simp_all
next
  case (2 x c s)
  then obtain d where d: "digit_val c = Some d" "parse_digits (10 * x + d) s = Some v"
    by (auto split: option.splits)
  have "10 * x + d \<le> 2 ^ 63" using parse_digits_le [OF d(2)] 2(3) by simp
  then have "x \<le> 2 ^ 63 div 10" "x * 10 + d \<le> 2 ^ 63" by simp_all
  moreover have "is_digit c" "digit c = d" using d(1) by (simp_all add: is_digit_def digit_def)
  ultimately show ?case using 2(1) [OF d(1)] d(2) 2(3,4) by (simp add: mult.commute)
qed

lemma parse_whole_duration:
  assumes u: "u \<in> {''h'', ''m'', ''s''}" "duration_unit u = Some k" and fits: "n * k < 2 ^ 63"
  shows "parse_duration fr (show_nat n @ u) = Some (int (n * k))"
proof -
  have k: "1 \<le> k" using u by (auto simp: duration_unit_def)
  then have "n \<le> n * k" by (cases k) simp_all
  then have n: "n \<le> 2 ^ 63" using fits by linarith
  have nd: "\<not> is_digit (hd u)" "hd u \<noteq> CHR ''.''" "u \<noteq> []" "tl u = []"
    using u(1) by (auto simp: is_digit_def digit_val_def)
  then obtain c where c: "u = [c]" by (cases u) auto
  have l: "leading_int 0 (show_nat n @ u) = Some (n, u)"
    using leading_int_digits [OF parse_digits_show_nat n, of u] nd by (simp add: c)
  have "n \<le> 2 ^ 63 div k"
    using fits k by (simp add: less_eq_div_iff_mult_less_eq)
  moreover obtain a as where a: "show_nat n = a # as" "is_digit a"
    using digit_of_show_nat [of _ n] by (cases "show_nat n") (auto simp: is_digit_def)
  moreover have "unit_text u = u" using nd by (simp add: c unit_text_def)
  ultimately have t: "duration_term fr (show_nat n @ u) = Some (n * k, [])"
    using l u(2) fits nd by (simp add: duration_term_def c)
  have "duration_sum fr 0 (show_nat n @ u) = Some (n * k)"
    using fits t by (subst duration_sum.simps) (simp add: duration_sum.simps [of fr _ "[]"] c)
  moreover have "show_nat n @ u \<noteq> ''0''" using nd a by (cases as) (auto simp: c)
  ultimately show ?thesis
    using fits hd_show_nat_digit [OF a(1)] c by (simp add: parse_duration_def Let_def a(1))
qed

end
