(* ===== verification/Janitor.thy ===== *)
theory Janitor
  imports Billing Audit_Export Builds_Repo
begin

text \<open>
  The janitor of \<open>cmd/janitor/main.go\<close>: one tick reaps finished Jobs and orphaned run secrets of
  the tenant namespaces, fails builds that are stuck, prunes usage rows that were billed, and
  runs the audit export when it is due. Every step ignores its failures. \<open>clock\<close> gives the
  readings of the clock in the order of the code; the label selector of the secrets list is
  applied to the answer of the API server.
\<close>

section \<open>The steps\<close>

record janitor =
  jn_job_ttl :: duration
  jn_build_stuck :: duration
  jn_usage_ttl :: duration
  jn_exporter :: "exporter option"
  jn_interval :: duration
  jn_last :: gotime

definition old_job :: "gotime \<Rightarrow> kobj \<Rightarrow> bool" where
  "old_job cutoff x =
     (case x of
        O_Job j \<Rightarrow> (case js_completion (jb_status j) of None \<Rightarrow> False | Some t \<Rightarrow> \<not> cutoff < t)
      | _ \<Rightarrow> False)"

definition reap_job :: "'k kube_api \<Rightarrow> gotime \<Rightarrow> string \<Rightarrow> kobj \<Rightarrow> 'k world \<Rightarrow> 'k world" where
  "reap_job K cutoff ns x w =
     (if old_job cutoff x then snd (kube_call (k_delete K (K_Job, ns, om_name (obj_meta x))) w) else w)"

definition gc_jobs_in :: "'k kube_api \<Rightarrow> gotime \<Rightarrow> string \<Rightarrow> 'k world \<Rightarrow> 'k world" where
  "gc_jobs_in K cutoff ns w =
     (if \<not> has_prefix ns ''tenant-'' then w
      else (case kube_call (k_list K K_Job ns) w of
              (Inl e, w1) \<Rightarrow> w1
            | (Inr xs, w1) \<Rightarrow> fold (reap_job K cutoff ns) xs w1))"

definition gc_jobs :: "'k kube_api \<Rightarrow> gotime \<Rightarrow> janitor \<Rightarrow> 'k world \<Rightarrow> 'k world" where
  "gc_jobs K now j w =
     (case kube_call (k_list K K_Namespace []) w of
        (Inl e, w1) \<Rightarrow> w1
      | (Inr ns, w1) \<Rightarrow> fold (gc_jobs_in K (now - jn_job_ttl j)) (map (\<lambda>n. om_name (obj_meta n)) ns) w1)"

definition run_label :: "kobj \<Rightarrow> string" where
  "run_label x = coalesce_str (map_of (om_labels (obj_meta x)) ''ailab.uipath.com/run'')"

definition reap_secret :: "'k kube_api \<Rightarrow> string \<Rightarrow> kobj \<Rightarrow> 'k world \<Rightarrow> 'k world" where
  "reap_secret K ns x w =
     (if run_label x = [] then w
      else (case db_read (\<lambda>d. Inr (run_exists (run_label x) d)) w of
              (Inl e, w1) \<Rightarrow> w1
            | (Inr ex, w1) \<Rightarrow>
                if ex then w1
                else snd (kube_call (k_delete K (K_Secret, ns, om_name (obj_meta x))) w1)))"

definition gc_secrets_in :: "'k kube_api \<Rightarrow> string \<Rightarrow> 'k world \<Rightarrow> 'k world" where
  "gc_secrets_in K ns w =
     (if \<not> has_prefix ns ''tenant-'' then w
      else (case kube_call (k_list K K_Secret ns) w of
              (Inl e, w1) \<Rightarrow> w1
            | (Inr xs, w1) \<Rightarrow> fold (reap_secret K ns) xs w1))"

definition gc_orphan_secrets :: "'k kube_api \<Rightarrow> 'k world \<Rightarrow> 'k world" where
  "gc_orphan_secrets K w =
     (case kube_call (k_list K K_Namespace []) w of
        (Inl e, w1) \<Rightarrow> w1
      | (Inr ns, w1) \<Rightarrow> fold (gc_secrets_in K) (map (\<lambda>n. om_name (obj_meta n)) ns) w1)"

definition stuck_build :: "gotime \<Rightarrow> build \<Rightarrow> bool" where
  "stuck_build cutoff b \<longleftrightarrow> bd_status b \<in> {BuildPending, BuildRunning} \<and> bd_created b < cutoff"

definition fail_build :: "gotime \<Rightarrow> build \<Rightarrow> build" where
  "fail_build now b =
     b\<lparr>bd_status := BuildFailed,
       bd_error := (case bd_error b of
          None \<Rightarrow> Some ''janitor: stuck longer than threshold'' | Some e \<Rightarrow> Some e),
       bd_ended := Some now\<rparr>"

definition fail_stuck_builds :: "gotime \<Rightarrow> gotime \<Rightarrow> janitor \<Rightarrow> 'k world \<Rightarrow> 'k world" where
  "fail_stuck_builds now dbnow j w =
     snd (db_write (\<lambda>d. (Inr (), d\<lparr>d_builds :=
        update_where (stuck_build (now - jn_build_stuck j)) (fail_build dbnow) (d_builds d)\<rparr>)) w)"

definition min_checkpoint :: "checkpoint list \<Rightarrow> int" where
  "min_checkpoint cs = (case map ck_last cs of [] \<Rightarrow> 0 | i # is \<Rightarrow> fold min is i)"

definition gc_usage_events :: "gotime \<Rightarrow> janitor \<Rightarrow> 'k world \<Rightarrow> 'k world" where
  "gc_usage_events now j w =
     snd (db_write (\<lambda>d. (Inr (), d\<lparr>d_usage :=
        delete_where (\<lambda>u. us_recorded u < now - jn_usage_ttl j \<and> us_id u \<le> min_checkpoint (d_shipper d))
          (d_usage d)\<rparr>)) w)"

definition export_audit ::
  "(gotime \<Rightarrow> string) \<Rightarrow> (string \<Rightarrow> string \<Rightarrow> json list \<Rightarrow> error + unit) \<Rightarrow> gen \<Rightarrow> gotime \<Rightarrow> gotime
    \<Rightarrow> janitor \<Rightarrow> 'k world \<Rightarrow> janitor \<times> 'k world" where
  "export_audit date put g now later j w =
     (case jn_exporter j of
        None \<Rightarrow> (j, w)
      | Some x \<Rightarrow>
          if time_sub now (jn_last j) < jn_interval j then (j, w)
          else (case export_run date (Some x) put g w of
                  (Inl e, w1, _) \<Rightarrow> (j, w1)
                | (Inr _, w1, _) \<Rightarrow> (j\<lparr>jn_last := later\<rparr>, w1)))"

definition janitor_tick ::
  "'k kube_api \<Rightarrow> (gotime \<Rightarrow> string) \<Rightarrow> (string \<Rightarrow> string \<Rightarrow> json list \<Rightarrow> error + unit) \<Rightarrow> gen
    \<Rightarrow> (nat \<Rightarrow> gotime) \<Rightarrow> janitor \<Rightarrow> 'k world \<Rightarrow> janitor \<times> 'k world" where
  "janitor_tick K date put g clock j w =
     (let w1 = gc_jobs K (clock 0) j w;
          w2 = gc_orphan_secrets K w1;
          w3 = fail_stuck_builds (clock 1) (clock 2) j w2;
          w4 = gc_usage_events (clock 3) j w3
      in export_audit date put g (clock 4) (clock 5) j w4)"

section \<open>Lemmas\<close>

lemma reap_frame [simp]:
  "w_db (reap_job K c ns x w) = w_db w" "w_db (reap_secret K ns x w) = w_db w"
  by (simp_all add: reap_job_def reap_secret_def split_beta split: sum.split)

lemma fold_db: "(\<And>x w. w_db (f x w) = w_db w) \<Longrightarrow> w_db (fold f xs w) = w_db w"
  by (induction xs arbitrary: w) simp_all

lemma gc_frame [simp]:
  "w_db (gc_jobs_in K c ns w) = w_db w" "w_db (gc_secrets_in K ns w) = w_db w"
  "w_db (gc_jobs K now j w) = w_db w" "w_db (gc_orphan_secrets K w) = w_db w"
proof -
  show a: "w_db (gc_jobs_in K c ns w) = w_db w" for c ns and w
    by (simp add: gc_jobs_in_def split_beta fold_db split: sum.split)
  show b: "w_db (gc_secrets_in K ns w) = w_db w" for ns and w
    by (simp add: gc_secrets_in_def split_beta fold_db split: sum.split)
  show "w_db (gc_jobs K now j w) = w_db w"
    by (simp add: gc_jobs_def split_beta fold_db a split: sum.split)
  show "w_db (gc_orphan_secrets K w) = w_db w"
    by (simp add: gc_orphan_secrets_def split_beta fold_db b split: sum.split)
qed

text \<open>The objects a tick may remove.\<close>

definition garbage :: "gotime \<Rightarrow> database \<Rightarrow> okey \<Rightarrow> kobj \<Rightarrow> bool" where
  "garbage cutoff d key x \<longleftrightarrow>
     has_prefix (fst (snd key)) ''tenant-'' \<and>
     (fst key = K_Job \<and> old_job cutoff x \<or>
      fst key = K_Secret \<and> run_label x \<noteq> [] \<and> \<not> run_exists (run_label x) d)"

definition swept :: "('k \<Rightarrow> okey \<rightharpoonup> kobj) \<Rightarrow> gotime \<Rightarrow> database \<Rightarrow> (okey \<rightharpoonup> kobj) \<Rightarrow> 'k world \<Rightarrow> bool" where
  "swept view cutoff d m w \<longleftrightarrow> shrunk (garbage cutoff d) m (view (w_kube w)) \<and> w_db w = d"

lemma reap_job_swept:
  assumes "kube_store K view" and "swept view c d m w" and "m (obj_key x) = Some x"
    and "obj_kind x = K_Job" and "om_ns (obj_meta x) = ns" and "has_prefix ns ''tenant-''"
  shows "swept view c d m (reap_job K c ns x w)"
proof (cases "old_job c x")
  case True
  have "garbage c d (obj_key x) x" using assms(4-6) True by (simp add: garbage_def)
  with shrunk_delete [OF assms(1), of "garbage c d" m "w_kube w", OF _ assms(3)] assms(2,4,5) True
  show ?thesis by (simp add: swept_def reap_job_def)
qed (use assms(2) in \<open>simp add: reap_job_def\<close>)

lemma reap_secret_swept:
  assumes "kube_store K view" and "swept view c d m w" and "m (obj_key x) = Some x"
    and "obj_kind x = K_Secret" and "om_ns (obj_meta x) = ns" and "has_prefix ns ''tenant-''"
  shows "swept view c d m (reap_secret K ns x w)"
proof (cases "run_label x \<noteq> [] \<and> fst (db_read (\<lambda>d. Inr (run_exists (run_label x) d)) w) = Inr False")
  case True
  let ?w = "snd (db_read (\<lambda>d. Inr (run_exists (run_label x) d)) w)"
  have "\<not> run_exists (run_label x) (w_db w)" using True db_read_Inr by fastforce
  then have "garbage c d (obj_key x) x" using assms(2,4-6) True by (simp add: garbage_def swept_def)
  with shrunk_delete [OF assms(1), of "garbage c d" m "w_kube w", OF _ assms(3)] assms(2,4,5) True
  show ?thesis by (simp add: swept_def reap_secret_def split_beta)
next
  case False
  then have "w_kube (reap_secret K ns x w) = w_kube w"
    by (auto simp: reap_secret_def split_beta split: sum.split)
  with assms(2) show ?thesis by (simp add: swept_def)
qed

text \<open>Sweeping what a list call returned, for any reaper that keeps the sweep.\<close>

lemma listed_swept:
  assumes K: "kube_store K view" "kube_lists K view" and s: "swept view c d m w" and ns: "has_prefix ns ''tenant-''"
    and reap: "\<And>x w. swept view c d m w \<Longrightarrow> m (obj_key x) = Some x \<Longrightarrow> obj_kind x = kd \<Longrightarrow>
      om_ns (obj_meta x) = ns \<Longrightarrow> swept view c d m (f x w)"
  shows "swept view c d m (case kube_call (k_list K kd ns) w of
      (Inl e, w1) \<Rightarrow> w1 | (Inr xs, w1) \<Rightarrow> fold f xs w1)"
proof -
  let ?w1 = "snd (kube_call (k_list K kd ns) w)"
  have s1: "swept view c d m ?w1"
    using s kube_lists_view [OF K(2)] by (simp add: swept_def)
  show ?thesis
  proof (cases "fst (kube_call (k_list K kd ns) w)")
    case (Inl e)
    with s1 show ?thesis by (simp add: split_beta)
  next
    case (Inr xs)
    have "m (obj_key x) = Some x \<and> obj_kind x = kd \<and> om_ns (obj_meta x) = ns" if "x \<in> set xs" for x
    proof -
      have "view (w_kube w) (obj_key x) = Some x \<and> obj_kind x = kd \<and> om_ns (obj_meta x) = ns"
        using kube_lists_item [OF K(2) _ that, of kd ns "w_kube w"] Inr ns by (auto simp: has_prefix_def)
      with s shrunk_present show ?thesis by (fastforce simp: swept_def)
    qed
    then have "swept view c d m (fold f xs ?w1)"
      by (rule fold_invariant [where P = "swept view c d m", OF _ s1]) (auto intro: reap)
    with Inr show ?thesis by (simp add: split_beta)
  qed
qed

lemma gc_jobs_in_swept:
  assumes "kube_store K view" "kube_lists K view" "swept view c d m w"
  shows "swept view c d m (gc_jobs_in K c ns w)"
proof (cases "has_prefix ns ''tenant-''")
  case True
  have "swept view c d m (case kube_call (k_list K K_Job ns) w of
      (Inl e, w1) \<Rightarrow> w1 | (Inr xs, w1) \<Rightarrow> fold (reap_job K c ns) xs w1)"
    by (rule listed_swept [OF assms True]) (rule reap_job_swept [OF assms(1) _ _ _ _ True])
  with True show ?thesis by (simp only: gc_jobs_in_def not_True_eq_False if_False)
qed (use assms(3) in \<open>simp add: gc_jobs_in_def\<close>)

lemma gc_secrets_in_swept:
  assumes "kube_store K view" "kube_lists K view" "swept view c d m w"
  shows "swept view c d m (gc_secrets_in K ns w)"
proof (cases "has_prefix ns ''tenant-''")
  case True
  have "swept view c d m (case kube_call (k_list K K_Secret ns) w of
      (Inl e, w1) \<Rightarrow> w1 | (Inr xs, w1) \<Rightarrow> fold (reap_secret K ns) xs w1)"
    by (rule listed_swept [OF assms True]) (rule reap_secret_swept [OF assms(1) _ _ _ _ True])
  with True show ?thesis by (simp only: gc_secrets_in_def not_True_eq_False if_False)
qed (use assms(3) in \<open>simp add: gc_secrets_in_def\<close>)

text \<open>A sweep over all namespaces keeps what the sweep of one namespace keeps.\<close>

lemma namespaces_swept:
  assumes "kube_lists K view" and "swept view c d m w"
    and "\<And>ns w. swept view c d m w \<Longrightarrow> swept view c d m (f ns w)"
  shows "swept view c d m (case kube_call (k_list K K_Namespace []) w of
      (Inl e, w1) \<Rightarrow> w1 | (Inr ns, w1) \<Rightarrow> fold f (map (\<lambda>n. om_name (obj_meta n)) ns) w1)"
proof -
  have "swept view c d m (snd (kube_call (k_list K K_Namespace []) w))"
    using assms(2) kube_lists_view [OF assms(1)] by (simp add: swept_def)
  moreover have "swept view c d m (fold f xs w1)" if "swept view c d m w1" for xs w1
    using that by (induction xs arbitrary: w1) (auto intro: assms(3))
  ultimately show ?thesis by (simp add: split_beta split: sum.split)
qed

lemma janitor_rest_kube [simp]:
  "w_kube (fail_stuck_builds now dn j w) = w_kube w" "w_kube (gc_usage_events now j w) = w_kube w"
  by (simp_all add: fail_stuck_builds_def gc_usage_events_def)

lemma export_run_kube [simp]: "w_kube (fst (snd (export_run date x put g w))) = w_kube w"
  by (simp add: export_run_def Let_def split_beta split: option.split sum.split)

lemma export_audit_kube [simp]: "w_kube (snd (export_audit date put g now later j w)) = w_kube w"
  by (simp add: export_audit_def split_beta split: option.split sum.split)

lemma janitor_tick_kube:
  "w_kube (snd (janitor_tick K date put g clock j w)) = w_kube (gc_orphan_secrets K (gc_jobs K (clock 0) j w))"
  by (simp add: janitor_tick_def Let_def)

section \<open>Properties\<close>


definition sample_janitor :: janitor where
  "sample_janitor = \<lparr>jn_job_ttl = 10, jn_build_stuck = 10, jn_usage_ttl = 10, jn_exporter = Some sample_exporter,
     jn_interval = 10, jn_last = 0\<rparr>"

text \<open>A tenant namespace with a Job that completed long ago and the secret of a run that is gone.\<close>

definition dusty_cluster :: "kobj list" where
  "dusty_cluster =
     [O_Namespace (new_meta ''tenant-t'' [] [] []),
      O_Job \<lparr>jb_meta = new_meta ''old'' ''tenant-t'' [] [], jb_parallelism = 1, jb_completions = 1, jb_backoff = 0,
        jb_pod_labels = [], jb_restart = [], jb_containers = [], jb_volumes = [],
        jb_status = no_job_status\<lparr>js_succeeded := 1, js_completion := Some 5\<rparr>\<rparr>,
      O_Secret \<lparr>ks_meta = new_meta ''run-x'' ''tenant-t'' [(''ailab.uipath.com/run'', ''x'')] [], ks_type = ''Opaque'',
        ks_data = []\<rparr>]"


lemma dusty_cluster_is_swept:
  "map obj_key (w_kube (snd (janitor_tick mem_kube (\<lambda>_. ''d'') (\<lambda>_ _ _. Inr ()) sample_gen (\<lambda>_. 100) sample_janitor
        (quiet_world sample_db dusty_cluster)))) = [(K_Namespace, [], ''tenant-t'')]"
  by code_simp

section \<open>Billing and the janitor together\<close>

lemma fold_min_le: "fold min is (a :: int) \<le> a \<and> (\<forall>i\<in>set is. fold min is a \<le> i)"
proof (induction "is" arbitrary: a)
  case (Cons i "is")
  from Cons [of "min i a"] show ?case by auto
qed simp

lemma min_checkpoint_le: "c \<in> set cs \<Longrightarrow> min_checkpoint cs \<le> ck_last c"
  using fold_min_le by (cases cs) (auto simp: min_checkpoint_def)

lemma min_checkpoint_position: "position_of dest cs = Some p \<Longrightarrow> min_checkpoint cs \<le> p"
  using min_checkpoint_le find_row_SomeD by (fastforce simp: position_of_def)

lemma export_run_other [simp]:
  "d_usage (w_db (fst (snd (export_run date x put g w)))) = d_usage (w_db w)"
  "d_shipper (w_db (fst (snd (export_run date x put g w)))) = d_shipper (w_db w)"
  by (simp_all add: export_run_def Let_def split_beta db_write_def split: option.split sum.split outcome.split)

lemma export_audit_other [simp]:
  "d_usage (w_db (snd (export_audit date put g now later j w))) = d_usage (w_db w)"
  "d_shipper (w_db (snd (export_audit date put g now later j w))) = d_shipper (w_db w)"
  by (simp_all add: export_audit_def split_beta split: option.split sum.split)

lemma fail_stuck_builds_other [simp]:
  "d_usage (w_db (fail_stuck_builds now dn j w)) = d_usage (w_db w)"
  "d_shipper (w_db (fail_stuck_builds now dn j w)) = d_shipper (w_db w)"
  by (simp_all add: fail_stuck_builds_def db_write_def split_beta split: outcome.split)

lemma gc_usage_events_usage:
  "d_shipper (w_db (gc_usage_events now j w)) = d_shipper (w_db w) \<and>
   (d_usage (w_db (gc_usage_events now j w)) = d_usage (w_db w) \<or>
    d_usage (w_db (gc_usage_events now j w)) =
      delete_where (\<lambda>u. us_recorded u < now - jn_usage_ttl j \<and> us_id u \<le> min_checkpoint (d_shipper (w_db w)))
        (d_usage (w_db w)))"
  by (simp add: gc_usage_events_def db_write_def split_beta split: outcome.split)

lemma janitor_tick_usage:
  "d_shipper (w_db (snd (janitor_tick K date put g clock j w))) = d_shipper (w_db w)"
  "d_usage (w_db (snd (janitor_tick K date put g clock j w))) = d_usage (w_db w) \<or>
   d_usage (w_db (snd (janitor_tick K date put g clock j w))) =
      delete_where (\<lambda>u. us_recorded u < clock 3 - jn_usage_ttl j \<and> us_id u \<le> min_checkpoint (d_shipper (w_db w)))
        (d_usage (w_db w))"
  using gc_usage_events_usage [of "clock 3" j "fail_stuck_builds (clock 1) (clock 2) j (gc_orphan_secrets K (gc_jobs K (clock 0) j w))"]
  by (simp_all add: janitor_tick_def Let_def)

text \<open>
  C26: the janitor prunes only usage that was billed: a usage row that a tick removed was older
  than its time to live and at or below the checkpoint of the shipper, and for the shipper the
  tick is an orderly change of its log.
\<close>

theorem janitor_prunes_only_billed_usage:
  assumes "shipped_up_to s w = Some p" and "distinct (usage_ids w)"
  shows "orderly_change (shipped_up_to s) usage_ids w (snd (janitor_tick K date put g clock j w)) \<and>
    (\<forall>u\<in>set (d_usage (w_db w)). u \<in> set (d_usage (w_db (snd (janitor_tick K date put g clock j w)))) \<or>
       us_recorded u < clock 3 - jn_usage_ttl j \<and> us_id u \<le> p)"
proof -
  let ?w = "snd (janitor_tick K date put g clock j w)"
  have pos: "shipped_up_to s ?w = shipped_up_to s w"
    by (simp add: shipped_up_to_def janitor_tick_usage(1))
  have m: "min_checkpoint (d_shipper (w_db w)) \<le> p"
    using assms(1) by (simp add: shipped_up_to_def min_checkpoint_position)
  have keep: "\<forall>u\<in>set (d_usage (w_db w)). u \<in> set (d_usage (w_db ?w)) \<or>
       us_recorded u < clock 3 - jn_usage_ttl j \<and> us_id u \<le> p"
    and sub: "set (d_usage (w_db ?w)) \<subseteq> set (d_usage (w_db w))"
    using janitor_tick_usage(2) [of K date put g clock j w] m by auto
  have "distinct (usage_ids ?w)"
    using janitor_tick_usage(2) [of K date put g clock j w] assms(2)
    by (auto simp: usage_ids_def delete_where_def distinct_map_filter)
  with pos keep sub assms(1) show ?thesis
    by (auto simp: orderly_change_def usage_ids_def)
qed

definition billed_db :: database where
  "billed_db = sample_db\<lparr>d_usage := [sample_usage 1, sample_usage 2],
     d_shipper := [\<lparr>ck_dest = ''orb'', ck_last = 1, ck_at = None\<rparr>]\<rparr>"

theorem janitor_prunes_only_billed_usage_witness:
  "orderly_change (shipped_up_to (new_shipper ''orb'')) usage_ids (quiet_world billed_db [])
      (snd (janitor_tick mem_kube (\<lambda>_. ''d'') (\<lambda>_ _ _. Inr ()) sample_gen (\<lambda>_. 100) sample_janitor (quiet_world billed_db [])))"
proof (rule janitor_prunes_only_billed_usage [THEN conjunct1])
  show "shipped_up_to (new_shipper ''orb'') (quiet_world billed_db ([] :: kobj list)) = Some 1" by code_simp
  show "distinct (usage_ids (quiet_world billed_db ([] :: kobj list)))" by code_simp
qed

end
