(* ===== verification/Run_Controller.thy ===== *)
theory Run_Controller
  imports Dispatch
begin

text \<open>
  \<open>internal/runs/controller.go\<close>: the reconciler of AgentRun. It projects a run to a Job, reads
  the Job's status back into the phase of the run, and publishes run.started and
  run.completed on phase transitions. The bus is optional, as the nil check of the code has it.
\<close>

definition job_name_for :: "agent_run \<Rightarrow> string" where
  "job_name_for r = ''run-'' @ om_name (ar_meta r)"

definition build_job :: "agent_run \<Rightarrow> string \<Rightarrow> job" where
  "build_job r name =
     (let s = ar_spec r; m = ar_meta r in
      \<lparr>jb_meta = new_meta name (om_ns m)
         [(''ailab.uipath.com/tenant'', rsp_tenant s), (''ailab.uipath.com/agent'', rsp_agent s),
          (''ailab.uipath.com/run'', om_name m)]
         [\<lparr>ow_kind = ''AgentRun'', ow_name = om_name m, ow_uid = om_uid m, ow_controller = True\<rparr>],
       jb_parallelism = 1, jb_completions = 1, jb_backoff = 0,
       jb_pod_labels = [(''ailab.uipath.com/run'', om_name m)],
       jb_restart = ''Never'',
       jb_containers = [(plain_container ''agent'' (rsp_image s))
         \<lparr>ct_env := map (\<lambda>(k, v). Env_Value k v) (rsp_env s) @
            (if rsp_trace s = [] then [] else [Env_Value ''AGENT_TRACE_ID'' (rsp_trace s)]) @
            (if rsp_inputs s = [] then [] else [Env_Value ''AGENT_INPUTS'' (rsp_inputs s)]),
          ct_env_from := (if rsp_secret_ref s = [] then [] else [rsp_secret_ref s])\<rparr>],
       jb_volumes = [], jb_status = no_job_status\<rparr>)"

text \<open>The second \<open>switch\<close> of \<open>Reconcile\<close>: the phase that the Job's status stands for.\<close>

definition start_of :: "job \<Rightarrow> agent_run_status \<Rightarrow> gotime option" where
  "start_of j s =
     (case rst_started s of Some t \<Rightarrow> Some t | None \<Rightarrow> js_start (jb_status j))"

definition observe_job :: "gotime \<Rightarrow> job \<Rightarrow> agent_run_status \<Rightarrow> agent_run_status" where
  "observe_job now j s =
     (if js_succeeded (jb_status j) > 0 then
        s\<lparr>rst_phase := PhaseSucceeded, rst_ended := js_completion (jb_status j), rst_started := start_of j s\<rparr>
      else if js_failed (jb_status j) > 0 then
        s\<lparr>rst_phase := PhaseFailed, rst_message := ''job failed'', rst_ended := Some now,
          rst_started := start_of j s\<rparr>
      else if js_active (jb_status j) > 0 then
        s\<lparr>rst_phase := PhaseRunning,
          rst_started := (case start_of j s of None \<Rightarrow> Some now | Some t \<Rightarrow> Some t)\<rparr>
      else s)"

definition terminal_phase :: "string \<Rightarrow> bool" where
  "terminal_phase p \<longleftrightarrow> p = PhaseSucceeded \<or> p = PhaseFailed"

definition started_event :: "gotime \<Rightarrow> agent_run \<Rightarrow> run_started" where
  "started_event now r =
     \<lparr>rs_tenant = rsp_tenant (ar_spec r), rs_agent = rsp_agent (ar_spec r), rs_run = om_name (ar_meta r),
      rs_at = (case rst_started (ar_status r) of None \<Rightarrow> now | Some t \<Rightarrow> t)\<rparr>"

definition completed_event :: "gotime \<Rightarrow> agent_run \<Rightarrow> run_completed" where
  "completed_event now r =
     (let s = ar_status r;
          ended = (case rst_ended s of None \<Rightarrow> now | Some t \<Rightarrow> t);
          failed = (rst_phase s = PhaseFailed)
      in \<lparr>rc_tenant = rsp_tenant (ar_spec r), rc_agent = rsp_agent (ar_spec r),
          rc_run = om_name (ar_meta r),
          rc_status = (if failed then RunStatusFailed else RunStatusSucceeded),
          rc_exit_code = (case rst_exit s of Some x \<Rightarrow> x | None \<Rightarrow> if failed then 1 else 0),
          rc_outputs = None, rc_error = rst_message s,
          rc_started_at = (case rst_started s of None \<Rightarrow> ended | Some t \<Rightarrow> t),
          rc_ended_at = ended\<rparr>)"

text \<open>\<open>publishOnTransition\<close>; a publish that fails is only logged.\<close>

definition publish_on_transition ::
  "bool \<Rightarrow> gotime \<Rightarrow> agent_run \<Rightarrow> string \<Rightarrow> 'k world \<Rightarrow> 'k world" where
  "publish_on_transition has_bus now r prev w =
     (let p = rst_phase (ar_status r) in
      if \<not> has_bus \<or> p = prev then w
      else if p = PhaseRunning then
        snd (publish SubjectRunStarted (marshal_run_started (started_event now r)) w)
      else if terminal_phase p then
        snd (publish SubjectRunCompleted (marshal_run_completed (completed_event now r)) w)
      else w)"

definition reconcile_run ::
  "'k kube_api \<Rightarrow> bool \<Rightarrow> gotime \<Rightarrow> string \<times> string \<Rightarrow> 'k world \<Rightarrow> (error + unit) \<times> 'k world" where
  "reconcile_run K has_bus now req w =
     (case kube_call (k_get K (K_Run, req)) w of
        (Inl e, w1) \<Rightarrow>
          if e = Absent then (Inr (), w1) else (Inl (Wrapped ''get agentrun'' (kerr_error e)), w1)
      | (Inr (O_Run r), w1) \<Rightarrow>
          if terminal_phase (rst_phase (ar_status r)) then (Inr (), w1)
          else
            (case kube_call (k_get K (K_Job, om_ns (ar_meta r), job_name_for r)) w1 of
               (Inl e, w2) \<Rightarrow>
                 if e = Absent then
                   (case kube_call (k_create K (O_Job (build_job r (job_name_for r)))) w2 of
                      (Inl x, w3) \<Rightarrow> (Inl (Wrapped ''create job'' (kerr_error x)), w3)
                    | (Inr _, w3) \<Rightarrow>
                        (case kube_call (k_status K (O_Run (r\<lparr>ar_status := (ar_status r)
                                \<lparr>rst_phase := PhasePending, rst_job := job_name_for r\<rparr>\<rparr>))) w3 of
                           (Inl x, w4) \<Rightarrow> (Inl (Wrapped ''status pending'' (kerr_error x)), w4)
                         | (Inr _, w4) \<Rightarrow> (Inr (), w4)))
                 else (Inl (Wrapped ''get job'' (kerr_error e)), w2)
             | (Inr (O_Job j), w2) \<Rightarrow>
                 (let r' = r\<lparr>ar_status := observe_job now j (ar_status r)\<rparr> in
                  case kube_call (k_status K (O_Run r')) w2 of
                    (Inl x, w3) \<Rightarrow> (Inl (Wrapped ''status update'' (kerr_error x)), w3)
                  | (Inr _, w3) \<Rightarrow>
                      (Inr (), publish_on_transition has_bus now r' (rst_phase (ar_status r)) w3))
             | (Inr _, w2) \<Rightarrow> (Inl (Wrapped ''get job'' (ErrText ''kind'')), w2))
      | (Inr _, w1) \<Rightarrow> (Inl (Wrapped ''get agentrun'' (ErrText ''kind'')), w1))"

section \<open>Lemmas\<close>

lemma publish_on_transition_frame [simp]:
  "w_db (publish_on_transition b now r p w) = w_db w"
  "w_kube (publish_on_transition b now r p w) = w_kube w"
  by (simp_all add: publish_on_transition_def Let_def)

lemma reconcile_run_db [simp]: "w_db (snd (reconcile_run K b now req w)) = w_db w"
  by (simp add: reconcile_run_def split_beta Let_def split: sum.split kobj.split)

lemma job_key [simp]: "obj_key (O_Job (build_job r n)) = (K_Job, om_ns (ar_meta r), n)"
  by (simp add: build_job_def Let_def)

lemma observe_terminal:
  "terminal_phase (rst_phase (observe_job now j s)) \<longleftrightarrow>
     js_succeeded (jb_status j) > 0 \<or> js_failed (jb_status j) > 0 \<or>
     (\<not> js_active (jb_status j) > 0 \<and> terminal_phase (rst_phase s))"
  by (auto simp: observe_job_def terminal_phase_def phase_defs)

lemma run_kind:
  assumes "well_keyed view k" and "view k (K_Run, q) = Some x"
  shows "\<exists>r. x = O_Run r"
  using assms unfolding well_keyed_def by (cases x; cases q) fastforce+

text \<open>A stored AgentRun is fetched as it is, or the call fails cleanly.\<close>

lemma reconcile_get:
  assumes K: "kube_store K view" and r: "view k key = Some x"
  shows "fst (k_get K key k) = Inr x \<or> (\<exists>s. fst (k_get K key k) = Inl (Kube_Error s))"
  using assms unfolding kube_store_def failed_clean_def by (metis option.case(2))

section \<open>Properties\<close>

text \<open>
  A terminal AgentRun is never touched again: reconciling it creates no Job, changes no
  object of the cluster and publishes nothing.
\<close>

lemma terminal_run_is_left_alone:
  assumes K: "kube_store K view" and r: "view (w_kube w) (K_Run, req) = Some (O_Run r)"
    and t: "terminal_phase (rst_phase (ar_status r))"
  shows "view (w_kube (snd (reconcile_run K has_bus now req w))) = view (w_kube w) \<and>
    w_sent (snd (reconcile_run K has_bus now req w)) = w_sent w"
proof -
  let ?g = "k_get K (K_Run, req) (w_kube w)"
  have "fst ?g = Inr (O_Run r) \<or> (\<exists>s. fst ?g = Inl (Kube_Error s))"
    by (rule reconcile_get [OF K r])
  then show ?thesis
    using t kube_store_get(1) [OF K, of "(K_Run, req)" "w_kube w"]
    by (auto simp: reconcile_run_def split_beta)
qed

definition sample_agent_run :: "string \<Rightarrow> agent_run" where
  "sample_agent_run ph = (agent_run_for (\<lambda>_. []) sample_request)
     \<lparr>ar_status := no_run_status\<lparr>rst_phase := ph\<rparr>\<rparr>"

lemma terminal_run_is_left_alone_witness:
  "mem_view (w_kube (snd (reconcile_run mem_kube True 9 (''tenant-t'', ''r1'')
      (quiet_world sample_db [O_Run (sample_agent_run ''Failed'')])))) =
    mem_view (w_kube (quiet_world sample_db [O_Run (sample_agent_run ''Failed'')])) \<and>
   w_sent (snd (reconcile_run mem_kube True 9 (''tenant-t'', ''r1'')
      (quiet_world sample_db [O_Run (sample_agent_run ''Failed'')]))) =
    w_sent (quiet_world sample_db [O_Run (sample_agent_run ''Failed'')])"
  by (rule terminal_run_is_left_alone [OF mem_kube_store, where r = "sample_agent_run ''Failed''"])
    (simp_all add: quiet_world_def mem_view_def sample_agent_run_def agent_run_for_def sample_request_def
      tenant_namespace_def terminal_phase_def phase_defs)

definition announced_phase :: "gotime \<Rightarrow> agent_run \<Rightarrow> string \<times> json \<Rightarrow> bool" where
  "announced_phase now r m \<longleftrightarrow>
     (m = (SubjectRunStarted, marshal_run_started (started_event now r)) \<and>
        rst_phase (ar_status r) = PhaseRunning) \<or>
     (m = (SubjectRunCompleted, marshal_run_completed (completed_event now r)) \<and>
        terminal_phase (rst_phase (ar_status r)) \<and>
        rc_status (completed_event now r) =
          (if rst_phase (ar_status r) = PhaseFailed then RunStatusFailed else RunStatusSucceeded))"

lemma publish_on_transition_sent:
  "w_sent (publish_on_transition b now r prev w) = w_sent w \<or>
   (\<exists>m. w_sent (publish_on_transition b now r prev w) = w_sent w @ [m] \<and> announced_phase now r m \<and>
      rst_phase (ar_status r) \<noteq> prev)"
proof -
  have c: "rc_status (completed_event now r) =
      (if rst_phase (ar_status r) = PhaseFailed then RunStatusFailed else RunStatusSucceeded)"
    by (simp add: completed_event_def Let_def)
  show ?thesis
    using publish_sent [of SubjectRunStarted "marshal_run_started (started_event now r)" w]
      publish_sent [of SubjectRunCompleted "marshal_run_completed (completed_event now r)" w] c
    unfolding publish_on_transition_def announced_phase_def Let_def by auto
qed

text \<open>A reconcile publishes nothing, or it stored what it observed of the Job and then announces it.\<close>

definition observed_run :: "gotime \<Rightarrow> job \<Rightarrow> agent_run \<Rightarrow> agent_run" where
  "observed_run now j r = r\<lparr>ar_status := observe_job now j (ar_status r)\<rparr>"

lemma reconcile_observed:
  assumes "fst (k_get K (K_Run, req) (w_kube w)) = Inr (O_Run r)"
    and "\<not> terminal_phase (rst_phase (ar_status r))"
    and "k_get K (K_Job, om_ns (ar_meta r), job_name_for r) (snd (k_get K (K_Run, req) (w_kube w))) = (Inr (O_Job j), k2)"
    and "fst (k_status K (O_Run (observed_run now j r)) k2) = Inr u"
  shows "\<exists>w3. w_sent w3 = w_sent w \<and> w_kube w3 = snd (k_status K (O_Run (observed_run now j r)) k2) \<and>
    snd (reconcile_run K has_bus now req w) =
      publish_on_transition has_bus now (observed_run now j r) (rst_phase (ar_status r)) w3"
  using assms
  by (intro exI [of _ "snd (kube_call (k_status K (O_Run (observed_run now j r)))
        (snd (kube_call (k_get K (K_Job, om_ns (ar_meta r), job_name_for r))
          (snd (kube_call (k_get K (K_Run, req)) w)))))"])
    (simp add: reconcile_run_def split_beta Let_def observed_run_def)

lemma reconcile_quiet:
  assumes "\<nexists>r j k2. fst (k_get K (K_Run, req) (w_kube w)) = Inr (O_Run r) \<and>
    \<not> terminal_phase (rst_phase (ar_status r)) \<and>
    k_get K (K_Job, om_ns (ar_meta r), job_name_for r) (snd (k_get K (K_Run, req) (w_kube w))) = (Inr (O_Job j), k2) \<and>
    fst (k_status K (O_Run (observed_run now j r)) k2) = Inr ()"
  shows "w_sent (snd (reconcile_run K has_bus now req w)) = w_sent w"
proof (cases "\<exists>r. fst (k_get K (K_Run, req) (w_kube w)) = Inr (O_Run r) \<and> \<not> terminal_phase (rst_phase (ar_status r))")
  case False
  then show ?thesis
    by (auto simp: reconcile_run_def split_beta split: sum.split kobj.split)
next
  case True
  then obtain r where r: "fst (k_get K (K_Run, req) (w_kube w)) = Inr (O_Run r)"
    "\<not> terminal_phase (rst_phase (ar_status r))" by blast
  obtain y k2 where y: "k_get K (K_Job, om_ns (ar_meta r), job_name_for r) (snd (k_get K (K_Run, req) (w_kube w))) = (y, k2)"
    by fastforce
  show ?thesis
  proof (cases "\<exists>j. y = Inr (O_Job j)")
    case False
    with r y show ?thesis
      by (auto simp: reconcile_run_def split_beta split: sum.split kobj.split)
  next
    case True
    then obtain j e where j: "y = Inr (O_Job j)" "fst (k_status K (O_Run (observed_run now j r)) k2) = Inl e"
      using assms r y by (metis old.unit.exhaust sum.exhaust)
    with r y show ?thesis by (simp add: reconcile_run_def split_beta Let_def observed_run_def)
  qed
qed



definition sample_job :: "agent_run \<Rightarrow> int \<Rightarrow> int \<Rightarrow> job" where
  "sample_job r ok bad = (build_job r (job_name_for r))
     \<lparr>jb_status := no_job_status\<lparr>js_succeeded := ok, js_failed := bad, js_start := Some 2,
        js_completion := Some 7\<rparr>\<rparr>"

definition sample_cluster :: "kobj list" where
  "sample_cluster = [O_Run (sample_agent_run ''Running''), O_Job (sample_job (sample_agent_run ''Running'') 1 0)]"


lemma finished_job:
  assumes K: "kube_store K view" and wk: "well_keyed view (w_kube w)"
    and r: "view (w_kube w) (K_Run, req) = Some (O_Run r)"
    and nt: "\<not> terminal_phase (rst_phase (ar_status r))"
    and j: "view (w_kube w) (K_Job, om_ns (ar_meta r), job_name_for r) = Some (O_Job j)"
    and fin: "js_succeeded (jb_status j) > 0 \<or> js_failed (jb_status j) > 0"
    and ok: "fst (reconcile_run K True now req w) = Inr ()" and quiet: "w_script w = []"
  shows "\<exists>r'. view (w_kube (snd (reconcile_run K True now req w))) (K_Run, req) = Some (O_Run r') \<and>
    ar_spec r' = ar_spec r \<and> ar_meta r' = ar_meta r \<and> ar_status r' = observe_job now j (ar_status r) \<and>
    rst_phase (ar_status r') =
      (if js_succeeded (jb_status j) > 0 then PhaseSucceeded else PhaseFailed) \<and>
    w_sent (snd (reconcile_run K True now req w)) =
      w_sent w @ [(SubjectRunCompleted, marshal_run_completed (completed_event now r'))]"
proof -
  let ?g = "k_get K (K_Run, req) (w_kube w)"
  have g: "fst ?g = Inr (O_Run r)"
    using reconcile_get [OF K r] ok by (auto simp: reconcile_run_def split_beta)
  let ?gj = "k_get K (K_Job, om_ns (ar_meta r), job_name_for r) (snd ?g)"
  have "view (snd ?g) (K_Job, om_ns (ar_meta r), job_name_for r) = Some (O_Job j)"
    using kube_store_get(1) [OF K, of "(K_Run, req)" "w_kube w"] j by simp
  from reconcile_get [OF K this] have gj: "fst ?gj = Inr (O_Job j)"
    using ok g nt by (auto simp: reconcile_run_def split_beta)
  let ?r' = "r\<lparr>ar_status := observe_job now j (ar_status r)\<rparr>"
  let ?st = "k_status K (O_Run ?r') (snd ?gj)"
  have st: "fst ?st = Inr ()"
    using ok g nt gj by (cases "fst ?st") (auto simp: reconcile_run_def split_beta Let_def)
  have key: "obj_key (O_Run ?r') = (K_Run, req)"
    using wk r unfolding well_keyed_def by fastforce
  let ?w3 = "snd (kube_call (k_status K (O_Run ?r')) (snd (kube_call
    (k_get K (K_Job, om_ns (ar_meta r), job_name_for r)) (snd (kube_call (k_get K (K_Run, req)) w)))))"
  have res: "snd (reconcile_run K True now req w) =
      publish_on_transition True now ?r' (rst_phase (ar_status r)) ?w3"
    using g nt gj st by (simp add: reconcile_run_def split_beta Let_def)
  have phase: "rst_phase (ar_status ?r') =
      (if js_succeeded (jb_status j) > 0 then PhaseSucceeded else PhaseFailed)"
    using fin by (auto simp: observe_job_def)
  then have "terminal_phase (rst_phase (ar_status ?r'))" by (simp add: terminal_phase_def)
  moreover from this nt have "rst_phase (ar_status ?r') \<noteq> rst_phase (ar_status r)" by auto
  moreover have "rst_phase (ar_status ?r') \<noteq> PhaseRunning"
    using phase by (simp add: phase_defs)
  ultimately have "w_sent (snd (reconcile_run K True now req w)) =
      w_sent w @ [(SubjectRunCompleted, marshal_run_completed (completed_event now ?r'))]"
    unfolding res using quiet by (simp add: publish_on_transition_def Let_def)
  moreover have "view (w_kube (snd (reconcile_run K True now req w))) (K_Run, req) = Some (O_Run ?r')"
    using kube_store_status(1) [OF K st] unfolding res key by simp
  ultimately show ?thesis using phase by (intro exI [of _ ?r']) simp
qed



text \<open>
  The premise on the bus is needed: when the publish fails the phase is stored all the same,
  and since it is terminal no later reconcile announces the run.
\<close>

lemma completion_can_be_lost:
  "w_sent (snd (reconcile_run mem_kube True 10 (''tenant-t'', ''r1'')
     (snd (reconcile_run mem_kube True 9 (''tenant-t'', ''r1'')
       ((quiet_world sample_db sample_cluster)\<lparr>w_script := [Refused]\<rparr>))))) = []"
  by code_simp

text \<open>Reconciling never replaces a Job: one that is there stays as it is.\<close>

lemma reconcile_keeps_jobs:
  assumes K: "kube_store K view" and wk: "well_keyed view (w_kube w)"
    and j: "view (w_kube w) (K_Job, q) = Some x"
  shows "view (w_kube (snd (reconcile_run K has_bus now req w))) (K_Job, q) = Some x"
proof -
  have s: "view (snd (k_status K (O_Run r) k)) (K_Job, q) = view k (K_Job, q)" for r k
    by (rule kube_store_other(3) [OF K]) simp
  have c: "view (snd (k_create K y k)) (K_Job, q) = Some x" if "view k (K_Job, q) = Some x" for y k
    by (rule kube_store_create_present [OF K that])
  show ?thesis
    using kube_store_get(1) [OF K] s c j
    by (simp add: reconcile_run_def split_beta Let_def split: sum.split kobj.split)
qed

end
