(* ===== verification/Status_Consumer.thy ===== *)
theory Status_Consumer
  imports Hub
begin

text \<open>
  \<open>internal/runs/status_consumer.go\<close>: the API's consumer of run.started and run.completed,
  which writes the run's status and its usage rows and broadcasts the event. \<open>hub_mode\<close> is
  \<open>None\<close> when no hub is configured, \<open>Some has_bus\<close> otherwise. Seconds are exact fractions here
  (a \<open>float64\<close> in the code).
\<close>

definition map_status :: "string \<Rightarrow> string" where
  "map_status s =
     (if s = RunStatusSucceeded then StatusSucceeded
      else if s = RunStatusFailed then StatusFailed
      else if s = RunStatusTimedOut then StatusTimedOut
      else if s = RunStatusCancelled then StatusCancelled
      else StatusFailed)"

definition time_or :: "gotime \<Rightarrow> gotime \<Rightarrow> gotime" where
  "time_or now t = (if is_zero_time t then now else t)"

definition run_seconds :: "gotime \<Rightarrow> gotime \<Rightarrow> rat" where
  "run_seconds started ended = max 0 (of_int (time_sub ended started) / 1000000000)"

definition completion_of :: "gotime \<Rightarrow> run_completed \<Rightarrow> completion" where
  "completion_of now e =
     \<lparr>cm_status = map_status (rc_status e), cm_outputs = rc_outputs e,
      cm_exit = (if rc_exit_code e = 0 then None else Some (rc_exit_code e)),
      cm_error = rc_error e, cm_ended = time_or now (rc_ended_at e)\<rparr>"

definition maybe_broadcast ::
  "bool option \<Rightarrow> string \<Rightarrow> run_event \<Rightarrow> hub \<times> 'k world \<Rightarrow> hub \<times> 'k world" where
  "maybe_broadcast hub_mode run e s =
     (case hub_mode of None \<Rightarrow> s | Some has_bus \<Rightarrow> broadcast has_bus run e s)"

definition handle_started ::
  "bool \<Rightarrow> bool option \<Rightarrow> gen \<Rightarrow> wire \<Rightarrow> hub \<times> 'k world \<Rightarrow> (error + unit) \<times> (hub \<times> 'k world)" where
  "handle_started has_usage hub_mode g msg s =
     (case s of (h, w) \<Rightarrow>
        (case unmarshal_run_started msg of
           None \<Rightarrow> (Inl (ErrText ''unmarshal run.started''), s)
         | Some e \<Rightarrow>
             (let ts = time_or (g_now g) (rs_at e) in
              case db_write (\<lambda>d. (Inr (), mark_started (rs_run e) ts d)) w of
                (Inl x, w1) \<Rightarrow> (Inl x, (h, w1))
              | (Inr _, w1) \<Rightarrow>
                  (let w2 = (if has_usage
                             then snd (db_write (record_run (g_seq g) (rs_tenant e) (rs_agent e) (rs_run e)
                                    KindRunStart 1 ts) w1)
                             else w1)
                   in (Inr (), maybe_broadcast hub_mode (rs_run e)
                         \<lparr>re_kind = ''started'', re_started = Some e, re_completed = None\<rparr> (h, w2))))))"

definition handle_completed ::
  "bool \<Rightarrow> bool option \<Rightarrow> gen \<Rightarrow> wire \<Rightarrow> hub \<times> 'k world \<Rightarrow> (error + unit) \<times> (hub \<times> 'k world)" where
  "handle_completed has_usage hub_mode g msg s =
     (case s of (h, w) \<Rightarrow>
        (case unmarshal_run_completed msg of
           None \<Rightarrow> (Inl (ErrText ''unmarshal run.completed''), s)
         | Some e \<Rightarrow>
             (let ended = time_or (g_now g) (rc_ended_at e) in
              case db_write (mark_completed (rc_run e) (completion_of (g_now g) e)) w of
                (Inl x, w1) \<Rightarrow> (Inl x, (h, w1))
              | (Inr _, w1) \<Rightarrow>
                  (let w2 = (if has_usage
                             then snd (db_write (record_run (g_seq g) (rc_tenant e) (rc_agent e) (rc_run e)
                                    KindRunEnd 1 ended) w1)
                             else w1);
                       w3 = (if has_usage
                             then snd (db_write (record_run (g_seq g + 1) (rc_tenant e) (rc_agent e) (rc_run e)
                                    KindRunSeconds (run_seconds (rc_started_at e) ended) ended) w2)
                             else w2)
                   in (Inr (), maybe_broadcast hub_mode (rc_run e)
                         \<lparr>re_kind = ''completed'', re_started = None, re_completed = Some e\<rparr> (h, w3))))))"

section \<open>The effect on the database\<close>

datatype status_msg = Started run_started | Completed run_completed

fun status_wire :: "status_msg \<Rightarrow> json" where
  "status_wire (Started e) = marshal_run_started e"
| "status_wire (Completed e) = marshal_run_completed e"

definition handle_status ::
  "bool option \<Rightarrow> gen \<Rightarrow> status_msg \<Rightarrow> hub \<times> 'k world \<Rightarrow> (error + unit) \<times> (hub \<times> 'k world)" where
  "handle_status hub_mode g m s =
     (case m of
        Started e \<Rightarrow> handle_started True hub_mode g (Some (status_wire m)) s
      | Completed e \<Rightarrow> handle_completed True hub_mode g (Some (status_wire m)) s)"

text \<open>What a message does to the database when no call fails.\<close>

fun apply_status :: "gen \<Rightarrow> status_msg \<Rightarrow> database \<Rightarrow> database" where
  "apply_status g (Started e) d =
     snd (record_run (g_seq g) (rs_tenant e) (rs_agent e) (rs_run e) KindRunStart 1
       (time_or (g_now g) (rs_at e)) (mark_started (rs_run e) (time_or (g_now g) (rs_at e)) d))"
| "apply_status g (Completed e) d =
     (let ended = time_or (g_now g) (rc_ended_at e) in
      snd (record_run (g_seq g + 1) (rc_tenant e) (rc_agent e) (rc_run e) KindRunSeconds
        (run_seconds (rc_started_at e) ended) ended
        (snd (record_run (g_seq g) (rc_tenant e) (rc_agent e) (rc_run e) KindRunEnd 1 ended
          (snd (mark_completed (rc_run e) (completion_of (g_now g) e) d))))))"

text \<open>A database that reflects a message: the run has moved on and the usage is recorded.\<close>

fun reflects :: "status_msg \<Rightarrow> database \<Rightarrow> bool" where
  "reflects (Started e) d \<longleftrightarrow>
     (\<forall>r\<in>set (d_runs d). rn_id r = rs_run e \<longrightarrow> rn_status r \<noteq> StatusPending \<and>
        (rn_status r = StatusRunning \<longrightarrow> rn_started r \<noteq> None)) \<and>
     usage_settled (rs_tenant e) (rs_agent e) (rs_run e) KindRunStart d"
| "reflects (Completed e) d \<longleftrightarrow>
     (\<forall>r\<in>set (d_runs d). rn_id r = rc_run e \<longrightarrow> terminal_status (rn_status r)) \<and>
     usage_settled (rc_tenant e) (rc_agent e) (rc_run e) KindRunEnd d \<and>
     usage_settled (rc_tenant e) (rc_agent e) (rc_run e) KindRunSeconds d"

lemma map_status_terminal: "terminal_status (map_status s)"
  by (simp add: map_status_def terminal_status_def)

lemma map_status_legal [simp]: "map_status s \<in> set run_statuses"
  using map_status_terminal run_status_cases by blast

lemma mark_completed_legal:
  "mark_completed i (completion_of now e) d = (Inr (), d\<lparr>d_runs := complete_rows i (completion_of now e) (d_runs d)\<rparr>)"
  by (simp add: mark_completed_def completion_of_def)

lemma run_ids_started: "rn_id ` set (d_runs (mark_started i ts d)) = rn_id ` set (d_runs d)"
proof -
  have "map rn_id (d_runs (mark_started i ts d)) = map rn_id (d_runs d)"
    by (simp add: mark_started_def map_update_where)
  then show ?thesis by (metis list.set_map)
qed

lemma run_ids_completed: "rn_id ` set (complete_rows i c rs) = rn_id ` set rs"
  using run_end.mark_keys [of i c rs] by (metis list.set_map)

lemma settled_started:
  "usage_settled t a r k (mark_started i ts d) = usage_settled t a r k d"
  using usage_settled_runs [of "d_runs (mark_started i ts d)" d] run_ids_started [of i ts d]
  by (simp add: mark_started_def)

lemma settled_completed:
  "usage_settled t a r k (d\<lparr>d_runs := complete_rows i c (d_runs d)\<rparr>) = usage_settled t a r k d"
  by (rule usage_settled_runs) (rule run_ids_completed)

lemma settled_apply: "usage_settled t a r k d \<Longrightarrow> usage_settled t a r k (apply_status g m d)"
  by (cases m) (simp_all add: Let_def usage_settled_record settled_started mark_completed_legal settled_completed)

lemma apply_runs:
  "d_runs (apply_status g m d) =
     (case m of
        Started e \<Rightarrow> d_runs (mark_started (rs_run e) (time_or (g_now g) (rs_at e)) d)
      | Completed e \<Rightarrow> complete_rows (rc_run e) (completion_of (g_now g) e) (d_runs d))"
  by (cases m) (simp_all add: Let_def mark_completed_legal)

lemma start_run_reflects:
  "r \<in> set (d_runs (mark_started i ts d)) \<Longrightarrow> rn_id r = i \<Longrightarrow> rn_status r \<noteq> StatusPending \<and>
     (rn_status r = StatusRunning \<longrightarrow> rn_started r \<noteq> None)"
proof -
  assume r: "r \<in> set (d_runs (mark_started i ts d))" "rn_id r = i"
  have ne: "StatusRunning \<noteq> StatusPending" by (simp add: run_status_defs)
  have st: "rn_started (start_run ts x) \<noteq> None" for x
    by (simp add: start_run_def split: option.split)
  from r consider x where "r = start_run ts x" | "rn_status r \<noteq> StatusPending" "rn_status r \<noteq> StatusRunning"
    by (simp add: mark_started_def set_update_where) blast
  then show ?thesis by cases (simp_all add: ne st)
qed

lemma reflects_apply: "reflects m (apply_status g m d)"
proof (cases m)
  case (Started e)
  show ?thesis
    unfolding Started using start_run_reflects [of _ "rs_run e" "time_or (g_now g) (rs_at e)" d]
    by (simp add: record_run_settles)
next
  case (Completed e)
  have "terminal_status (rn_status r)"
    if "r \<in> set (complete_rows (rc_run e) (completion_of (g_now g) e) (d_runs d))" "rn_id r = rc_run e" for r
    by (rule run_end.mark_settles [OF _ that]) (simp add: completion_of_def map_status_terminal)
  then show ?thesis
    unfolding Completed
    by (simp add: Let_def mark_completed_legal record_run_settles usage_settled_record)
qed

lemma reflects_kept:
  assumes "reflects m d"
  shows "reflects m (apply_status g m' d)"
proof (cases m)
  case (Started e)
  let ?good = "\<lambda>r. rn_id r = rs_run e \<longrightarrow> rn_status r \<noteq> StatusPending \<and>
        (rn_status r = StatusRunning \<longrightarrow> rn_started r \<noteq> None)"
  have g: "\<forall>r\<in>set (d_runs d). ?good r" using assms Started by simp
  have "\<forall>r\<in>set (d_runs (apply_status g m' d)). ?good r"
  proof (cases m')
    case (Started e')
    have "?good (start_run ts r)" for ts r
      by (simp add: start_run_def run_status_defs split: option.split)
    with g show ?thesis
      unfolding apply_runs Started by (auto simp: mark_started_def set_update_where)
  next
    case (Completed e')
    have "?good (complete_run (completion_of (g_now g) e') r)" for r
      using terminal_not_open [OF map_status_terminal [of "rc_status e'"]]
      by (simp add: completion_of_def)
    with g show ?thesis
      unfolding apply_runs Completed by (auto simp: complete_rows_def set_update_where)
  qed
  moreover have "usage_settled (rs_tenant e) (rs_agent e) (rs_run e) KindRunStart (apply_status g m' d)"
    using assms Started by (simp add: settled_apply)
  ultimately show ?thesis unfolding Started by (simp only: reflects.simps)
next
  case (Completed e)
  let ?good = "\<lambda>r. rn_id r = rc_run e \<longrightarrow> terminal_status (rn_status r)"
  have g: "\<forall>r\<in>set (d_runs d). ?good r" using assms Completed by simp
  have "\<forall>r\<in>set (d_runs (apply_status g m' d)). ?good r"
  proof (cases m')
    case (Started e')
    with g show ?thesis
      unfolding apply_runs Started
      by (auto simp: mark_started_def set_update_where terminal_status_def run_status_defs)
  next
    case (Completed e')
    have "?good (complete_run (completion_of (g_now g) e') r)" for r
      by (simp add: completion_of_def map_status_terminal)
    with g show ?thesis
      unfolding apply_runs Completed by (auto simp: complete_rows_def set_update_where)
  qed
  moreover have "usage_settled (rc_tenant e) (rc_agent e) (rc_run e) KindRunEnd (apply_status g m' d)"
    "usage_settled (rc_tenant e) (rc_agent e) (rc_run e) KindRunSeconds (apply_status g m' d)"
    using assms Completed by (simp_all add: settled_apply)
  ultimately show ?thesis unfolding Completed by (simp only: reflects.simps)
qed

lemma mark_started_absorbed:
  assumes "\<forall>r\<in>set (d_runs d). rn_id r = i \<longrightarrow> rn_status r \<noteq> StatusPending \<and>
        (rn_status r = StatusRunning \<longrightarrow> rn_started r \<noteq> None)"
  shows "mark_started i ts d = d"
proof -
  have "start_run ts r = r" if "r \<in> set (d_runs d)" "rn_id r = i \<and> rn_status r \<in> {StatusPending, StatusRunning}" for r
    using assms that by (cases r) (auto simp: start_run_def)
  then have "update_where (\<lambda>r. rn_id r = i \<and> rn_status r \<in> {StatusPending, StatusRunning}) (start_run ts) (d_runs d) = d_runs d"
    by (intro update_where_cong_id) blast
  then show ?thesis by (simp add: mark_started_def)
qed

lemma complete_rows_absorbed:
  "\<forall>r\<in>set rs. rn_id r = i \<longrightarrow> terminal_status (rn_status r) \<Longrightarrow> complete_rows i c rs = rs"
  unfolding complete_rows_def by (intro update_where_cong_id) blast

lemma reflects_absorbed:
  assumes "reflects m d"
  shows "apply_status g m d = d"
proof (cases m)
  case (Started e)
  with assms show ?thesis
    using mark_started_absorbed [of d "rs_run e" "time_or (g_now g) (rs_at e)"]
    by (simp add: record_run_settled)
next
  case (Completed e)
  with assms show ?thesis
    using complete_rows_absorbed [of "d_runs d" "rc_run e" "completion_of (g_now g) e"]
    by (simp add: Let_def mark_completed_legal record_run_settled)
qed

interpretation status_stream: redeliverable apply_status reflects
  by unfold_locales (simp_all add: reflects_apply reflects_kept reflects_absorbed)

section \<open>Properties\<close>

definition status_msg_sendable :: "status_msg \<Rightarrow> bool" where
  "status_msg_sendable m \<longleftrightarrow> (case m of Started e \<Rightarrow> True | Completed e \<Rightarrow> run_completed_sendable e)"

lemma broadcast_db [simp]: "w_db (snd (maybe_broadcast hm run e s)) = w_db (snd s)"
  by (simp add: maybe_broadcast_def broadcast_def split_beta split: option.split)

lemma handle_status_db:
  assumes "status_msg_sendable m" and "w_script w = []"
  shows "fst (handle_status hm g m (h, w)) = Inr () \<and>
    w_db (snd (snd (handle_status hm g m (h, w)))) = apply_status g m (w_db w)"
  using assms
  by (cases m) (simp_all add: handle_status_def handle_started_def handle_completed_def run_started_wire
      run_completed_wire status_msg_sendable_def Let_def mark_completed_legal)

definition consume :: "bool option \<Rightarrow> (gen \<times> status_msg) list \<Rightarrow> hub \<Rightarrow> database \<Rightarrow> database" where
  "consume hm ms h d =
     fold (\<lambda>(g, m) d. w_db (snd (snd (handle_status hm g m (h, quiet_world d ()))))) ms d"

lemma consume_apply:
  "(\<And>g m. (g, m) \<in> set ms \<Longrightarrow> status_msg_sendable m) \<Longrightarrow>
    consume hm ms h d = fold (\<lambda>(g, m). apply_status g m) ms d"
proof (induction ms arbitrary: d)
  case (Cons x ms)
  obtain g m where x: "x = (g, m)" by (cases x)
  have "w_db (snd (snd (handle_status hm g m (h, quiet_world d ())))) = apply_status g m d"
    using handle_status_db [of m "quiet_world d ()" hm g h] Cons.prems [of g m] x
    by (simp add: quiet_world_def)
  moreover have "consume hm ms h (apply_status g m d) =
      fold (\<lambda>(g, m). apply_status g m) ms (apply_status g m d)"
    by (rule Cons.IH) (rule Cons.prems, rule list.set_intros(2))
  ultimately show ?case unfolding consume_def x by simp
qed (simp add: consume_def)

text \<open>
  C8: at-least-once delivery is safe for the status consumer: however run.started and
  run.completed messages are repeated and reordered, whenever the copies arrive, the database
  ends as if each message had been delivered once, at its first arrival.
\<close>

theorem status_redelivery_is_harmless:
  assumes "\<And>g m. (g, m) \<in> set ms \<Longrightarrow> status_msg_sendable m"
  shows "consume hm ms h d = consume hm (first_copies [] ms) h d"
proof -
  have "consume hm (first_copies [] ms) h d = fold (\<lambda>(g, m). apply_status g m) (first_copies [] ms) d"
    using first_copies_subset [of "[]" ms] assms by (intro consume_apply) blast
  then show ?thesis
    using consume_apply [OF assms, of ms] status_stream.fold_first_copies [of ms d] by simp
qed

definition sample_completed :: run_completed where
  "sample_completed = \<lparr>rc_tenant = ''t'', rc_agent = ''a'', rc_run = ''r1'', rc_status = ''failed'',
     rc_exit_code = 1, rc_outputs = None, rc_error = ''job failed'', rc_started_at = 2, rc_ended_at = 9\<rparr>"

theorem status_redelivery_is_harmless_witness:
  "consume None [(sample_gen, Completed sample_completed),
       (sample_gen\<lparr>g_now := 50, g_seq := 7\<rparr>, Completed sample_completed)] new_hub sample_db =
   consume None (first_copies [] [(sample_gen, Completed sample_completed),
       (sample_gen\<lparr>g_now := 50, g_seq := 7\<rparr>, Completed sample_completed)]) new_hub sample_db"
  by (rule status_redelivery_is_harmless)
    (auto simp: status_msg_sendable_def sample_completed_def run_completed_sendable_def)

lemma keeps_terminal_write:
  assumes "r \<in> set (d_runs (w_db w))" and "\<And>d. r \<in> set (d_runs d) \<Longrightarrow> r \<in> set (d_runs (snd (f d)))"
  shows "r \<in> set (d_runs (w_db (snd (db_write f w))))"
  using db_write_db [of f w] assms by auto

text \<open>
  C5: a terminal run is final: whatever message arrives and whatever call fails, a run row
  that has a terminal status keeps every one of its columns.
\<close>

theorem terminal_run_is_final:
  assumes "r \<in> set (d_runs (w_db w))" and "terminal_status (rn_status r)"
  shows "r \<in> set (d_runs (w_db (snd (snd (handle_started u hm g msg (h, w)))))) \<and>
    r \<in> set (d_runs (w_db (snd (snd (handle_completed u hm g msg (h, w))))))"
proof -
  have c: "r \<in> set (d_runs (snd (mark_completed i x d)))" if "r \<in> set (d_runs d)" for i x d
    using that run_end.mark_terminal_kept [of r "d_runs d" i x] assms(2) by (simp add: mark_completed_def)
  have s: "r \<in> set (d_runs (mark_started i ts d))" if "r \<in> set (d_runs d)" for i ts d
    using mark_started_terminal [OF that assms(2)] .
  show ?thesis
    using assms(1)
    by (auto simp: handle_started_def handle_completed_def Let_def split_beta c s
        split: option.split sum.split intro!: keeps_terminal_write)
qed

theorem terminal_run_is_final_witness:
  "sample_run ''r3'' ''failed'' \<in> set (d_runs (w_db (snd (snd (handle_started True None sample_gen
      (Some (status_wire (Started \<lparr>rs_tenant = ''t'', rs_agent = ''a'', rs_run = ''r3'', rs_at = 4\<rparr>)))
      (new_hub, quiet_world sample_db ())))))) \<and>
   sample_run ''r3'' ''failed'' \<in> set (d_runs (w_db (snd (snd (handle_completed True None sample_gen
      (Some (status_wire (Started \<lparr>rs_tenant = ''t'', rs_agent = ''a'', rs_run = ''r3'', rs_at = 4\<rparr>)))
      (new_hub, quiet_world sample_db ()))))))"
  by (rule terminal_run_is_final)
    (simp_all add: quiet_world_def sample_db_def sample_run_def terminal_status_def run_status_defs)

text \<open>
  A usage row is not part of this guarantee under failures: an error of the usage insert is
  dropped and the message acknowledged, so the row is never written.
\<close>

lemma usage_can_be_lost:
  "fst (handle_started True None sample_gen
      (Some (status_wire (Started \<lparr>rs_tenant = ''t'', rs_agent = ''a'', rs_run = ''r1'', rs_at = 4\<rparr>)))
      (new_hub, (quiet_world sample_db ())\<lparr>w_script := [Done, Refused]\<rparr>)) = Inr () \<and>
   d_usage (w_db (snd (snd (handle_started True None sample_gen
      (Some (status_wire (Started \<lparr>rs_tenant = ''t'', rs_agent = ''a'', rs_run = ''r1'', rs_at = 4\<rparr>)))
      (new_hub, (quiet_world sample_db ())\<lparr>w_script := [Done, Refused]\<rparr>))))) = []"
  by code_simp

end
