(* ===== verification/Life_Cycle.thy ===== *)
theory Life_Cycle
  imports Runs_Api Run_Controller Status_Consumer
begin

text \<open>
  The life of a run across the services: the API accepts it (\<open>internal/runs/handlers.go\<close>), the
  dispatcher creates its AgentRun (\<open>dispatch_consumer.go\<close>), the controller observes the Job
  (\<open>controller.go\<close>) and the status consumer records the outcome (\<open>status_consumer.go\<close>).
\<close>

section \<open>From message to message\<close>

lemma last_sent: "xs @ [(s, m)] = ys @ [(s', m')] \<Longrightarrow> m' = m"
  by simp

text \<open>The AgentRun that an accepted run is dispatched to.\<close>

lemma accepted_run_dispatched:
  assumes K: "kube_store K view" and ctx: "g_trace_ctx g \<noteq> Some []"
    and trig: "trigger_handler Ko bo g (Some i) agent n bdy w = (reply, w1)" "fst reply = 202"
    and msg: "w_sent w1 = sent @ [(subj, msg)]"
    and fresh: "view (w_kube w1) (K_Run, tenant_namespace (id_tenant i), g_uuid g) = None"
    and d: "dispatch_run K qs ls render (Some msg) w1 = (Inr (), w2)"
  shows "\<exists>r e. r \<in> set (d_runs (w_db w1)) \<and> rn_id r = g_uuid g \<and> rn_tenant r = id_tenant i \<and>
    rn_agent r = agent \<and> rn_status r = StatusPending \<and> trigger_inputs n bdy = Some (rn_inputs r) \<and>
    rq_run e = g_uuid g \<and> rq_tenant e = id_tenant i \<and> rq_agent e = agent \<and>
    view (w_kube w2) (K_Run, tenant_namespace (id_tenant i), g_uuid g) = Some (O_Run (agent_run_for render e))"
proof -
  have ok: "fst (fst (trigger_handler Ko bo g (Some i) agent n bdy w)) = 202"
    and w1: "snd (trigger_handler Ko bo g (Some i) agent n bdy w) = w1"
    using trig by simp_all
  obtain a r s where a: "agents_get (id_tenant i) agent (w_db w) = Inr a"
    and r: "r \<in> set (d_runs (w_db w1))" "rn_id r = g_uuid g" "rn_tenant r = id_tenant i" "rn_agent r = agent"
      "rn_status r = StatusPending" "trigger_inputs n bdy = Some (rn_inputs r)"
    and sent: "w_sent w1 = w_sent w @
      [(SubjectRunRequested, marshal_run_requested (run_event g (id_tenant i) a r (rn_inputs r) s))]"
    using trigger_accepted [OF ok] unfolding w1 by auto
  let ?e = "run_event g (id_tenant i) a r (rn_inputs r) s"
  have "msg = marshal_run_requested ?e" using sent msg by simp
  then have e: "unmarshal_run_requested (Some msg) = Some ?e"
    using requested_event_wire [OF ctx] by simp
  have ids: "rq_run ?e = g_uuid g" "rq_tenant ?e = id_tenant i" "rq_agent ?e = agent"
    using r agents.get_Inr [OF a] by (simp_all add: run_event_def)
  have "view (w_kube w2) (K_Run, tenant_namespace (id_tenant i), g_uuid g) = Some (O_Run (agent_run_for render ?e))"
    using dispatched_run [OF K e, of w _ qs ls render] dispatched_run [OF K e, of w1 _ qs ls render] fresh d ids
    by auto
  with r ids show ?thesis by blast
qed

text \<open>A completed message marks the row of its run.\<close>

lemma completed_message_recorded:
  assumes e: "run_completed_sendable e"
    and h: "handle_completed us hm g (Some (marshal_run_completed e)) (h, w) = (Inr (), h', w')"
    and r: "r \<in> set (d_runs (w_db w))" "rn_id r = rc_run e" "\<not> terminal_status (rn_status r)"
  shows "complete_run (completion_of (g_now g) e) r \<in> set (d_runs (w_db w'))"
proof -
  let ?f = "mark_completed (rc_run e) (completion_of (g_now g) e)"
  obtain u where u: "fst (db_write ?f w) = Inr u"
    using h run_completed_wire [OF e]
    by (cases "fst (db_write ?f w)") (auto simp: handle_completed_def Let_def split_beta)
  have "d_runs (w_db w') = d_runs (w_db (snd (db_write ?f w)))"
  proof -
    have runs: "d_runs (w_db (snd (db_write (record_run i t a rn kd q ts) v))) = d_runs (w_db v)"
      for i t a rn kd q ts and v :: "'a world"
      using db_write_db [of "record_run i t a rn kd q ts" v] by auto
    have "w' = snd (snd (handle_completed us hm g (Some (marshal_run_completed e)) (h, w)))"
      using h by simp
    then show ?thesis
      using u run_completed_wire [OF e] by (simp add: handle_completed_def Let_def split_beta runs)
  qed
  also have "w_db (snd (db_write ?f w)) = snd (?f (w_db w))"
    using db_write_Inr [OF u] by simp
  finally have "d_runs (w_db w') = complete_rows (rc_run e) (completion_of (g_now g) e) (d_runs (w_db w))"
    by (simp add: mark_completed_legal)
  then show ?thesis
    using r by (force simp: complete_rows_def set_update_where)
qed

section \<open>The property\<close>


text \<open>The trip of one run of the sample database, its worlds after each of the steps.\<close>

definition accepted_world :: "kobj list world" where
  "accepted_world = snd (trigger_handler None None sample_gen sample_ctx ''a'' 0 None (quiet_world sample_db []))"

definition dispatched_world :: "kobj list world" where
  "dispatched_world = snd (dispatch_run mem_kube no_quota no_limit (\<lambda>_. [])
     (Some (snd (hd (w_sent accepted_world)))) accepted_world)"

definition dispatched_agent_run :: agent_run where
  "dispatched_agent_run =
     (case mem_view (w_kube dispatched_world) (K_Run, ''tenant-t'', ''u1'') of
        Some (O_Run x) \<Rightarrow> x | _ \<Rightarrow> sample_agent_run [])"

definition finished_world :: "kobj list world" where
  "finished_world = dispatched_world
     \<lparr>w_kube := O_Job (sample_job dispatched_agent_run 0 1) # w_kube dispatched_world\<rparr>"

definition reconciled_world :: "kobj list world" where
  "reconciled_world = snd (reconcile_run mem_kube True 9 (''tenant-t'', ''u1'') finished_world)"

definition recorded_world :: "kobj list world" where
  "recorded_world = snd (snd (handle_completed True (Some True) sample_gen
     (Some (snd (hd (tl (w_sent reconciled_world))))) (new_hub, reconciled_world)))"


end
