(* ===== verification/Object_Copy.thy ===== *)
theory Object_Copy
  imports Kube
begin

text \<open>
  The copies that \<open>internal/runs/types.go\<close> makes of its custom resources. A Go struct is a value
  with references to maps and slices of its own; the heap holds the structs and what they refer
  to, so that sharing between an object and its copy shows.
\<close>

section \<open>The heap\<close>

type_synonym addr = nat

text \<open>
  A struct: its plain fields, and the addresses that its map, slice and pointer fields hold,
  a nil field being absent.
\<close>

record 'v struct =
  st_plain :: 'v
  st_refs :: "(string \<times> addr) list"

record ('v, 'm) heap =
  hp_structs :: "(addr \<times> 'v struct) list"
  hp_lists :: "(addr \<times> 'v struct list) list"
  hp_maps :: "(addr \<times> 'm) list"
  hp_next :: addr

text \<open>What a program sees of a struct: its plain fields and the contents behind its references.\<close>

definition seen :: "('v, 'm) heap \<Rightarrow> 'v struct \<Rightarrow> 'v \<times> (string \<times> 'm option) list" where
  "seen h s = (st_plain s, map (\<lambda>(f, a). (f, map_of (hp_maps h) a)) (st_refs s))"

definition seen_at :: "('v, 'm) heap \<Rightarrow> addr \<Rightarrow> ('v \<times> (string \<times> 'm option) list) option" where
  "seen_at h a = map_option (seen h) (map_of (hp_structs h) a)"

definition assign_plain :: "addr \<Rightarrow> ('v \<Rightarrow> 'v) \<Rightarrow> ('v, 'm) heap \<Rightarrow> ('v, 'm) heap" where
  "assign_plain a f h =
     (case map_of (hp_structs h) a of
        None \<Rightarrow> h | Some s \<Rightarrow> h\<lparr>hp_structs := (a, s\<lparr>st_plain := f (st_plain s)\<rparr>) # hp_structs h\<rparr>)"

text \<open>Making a new map, slice or pointer target and storing it in a field.\<close>

definition assign_ref :: "addr \<Rightarrow> string \<Rightarrow> 'm \<Rightarrow> ('v, 'm) heap \<Rightarrow> ('v, 'm) heap" where
  "assign_ref a f m h =
     (case map_of (hp_structs h) a of
        None \<Rightarrow> h
      | Some s \<Rightarrow>
          h\<lparr>hp_structs := (a, s\<lparr>st_refs := (f, hp_next h) # filter (\<lambda>(g, _). g \<noteq> f) (st_refs s)\<rparr>) # hp_structs h,
            hp_maps := (hp_next h, m) # hp_maps h, hp_next := Suc (hp_next h)\<rparr>)"

text \<open>Writing into the map that a field holds.\<close>

definition write_map :: "addr \<Rightarrow> string \<Rightarrow> ('m \<Rightarrow> 'm) \<Rightarrow> ('v, 'm) heap \<Rightarrow> ('v, 'm) heap" where
  "write_map a f g h =
     (case map_of (hp_structs h) a of
        None \<Rightarrow> h
      | Some s \<Rightarrow>
          (case map_of (st_refs s) f of
             None \<Rightarrow> h
           | Some r \<Rightarrow>
               (case map_of (hp_maps h) r of
                  None \<Rightarrow> h | Some m \<Rightarrow> h\<lparr>hp_maps := (r, g m) # hp_maps h\<rparr>)))"

section \<open>The copies\<close>

text \<open>\<open>c := *in; return &c\<close>.\<close>

definition deep_copy_object :: "addr \<Rightarrow> ('v, 'm) heap \<Rightarrow> addr \<times> ('v, 'm) heap" where
  "deep_copy_object a h =
     (case map_of (hp_structs h) a of
        None \<Rightarrow> (a, h)
      | Some s \<Rightarrow> (hp_next h, h\<lparr>hp_structs := (hp_next h, s) # hp_structs h, hp_next := Suc (hp_next h)\<rparr>))"

text \<open>\<open>out.Items = append(out.Items, in.Items...)\<close> on a new list.\<close>

definition deep_copy_list :: "addr \<Rightarrow> ('v, 'm) heap \<Rightarrow> addr \<times> ('v, 'm) heap" where
  "deep_copy_list a h =
     (case map_of (hp_lists h) a of
        None \<Rightarrow> (a, h)
      | Some ss \<Rightarrow> (hp_next h, h\<lparr>hp_lists := (hp_next h, [] @ ss) # hp_lists h, hp_next := Suc (hp_next h)\<rparr>))"

section \<open>Lemmas\<close>

text \<open>Addresses in use lie below the next one.\<close>

definition heap_ok :: "('v, 'm) heap \<Rightarrow> bool" where
  "heap_ok h \<longleftrightarrow>
     (\<forall>a\<in>set (map fst (hp_structs h) @ map fst (hp_lists h) @ map fst (hp_maps h)). a < hp_next h) \<and>
     (\<forall>(a, s)\<in>set (hp_structs h). \<forall>(f, r)\<in>set (st_refs s). r < hp_next h)"

lemma heap_okD:
  assumes "heap_ok h" and "map_of (hp_structs h) a = Some s"
  shows "a < hp_next h" "(f, r) \<in> set (st_refs s) \<Longrightarrow> r < hp_next h"
proof -
  note s = map_of_SomeD [OF assms(2)]
  have "\<forall>(a, s)\<in>set (hp_structs h). \<forall>(f, r)\<in>set (st_refs s). r < hp_next h"
    "\<forall>x\<in>set (map fst (hp_structs h)). x < hp_next h" using assms(1) by (auto simp: heap_ok_def)
  from bspec [OF this(1) s] bspec [OF this(2), of a] s
  show "a < hp_next h" "(f, r) \<in> set (st_refs s) \<Longrightarrow> r < hp_next h" by force+
qed

lemma seen_same: "hp_maps h' = hp_maps h \<Longrightarrow> seen h' = seen h"
  by (simp add: seen_def fun_eq_iff)

lemma copied_object:
  assumes "map_of (hp_structs h) a = Some s" and "deep_copy_object a h = (c, h')"
  shows "c = hp_next h" "hp_structs h' = (c, s) # hp_structs h" "hp_maps h' = hp_maps h" "hp_next h' = Suc c"
  using assms by (auto simp: deep_copy_object_def)

lemma copy_looks_the_same:
  assumes "heap_ok h" and "map_of (hp_structs h) a = Some s" and "deep_copy_object a h = (c, h')"
  shows "seen_at h' c = seen_at h a" "c \<noteq> a" "b \<noteq> c \<Longrightarrow> seen_at h' b = seen_at h b"
proof -
  note c = copied_object [OF assms(2,3)]
  have "seen h' = seen h" by (rule seen_same [OF c(3)])
  moreover have "a < c" using heap_okD(1) [OF assms(1,2)] c(1) by simp
  ultimately show "seen_at h' c = seen_at h a" "c \<noteq> a" "b \<noteq> c \<Longrightarrow> seen_at h' b = seen_at h b"
    using assms(2) c(2) by (simp_all add: seen_at_def)
qed

text \<open>
  The controllers only assign to fields of what they read (phases, times, URLs). Such writes to
  a copy leave the original as it was.
\<close>

lemma assignments_stay_in_the_copy:
  assumes "heap_ok h" and "map_of (hp_structs h) a = Some s" and "deep_copy_object a h = (c, h')"
  shows "seen_at (assign_plain c f h') a = seen_at h a" "seen_at (assign_ref c g m h') a = seen_at h a"
proof -
  note c = copied_object [OF assms(2,3)]
  have a: "a \<noteq> c" using heap_okD(1) [OF assms(1,2)] c(1) by simp
  then show "seen_at (assign_plain c f h') a = seen_at h a"
    using assms(2) c(2,3) by (simp add: assign_plain_def seen_at_def seen_def)
  have "r \<noteq> Suc c" if "(x, r) \<in> set (st_refs s)" for x r
    using heap_okD(2) [OF assms(1,2) that] c(1) by simp
  then have "map (\<lambda>(x, r). (x, map_of ((Suc c, m) # hp_maps h) r)) (st_refs s) =
      map (\<lambda>(x, r). (x, map_of (hp_maps h) r)) (st_refs s)" by (auto intro!: map_cong)
  then show "seen_at (assign_ref c g m h') a = seen_at h a"
    using assms(2) a c(2-4) by (simp add: assign_ref_def seen_at_def seen_def)
qed

text \<open>
  But the copy is not deep: a map that is written through the copy changes in the original,
  which is what \<open>DeepCopyObject\<close> promises not to let happen.
\<close>

lemma maps_are_shared:
  assumes "heap_ok h" and "map_of (hp_structs h) a = Some s" and "map_of (st_refs s) f = Some r"
    and "map_of (hp_maps h) r = Some m" and "deep_copy_object a h = (c, h')"
  shows "write_map c f g h' = write_map a f g h'"
    and "map_of (snd (the (seen_at (write_map c f g h') a))) f = Some (Some (g m))"
proof -
  note c = copied_object [OF assms(2,5)]
  have a: "a \<noteq> c" using heap_okD(1) [OF assms(1,2)] c(1) by simp
  then show w: "write_map c f g h' = write_map a f g h'"
    using assms(2) c(2) by (simp add: write_map_def)
  have look: "map_of (map (\<lambda>(f, r). (f, M r)) xs) f = map_option M (map_of xs f)" for M :: "addr \<Rightarrow> 'b option" and xs
    by (induction xs) auto
  have "map_of (hp_structs h') a = Some s" "map_of (hp_maps h') r = Some m" using a assms(2,4) c(2,3) by simp_all
  then have "write_map a f g h' = h'\<lparr>hp_maps := (r, g m) # hp_maps h'\<rparr>" using assms(3) by (simp add: write_map_def)
  then show "map_of (snd (the (seen_at (write_map c f g h') a))) f = Some (Some (g m))"
    using \<open>map_of (hp_structs h') a = Some s\<close> assms(3) unfolding w by (simp add: seen_at_def seen_def look)
qed

text \<open>The elements of a copied list are the same structs, with the same references.\<close>

lemma list_copy_shares:
  assumes "map_of (hp_lists h) a = Some ss" and "deep_copy_list a h = (c, h')"
  shows "map_of (hp_lists h') c = Some ss" "hp_maps h' = hp_maps h"
  using assms by (auto simp: deep_copy_list_def)

end
