(* ===== verification/Openapi.thy ===== *)
theory Openapi
  imports Api_Server Json_Schema
begin

text \<open>
  The response schemas of \<open>api/openapi.yaml\<close>, as a type system on JSON: what it means that an
  answer has the documented type, for every operation the document describes with a JSON
  answer.
\<close>

section \<open>Schemas\<close>

definition agent_schema :: schema where
  "agent_schema = S_Object
     [needs ''id'' S_String, needs ''name'' S_String, needs ''mode'' (S_Enum [''job'', ''server'']),
      needs ''runtime'' (S_Enum [''python'', ''typescript'', ''container'']), may_null ''image'' S_String,
      may_null ''url'' S_String, needs ''createdAt'' S_Time]"

definition run_schema :: schema where
  "run_schema = S_Object
     [needs ''id'' S_String, needs ''agentId'' S_String,
      needs ''status'' (S_Enum [''pending'', ''running'', ''succeeded'', ''failed'', ''timed_out'', ''cancelled'']),
      may_null ''inputs'' (S_Object []), may_null ''outputs'' (S_Object []), may_null ''exitCode'' S_Integer,
      may_null ''traceId'' S_String, needs ''createdAt'' S_Time, may_null ''startedAt'' S_Time,
      may_null ''endedAt'' S_Time]"

definition build_schema :: schema where
  "build_schema = S_Object
     [needs ''id'' S_String, needs ''agentId'' S_String,
      needs ''status'' (S_Enum [''pending'', ''running'', ''succeeded'', ''failed'', ''blocked'']),
      may_null ''image'' S_String, needs ''createdAt'' S_Time, may_null ''endedAt'' S_Time]"

definition secret_schema :: schema where
  "secret_schema = S_Object [needs ''name'' S_String, needs ''createdAt'' S_Time, may ''updatedAt'' S_Time]"

text \<open>The status and the schema of the answer that the document promises.\<close>

definition documented :: "endpoint \<Rightarrow> (nat \<times> schema) option" where
  "documented e =
     (case e of
        E_Agents_List \<Rightarrow> Some (200, S_Object [may ''agents'' (S_Array agent_schema)])
      | E_Agents_Create \<Rightarrow> Some (201, agent_schema)
      | E_Agent_Get \<Rightarrow> Some (200, agent_schema)
      | E_Runs_List \<Rightarrow> Some (200, S_Object [may ''runs'' (S_Array run_schema)])
      | E_Run_Trigger \<Rightarrow> Some (202, run_schema)
      | E_Run_Get \<Rightarrow> Some (200, run_schema)
      | E_Build_Create \<Rightarrow> Some (202, build_schema)
      | E_Webhook \<Rightarrow> Some (202, run_schema)
      | E_Secrets_List \<Rightarrow> Some (200, S_Object [may ''secrets'' (S_Array secret_schema)])
      | E_Secret_Put \<Rightarrow> Some (201, secret_schema)
      | _ \<Rightarrow> None)"

section \<open>The objects of the API\<close>

lemma agent_dto_conforms:
  "ag_mode a \<in> set agent_modes \<Longrightarrow> ag_runtime a \<in> set agent_runtimes \<Longrightarrow> conforms agent_schema (agent_dto a)"
  by (auto simp: agent_schema_def agent_dto_def agent_modes_def agent_runtimes_def split: option.split)

lemma map_of_omit_obj:
  "map_of (omit_obj k m @ o') k' =
     (if k' = k then (case m of None \<Rightarrow> map_of o' k' | Some [] \<Rightarrow> map_of o' k' | Some es \<Rightarrow> Some (JObj es))
      else map_of o' k')"
  by (auto simp: omit_obj_def omit_map_def split: option.split list.split)

lemma run_dto_conforms:
  assumes "rn_status r \<in> set run_statuses"
  shows "conforms run_schema (run_dto r)"
proof -
  define o' where "o' = always ''id'' (JStr (rn_id r)) @ always ''agentId'' (JStr (rn_agent r)) @
      always ''status'' (JStr (rn_status r)) @ omit_obj ''inputs'' (rn_inputs r) @ omit_obj ''outputs'' (rn_outputs r) @
      omit_none ''exitCode'' JInt (rn_exit r) @ omit_str ''traceId'' (coalesce_str (rn_trace r)) @
      always ''createdAt'' (JTime (rn_created r)) @ omit_none ''startedAt'' JTime (rn_started r) @
      omit_none ''endedAt'' JTime (rn_ended r) @ []"
  have "has_property (needs ''id'' S_String) o'" "has_property (needs ''agentId'' S_String) o'"
    "has_property (needs ''status'' (S_Enum run_statuses)) o'" "has_property (needs ''createdAt'' S_Time) o'"
    using assms by (simp_all add: o'_def map_of_fields map_of_omit_obj del: append_Nil2 map_of_append)
  moreover have "has_property (may_null ''inputs'' (S_Object [])) o'" "has_property (may_null ''outputs'' (S_Object [])) o'"
    "has_property (may_null ''exitCode'' S_Integer) o'" "has_property (may_null ''traceId'' S_String) o'"
    "has_property (may_null ''startedAt'' S_Time) o'" "has_property (may_null ''endedAt'' S_Time) o'"
    by (simp_all add: o'_def map_of_fields map_of_omit_obj del: append_Nil2 map_of_append split: option.split list.split)
  moreover have "run_dto r = JObj o'" by (simp add: run_dto_def o'_def)
  ultimately show ?thesis by (simp add: run_schema_def run_statuses_def)
qed

lemma build_dto_conforms:
  "bd_status b \<in> set build_statuses \<Longrightarrow> conforms build_schema (build_dto b)"
  by (auto simp: build_schema_def build_dto_def build_statuses_def always_def)

lemma secret_dto_conforms: "conforms secret_schema (secret_dto s)"
  by (simp add: secret_schema_def secret_dto_def)

section \<open>The answers of the handlers\<close>

text \<open>An answer with status \<open>st\<close> carries a JSON value of the schema.\<close>

definition answers :: "nat \<Rightarrow> schema \<Rightarrow> response \<Rightarrow> bool" where
  "answers st sch r \<longleftrightarrow> (fst r = st \<longrightarrow> (\<exists>j. snd r = Payload j \<and> conforms sch j))"

lemma answers_simps [simp]:
  "st \<noteq> s \<Longrightarrow> answers st sch (http_error m s)"
  "answers st sch (write_json st j) \<longleftrightarrow> conforms sch j"
  "st \<noteq> 401 \<Longrightarrow> answers st sch unauthorized"
  "st \<noteq> 404 \<Longrightarrow> st \<noteq> 500 \<Longrightarrow> answers st sch (agent_err e)"
  by (simp_all add: answers_def http_error_def write_json_def unauthorized_def agent_err_def)

lemma legal_rows:
  assumes "db_ok d"
  shows "a \<in> set (d_agents d) \<Longrightarrow> conforms agent_schema (agent_dto a)"
    and "r \<in> set (d_runs d) \<Longrightarrow> conforms run_schema (run_dto r)"
  using assms by (auto simp: db_ok_def status_ok_def intro: agent_dto_conforms run_dto_conforms)

lemma agents_answers:
  assumes "db_ok (w_db w)"
  shows "answers 200 (S_Object [may ''agents'' (S_Array agent_schema)]) (fst (agents_list_handler c w))"
    and "answers 200 agent_schema (fst (agents_get_handler c a w))"
    and "answers 201 agent_schema (fst (agents_create_handler g c bdy w))"
proof -
  have "conforms agent_schema (agent_dto x)" if "x \<in> set (agents_list t n (w_db w))" for x t n
    using that legal_rows(1) [OF assms] by (auto simp: agents_list_def dest: in_set_takeD)
  then show "answers 200 (S_Object [may ''agents'' (S_Array agent_schema)]) (fst (agents_list_handler c w))"
    by (auto simp: agents_list_handler_def split_beta dest!: db_read_Inr split: option.split sum.split)
  have "conforms agent_schema (agent_dto x)" if "agents_get t i (w_db w) = Inr x" for x t i
    using legal_rows(1) [OF assms] agents.get_Inr [OF that] by blast
  then show "answers 200 agent_schema (fst (agents_get_handler c a w))"
    by (auto simp: agents_get_handler_def split_beta dest!: db_read_Inr split: option.split sum.split)
  have "conforms agent_schema (agent_dto x)"
    if "fst (db_write (agents_create u n t m) w) = Inr x" for x u n t m
  proof -
    have "fst (agents_create u n t m (w_db w)) = Inr x" using db_write_Inr [OF that] by blast
    then obtain d' where d: "agents_create u n t m (w_db w) = (Inr x, d')" by (cases "agents_create u n t m (w_db w)") simp
    then have "db_ok d'" "x \<in> set (d_agents d')"
      using agents_create_ok [OF assms d] agents_create_Inr [OF d] by simp_all
    then show ?thesis by (rule legal_rows)
  qed
  then show "answers 201 agent_schema (fst (agents_create_handler g c bdy w))"
    by (auto simp: agents_create_handler_def split_beta split: option.split sum.split)
qed

lemma runs_answers:
  assumes "db_ok (w_db w)"
  shows "answers 200 (S_Object [may ''runs'' (S_Array run_schema)]) (fst (runs_list_handler c a w))"
    and "answers 200 run_schema (fst (runs_get_handler c i w))"
    and "answers 202 run_schema (fst (trigger_handler Ko bo g c a n bdy w))"
proof -
  have "conforms run_schema (run_dto x)" if "x \<in> set (runs_list t ag k (w_db w))" for x t ag k
    using that legal_rows(2) [OF assms] by (auto simp: runs_list_def dest: in_set_takeD)
  then show "answers 200 (S_Object [may ''runs'' (S_Array run_schema)]) (fst (runs_list_handler c a w))"
    by (auto simp: runs_list_handler_def split_beta dest!: db_read_Inr split: option.split sum.split)
  have "conforms run_schema (run_dto x)" if "runs_get t k (w_db w) = Inr x" for x t k
    using legal_rows(2) [OF assms] runs.get_Inr [OF that] by blast
  then show "answers 200 run_schema (fst (runs_get_handler c i w))"
    by (auto simp: runs_get_handler_def split_beta dest!: db_read_Inr split: option.split sum.split)
  show "answers 202 run_schema (fst (trigger_handler Ko bo g c a n bdy w))"
  proof (cases "fst (fst (trigger_handler Ko bo g c a n bdy w)) = 202")
    case True
    then obtain r where "fst (trigger_handler Ko bo g c a n bdy w) = write_json 202 (run_dto r)"
      "rn_status r = StatusPending"
      using trigger_accepted by blast
    then show ?thesis
      by (simp add: run_dto_conforms run_statuses_def StatusPending_def)
  qed (simp add: answers_def)
qed

lemma other_answers:
  "answers 202 build_schema (fst (builds_create_handler g c a bdy w))"
  "answers 200 (S_Object [may ''secrets'' (S_Array secret_schema)]) (fst (secrets_list_handler c w))"
  "answers 201 secret_schema (fst (secrets_upsert_handler b g c bdy w))"
proof -
  have "conforms build_schema (build_dto x)" if "fst (db_write (builds_create u n t ag src) w') = Inr x"
    for x u n t ag src and w' :: "'a world"
    using db_write_Inr [OF that]
    by (auto simp: builds_create_def Let_def build_statuses_def BuildPending_def intro: build_dto_conforms
        split: if_splits)
  then show "answers 202 build_schema (fst (builds_create_handler g c a bdy w))"
    by (auto simp: builds_create_handler_def split_beta split: option.split sum.split)
qed (simp_all add: secrets_list_handler_def secrets_upsert_handler_def secret_dto_conforms split_beta
    split: option.split sum.split)

section \<open>The property\<close>

lemma endpoint_answers:
  assumes "db_ok (w_db w)" and "documented e = Some (st, sch)" and "e \<noteq> E_Webhook"
    and "fst (endpoint_handler S g q e ps c (h, w)) = Answer r"
  shows "answers st sch r"
  using assms(2-4) agents_answers [OF assms(1)] runs_answers [OF assms(1)] other_answers
  by (cases e) (auto simp: documented_def endpoint_handler_def answer_def Let_def)

lemma documented_status: "documented e = Some (st, sch) \<Longrightarrow> st < 300"
  by (cases e) (auto simp: documented_def)

text \<open>
  C33: the answers of the API have the types that \<open>api/openapi.yaml\<close> documents. For every
  operation that the document gives a JSON answer, the webhook receiver apart, any request and
  any outcome of the calls it makes, an answer with the documented status carries a JSON body
  of the documented schema (required properties, enumerations, nullability), provided the rows
  of the database satisfy its constraints.
\<close>

theorem documented_answers_conform:
  assumes "db_ok (w_db w)" and "q_method q \<noteq> ''OPTIONS''"
    and "av_route S (api_routes (av_config S)) (q_method q) (q_path q) = Inr (b, e, ps)"
    and "documented e = Some (st, sch)" and "e \<noteq> E_Webhook"
    and "snd (fst (api_serve S g q (h, w))) = Answer r"
  shows "answers st sch r"
proof -
  have "fst (route_request S g q (h, w)) = Answer r"
    using assms(2,6) by (simp add: api_serve_def cors_def Let_def split_beta)
  then have "Answer r = Answer unauthorized \<or> (\<exists>c. fst (endpoint_handler S g q e ps c (h, w)) = Answer r)"
    by (auto simp: route_request_def assms(3) middleware_def Let_def split: if_splits sum.splits)
  then show ?thesis
    using documented_status [OF assms(4)] endpoint_answers [OF assms(1,4,5)] by fastforce
qed

theorem documented_answers_conform_witness:
  "\<exists>j. snd (fst (api_serve sample_server sample_gen (sample_api_request ''GET'' ''/v1/runs/r2'')
         (new_hub, quiet_world sample_db []))) = Answer (200, Payload j) \<and> conforms run_schema j"
proof -
  let ?s = "snd (fst (api_serve sample_server sample_gen (sample_api_request ''GET'' ''/v1/runs/r2'')
    (new_hub, quiet_world sample_db [])))"
  have "case ?s of Answer r \<Rightarrow> fst r = 200 | _ \<Rightarrow> False" by code_simp
  then obtain r where r: "?s = Answer r" "fst r = 200" by (cases ?s) auto
  have "answers 200 run_schema r"
    by (rule documented_answers_conform [OF _ _ _ _ _ r(1), of True E_Run_Get "[(''runId'', ''r2'')]"])
      (simp add: quiet_world_def sample_db_ok, code_simp+)
  with r show ?thesis by (cases r) (auto simp: answers_def)
qed

text \<open>
  The webhook receiver is documented to answer 202 with a run; what it answers is an object
  with the single key \<open>runId\<close>, which is not one.
\<close>

lemma webhook_answer_is_no_run:
  assumes "fst (fst (webhook_handler hm ps b g c a nm hdr bs w)) = 202"
  shows "\<not> answers 202 run_schema (fst (webhook_handler hm ps b g c a nm hdr bs w))"
  using assms
  by (auto simp: webhook_handler_def agent_err_def answers_def write_json_def http_error_def run_schema_def
      split_beta split: option.splits sum.splits if_splits)

end
