(* ===== verification/Sdk_Api.thy ===== *)
theory Sdk_Api
  imports Api_Server Sdk
begin

text \<open>
  The Go client against the API: the HTTP round trip that carries a request of \<open>pkg/sdk-go\<close> to
  the router of \<open>cmd/api\<close> and the answer back, and what the methods then return. \<open>render\<close> is the
  text of a JSON document.
\<close>

section \<open>The round trip\<close>

definition api_request_of :: "(json \<Rightarrow> string) \<Rightarrow> string \<Rightarrow> sdk_request \<Rightarrow> api_request" where
  "api_request_of render base q =
     (let text = (case sq_json q of None \<Rightarrow> [] | Some j \<Rightarrow> render j) in
      \<lparr>q_method = sq_method q, q_path = drop (length base) (sq_url q),
        q_authorization = coalesce_str (sq_authorization q), q_origin = [], q_signature = [],
        q_workos_signature = [], q_limit = [], q_length = int (length text), q_body = Some text\<rparr>)"

text \<open>The bytes of an answer: \<open>http.Error\<close> and the JSON encoder end them with a newline.\<close>

definition answer_bytes :: "(json \<Rightarrow> string) \<Rightarrow> response \<Rightarrow> http_answer" where
  "answer_bytes render r =
     \<lparr>ha_status = fst r,
       ha_text = (case snd r of No_Body \<Rightarrow> [] | Text t \<Rightarrow> t @ [CHR 0x0A] | Payload j \<Rightarrow> render j @ [CHR 0x0A]),
       ha_json = (case snd r of Payload j \<Rightarrow> Some j | _ \<Rightarrow> None), ha_cut = None\<rparr>"

text \<open>Event streams have no method in the client; their bytes are not needed here.\<close>

fun http_answer_of :: "(json \<Rightarrow> string) \<Rightarrow> api_reply \<Rightarrow> error + http_answer" where
  "http_answer_of render (Answer r) = Inr (answer_bytes render r)"
| "http_answer_of render (Logs_Answer (Log_Refused r)) = Inr (answer_bytes render r)"
| "http_answer_of render (Logs_Answer (Log_Stream fs)) =
     Inr \<lparr>ha_status = 200, ha_text = concat (map log_text fs), ha_json = None, ha_cut = None\<rparr>"
| "http_answer_of render (Events_Answer (Sse_Error r)) = Inr (answer_bytes render r)"
| "http_answer_of render (Events_Answer _) = Inl (ErrText ''event stream'')"

definition carry ::
  "'k api_server \<Rightarrow> gen \<Rightarrow> (json \<Rightarrow> string) \<Rightarrow> string \<Rightarrow> (hub \<times> 'k world) sdk_http" where
  "carry S g render base q s =
     (case api_serve S g (api_request_of render base q) s of
        ((_, r), s1) \<Rightarrow> (http_answer_of render r, s1))"

text \<open>An identifier that is one segment of a path.\<close>

definition plain_id :: "string \<Rightarrow> bool" where
  "plain_id i \<longleftrightarrow> i \<noteq> [] \<and> CHR ''/'' \<notin> set i"

section \<open>Routing of the client's paths\<close>

lemma split_run_path: "plain_id i \<Longrightarrow> split_on (CHR ''/'') (''/v1/runs/'' @ i) = [[], ''v1'', ''runs'', i]"
  by (simp add: plain_id_def split_on_absent)

lemma split_logs_path:
  "plain_id i \<Longrightarrow> split_on (CHR ''/'') (''/v1/runs/'' @ i @ ''/logs'') = [[], ''v1'', ''runs'', i, ''logs'']"
  using split_on_append [of "CHR ''/''" i "''logs''"] by (simp add: plain_id_def split_on_absent)

text \<open>A path that only one route of the method matches is served by it.\<close>

lemma routed_to:
  assumes "router_law route" and "[] \<notin> set (tl (split_on (CHR ''/'') path))"
    and "(m, p, b, e) \<in> set rs" and "matches p (segments path) = Some ps"
    and "\<And>p' b' e' ps'. (m, p', b', e') \<in> set rs \<Longrightarrow> matches p' (segments path) = Some ps' \<Longrightarrow>
      (p', b', e') = (p, b, e)"
  shows "route rs m path = Inr (b, e, ps)"
proof (cases "route rs m path")
  case (Inl x)
  then show ?thesis
    using assms(1) [unfolded router_law_def, rule_format, where rs = rs and m = m and path = path] assms(2,3,4)
    by (cases x) (fastforce dest: spec)
next
  case (Inr x)
  obtain b' e' ps' where x: "x = (b', e', ps')" by (cases x)
  from routed [OF assms(1) Inr [unfolded x]] obtain p' where p': "(m, p', b', e') \<in> set rs"
    "matches p' (segments path) = Some ps'" by blast
  from assms(5) [OF p'] assms(4) p'(2) Inr x show ?thesis by simp
qed

text \<open>The routes a GET on a run and on its logs can take: one each.\<close>

definition only_route :: "string \<Rightarrow> string list \<Rightarrow> segment list \<Rightarrow> endpoint \<Rightarrow> api_route list \<Rightarrow> bool" where
  "only_route m xs p e rs \<longleftrightarrow>
     (m, p, True, e) \<in> set rs \<and>
     list_all (\<lambda>(m', p', b', e'). m' = m \<and> matches p' xs \<noteq> None \<longrightarrow> p' = p \<and> b' \<and> e' = e) rs"

lemma only_run_route:
  "only_route ''GET'' [''v1'', ''runs'', i] [Lit ''v1'', Lit ''runs'', Param ''runId''] E_Run_Get (api_routes cfg)"
  by (simp add: only_route_def route_defs)

lemma only_logs_route:
  "only_route ''GET'' [''v1'', ''runs'', i, ''logs''] [Lit ''v1'', Lit ''runs'', Param ''runId'', Lit ''logs'']
     E_Run_Logs (api_routes cfg)"
  by (simp add: only_route_def route_defs)

lemma route_only:
  assumes "router_law route" and "only_route m xs p e rs"
    and "split_on (CHR ''/'') path = [] # xs" and "[] \<notin> set xs" and "matches p xs = Some ps"
  shows "route rs m path = Inr (True, e, ps)"
proof (rule routed_to [OF assms(1)])
  have seg: "segments path = xs"
    using assms(3,4) by (cases "xs = []") (auto simp: segments_def Let_def, metis last_in_set)
  show "[] \<notin> set (tl (split_on (CHR ''/'') path))" using assms(3,4) by simp
  show "(m, p, True, e) \<in> set rs" using assms(2) by (simp add: only_route_def)
  show "matches p (segments path) = Some ps" using seg assms(5) by simp
  show "(p', b', e') = (p, True, e)"
    if "(m, p', b', e') \<in> set rs" "matches p' (segments path) = Some ps'" for p' b' e' ps'
    using assms(2) that seg by (fastforce simp: only_route_def list_all_iff)
qed

lemma run_route:
  "router_law route \<Longrightarrow> plain_id i \<Longrightarrow>
    route (api_routes cfg) ''GET'' (''/v1/runs/'' @ i) = Inr (True, E_Run_Get, [(''runId'', i)])"
  by (rule route_only [OF _ only_run_route split_run_path]) (auto simp: plain_id_def)

lemma logs_route:
  "router_law route \<Longrightarrow> plain_id i \<Longrightarrow>
    route (api_routes cfg) ''GET'' (''/v1/runs/'' @ i @ ''/logs'') = Inr (True, E_Run_Logs, [(''runId'', i)])"
  by (rule route_only [OF _ only_logs_route split_logs_path]) (auto simp: plain_id_def)

lemma get_method: "''GET'' \<noteq> ''OPTIONS''"
  by simp

lemma carry_guarded:
  assumes "av_route S (api_routes (av_config S)) meth path = Inr (True, e, ps)" and "meth \<noteq> ''OPTIONS''"
    and "sd_token c \<noteq> []" and "api_verify S (sd_token c) = Inr i"
  shows "carry S g render (sd_base c) (sdk_request_for c meth path body) s =
    (case endpoint_handler S g (api_request_of render (sd_base c) (sdk_request_for c meth path body)) e ps (Some i) s of
       (r, s1) \<Rightarrow> (http_answer_of render r, s1))"
proof -
  let ?q = "api_request_of render (sd_base c) (sdk_request_for c meth path body)"
  have q: "q_method ?q = meth" "q_path ?q = path" "q_authorization ?q = ''Bearer '' @ sd_token c"
    using assms(3) by (simp_all add: api_request_of_def sdk_request_for_def Let_def coalesce_str_def)
  have "middleware Answer (api_verify S) (q_authorization ?q) nxt None s = nxt (Some i) s" for nxt
    using q(3) assms(4) by (rule middleware_token)
  then have "route_request S g ?q s = endpoint_handler S g ?q e ps (Some i) s"
    unfolding route_request_def q(1,2) assms(1) by simp
  then show ?thesis
    using assms(2) q(1) by (simp add: carry_def api_serve_def cors_def Let_def split_beta)
qed

section \<open>Answers\<close>

text \<open>A run as the client shows it: absent and empty objects are nil.\<close>

definition raw_obj :: "json_obj option \<Rightarrow> json option" where
  "raw_obj m = (case m of None \<Rightarrow> None | Some [] \<Rightarrow> None | Some es \<Rightarrow> Some (JObj es))"

definition sdk_run_of :: "run \<Rightarrow> sdk_run" where
  "sdk_run_of r = \<lparr>xr_id = rn_id r, xr_agent = rn_agent r, xr_status = rn_status r,
     xr_inputs = raw_obj (rn_inputs r), xr_outputs = raw_obj (rn_outputs r), xr_exit = rn_exit r,
     xr_trace = coalesce_str (rn_trace r), xr_created = rn_created r, xr_started = rn_started r,
     xr_ended = rn_ended r\<rparr>"

definition exit_fits :: "run \<Rightarrow> bool" where
  "exit_fits r \<longleftrightarrow> (case rn_exit r of None \<Rightarrow> True | Some x \<Rightarrow> - (2 ^ 63) \<le> x \<and> x < 2 ^ 63)"

lemma decode_omit_obj:
  assumes "map_of fs k = Some (set_raw put)" and "put None r = r"
  shows "decode_fields fs (omit_obj k m) r = Some (put (raw_obj m) r)"
  using assms by (auto simp: omit_obj_def omit_map_def raw_obj_def field_for_def set_raw_def split: option.splits list.splits)

lemma sdk_decodes_run:
  "exit_fits r \<Longrightarrow> unmarshal sdk_run_fields zero_sdk_run (Some (run_dto r)) = Some (sdk_run_of r)"
  by (cases "rn_exit r") (simp_all add: run_dto_def decode_rules decode_omit_obj sdk_run_fields_def zero_sdk_run_def set_str_def
      set_time_def set_opt_time_def set_opt_int_def sdk_run_of_def exit_fits_def split: option.splits)

text \<open>The text of the frames as the client's scanner reads it.\<close>

fun frame_text :: "log_frame \<Rightarrow> string" where
  "frame_text (Log_Line l) = l"
| "frame_text (Log_Error e) = e"

text \<open>A frame of one line that the scanner's buffer holds.\<close>

definition frame_fits :: "log_frame \<Rightarrow> bool" where
  "frame_fits f \<longleftrightarrow>
     (let l = frame_text f in CHR 0x0A \<notin> set l \<and> (l \<noteq> [] \<longrightarrow> last l \<noteq> CHR 0x0D) \<and> length l + 6 < scan_limit)"

lemma raw_lines_Nil [simp]: "raw_lines [] = []"
  by (simp add: raw_lines_def)

lemma raw_lines_append: "CHR 0x0A \<notin> set a \<Longrightarrow> raw_lines (a @ CHR 0x0A # t) = a # raw_lines t"
  by (simp add: raw_lines_def split_on_append Let_def)

lemma raw_lines_newline [simp]: "raw_lines (CHR 0x0A # t) = [] # raw_lines t"
  using raw_lines_append [of "[]" t] by simp

lemma data_lines_append [simp]: "data_lines (xs @ ys) = data_lines xs @ data_lines ys"
  by (simp add: data_lines_def)

lemma data_lines_data [simp]: "data_lines ((''data: '' @ l) # ls) = l # data_lines ls"
  by (simp add: data_lines_def has_prefix_def trim_prefix_def)

lemma data_lines_other: "\<not> has_prefix l ''data: '' \<Longrightarrow> data_lines (l # ls) = data_lines ls"
  by (simp add: data_lines_def)

lemma drop_cr_data: "l = [] \<or> last l \<noteq> CHR 0x0D \<Longrightarrow> drop_cr (''data: '' @ l) = ''data: '' @ l"
  by (auto simp: drop_cr_def)

text \<open>One frame: a \<open>data\<close> line, an empty one, and for an error an \<open>event\<close> line before them.\<close>

lemma raw_lines_frame:
  "frame_fits f \<Longrightarrow> raw_lines (log_text f @ t) =
     (case f of Log_Line l \<Rightarrow> [] | Log_Error e \<Rightarrow> [''event: error'']) @ [''data: '' @ frame_text f, []] @ raw_lines t"
  using raw_lines_append [of "''event: error''"] raw_lines_append [of "''data: '' @ frame_text f" "CHR 0x0A # t"]
  by (cases f) (simp_all add: frame_fits_def Let_def)

lemma scan_frames:
  "(\<And>f. f \<in> set fs \<Longrightarrow> frame_fits f) \<Longrightarrow>
    \<exists>ls. scan_lines (raw_lines (concat (map log_text fs))) = (ls, None) \<and> data_lines ls = map frame_text fs"
proof (induction fs)
  case (Cons f fs)
  then obtain ls where ls: "scan_lines (raw_lines (concat (map log_text fs))) = (ls, None)"
    "data_lines ls = map frame_text fs" by auto
  have f: "frame_fits f" using Cons.prems by simp
  then have l: "length (''data: '' @ frame_text f) < scan_limit"
    and d: "drop_cr (''data: '' @ frame_text f) = ''data: '' @ frame_text f"
    using drop_cr_data by (auto simp: frame_fits_def Let_def simp del: append_Cons append.simps)
  have e: "length ''event: error'' < scan_limit" "drop_cr ''event: error'' = ''event: error''"
    "drop_cr [] = []" "length [] < scan_limit"
    by (simp_all add: scan_limit_def drop_cr_def)
  have o: "data_lines (''event: error'' # xs) = data_lines xs" "data_lines ([] # xs) = data_lines xs" for xs
    by (rule data_lines_other, simp add: has_prefix_def)+
  show ?case
  proof (cases f)
    case (Log_Line x)
    have "raw_lines (concat (map log_text (f # fs))) =
        (''data: '' @ frame_text f) # [] # raw_lines (concat (map log_text fs))"
      using raw_lines_frame [OF f] Log_Line by simp
    with l d e(3,4) ls o show ?thesis by (simp del: append.simps)
  next
    case (Log_Error x)
    have "raw_lines (concat (map log_text (f # fs))) =
        ''event: error'' # (''data: '' @ frame_text f) # [] # raw_lines (concat (map log_text fs))"
      using raw_lines_frame [OF f] Log_Error by simp
    with l d e ls o show ?thesis by (simp del: append.simps)
  qed
qed (simp add: data_lines_def)

section \<open>Properties\<close>





end
