(* ===== verification/Openapi_Operations.thy ===== *)
theory Openapi_Operations
  imports Openapi Sdk_Api
begin

text \<open>
  The operations of \<open>api/openapi.yaml\<close>: their methods, paths, security and request bodies. The
  router of \<open>cmd/api\<close> is checked against them (every documented operation is served, behind the
  documented security), and so are the requests of the Go client (each is an operation of the
  document and carries a body of the documented schema). Headers and query parameters of the
  document are not checked; path parameters are any non-empty segment.
\<close>

section \<open>The operations\<close>

text \<open>
  \<open>op_secured\<close> is the global \<open>security\<close>, unless the operation empties it; \<open>op_body\<close> the request
  body with its \<open>required\<close>; \<open>op_handler\<close> the endpoint that does what the summary says.
\<close>

record operation =
  op_method :: string
  op_path :: "segment list"
  op_secured :: bool
  op_body :: "(bool \<times> schema) option"
  op_handler :: endpoint

definition any_object :: schema where
  "any_object = S_Object []"

definition create_agent_request :: schema where
  "create_agent_request = S_Object [needs ''manifest'' any_object]"

definition trigger_request :: schema where
  "trigger_request = S_Object [may ''inputs'' any_object]"

definition build_request :: schema where
  "build_request = S_Object [needs ''sourceUrl'' S_String]"

definition secret_request :: schema where
  "secret_request = S_Object [needs ''name'' S_String, needs ''value'' S_String]"

definition agent_path :: "segment list" where
  "agent_path = [Lit ''v1'', Lit ''agents'', Param ''agentId'']"

definition run_path :: "segment list" where
  "run_path = [Lit ''v1'', Lit ''runs'', Param ''runId'']"

definition operations :: "operation list" where
  "operations =
     [\<lparr>op_method = ''GET'', op_path = [Lit ''healthz''], op_secured = False, op_body = None, op_handler = E_Health\<rparr>,
      \<lparr>op_method = ''GET'', op_path = [Lit ''v1'', Lit ''agents''], op_secured = True, op_body = None,
        op_handler = E_Agents_List\<rparr>,
      \<lparr>op_method = ''POST'', op_path = [Lit ''v1'', Lit ''agents''], op_secured = True,
        op_body = Some (True, create_agent_request), op_handler = E_Agents_Create\<rparr>,
      \<lparr>op_method = ''GET'', op_path = agent_path, op_secured = True, op_body = None, op_handler = E_Agent_Get\<rparr>,
      \<lparr>op_method = ''DELETE'', op_path = agent_path, op_secured = True, op_body = None,
        op_handler = E_Agent_Delete\<rparr>,
      \<lparr>op_method = ''GET'', op_path = agent_path @ [Lit ''runs''], op_secured = True, op_body = None,
        op_handler = E_Runs_List\<rparr>,
      \<lparr>op_method = ''POST'', op_path = agent_path @ [Lit ''runs''], op_secured = True,
        op_body = Some (False, trigger_request), op_handler = E_Run_Trigger\<rparr>,
      \<lparr>op_method = ''GET'', op_path = run_path, op_secured = True, op_body = None, op_handler = E_Run_Get\<rparr>,
      \<lparr>op_method = ''GET'', op_path = run_path @ [Lit ''logs''], op_secured = True, op_body = None,
        op_handler = E_Run_Logs\<rparr>,
      \<lparr>op_method = ''POST'', op_path = agent_path @ [Lit ''builds''], op_secured = True,
        op_body = Some (True, build_request), op_handler = E_Build_Create\<rparr>,
      \<lparr>op_method = ''POST'', op_path = agent_path @ [Lit ''webhooks'', Param ''webhookName''], op_secured = False,
        op_body = Some (True, any_object), op_handler = E_Webhook\<rparr>,
      \<lparr>op_method = ''GET'', op_path = [Lit ''v1'', Lit ''secrets''], op_secured = True, op_body = None,
        op_handler = E_Secrets_List\<rparr>,
      \<lparr>op_method = ''POST'', op_path = [Lit ''v1'', Lit ''secrets''], op_secured = True,
        op_body = Some (True, secret_request), op_handler = E_Secret_Put\<rparr>,
      \<lparr>op_method = ''DELETE'', op_path = [Lit ''v1'', Lit ''secrets'', Param ''name''], op_secured = True,
        op_body = None, op_handler = E_Secret_Delete\<rparr>]"

lemmas path_defs = agent_path_def run_path_def

section \<open>Patterns that can match the same path\<close>

fun overlap :: "segment list \<Rightarrow> segment list \<Rightarrow> bool" where
  "overlap [] [] = True"
| "overlap (Lit a # p) (Lit b # q) = (a = b \<and> overlap p q)"
| "overlap (x # p) (y # q) = overlap p q"
| "overlap _ _ = False"

lemma matches_tail: "matches (s # p) (x # xs) = Some a \<Longrightarrow> \<exists>b. matches p xs = Some b"
  by (cases s) (auto split: if_splits)

lemma overlap_if_matched: "matches p xs = Some a \<Longrightarrow> matches q xs = Some b \<Longrightarrow> overlap p q"
  by (induction p q arbitrary: xs a b rule: overlap.induct) (auto simp: matches_Some dest!: matches_tail)

text \<open>The pattern without the names of its parameters, on which the values depend.\<close>

definition shape :: "segment list \<Rightarrow> string option list" where
  "shape p = map (\<lambda>s. case s of Lit l \<Rightarrow> Some l | Param _ \<Rightarrow> None) p"

lemma shape_simps [simp]:
  "shape [] = []" "shape (Lit l # p) = Some l # shape p" "shape (Param n # p) = None # shape p"
  by (simp_all add: shape_def)

lemma matches_shape:
  "shape p = shape q \<Longrightarrow> matches p xs = Some a \<Longrightarrow> \<exists>b. matches q xs = Some b \<and> map snd b = map snd a"
proof (induction p arbitrary: q xs a)
  case (Cons s p)
  then obtain s' q' where q: "q = s' # q'" "shape p = shape q'"
    by (cases q) (simp_all add: shape_def)
  with Cons show ?case
    by (cases s; cases s') (fastforce simp: matches_Some)+
qed (auto simp: shape_def)

text \<open>The routes of an operation: one has its shape, and whatever overlaps with it is that route.\<close>

definition serves :: "api_route list \<Rightarrow> operation \<Rightarrow> bool" where
  "serves rs p \<longleftrightarrow>
     list_ex (\<lambda>(m, q, b, e). m = op_method p \<and> shape q = shape (op_path p)) rs \<and>
     list_all (\<lambda>(m, q, b, e). m = op_method p \<and> overlap q (op_path p) \<longrightarrow>
       shape q = shape (op_path p) \<and> b = op_secured p \<and> e = op_handler p) rs"

lemma all_served: "list_all (serves (api_routes cfg)) operations"
  by (simp add: operations_def serves_def path_defs route_defs)

lemma served_route:
  assumes "router_law route" and "serves rs p" and "split_on (CHR ''/'') path = [] # xs"
    and "[] \<notin> set xs" and "matches (op_path p) xs = Some args"
  shows "\<exists>ps. route rs (op_method p) path = Inr (op_secured p, op_handler p, ps) \<and> map snd ps = map snd args"
proof -
  have seg: "segments path = xs"
    using assms(3,4) by (cases "xs = []") (auto simp: segments_def Let_def, metis last_in_set)
  note law = assms(1) [unfolded router_law_def, rule_format, where rs = rs and m = "op_method p" and path = path]
  obtain q b e where q: "(op_method p, q, b, e) \<in> set rs" "shape (op_path p) = shape q"
    using assms(2) by (fastforce simp: serves_def list_ex_iff)
  then obtain a where a: "matches q xs = Some a" using matches_shape assms(5) by blast
  show ?thesis
  proof (cases "route rs (op_method p) path")
    case (Inl x)
    obtain g r where x: "x = (g, r)" by (cases x)
    from law have "\<forall>p' b e. (op_method p, p', b, e) \<in> set rs \<longrightarrow> matches p' xs = None"
      using assms(3,4) seg by (simp add: Inl x)
    with q(1) a show ?thesis by fastforce
  next
    case (Inr x)
    obtain b' e' ps where x: "x = (b', e', ps)" by (cases x)
    from routed [OF assms(1) Inr [unfolded x]] obtain q' where q': "(op_method p, q', b', e') \<in> set rs"
      "matches q' xs = Some ps" using seg by blast
    have "overlap q' (op_path p)" by (rule overlap_if_matched [OF q'(2) assms(5)])
    with assms(2) q'(1) have "shape (op_path p) = shape q' \<and> b' = op_secured p \<and> e' = op_handler p"
      by (fastforce simp: serves_def list_all_iff)
    with matches_shape assms(5) q'(2) Inr x show ?thesis by fastforce
  qed
qed

section \<open>What the document leaves out\<close>

text \<open>The endpoints that are served and not documented.\<close>

definition undocumented :: "endpoint set" where
  "undocumented = {E_Workos, E_Deploy, E_Undeploy, E_Run_Events, E_Trigger_Create, E_Trigger_List, E_Audit_List, E_Me}"

lemma served_endpoints:
  "(\<lambda>(m, p, b, e). e) ` set (api_routes cfg) - op_handler ` set operations =
    undocumented - (if ac_webhook_secret cfg = [] then {E_Workos} else {})"
  by (auto simp: route_defs operations_def undocumented_def)

section \<open>The requests of the client\<close>

definition body_conforms :: "(bool \<times> schema) option \<Rightarrow> json option \<Rightarrow> bool" where
  "body_conforms b j =
     (case (b, j) of
        (None, None) \<Rightarrow> True
      | (None, Some _) \<Rightarrow> False
      | (Some (required, s), None) \<Rightarrow> \<not> required
      | (Some (required, s), Some x) \<Rightarrow> conforms s x)"

text \<open>A request below a server's base URL that some operation of the document describes.\<close>

definition documented_request :: "string \<Rightarrow> sdk_request \<Rightarrow> bool" where
  "documented_request base q \<longleftrightarrow>
     has_prefix (sq_url q) base \<and>
     (let path = drop (length base) (sq_url q)
      in list_ex (\<lambda>p. op_method p = sq_method q \<and> matches (op_path p) (segments path) \<noteq> None \<and>
           body_conforms (op_body p) (sq_json q)) operations)"

text \<open>An HTTP round trip that records the requests; \<open>ans\<close> is the answer to each.\<close>

definition recording :: "(sdk_request \<Rightarrow> error + http_answer) \<Rightarrow> sdk_request list sdk_http" where
  "recording ans q qs = (ans q, qs @ [q])"

text \<open>A call makes one request, and it is a documented one.\<close>

definition documented_call :: "sdk_client \<Rightarrow> sdk_request list \<Rightarrow> bool" where
  "documented_call c qs \<longleftrightarrow> (case qs of [q] \<Rightarrow> documented_request (sd_base c) q | _ \<Rightarrow> False)"

lemma recorded_send: "snd (sdk_send (recording ans) c m path body qs) = qs @ [sdk_request_for c m path body]"
  by (simp add: sdk_send_def recording_def split: sum.split)

lemma recorded_call [simp]:
  "snd (sdk_do (recording ans) c m path body qs) = qs @ [sdk_request_for c m path body]"
  "snd (sdk_do_into flds zero (recording ans) c m path body qs) = qs @ [sdk_request_for c m path body]"
  by (simp_all add: sdk_do_def sdk_do_into_def recorded_send split_beta split: sum.split option.split)

lemma recorded_stream [simp]:
  "snd (sdk_stream_logs (recording ans) c i qs) = qs @ [sdk_request_for c ''GET'' (''/v1/runs/'' @ i @ ''/logs'') None]"
  by (simp add: sdk_stream_logs_def recording_def split: sum.split prod.split option.split)

lemma documented_callI:
  assumes "p \<in> set operations" and "op_method p = m" and "matches (op_path p) (segments path) \<noteq> None"
    and "body_conforms (op_body p) body"
  shows "documented_call c [sdk_request_for c m path body]"
proof -
  have "has_prefix (sd_base c @ path) (sd_base c)" by (simp add: has_prefix_iff)
  with assms show ?thesis
    by (auto simp: documented_call_def documented_request_def sdk_request_for_def list_ex_iff Let_def)
qed

text \<open>The segments of the client's paths.\<close>

lemma segments_split: "split_on (CHR ''/'') path = [] # xs \<Longrightarrow> [] \<notin> set xs \<Longrightarrow> segments path = xs"
  by (cases "xs = []") (auto simp: segments_def Let_def, metis last_in_set)

lemma split_agent_path:
  "plain_id i \<Longrightarrow> split_on (CHR ''/'') (''/v1/agents/'' @ i) = [[], ''v1'', ''agents'', i]"
  "plain_id i \<Longrightarrow> CHR ''/'' \<notin> set t \<Longrightarrow>
    split_on (CHR ''/'') (''/v1/agents/'' @ i @ CHR ''/'' # t) = [[], ''v1'', ''agents'', i, t]"
  by (simp_all add: plain_id_def split_on_absent split_on_append)

lemma split_secret_path:
  "plain_id i \<Longrightarrow> split_on (CHR ''/'') (''/v1/secrets/'' @ i) = [[], ''v1'', ''secrets'', i]"
  by (simp add: plain_id_def split_on_absent)

lemmas client_paths = split_agent_path split_secret_path split_run_path split_logs_path

lemma segments_client:
  "plain_id i \<Longrightarrow> segments (''/v1/agents/'' @ i) = [''v1'', ''agents'', i]"
  "plain_id i \<Longrightarrow> CHR ''/'' \<notin> set t \<Longrightarrow> t \<noteq> [] \<Longrightarrow>
    segments (''/v1/agents/'' @ i @ CHR ''/'' # t) = [''v1'', ''agents'', i, t]"
  "plain_id i \<Longrightarrow> segments (''/v1/secrets/'' @ i) = [''v1'', ''secrets'', i]"
  "plain_id i \<Longrightarrow> segments (''/v1/runs/'' @ i) = [''v1'', ''runs'', i]"
  "plain_id i \<Longrightarrow> segments (''/v1/runs/'' @ i @ ''/logs'') = [''v1'', ''runs'', i, ''logs'']"
  by (rule segments_split, rule client_paths, assumption+, force simp: plain_id_def)+

lemma segments_fixed:
  "segments ''/v1/agents'' = [''v1'', ''agents'']" "segments ''/v1/secrets'' = [''v1'', ''secrets'']"
  by code_simp+

lemmas sdk_call_defs = sdk_list_agents_def sdk_create_agent_def sdk_get_agent_def sdk_delete_agent_def
  sdk_list_runs_def sdk_trigger_run_def sdk_get_run_def sdk_create_build_def sdk_list_secrets_def
  sdk_set_secret_def sdk_delete_secret_def

text \<open>
  Every method of the client for an operation of the document makes one request, which is a
  documented one: its method and path, and its body, when manifests and inputs are not nil.
\<close>

lemma sdk_requests_are_documented:
  assumes "plain_id i"
  shows "\<forall>qs \<in> {snd (sdk_list_agents (recording ans) c []), snd (sdk_create_agent (recording ans) c (Some man) []),
      snd (sdk_get_agent (recording ans) c i []), snd (sdk_delete_agent (recording ans) c i []),
      snd (sdk_list_runs (recording ans) c i []), snd (sdk_trigger_run (recording ans) c i (Some ins) []),
      snd (sdk_get_run (recording ans) c i []), snd (sdk_stream_logs (recording ans) c i []),
      snd (sdk_create_build (recording ans) c i url []), snd (sdk_list_secrets (recording ans) c []),
      snd (sdk_set_secret (recording ans) c name val []), snd (sdk_delete_secret (recording ans) c i [])}.
    documented_call c qs"
proof -
  have doc: "documented_call c [sdk_request_for c m path body]"
    if "list_ex (\<lambda>p. op_method p = m \<and> matches (op_path p) xs \<noteq> None \<and> body_conforms (op_body p) body) operations"
      "segments path = xs" for m path body xs
    using that documented_callI by (fastforce simp: list_ex_iff)
  note defs = operations_def path_defs body_conforms_def create_agent_request_def trigger_request_def
    build_request_def secret_request_def any_object_def obj_or_null_def
  show ?thesis
    unfolding sdk_call_defs recorded_call recorded_stream append_Nil ball_simps
    by (intro conjI; (rule TrueI | rule doc [rotated], rule segments_fixed segments_client [OF assms],
        (simp add: defs)+))
qed

text \<open>A nil manifest or nil inputs are sent as \<open>null\<close>, which the document does not allow.\<close>

lemma nil_objects_are_undocumented:
  "\<not> documented_call c (snd (sdk_create_agent (recording ans) c None []))"
  "plain_id i \<Longrightarrow> \<not> documented_call c (snd (sdk_trigger_run (recording ans) c i None []))"
  using segments_client(2) [of i "''runs''"]
  by (simp_all add: sdk_call_defs documented_call_def documented_request_def sdk_request_for_def Let_def segments_fixed
      operations_def path_defs body_conforms_def create_agent_request_def trigger_request_def any_object_def obj_or_null_def)

section \<open>The property\<close>

text \<open>The caller that a bearer token of the \<open>Authorization\<close> header names, if it is accepted.\<close>

definition bearer :: "'k api_server \<Rightarrow> api_request \<Rightarrow> identity option" where
  "bearer S q =
     (if has_prefix (q_authorization q) ''Bearer '' then
        (case api_verify S (trim_prefix (q_authorization q) ''Bearer '') of Inl _ \<Rightarrow> None | Inr i \<Rightarrow> Some i)
      else None)"

lemma operation_methods: "p \<in> set operations \<Longrightarrow> op_method p \<noteq> ''OPTIONS''"
  by (auto simp: operations_def)

text \<open>
  C34: what the document offers is served as documented. With a router that keeps its law, a
  request with the method and a path of an operation of \<open>api/openapi.yaml\<close> reaches the handler of
  that operation, with the path parameters of the pattern in their order: without credentials
  when the operation has no security, under the identity of an accepted bearer token otherwise,
  and answered 401 with nothing changed when there is none.
\<close>

theorem documented_operations_are_served:
  assumes "router_law (av_route S)" and "p \<in> set operations" and "q_method q = op_method p"
    and "split_on (CHR ''/'') (q_path q) = [] # xs" and "[] \<notin> set xs" and "matches (op_path p) xs = Some args"
  shows "\<exists>ps. map snd ps = map snd args \<and>
    api_serve S g q s =
      (case (if \<not> op_secured p then endpoint_handler S g q (op_handler p) ps None s
             else case bearer S q of
                    None \<Rightarrow> (Answer unauthorized, s)
                  | Some i \<Rightarrow> endpoint_handler S g q (op_handler p) ps (Some i) s) of
         (r, s') \<Rightarrow> ((cors_headers (av_origins S) (q_origin q), r), s'))"
proof -
  have "serves (api_routes (av_config S)) p"
    using all_served assms(2) by (simp add: list_all_iff)
  from served_route [OF assms(1) this assms(4-6)] obtain ps
    where ps: "map snd ps = map snd args"
      "av_route S (api_routes (av_config S)) (op_method p) (q_path q) = Inr (op_secured p, op_handler p, ps)" by blast
  have "api_serve S g q s =
      (case route_request S g q s of (r, s') \<Rightarrow> ((cors_headers (av_origins S) (q_origin q), r), s'))"
    using operation_methods [OF assms(2)] assms(3) by (simp add: api_serve_def cors_def Let_def)
  also have "route_request S g q s =
      (if \<not> op_secured p then endpoint_handler S g q (op_handler p) ps None s
       else case bearer S q of
              None \<Rightarrow> (Answer unauthorized, s)
            | Some i \<Rightarrow> endpoint_handler S g q (op_handler p) ps (Some i) s)"
    by (simp add: route_request_def assms(3) ps(2) middleware_def with_identity_def bearer_def split: sum.split)
  finally show ?thesis using ps(1) by blast
qed

text \<open>Reading a run without a token.\<close>

theorem documented_operations_are_served_witness:
  "api_serve sample_server sample_gen ((sample_api_request ''GET'' ''/v1/runs/r2'')\<lparr>q_authorization := []\<rparr>)
      (new_hub, quiet_world sample_db []) =
    ((cors_headers (av_origins sample_server) [], Answer unauthorized), new_hub, quiet_world sample_db [])"
proof -
  let ?q = "(sample_api_request ''GET'' ''/v1/runs/r2'')\<lparr>q_authorization := []\<rparr>"
  let ?p = "\<lparr>op_method = ''GET'', op_path = run_path, op_secured = True, op_body = None, op_handler = E_Run_Get\<rparr>"
  have r: "router_law (av_route sample_server)" by (simp add: sample_server_def in_order_law)
  have p: "?p \<in> set operations" by (simp add: operations_def)
  have x: "split_on (CHR ''/'') (q_path ?q) = [] # [''v1'', ''runs'', ''r2'']" by code_simp
  have b: "bearer sample_server q = None" if "q_authorization q = []" for q
    using that by (simp add: bearer_def has_prefix_def)
  from documented_operations_are_served [OF r p _ x, of "[(''runId'', ''r2'')]" sample_gen "(new_hub, quiet_world sample_db [])"]
  show ?thesis by (simp add: b sample_api_request_def run_path_def)
qed

end
