(* ===== verification/Repo_Steps.thy ===== *)
theory Repo_Steps
  imports World Tenants_Repo Runs_Repo Builds_Repo Triggers_Repo Secrets_Repo
begin

text \<open>
  The statements that the program runs against the database, as a step relation: one
  constructor for each writing operation of the repositories and of the background workers. What holds
  of every step holds of every handler: the integrity of the tables, and the history of a run.
  \<open>N\<close> holds the identifiers that the database may give to new runs.
\<close>

inductive repo_step :: "string set \<Rightarrow> database \<Rightarrow> database \<Rightarrow> bool" for N :: "string set" where
  tenant_upserted: "repo_step N d (snd (tenants_upsert now i slug name d))"
| tenant_deleted: "repo_step N d (snd (tenants_delete i d))"
| agent_created: "repo_step N d (snd (agents_create uuid now tenant m d))"
| agent_deleted: "repo_step N d (snd (agents_delete tenant i d))"
| run_created: "uuid \<in> N \<Longrightarrow> repo_step N d (snd (runs_create uuid now tenant agent inputs trace d))"
| run_started: "repo_step N d (mark_started i ts d)"
| run_completed: "repo_step N d (snd (mark_completed i c d))"
| build_created: "repo_step N d (snd (builds_create uuid now tenant agent source d))"
| build_started: "repo_step N d (builds_mark_running i d)"
| build_completed: "repo_step N d (snd (builds_mark_completed i x d))"
| build_given_up: "(\<And>b. bd_id (f b) = bd_id b \<and> bd_tenant (f b) = bd_tenant b \<and> bd_agent (f b) = bd_agent b) \<Longrightarrow>
    (\<And>b. p b \<Longrightarrow> bd_status (f b) \<in> set build_statuses) \<Longrightarrow>
    repo_step N d (d\<lparr>d_builds := update_where p f (d_builds d)\<rparr>)"
| trigger_created: "repo_step N d (snd (triggers_create b raw nonce uuid now tenant agent kind name cron d))"
| secret_upserted: "repo_step N d (snd (secrets_upsert b nonce uuid now tenant name val d))"
| secret_deleted: "repo_step N d (snd (secrets_delete tenant name d))"
| usage_recorded: "repo_step N d (snd (record_run uid tenant agent run kind q ts d))"
| usage_pruned: "repo_step N d (d\<lparr>d_usage := delete_where p (d_usage d)\<rparr>)"
| audited: "repo_step N d (snd (audit_insert aid now tenant user action rtype rid meta req d))"
| shipped: "repo_step N d (d\<lparr>d_shipper := cs\<rparr>)"
| exported: "repo_step N d (d\<lparr>d_export := cs\<rparr>)"

definition repo_steps :: "string set \<Rightarrow> database \<Rightarrow> database \<Rightarrow> bool" where
  "repo_steps N = (repo_step N)\<^sup>*\<^sup>*"

named_theorems traces \<open>operations that are sequences of repository steps\<close>

lemma repo_steps_refl [simp, traces]: "repo_steps N d d"
  by (simp add: repo_steps_def)

lemma repo_steps_step: "repo_steps N d0 d \<Longrightarrow> repo_step N d d' \<Longrightarrow> repo_steps N d0 d'"
  by (simp add: repo_steps_def)

lemma repo_steps_trans: "repo_steps N d0 d1 \<Longrightarrow> repo_steps N d1 d2 \<Longrightarrow> repo_steps N d0 d2"
  by (simp add: repo_steps_def)

lemma db_write_traces [traces]:
  assumes "repo_steps N d0 (w_db w)" and "\<And>d. repo_step N d (snd (f d))"
  shows "repo_steps N d0 (w_db (snd (db_write f w)))"
  using db_write_db [of f w] assms repo_steps_step by metis

lemmas step_traces [traces] = repo_step.intros

lemma audit_log_traces [traces]:
  "repo_steps N d0 (w_db w) \<Longrightarrow> repo_steps N d0 (w_db (audit_log g c a t r m w))"
  by (simp add: audit_log_def traces split: option.split)

section \<open>Integrity\<close>

lemma usage_subset_ok:
  assumes "db_ok d"
  shows "db_ok (d\<lparr>d_usage := delete_where p (d_usage d)\<rparr>)"
proof -
  let ?d = "d\<lparr>d_usage := delete_where p (d_usage d)\<rparr>"
  have comm: "filter q (delete_where p xs) = delete_where p (filter q xs)" for q and xs :: "usage_event list"
    by (induction xs) (auto simp: delete_where_def)
  have "distinct (map (\<lambda>u. (us_run u, us_kind u)) (filter (\<lambda>u. us_run u \<noteq> None) (d_usage d)))"
    using assms by (simp add: db_ok_def usage_ok_def)
  then have "distinct (map (\<lambda>u. (us_run u, us_kind u)) (filter (\<lambda>u. us_run u \<noteq> None) (delete_where p (d_usage d))))"
    unfolding comm by (rule distinct_map_delete_where)
  moreover have "tenant_exists i ?d = tenant_exists i d" "agent_exists i ?d = agent_exists i d"
    "run_exists i ?d = run_exists i d" for i
    by (simp_all add: tenant_exists_def agent_exists_def run_exists_def)
  ultimately show ?thesis
    using assms unfolding db_ok_def
    by (simp add: keys_ok_def status_ok_def refs_ok_def usage_ok_def) (auto simp: delete_where_def)
qed

lemma checkpoint_ok [simp]: "db_ok (d\<lparr>d_shipper := cs\<rparr>) = db_ok d" "db_ok (d\<lparr>d_export := cs\<rparr>) = db_ok d"
  by (simp_all add: db_ok_defs)

lemma repo_step_ok: "repo_step N d d' \<Longrightarrow> db_ok d \<Longrightarrow> db_ok d'"
  by (induction rule: repo_step.induct)
    (simp_all add: keeps usage_subset_ok audit_insert_ok update_builds_ok)

lemma repo_steps_ok: "repo_steps N d d' \<Longrightarrow> db_ok d \<Longrightarrow> db_ok d'"
  unfolding repo_steps_def by (induction rule: rtranclp_induct) (auto dest: repo_step_ok)

section \<open>The history of a run\<close>

text \<open>
  What may become of a run: it keeps its identity and what it was started with, its start time
  once it has one, and everything once it is terminal.
\<close>

definition run_successor :: "run \<Rightarrow> run \<Rightarrow> bool" where
  "run_successor r r' \<longleftrightarrow>
     rn_id r' = rn_id r \<and> rn_tenant r' = rn_tenant r \<and> rn_agent r' = rn_agent r \<and>
     rn_inputs r' = rn_inputs r \<and> rn_trace r' = rn_trace r \<and> rn_created r' = rn_created r \<and>
     (\<forall>t. rn_started r = Some t \<longrightarrow> rn_started r' = Some t) \<and>
     (terminal_status (rn_status r) \<longrightarrow> r' = r)"

lemma run_successor_refl [simp]: "run_successor r r"
  by (simp add: run_successor_def)

lemma run_successor_trans: "run_successor r r' \<Longrightarrow> run_successor r' r'' \<Longrightarrow> run_successor r r''"
  unfolding run_successor_def by metis

lemma start_run_successor: "rn_status r \<in> {StatusPending, StatusRunning} \<Longrightarrow> run_successor r (start_run ts r)"
  by (auto simp: run_successor_def start_run_def terminal_status_def run_status_defs)

lemma complete_run_successor: "\<not> terminal_status (rn_status r) \<Longrightarrow> run_successor r (complete_run c r)"
  by (simp add: run_successor_def complete_run_def)

definition only_successors :: "run \<Rightarrow> database \<Rightarrow> bool" where
  "only_successors r d \<longleftrightarrow> (\<forall>r'\<in>set (d_runs d). rn_id r' = rn_id r \<longrightarrow> run_successor r r')"

lemma only_successors_subset:
  "only_successors r d \<Longrightarrow> set (d_runs d') \<subseteq> set (d_runs d) \<Longrightarrow> only_successors r d'"
  by (auto simp: only_successors_def)

lemma only_successors_update:
  assumes "only_successors r d" and "\<And>x. p x \<Longrightarrow> run_successor x (f x)"
    and "d_runs d' = update_where p f (d_runs d)"
  shows "only_successors r d'"
  unfolding only_successors_def
proof (intro ballI impI)
  fix r' assume "r' \<in> set (d_runs d')" and i: "rn_id r' = rn_id r"
  then consider "r' \<in> set (d_runs d)" | x where "x \<in> set (d_runs d)" "p x" "r' = f x"
    using assms(3) by (auto simp: set_update_where)
  then show "run_successor r r'"
  proof cases
    case 1
    with assms(1) i show ?thesis by (simp add: only_successors_def)
  next
    case 2
    with assms(2) have x: "run_successor x r'" by simp
    then have "rn_id x = rn_id r" using i by (simp add: run_successor_def)
    with assms(1) 2(1) x show ?thesis
      by (auto simp: only_successors_def intro: run_successor_trans)
  qed
qed

lemma delete_agents_runs: "set (d_runs (delete_agents p d)) \<subseteq> set (d_runs d)"
  by (auto simp: delete_agents_def delete_where_def Let_def)

lemma delete_tenants_runs: "set (d_runs (delete_tenants p d)) \<subseteq> set (d_runs d)"
  using delete_agents_runs by (fastforce simp: delete_tenants_def delete_where_def Let_def)

text \<open>The other operations leave the runs as they are.\<close>

lemma runs_untouched:
  "d_runs (snd (tenants_upsert now i slug name d)) = d_runs d"
  "d_runs (snd (agents_create uuid now tenant m d)) = d_runs d"
  "d_runs (snd (builds_create uuid now tenant agent source d)) = d_runs d"
  "d_runs (builds_mark_running i d) = d_runs d"
  "d_runs (snd (builds_mark_completed i x d)) = d_runs d"
  "d_runs (snd (triggers_create b raw nonce uuid now tenant agent kind name cron d)) = d_runs d"
  "d_runs (snd (secrets_upsert b nonce uuid now tenant name val d)) = d_runs d"
  "d_runs (snd (secrets_delete tenant name d)) = d_runs d"
  "d_runs (snd (audit_insert aid now tenant user action rtype rid meta req d)) = d_runs d"
  by (simp_all add: tenants_upsert_def agents_create_def builds_create_def builds_mark_running_def
      builds_mark_completed_def triggers_create_def secrets_upsert_def secrets_delete_def audit_insert_def
      Let_def split_beta set_agent_image_def split: option.split sum.split)

lemma repo_step_runs:
  assumes "repo_step N d d'" and "only_successors r d" and "rn_id r \<notin> N"
  shows "only_successors r d'"
  using assms(1,2)
proof (induction rule: repo_step.induct)
  case (tenant_deleted d i)
  then show ?case
    using delete_tenants_runs by (auto simp: tenants_delete_def intro: only_successors_subset)
next
  case (agent_deleted d tenant i)
  then show ?case
    using delete_agents_runs by (auto simp: agents_delete_def intro: only_successors_subset)
next
  case (run_created uuid d now tenant agent inputs trace)
  then show ?case
    using assms(3) by (auto simp: only_successors_def runs_create_def Let_def)
next
  case (run_started d i ts)
  then show ?case
    by (rule only_successors_update [where f = "start_run ts"]) (auto simp: mark_started_def intro: start_run_successor)
next
  case (run_completed d i c)
  show ?case
  proof (cases "fst (mark_completed i c d)")
    case (Inl e)
    then have "snd (mark_completed i c d) = d" by (auto simp: mark_completed_def split: if_splits)
    with run_completed show ?thesis by simp
  next
    case (Inr u)
    then have eq: "d_runs (snd (mark_completed i c d)) =
        update_where (\<lambda>r. rn_id r = i \<and> \<not> terminal_status (rn_status r)) (complete_run c) (d_runs d)"
      by (auto simp: mark_completed_def complete_rows_def split: if_splits)
    show ?thesis
      by (rule only_successors_update [OF run_completed _ eq]) (simp add: complete_run_successor)
  qed
qed (simp_all add: only_successors_def runs_untouched)

lemma repo_steps_runs:
  "repo_steps N d d' \<Longrightarrow> only_successors r d \<Longrightarrow> rn_id r \<notin> N \<Longrightarrow> only_successors r d'"
  unfolding repo_steps_def by (induction rule: rtranclp_induct) (auto dest: repo_step_runs)

text \<open>New runs have identifiers from \<open>N\<close>.\<close>

lemma repo_step_ids:
  assumes "repo_step N d d'"
  shows "rn_id ` set (d_runs d') \<subseteq> rn_id ` set (d_runs d) \<union> N"
  using assms
proof (induction rule: repo_step.induct)
  case (tenant_deleted d i)
  have "set (d_runs (snd (tenants_delete i d))) \<subseteq> set (d_runs d)"
    using delete_tenants_runs by (auto simp: tenants_delete_def)
  then show ?case by blast
next
  case (agent_deleted d tenant i)
  have "set (d_runs (snd (agents_delete tenant i d))) \<subseteq> set (d_runs d)"
    using delete_agents_runs by (auto simp: agents_delete_def)
  then show ?case by blast
next
  case (run_created uuid d now tenant agent inputs trace)
  then show ?case by (auto simp: runs_create_def Let_def)
next
  case (run_started d i ts)
  then show ?case by (auto simp: mark_started_def set_update_where start_run_def)
next
  case (run_completed d i c)
  then show ?case by (auto simp: mark_completed_def complete_rows_def set_update_where complete_run_def)
qed (auto simp: runs_untouched)

lemma repo_steps_ids:
  "repo_steps N d d' \<Longrightarrow> rn_id ` set (d_runs d') \<subseteq> rn_id ` set (d_runs d) \<union> N"
  unfolding repo_steps_def
proof (induction rule: rtranclp_induct)
  case (step d1 d2)
  then show ?case using repo_step_ids [OF step(2)] by blast
qed simp

end
