(* ===== verification/Platform.thy ===== *)
theory Platform
  imports Repo_Steps Api_Server Status_Consumer Cron_Scheduler Janitor Run_Controller Deployment_Controller
begin

text \<open>
  The platform as a whole: its services act on one world, the database, the cluster and the
  bus, in any order and with any parameters, while the cluster changes and calls fail on their
  own. Every handler is a sequence of repository steps, so what \<open>Repo_Steps\<close> shows of a step
  holds of every execution.
\<close>

section \<open>The handlers as sequences of repository steps\<close>

lemma agents_handlers_traces [traces]:
  "repo_steps N d0 (w_db w) \<Longrightarrow> repo_steps N d0 (w_db (snd (agents_create_handler g c bdy w)))"
  "repo_steps N d0 (w_db w) \<Longrightarrow> repo_steps N d0 (w_db (snd (agents_delete_handler g c a w)))"
  "repo_steps N d0 (w_db w) \<Longrightarrow> repo_steps N d0 (w_db (snd (deploy_handler Ko bo g c a w)))"
  "repo_steps N d0 (w_db w) \<Longrightarrow> repo_steps N d0 (w_db (snd (undeploy_handler g c a w)))"
  by (simp_all add: agents_create_handler_def agents_delete_handler_def deploy_handler_def undeploy_handler_def
      split_beta traces split: option.split sum.split)

lemma runs_handlers_traces [traces]:
  "repo_steps N d0 (w_db w) \<Longrightarrow> g_uuid g \<in> N \<Longrightarrow>
    repo_steps N d0 (w_db (snd (trigger_handler Ko bo g c a n bdy w)))"
  "repo_steps N d0 (w_db w) \<Longrightarrow> g_uuid g \<in> N \<Longrightarrow>
    repo_steps N d0 (w_db (snd (webhook_handler hm ps b g c a nm hdr bs w)))"
  "repo_steps N d0 (w_db w) \<Longrightarrow> g_uuid g \<in> N \<Longrightarrow> repo_steps N d0 (w_db (snd (fire g t w)))"
  by (simp_all add: trigger_handler_def webhook_handler_def fire_def split_beta traces split: option.split sum.split)

lemma triggers_handlers_traces [traces]:
  "repo_steps N d0 (w_db w) \<Longrightarrow> repo_steps N d0 (w_db (snd (triggers_create_handler b g c a bdy w)))"
  by (simp add: triggers_create_handler_def split_beta traces split: option.split sum.split)

lemma secrets_handlers_traces [traces]:
  "repo_steps N d0 (w_db w) \<Longrightarrow> repo_steps N d0 (w_db (snd (secrets_upsert_handler b g c bdy w)))"
  "repo_steps N d0 (w_db w) \<Longrightarrow> repo_steps N d0 (w_db (snd (secrets_del_handler g c nm w)))"
  by (simp_all add: secrets_upsert_handler_def secrets_del_handler_def split_beta traces split: option.split sum.split)

lemma builds_handlers_traces [traces]:
  "repo_steps N d0 (w_db w) \<Longrightarrow> repo_steps N d0 (w_db (snd (builds_create_handler g c a bdy w)))"
  "repo_steps N d0 (w_db w) \<Longrightarrow> repo_steps N d0 (w_db (snd (complete_build ce now e out w)))"
  by (simp_all add: builds_create_handler_def complete_build_def Let_def with_ctx_def split_beta traces
      split: option.split sum.split)

lemma handle_build_traces [traces]:
  "repo_steps N d0 (w_db w) \<Longrightarrow> repo_steps N d0 (w_db (snd (build_consumer K f lat now msg w)))"
  by (simp add: build_consumer_def handle_build_def Let_def split_beta with_ctx_def traces run_pipeline_frame
      split: option.split sum.split)

lemma workos_traces [traces]:
  "repo_steps N d0 (w_db w) \<Longrightarrow> repo_steps N d0 (w_db (snd (apply_workos g c ev t w)))"
  "repo_steps N d0 (w_db w) \<Longrightarrow> repo_steps N d0 (w_db (snd (workos_handler hm u ps h g c hdr bs w)))"
proof -
  show a: "repo_steps N d0 (w_db w) \<Longrightarrow> repo_steps N d0 (w_db (snd (apply_workos g c ev t w)))" for ev t
    by (simp add: apply_workos_def Let_def split_beta traces split: sum.split)
  show "repo_steps N d0 (w_db w) \<Longrightarrow> repo_steps N d0 (w_db (snd (workos_handler hm u ps h g c hdr bs w)))"
    by (simp add: workos_handler_def a split: option.split)
qed

lemma status_traces [traces]:
  "repo_steps N d0 (w_db w) \<Longrightarrow> repo_steps N d0 (w_db (snd (snd (handle_started u hm g msg (h, w)))))"
  "repo_steps N d0 (w_db w) \<Longrightarrow> repo_steps N d0 (w_db (snd (snd (handle_completed u hm g msg (h, w)))))"
  by (simp_all add: handle_started_def handle_completed_def Let_def split_beta traces split: option.split sum.split)

lemma worker_traces [traces]:
  "repo_steps N d0 (w_db w) \<Longrightarrow> repo_steps N d0 (w_db (fst (snd (ship_tick q s ship now w))))"
  "repo_steps N d0 (w_db w) \<Longrightarrow> repo_steps N d0 (w_db (fst (snd (export_run date ex put g w))))"
  by (simp_all add: ship_tick_def export_run_def Let_def split_beta traces split: option.split sum.split)

lemma fail_build_legal: "bd_status (fail_build now b) \<in> set build_statuses"
  by (simp add: fail_build_def build_statuses_def BuildFailed_def)

lemma janitor_traces [traces]:
  assumes "repo_steps N d0 (w_db w)"
  shows "repo_steps N d0 (w_db (snd (janitor_tick K date put g clock j w)))"
proof -
  have s: "repo_steps N d0 (w_db (fail_stuck_builds now dbnow j w))" if "repo_steps N d0 (w_db w)" for now dbnow w
    using that fail_build_legal unfolding fail_stuck_builds_def
    by (intro db_write_traces) (auto intro!: build_given_up simp: fail_build_def)
  have u: "repo_steps N d0 (w_db (gc_usage_events now j w))" if "repo_steps N d0 (w_db w)" for now w
    using that by (simp add: gc_usage_events_def traces)
  have x: "repo_steps N d0 (w_db (snd (export_audit date put g now later j w)))" if "repo_steps N d0 (w_db w)" for now later w
    using worker_traces(2) [OF that] by (simp add: export_audit_def split_beta that split: option.split sum.split)
  show ?thesis
    by (simp add: janitor_tick_def Let_def s u x assms)
qed

lemma stream_open_db [simp]: "w_db (snd (snd (stream_open a b c run (h, w)))) = w_db w"
  by (simp add: stream_open_def split_beta split: option.split sum.split)

lemma listing_db [simp]:
  "w_db (snd (agents_list_handler c w)) = w_db w" "w_db (snd (agents_get_handler c a w)) = w_db w"
  "w_db (snd (runs_list_handler c a w)) = w_db w" "w_db (snd (runs_get_handler c a w)) = w_db w"
  "w_db (snd (triggers_list_handler c a w)) = w_db w" "w_db (snd (secrets_list_handler c w)) = w_db w"
  "w_db (snd (audit_list_handler c a w)) = w_db w" "w_db (snd (me_handler c w)) = w_db w"
  by (simp_all add: reading_handler_defs Let_def split_beta split: option.split sum.split)

lemma endpoint_traces:
  assumes "repo_steps N d0 (w_db w)" and "g_uuid g \<in> N"
  shows "repo_steps N d0 (w_db (snd (snd (endpoint_handler S g q e ps c (h, w)))))"
  using assms by (cases e) (simp_all add: endpoint_handler_def Let_def answer_def split_beta traces)

lemma api_traces [traces]:
  assumes "repo_steps N d0 (w_db w)" and "g_uuid g \<in> N"
  shows "repo_steps N d0 (w_db (snd (snd (api_serve S g q (h, w)))))"
proof -
  have m: "repo_steps N d0 (w_db (snd (snd (middleware Answer v hdr nxt c (h, w)))))"
    if "\<And>c. repo_steps N d0 (w_db (snd (snd (nxt c (h, w)))))" for v hdr c and nxt :: "ctx \<Rightarrow> _"
    using that assms(1) by (simp add: middleware_def split: sum.split)
  show ?thesis
    using assms endpoint_traces [OF assms]
    by (auto simp: api_serve_def cors_def route_request_def Let_def split_beta intro!: m split: sum.split)
qed

section \<open>Executions\<close>

text \<open>
  One action of some service, or of the surroundings: \<open>elsewhere\<close> is a change of the cluster, of
  the outcomes of the coming calls, of the hub's listeners or of the bus that leaves the
  database alone. \<open>statement\<close> is one statement of a repository by itself, with any parameters: the
  database runs the statements one after the other, so handlers that run concurrently, or stop
  midway, are sequences of such actions whose statements alternate in any order.
  \<open>u\<close> is the identifier the action may give to a new run.
\<close>

inductive platform_act :: "string \<Rightarrow> hub \<times> 'k world \<Rightarrow> hub \<times> 'k world \<Rightarrow> bool" where
  serve: "g_uuid g = u \<Longrightarrow> platform_act u (h, w) (snd (api_serve S g q (h, w)))"
| started: "platform_act u (h, w) (snd (handle_started us hm g msg (h, w)))"
| completed: "platform_act u (h, w) (snd (handle_completed us hm g msg (h, w)))"
| hub_message: "platform_act u (h, w) (deliver_from_bus subject msg h, w)"
| cron_fire: "g_uuid g = u \<Longrightarrow> platform_act u (h, w) (h, snd (fire g t w))"
| build: "platform_act u (h, w) (h, snd (build_consumer K f lat now msg w))"
| dispatch: "platform_act u (h, w) (h, snd (dispatch_run K qs ls render msg w))"
| deploy: "platform_act u (h, w) (h, snd (dispatch_deployment K qs ls msg w))"
| stop: "platform_act u (h, w) (h, snd (dispatch_stop K msg w))"
| reconcile: "platform_act u (h, w) (h, snd (reconcile_run K bus now req w))"
| reconcile_agent: "platform_act u (h, w) (h, w\<lparr>w_kube := snd (reconcile_deployment L K req (w_kube w))\<rparr>)"
| ship: "platform_act u (h, w) (h, fst (snd (ship_tick qt sh orb now w)))"
| clean: "platform_act u (h, w) (h, snd (janitor_tick K date put g clock j w))"
| statement: "repo_step {u} (w_db w) d' \<Longrightarrow> platform_act u (h, w) (h, w\<lparr>w_db := d'\<rparr>)"
| elsewhere: "w_db w' = w_db w \<Longrightarrow> platform_act u (h, w) (h', w')"

text \<open>A state of the platform: the run identifiers used so far, the hub and the world.\<close>

inductive platform_next ::
  "string set \<times> hub \<times> 'k world \<Rightarrow> string set \<times> hub \<times> 'k world \<Rightarrow> bool" where
  act: "u \<notin> U \<Longrightarrow> platform_act u s s' \<Longrightarrow> platform_next (U, s) (insert u U, s')"

inductive_cases platform_nextE: "platform_next (U, s) x"

lemma platform_act_traces:
  "platform_act u s s' \<Longrightarrow> repo_steps {u} (w_db (snd s)) (w_db (snd s'))"
  by (induction rule: platform_act.induct) (simp_all add: traces repo_steps_step [OF repo_steps_refl])

definition platform_ok :: "string set \<times> hub \<times> 'k world \<Rightarrow> bool" where
  "platform_ok x \<longleftrightarrow> db_ok (w_db (snd (snd x))) \<and> rn_id ` set (d_runs (w_db (snd (snd x)))) \<subseteq> fst x"

lemma platform_next_ok:
  assumes "platform_next x y" and "platform_ok x"
  shows "platform_ok y"
  using assms(1)
proof cases
  case (act u U s s')
  note t = platform_act_traces [OF act(4)]
  have "db_ok (w_db (snd s'))"
    using repo_steps_ok [OF t] assms(2) act(1) by (simp add: platform_ok_def)
  moreover have "rn_id ` set (d_runs (w_db (snd s'))) \<subseteq> insert u U"
    using repo_steps_ids [OF t] assms(2) act(1) by (simp add: platform_ok_def) blast
  ultimately show ?thesis by (simp add: platform_ok_def act(2))
qed

text \<open>An identifier that was used stays used, and its rows are successors of the earlier one.\<close>

lemma platform_next_runs:
  assumes "platform_next x y" and "rn_id r \<in> fst x" and "only_successors r (w_db (snd (snd x)))"
  shows "rn_id r \<in> fst y \<and> only_successors r (w_db (snd (snd y)))"
  using assms(1)
proof cases
  case (act u U s s')
  note t = platform_act_traces [OF act(4)]
  have "rn_id r \<notin> {u}" using act(1,3) assms(2) by auto
  with repo_steps_runs [OF t] assms(2,3) act(1,2) show ?thesis by simp
qed

lemma platform_run_ok: "platform_next\<^sup>*\<^sup>* x y \<Longrightarrow> platform_ok x \<Longrightarrow> platform_ok y"
  by (induction rule: rtranclp_induct) (blast intro: platform_next_ok)+

lemma platform_run_runs:
  assumes "platform_next\<^sup>*\<^sup>* x y" and "rn_id r \<in> fst x" and "only_successors r (w_db (snd (snd x)))"
  shows "rn_id r \<in> fst y \<and> only_successors r (w_db (snd (snd y)))"
  using assms by (induction rule: rtranclp_induct) (blast dest: platform_next_runs)+

section \<open>Properties\<close>

definition late_start :: run_started where
  "late_start = \<lparr>rs_tenant = ''t'', rs_agent = ''a'', rs_run = ''r3'', rs_at = 9\<rparr>"

text \<open>
  C3: in every execution of the platform, whatever its services do in whatever order, even when
  the statements of concurrent handlers alternate, whatever calls fail, messages are repeated, lost or forged and the cluster does by itself, the database
  keeps its integrity (keys, references, statuses, one usage row for each run and kind), and a run
  keeps its history: any later row of its identifier has the tenant, agent, inputs, trace and
  creation time it had, the start time once it had one, and is unchanged once it was terminal.
\<close>

theorem platform_keeps_integrity_and_history:
  assumes "platform_next\<^sup>*\<^sup>* (U, h, w) (U', h', w')" and "db_ok (w_db w)"
    and "rn_id ` set (d_runs (w_db w)) \<subseteq> U"
  shows "db_ok (w_db w') \<and>
    (\<forall>r\<in>set (d_runs (w_db w)). \<forall>r'\<in>set (d_runs (w_db w')). rn_id r' = rn_id r \<longrightarrow> run_successor r r')"
proof -
  have "platform_ok (U', h', w')"
    using platform_run_ok [OF assms(1)] assms(2,3) by (simp add: platform_ok_def)
  moreover have "only_successors r (w_db w')" if r: "r \<in> set (d_runs (w_db w))" for r
  proof -
    have "distinct (map rn_id (d_runs (w_db w)))"
      using assms(2) by (simp add: db_ok_def keys_ok_def)
    then have "only_successors r (w_db w)"
      unfolding only_successors_def using r by (metis distinct_map inj_onD run_successor_refl)
    moreover have "rn_id r \<in> U" using r assms(3) by auto
    ultimately show ?thesis using platform_run_runs [OF assms(1), of r] by simp
  qed
  ultimately show ?thesis by (simp add: only_successors_def platform_ok_def)
qed

text \<open>A run of the sample database completes and a stale start message follows.\<close>

theorem platform_keeps_integrity_and_history_witness:
  "db_ok (w_db (snd (snd (handle_started True (Some True) sample_gen (Some (marshal_run_started late_start))
      (new_hub, quiet_world sample_db ()))))) \<and>
   (\<exists>r'. r' \<in> set (d_runs (w_db (snd (snd (handle_started True (Some True) sample_gen (Some (marshal_run_started late_start))
      (new_hub, quiet_world sample_db ())))))) \<and> run_successor (sample_run ''r3'' ''failed'') r')"
proof -
  let ?s = "snd (handle_started True (Some True) sample_gen (Some (marshal_run_started late_start))
    (new_hub, quiet_world sample_db ()))"
  have step: "platform_next ({''r1'', ''r2'', ''r3''}, new_hub, quiet_world sample_db ())
      (insert ''u1'' {''r1'', ''r2'', ''r3''}, fst ?s, snd ?s)"
    unfolding prod.collapse by (rule platform_next.act) (simp, rule platform_act.started)
  have ids: "rn_id ` set (d_runs (w_db (quiet_world sample_db ()))) \<subseteq> {''r1'', ''r2'', ''r3''}"
    by (simp add: quiet_world_def sample_db_def sample_run_def)
  have rows: "sample_run ''r3'' ''failed'' \<in> set (d_runs (w_db (quiet_world sample_db ())))"
    "sample_run ''r3'' ''failed'' \<in> set (d_runs (w_db (snd ?s)))"
    by code_simp+
  have run: "platform_next\<^sup>*\<^sup>* ({''r1'', ''r2'', ''r3''}, new_hub, quiet_world sample_db ())
      (insert ''u1'' {''r1'', ''r2'', ''r3''}, fst ?s, snd ?s)"
    using step by blast
  from platform_keeps_integrity_and_history [OF run _ ids] sample_db_ok
  have "db_ok (w_db (snd ?s))"
    and "\<forall>r\<in>set (d_runs (w_db (quiet_world sample_db ()))). \<forall>r'\<in>set (d_runs (w_db (snd ?s))).
      rn_id r' = rn_id r \<longrightarrow> run_successor r r'"
    by (simp_all add: quiet_world_def)
  with rows show ?thesis by blast
qed

end
