(* ===== verification/Resource_Flow.thy ===== *)
theory Resource_Flow
  imports Custom_Resources Run_Controller Deployment_Controller
begin

text \<open>
  The custom resources in the cluster: whatever the dispatchers and the controllers store, an
  AgentRun or AgentDeployment is at any time one that the definitions of the chart accept, with
  nothing to prune, so that no field of the program's own writes is lost or refused.
\<close>

lemma set_version_kind: "obj_kind (set_version v x) = obj_kind x"
  by (cases x) simp_all

section \<open>A predicate on all stored objects\<close>

definition all_stored :: "('k \<Rightarrow> okey \<rightharpoonup> kobj) \<Rightarrow> (kobj \<Rightarrow> bool) \<Rightarrow> 'k \<Rightarrow> bool" where
  "all_stored view P k \<longleftrightarrow> (\<forall>key x. view k key = Some x \<longrightarrow> P x)"

locale stored_objects =
  fixes K :: "'k kube_api" and view :: "'k \<Rightarrow> okey \<rightharpoonup> kobj" and P :: "kobj \<Rightarrow> bool"
  assumes store: "kube_store K view"
    and other_kinds: "obj_kind x \<noteq> K_Run \<Longrightarrow> obj_kind x \<noteq> K_Agent_Deployment \<Longrightarrow> P x"
begin

lemma get_stored [simp]: "all_stored view P (snd (k_get K key k)) = all_stored view P k"
  by (simp add: all_stored_def kube_store_get(1) [OF store])

lemma got:
  assumes "all_stored view P k" and "fst (k_get K key k) = Inr x"
  shows "P x"
  using assms(1) kube_store_get(2) [OF store assms(2)] unfolding all_stored_def by blast

text \<open>A call that stores at most one object, and that one satisfies \<open>P\<close>.\<close>

lemma put_stored:
  assumes "all_stored view P k" and "P x" and "view k' = view k \<or> view k' = (view k)(key \<mapsto> x)"
  shows "all_stored view P k'"
proof -
  have "P y" if "view k' q = Some y" for q y
    using assms that unfolding all_stored_def by (cases "q = key") (metis fun_upd_apply option.inject)+
  then show ?thesis unfolding all_stored_def by blast
qed

lemma create_stored: "all_stored view P k \<Longrightarrow> P x \<Longrightarrow> all_stored view P (snd (k_create K x k))"
  using kube_store_create_cases [OF store, of x k] by (elim put_stored) blast+

lemma update_stored:
  assumes "all_stored view P k" and "P x"
  shows "all_stored view P (snd (k_update K x k))"
proof (rule put_stored [OF assms])
  show "view (snd (k_update K x k)) = view k \<or> view (snd (k_update K x k)) = (view k)(obj_key x \<mapsto> x)"
    using kube_store_update [OF store, of x k] by (cases "fst (k_update K x k)") blast+
qed

lemma status_stored:
  assumes "all_stored view P k" and "P x"
  shows "all_stored view P (snd (k_status K x k))"
proof (rule put_stored [OF assms])
  show "view (snd (k_status K x k)) = view k \<or> view (snd (k_status K x k)) = (view k)(obj_key x \<mapsto> x)"
    using kube_store_status [OF store, of x k] by (cases "fst (k_status K x k)") blast+
qed

lemma delete_stored:
  assumes "all_stored view P k"
  shows "all_stored view P (snd (k_delete K key k))"
proof -
  have "view (snd (k_delete K key k)) = view k \<or> view (snd (k_delete K key k)) = (view k)(key := None)"
    using kube_store_delete [OF store, of key k] by (cases "fst (k_delete K key k)") blast+
  then show ?thesis
    using assms unfolding all_stored_def by (metis fun_upd_apply option.distinct(1))
qed

lemma quotas_stored:
  assumes "all_stored view P (w_kube w)"
  shows "all_stored view P (w_kube (snd (ensure_tenant_quotas K ns q l w)))"
proof -
  have u: "all_stored view P (w_kube (snd (upsert_ownedlessly K x w)))"
    if "all_stored view P (w_kube w)" "obj_kind x = K_Quota \<or> obj_kind x = K_Limit" for x w
  proof -
    have "P x" and v: "P (set_version v x)" for v
      using that(2) by (auto intro!: other_kinds simp: set_version_kind)
    then show ?thesis
      using that(1) create_stored [OF that(1) \<open>P x\<close>] update_stored
      by (simp add: upsert_ownedlessly_def split_beta split: sum.split)
  qed
  have "all_stored view P (w_kube (snd (ensure_resource_quota K ns q w)))"
    if "all_stored view P (w_kube w)" for w
    using that u [OF that] by (simp add: ensure_resource_quota_def)
  moreover have "all_stored view P (w_kube (snd (ensure_limit_range K ns l w)))"
    if "all_stored view P (w_kube w)" for w
    using that u [OF that] by (simp add: ensure_limit_range_def Let_def)
  ultimately show ?thesis
    using assms by (simp add: ensure_tenant_quotas_def split_beta split: sum.split)
qed

lemma namespace_stored:
  "all_stored view P (w_kube w) \<Longrightarrow> all_stored view P (w_kube (snd (ensure_namespace K ns w)))"
  using other_kinds by (simp add: ensure_namespace_def split_beta create_stored split: sum.split)

lemmas call_stored = create_stored update_stored status_stored delete_stored quotas_stored namespace_stored

end

section \<open>Every step of the controller process\<close>

text \<open>A predicate that the writes of the dispatchers and of the controllers keep.\<close>

locale resource_invariant = stored_objects +
  assumes dispatched_run: "P (O_Run (agent_run_for render e))"
    and any_deployment: "P (O_Agent_Deployment a)"
    and pending_run: "P (O_Run r) \<Longrightarrow> P (O_Run (r\<lparr>ar_status := (ar_status r)\<lparr>rst_phase := PhasePending, rst_job := n\<rparr>\<rparr>))"
    and observed: "P (O_Run r) \<Longrightarrow> P (O_Run (r\<lparr>ar_status := observe_job now j (ar_status r)\<rparr>))"
begin

lemma dispatch_run_stored:
  "all_stored view P (w_kube w) \<Longrightarrow> all_stored view P (w_kube (snd (dispatch_run K q l render msg w)))"
  by (simp add: dispatch_run_def Let_def split_beta call_stored dispatched_run split: option.split sum.split)

lemma dispatch_deployment_stored:
  "all_stored view P (w_kube w) \<Longrightarrow> all_stored view P (w_kube (snd (dispatch_deployment K q l msg w)))"
  by (simp add: dispatch_deployment_def Let_def split_beta call_stored any_deployment
      split: option.split sum.split kobj.split)

lemma dispatch_stop_stored:
  "all_stored view P (w_kube w) \<Longrightarrow> all_stored view P (w_kube (snd (dispatch_stop K msg w)))"
  by (simp add: dispatch_stop_def split_beta call_stored split: option.split sum.split)

lemma reconcile_run_stored:
  assumes "all_stored view P (w_kube w)"
  shows "all_stored view P (w_kube (snd (reconcile_run K b now req w)))"
proof (cases "\<exists>r. fst (k_get K (K_Run, req) (w_kube w)) = Inr (O_Run r)")
  case True
  then obtain r where r: "fst (k_get K (K_Run, req) (w_kube w)) = Inr (O_Run r)" by blast
  have p: "P (O_Run r)" by (rule got [OF assms r])
  have j: "P (O_Job (build_job r n))" for n by (rule other_kinds) simp_all
  show ?thesis
    by (simp add: reconcile_run_def r split_beta Let_def call_stored pending_run [OF p] observed [OF p] j assms
        split: sum.split kobj.split)
qed (use assms in \<open>auto simp: reconcile_run_def split_beta split: sum.split kobj.split\<close>)

lemma upsert_stored:
  assumes "controller_laws L view" and "all_stored view P k" and "\<And>x y. f x = Inr y \<Longrightarrow> P y"
  shows "all_stored view P (snd (cl_upsert L x f k))"
proof -
  from assms(1) have "case fst (cl_upsert L x f k) of
      Inr _ \<Rightarrow> (\<exists>y. mutated (view k) x f = Inr y \<and> view (snd (cl_upsert L x f k)) = (view k)(obj_key x \<mapsto> y))
    | Inl e \<Rightarrow> view (snd (cl_upsert L x f k)) = view k \<or>
        (\<exists>y. mutated (view k) x f = Inr y \<and> view (snd (cl_upsert L x f k)) = (view k)(obj_key x \<mapsto> y))"
    unfolding controller_laws_def by blast
  then consider "view (snd (cl_upsert L x f k)) = view k"
    | y where "mutated (view k) x f = Inr y" "view (snd (cl_upsert L x f k)) = (view k)(obj_key x \<mapsto> y)"
    by (cases "fst (cl_upsert L x f k)") auto
  then show ?thesis
  proof cases
    case 1
    then show ?thesis using assms(2) by (simp add: all_stored_def)
  next
    case 2
    have "P y" using 2(1) assms(3) unfolding mutated_def by blast
    from put_stored [OF assms(2) this] 2(2) show ?thesis by blast
  qed
qed

lemma reconcile_deployment_stored:
  assumes "controller_laws L view" and "all_stored view P k"
  shows "all_stored view P (snd (reconcile_deployment L K req k))"
proof -
  have d: "all_stored view P (snd (apply_deployment L a k))" if "all_stored view P k" for a k
    unfolding apply_deployment_def
    by (rule upsert_stored [OF assms(1) that])
      (auto simp: mutate_deployment_def Let_def intro!: other_kinds split: kobj.splits sum.splits)
  have v: "all_stored view P (snd (apply_service L a k))" if "all_stored view P k" for a k
    unfolding apply_service_def
    by (rule upsert_stored [OF assms(1) that])
      (auto simp: mutate_service_def Let_def intro!: other_kinds split: kobj.splits sum.splits)
  show ?thesis
    by (simp add: reconcile_deployment_def split_beta Let_def d v status_stored any_deployment assms(2)
        split: sum.split kobj.split)
qed

end

section \<open>Validity\<close>

text \<open>The API server takes the object as it is; only custom resources have a definition to meet.\<close>

definition accepted :: "(gotime \<Rightarrow> gotime) \<Rightarrow> (object_meta \<Rightarrow> json) \<Rightarrow> kobj \<Rightarrow> bool" where
  "accepted sec md x =
     (case x of
        O_Run r \<Rightarrow> crd_accepts run_crd (agent_run_json sec md r)
      | O_Agent_Deployment a \<Rightarrow> crd_accepts deployment_crd (agent_deployment_json md a)
      | _ \<Rightarrow> True)"

lemma accepted_simps [simp]:
  "accepted sec md (O_Run r) = phase_known (rst_phase (ar_status r))"
  "accepted sec md (O_Agent_Deployment a) = True"
  "obj_kind x \<noteq> K_Run \<Longrightarrow> obj_kind x \<noteq> K_Agent_Deployment \<Longrightarrow> accepted sec md x"
  by (auto simp: accepted_def run_accepted deployment_accepted split: kobj.split)

lemma observed_phase: "phase_known (rst_phase s) \<Longrightarrow> phase_known (rst_phase (observe_job now j s))"
  by (simp add: observe_job_def phase_known_def)

lemma written_phases:
  "phase_known (rst_phase (ar_status (agent_run_for render e)))" "phase_known PhasePending"
  by (simp_all add: agent_run_for_def no_run_status_def phase_known_def)

lemma accepted_invariant: "kube_store K view \<Longrightarrow> resource_invariant K view (accepted sec md)"
  by unfold_locales (simp_all add: observed_phase written_phases)

interpretation mem_resources: resource_invariant mem_kube mem_view "accepted (\<lambda>t. t) (\<lambda>_. JNull)"
  by (rule accepted_invariant [OF mem_kube_store])

text \<open>
  The custom resources in the cluster stay valid: when every stored AgentRun and
  AgentDeployment, written out with the tags of its type, is accepted by the definitions of the
  chart, required properties, types and the phases included, and loses nothing to pruning, then
  so it is after every handler of the dispatchers and every pass of the controllers, whatever
  the message and whichever calls fail.
\<close>

lemma custom_resources_stay_valid:
  assumes "kube_store K view" and "controller_laws L view" and "all_stored view (accepted sec md) (w_kube w)"
  shows "all_stored view (accepted sec md) (w_kube (snd (dispatch_run K q l render msg w))) \<and>
    all_stored view (accepted sec md) (w_kube (snd (dispatch_deployment K q l msg w))) \<and>
    all_stored view (accepted sec md) (w_kube (snd (dispatch_stop K msg w))) \<and>
    all_stored view (accepted sec md) (w_kube (snd (reconcile_run K b now req w))) \<and>
    all_stored view (accepted sec md) (snd (reconcile_deployment L K req (w_kube w)))"
proof -
  note inv = accepted_invariant [OF assms(1), of sec md]
  note keep = resource_invariant.dispatch_run_stored [OF inv assms(3)]
    resource_invariant.dispatch_deployment_stored [OF inv assms(3)]
    resource_invariant.dispatch_stop_stored [OF inv assms(3)]
    resource_invariant.reconcile_run_stored [OF inv assms(3)]
    resource_invariant.reconcile_deployment_stored [OF inv assms(2,3)]
  show ?thesis by (intro conjI keep)
qed

lemma custom_resources_stay_valid_witness:
  "all_stored mem_view (accepted (\<lambda>t. t) (\<lambda>_. JNull))
    (w_kube (snd (reconcile_run mem_kube True 9 (''tenant-t'', ''r1'') (quiet_world sample_db sample_cluster))))"
proof -
  have "all_stored mem_view (accepted (\<lambda>t. t) (\<lambda>_. JNull)) (w_kube (quiet_world sample_db sample_cluster))"
    by (auto simp: all_stored_def quiet_world_def sample_cluster_def mem_view_Cons sample_agent_run_def phase_known_def
        phase_defs mem_view_def split: if_splits)
  from custom_resources_stay_valid [OF mem_kube_store mem_lib_laws this, of no_quota no_limit "\<lambda>_. []" None True 9]
  show ?thesis by blast
qed

section \<open>The role of the chart\<close>

text \<open>
  The kinds that the cluster role of the chart lets the controller create
  (\<open>controller-deployment.yaml\<close>), and an API server that refuses the others.
\<close>

definition controller_creates :: "kind \<Rightarrow> bool" where
  "controller_creates kd \<longleftrightarrow>
     kd \<in> {K_Run, K_Agent_Deployment, K_Job, K_Pod, K_Service, K_Secret, K_Namespace, K_Deployment}"

definition in_role :: "(kind \<Rightarrow> bool) \<Rightarrow> 'k kube_api \<Rightarrow> 'k kube_api" where
  "in_role allowed K = K\<lparr>k_create := (\<lambda>x k. if allowed (obj_kind x) then k_create K x k else (Inl (Kube_Error ''forbidden''), k))\<rparr>"

text \<open>
  Quotas and limit ranges are not among them: under that role no namespace ever gets one, and
  since the dispatchers go on after a failed quota, nobody is told.
\<close>

lemma chart_refuses_quotas: "snd (ensure_tenant_quotas (in_role controller_creates K) ns q l w) = w"
  by (simp add: ensure_tenant_quotas_def ensure_resource_quota_def ensure_limit_range_def upsert_ownedlessly_def
      in_role_def controller_creates_def kube_call_def Let_def split_beta split: sum.split)

end
