(* ===== verification/Serve_Cycle.thy ===== *)
theory Serve_Cycle
  imports Agents_Api Resource_Flow Gateway
begin

text \<open>
  The way of a deployed agent to its visitors: the API answers a deploy
  (\<open>internal/agents/deploy_handlers.go\<close>), the dispatcher writes the AgentDeployment
  (\<open>deployment_consumer.go\<close>), the controller creates its Deployment and Service
  (\<open>deployment_controller.go\<close>), and the gateway (\<open>cmd/gateway/main.go\<close>) forwards to the
  Service what is sent to the host name of the agent.
\<close>

lemma name_re_host:
  assumes "name_re n"
  shows "n \<noteq> []" "CHR ''.'' \<notin> set n" "CHR '':'' \<notin> set n"
proof -
  have l: "n \<noteq> []" "\<forall>c\<in>set n. label_char c"
    using assms by (auto simp: name_re_dns_label dns_label_def list_all_iff)
  have "\<not> label_char CHR ''.''" "\<not> label_char CHR '':''"
    by (simp_all add: label_char_def alnum_def)
  with l show "n \<noteq> []" "CHR ''.'' \<notin> set n" "CHR '':'' \<notin> set n" by blast+
qed

text \<open>The AgentDeployment an accepted deploy is dispatched to.\<close>

lemma accepted_deploy_dispatched:
  assumes K: "kube_store K view" and wk: "well_keyed view (w_kube w1)" and ctx: "g_trace_ctx g \<noteq> Some []"
    and dep: "deploy_handler Ko bo g (Some i) agent w = (reply, w1)" "fst reply = 202"
    and msg: "w_sent w1 = sent @ [(subj, msg)]"
    and d: "dispatch_deployment K qs ls (Some msg) w1 = (Inr (), w2)"
  shows "\<exists>a x. agents_get (id_tenant i) agent (w_db w) = Inr a \<and> ag_mode a = ModeServer \<and>
    view (w_kube w2) (K_Agent_Deployment, tenant_namespace (id_tenant i), ag_name a) =
      Some (O_Agent_Deployment x) \<and>
    ag_image a = Some (dsp_image (ad_spec x)) \<and>
    - (2 ^ 31) \<le> dsp_port (ad_spec x) \<and> dsp_port (ad_spec x) < 2 ^ 31"
proof -
  have ok: "fst (fst (deploy_handler Ko bo g (Some i) agent w)) = 202"
    and w1: "snd (deploy_handler Ko bo g (Some i) agent w) = w1"
    using dep by simp_all
  obtain a e where a: "agents_get (id_tenant i) agent (w_db w) = Inr a" "ag_mode a = ModeServer"
    "ag_image a = Some (dq_image e)"
    and e: "dq_tenant e = id_tenant i" "dq_agent_name e = ag_name a" "deployment_requested_sendable e"
    and sent: "w_sent w1 = w_sent w @ [(SubjectDeploymentRequested, marshal_deployment_requested e)]"
    using deploy_publishes_the_agent [OF ok ctx] unfolding w1 by auto
  have "msg = marshal_deployment_requested e" using sent msg by simp
  then have u: "unmarshal_deployment_requested (Some msg) = Some e"
    using deployment_requested_wire [OF e(3)] by simp
  have "fst (dispatch_deployment K qs ls (Some msg) w1) = Inr ()" using d by simp
  from applied_deployment [OF K wk u this] obtain x where
    x: "view (w_kube w2) (K_Agent_Deployment, tenant_namespace (id_tenant i), ag_name a) = Some (O_Agent_Deployment x)"
    "ad_spec x = ad_spec (agent_deployment_for e)"
    unfolding d e snd_conv by blast
  from x(2) have "dsp_image (ad_spec x) = dq_image e" "dsp_port (ad_spec x) = dq_port e"
    by (simp_all add: agent_deployment_for_def)
  with a x(1) e(3) show ?thesis
    by (intro exI [of _ a] exI [of _ x]) (simp add: deployment_requested_sendable_def)
qed

text \<open>What the gateway reads of an AgentDeployment is the port that its spec has.\<close>

lemma gateway_reads_port:
  "map_of (unstructured_map (agent_deployment_json md a) ''spec'') ''port'' = Some (JInt (dsp_port (ad_spec a)))"
  by (simp add: agent_deployment_json_def resource_json_def agent_deployment_spec_json_def unstructured_map_def always_def)

section \<open>The property\<close>


text \<open>The agent of the sample database, deployed, reconciled and visited.\<close>

definition deploy_accepted :: "kobj list world" where
  "deploy_accepted = snd (deploy_handler None None sample_gen sample_ctx ''a'' (quiet_world sample_db []))"

definition deploy_dispatched :: "kobj list world" where
  "deploy_dispatched = snd (dispatch_deployment mem_kube no_quota no_limit
     (Some (snd (hd (w_sent deploy_accepted)))) deploy_accepted)"

definition bot_resource :: agent_deployment where
  "bot_resource =
     \<lparr>ad_meta = new_meta ''bot'' ''tenant-t''
        [(''ailab.uipath.com/tenant'', ''t''), (''ailab.uipath.com/agent'', ''a'')] [],
      ad_spec = \<lparr>dsp_tenant = ''t'', dsp_agent = ''a'', dsp_image = ''img'', dsp_port = 9000, dsp_health = ''/h'',
        dsp_idle = [], dsp_env = [], dsp_secrets = [], dsp_secret_ref = []\<rparr>,
      ad_status = \<lparr>dst_url = [], dst_ready = 0, dst_message = []\<rparr>\<rparr>"

definition bot_reconciled :: "kobj list" where
  "bot_reconciled = snd (reconcile_deployment mem_lib mem_kube (''tenant-t'', ''bot'') [O_Agent_Deployment bot_resource])"

lemma bot_reconciles:
  "fst (reconcile_deployment mem_lib mem_kube (''tenant-t'', ''bot'') [O_Agent_Deployment bot_resource]) = Inr ()"
  by (simp add: reconcile_deployment_def apply_deployment_def apply_service_def mem_lib_def mem_kube_def
      mem_view_def mutated_def mutate_deployment_def mutate_service_def new_deployment_def new_service_def
      set_deployment_def merge_map_def set_service_def Let_def mem_without_def mem_replace_def bot_resource_def)

definition bot_visit :: "agent_deployment \<Rightarrow> request" where
  "bot_visit y = \<lparr>rq_host = ''bot.t.run.local'', rq_path = ''/mcp'', rq_now = 1, rq_later = 1,
     rq_lookup = (\<lambda>_ _. Inr (agent_deployment_json (\<lambda>_. JNull) y))\<rparr>"


end
