(* ===== verification/Service_Api.thy ===== *)
theory Service_Api
  imports Clients Platform Cryptobox
begin

text \<open>
  \<open>cmd/api/main.go\<close>: the API process from its environment to its shutdown. What it serves
  between is a list of events, the requests and the messages of the bus in the order in which
  they are handled. \<open>S\<close> holds what lies outside (the cluster, the HTTP of Loki, the crypto
  library); its configuration, box, origins and cluster client are set by the process.
\<close>

section \<open>The status consumer's subscriptions\<close>

definition status_consumer_start :: "('s, bool) proc" where
  "status_consumer_start = do {
     ok \<leftarrow> bus_subscribe ''ailab-api-run-started'' SubjectRunStarted;
     if \<not> ok then State_Monad.return False
     else bus_subscribe ''ailab-api-run-completed'' SubjectRunCompleted }"

section \<open>What the process handles\<close>

datatype api_event =
    Serve gen api_request
  | Started_Message gen wire
  | Completed_Message gen wire
  | Live_Message string wire

definition api_pool :: "api_config \<Rightarrow> resource" where "api_pool cfg = R_Postgres (ac_database_url cfg)"

definition api_bus :: "api_config \<Rightarrow> resource" where "api_bus cfg = R_Bus (ac_nats_url cfg)"

definition api_event_step ::
  "'k api_server \<Rightarrow> bool \<Rightarrow> api_event \<Rightarrow> (hub \<times> 'k world, unit) proc" where
  "api_event_step S live_feed ev =
     (let rs = [api_pool (av_config S), api_bus (av_config S)] in
      case ev of
        Serve g q \<Rightarrow> work rs () (\<lambda>s. ((), snd (api_serve S g q s)))
      | Started_Message g msg \<Rightarrow> work rs () (\<lambda>s. ((), snd (handle_started True (Some True) g msg s)))
      | Completed_Message g msg \<Rightarrow> work rs () (\<lambda>s. ((), snd (handle_completed True (Some True) g msg s)))
      | Live_Message subject msg \<Rightarrow>
          if live_feed then work rs () (\<lambda>(h, w). ((), deliver_from_bus subject msg h, w))
          else State_Monad.return ())"

section \<open>The process\<close>

definition api_server_of :: "environ \<Rightarrow> 'k api_server \<Rightarrow> box \<Rightarrow> bool \<Rightarrow> 'k api_server" where
  "api_server_of e S bx cluster =
     S\<lparr>av_config := load_api e, av_origins := default_cors_origins (e ''API_CORS_ORIGINS''), av_box := bx,
       av_kube := (if cluster then av_kube S else None)\<rparr>"

definition must_logger :: "('s, unit) proc" where
  "must_logger = do {
     ok \<leftarrow> attempt (Called ''zap.NewProduction'' []);
     if ok then State_Monad.return () else panic }"

definition api_verifier :: "api_config \<Rightarrow> ('s, unit) proc" where
  "api_verifier cfg =
     (if dev_mode cfg then State_Monad.return ()
      else do { ok \<leftarrow> new_workos_verifier (ac_jwks_url cfg); ensure ok })"

text \<open>The goroutine that listens, and the end of \<open>main\<close> once the signal has come.\<close>

definition api_listening :: "api_config \<Rightarrow> ('s, unit) proc" where
  "api_listening cfg = require (Called ''ListenAndServe'' (ac_listen cfg))"

definition api_shutdown :: "('s, unit) proc" where
  "api_shutdown = do {
     perform (Called ''srv.Shutdown'' []);
     finish }"

definition api_main ::
  "environ \<Rightarrow> aead \<Rightarrow> 'k api_server \<Rightarrow> api_event list \<Rightarrow> (hub \<times> 'k world, unit) proc" where
  "api_main e A S evs = do {
     must_logger;
     acquire (telemetry_init e ''api'') (R_Telemetry ''api'');
     acquire (db_open (ac_database_url (load_api e))) (api_pool (load_api e));
     acquire (bus_connect (ac_nats_url (load_api e))) (api_bus (load_api e));
     (case new_from_hex A (ac_secrets_key (load_api e)) of
        Inl _ \<Rightarrow> fatal
      | Inr bx \<Rightarrow> do {
          cluster \<leftarrow> kube_new;
          live_feed \<leftarrow> subscribe_raw (run_events_prefix @ ''>'');
          consuming \<leftarrow> status_consumer_start;
          ensure consuming;
          api_verifier (load_api e);
          api_listening (load_api e);
          each (api_event_step (api_server_of e S bx cluster) live_feed) evs;
          api_shutdown }) }"

section \<open>Lemmas\<close>

lemma api_server_of_config [simp]: "av_config (api_server_of e S bx cluster) = load_api e"
  by (simp add: api_server_of_def)

lemma is_bus_api [simp]: "is_bus (api_bus cfg)" "\<not> is_bus (api_pool cfg)"
  by (simp_all add: is_bus_def api_bus_def api_pool_def)

lemma keeps_status_consumer_start [keeping]:
  "list_ex is_bus rs \<Longrightarrow> keeps rs status_consumer_start (\<lambda>_. rs)"
  unfolding status_consumer_start_def
  by (intro keeps_if keeps_then keeps_return keeps_bus_subscribe)

lemma keeps_api_event_step [keeping]:
  assumes "{api_pool (av_config S), api_bus (av_config S)} \<subseteq> set rs"
  shows "keeps rs (api_event_step S live_feed ev) (\<lambda>_. rs)"
  using assms by (cases ev) (simp_all add: api_event_step_def Let_def keeps_work keeps_if keeps_return)

lemma keeps_api_verifier [keeping]: "keeps rs (api_verifier cfg) (\<lambda>_. rs)"
  unfolding api_verifier_def by (intro keeping)

lemma keeps_must_logger [keeping]: "keeps rs must_logger (\<lambda>_. rs)"
  unfolding must_logger_def by (intro keeps_then keeps_if keeps_return keeps_panic keeps_calls)

lemma api_main_disciplined: "keeps [] (api_main e A S evs) (\<lambda>_. rs)"
proof -
  let ?rs = "[api_bus (load_api e), api_pool (load_api e), R_Telemetry ''api'']"
  have serve: "keeps ?rs (each (api_event_step (api_server_of e S bx cluster) live_feed) evs) (\<lambda>_. ?rs)"
    for bx cluster live_feed
    by (intro keeps_each keeps_api_event_step) simp
  have "keeps ?rs (case new_from_hex A (ac_secrets_key (load_api e)) of Inl _ \<Rightarrow> fatal | Inr bx \<Rightarrow> do {
          cluster \<leftarrow> kube_new;
          live_feed \<leftarrow> subscribe_raw (run_events_prefix @ ''>'');
          consuming \<leftarrow> status_consumer_start;
          ensure consuming;
          api_verifier (load_api e);
          api_listening (load_api e);
          each (api_event_step (api_server_of e S bx cluster) live_feed) evs;
          api_shutdown }) (\<lambda>_. rs)"
    by (cases "new_from_hex A (ac_secrets_key (load_api e))")
      (simp_all add: keeps_fatal keeps_finish keeps_then keeps_clients keeps_calls keeps_ensure keeps_require
        keeps_api_verifier keeps_status_consumer_start keeps_subscribe_raw api_listening_def api_shutdown_def serve)
  then show ?thesis
    unfolding api_main_def
    by (intro keeps_acquire_then keeps_clients keeps_then [OF keeps_must_logger])
qed

text \<open>Whatever is served, the database is changed by repository steps only.\<close>

fun event_uuids :: "api_event \<Rightarrow> string set" where
  "event_uuids (Serve g q) = {g_uuid g}"
| "event_uuids _ = {}"

lemma each_state_keeps: "(\<And>e. e \<in> set es \<Longrightarrow> state_keeps P (m e)) \<Longrightarrow> state_keeps P (each m es)"
  by (induction es) (auto intro!: state_keeping)

lemma api_main_traces:
  assumes "\<Union> (event_uuids ` set evs) \<subseteq> N"
  shows "state_keeps (\<lambda>s. repo_steps N d (w_db (snd s))) (api_main e A S evs)"
proof -
  let ?P = "\<lambda>s. repo_steps N d (w_db (snd s))"
  have ev: "state_keeps ?P (api_event_step S' live_feed ev)" if "ev \<in> set evs" for S' live_feed ev
  proof -
    have u: "event_uuids ev \<subseteq> N" using that assms by blast
    have w: "state_keeps ?P (work rs () f)"
      if "\<And>h w. repo_steps N d (w_db w) \<Longrightarrow> repo_steps N d (w_db (snd (snd (f (h, w)))))" for rs f
      using that by (intro state_keeps_work) (metis prod.collapse)
    show ?thesis
      using u by (cases ev)
        (simp_all add: api_event_step_def Let_def w api_traces status_traces state_keeps_return)
  qed
  have served: "state_keeps ?P (each (api_event_step S' live_feed) evs)" for S' live_feed
    by (rule each_state_keeps) (rule ev)
  show ?thesis
    unfolding api_main_def must_logger_def api_verifier_def status_consumer_start_def
    by (cases "new_from_hex A (ac_secrets_key (load_api e))")
      (simp_all add: api_listening_def api_shutdown_def state_keeps_bind state_keeps_steps state_keeps_clients state_keeps_return
        state_keeps_acquire served)
qed

end
