(* ===== verification/Service_Workers.thy ===== *)
theory Service_Workers
  imports Service_Api Gateway Go_Duration
begin

text \<open>
  The other processes, each from its environment to its end: \<open>cmd/builder\<close>,
  \<open>cmd/controller\<close>, \<open>cmd/triggers\<close>, \<open>cmd/janitor\<close>, \<open>cmd/billing\<close> and \<open>cmd/gateway\<close>. As for the
  API, what a process does between start and shutdown is a list of events.
\<close>

abbreviation pool_of :: "environ \<Rightarrow> resource" where "pool_of e \<equiv> api_pool (load_api e)"

abbreviation bus_of :: "environ \<Rightarrow> resource" where "bus_of e \<equiv> api_bus (load_api e)"

abbreviation open_pool :: "environ \<Rightarrow> ('s, unit) proc" where
  "open_pool e \<equiv> acquire (db_open (ac_database_url (load_api e))) (pool_of e)"

abbreviation open_bus :: "environ \<Rightarrow> ('s, unit) proc" where
  "open_bus e \<equiv> acquire (bus_connect (ac_nats_url (load_api e))) (bus_of e)"

section \<open>The builder\<close>

definition builder_flag :: "environ \<Rightarrow> string \<Rightarrow> bool" where
  "builder_flag e key \<longleftrightarrow> to_lower (getenv e key) \<in> set [''true'', ''1'', ''yes'']"

definition builder_config :: "environ \<Rightarrow> build_config" where
  "builder_config e =
     \<lparr>bf_registry = env_or e ''BUILDER_REGISTRY'' [],
      bf_namespace = env_or e ''BUILDER_NAMESPACE'' ''ailab-builds'',
      bf_kaniko = env_or e ''BUILDER_KANIKO_IMAGE'' ''gcr.io/kaniko-project/executor:v1.23.2'',
      bf_trivy = builder_flag e ''BUILDER_TRIVY_ENABLED'',
      bf_trivy_image = env_or e ''BUILDER_TRIVY_IMAGE'' ''aquasec/trivy:latest'',
      bf_severity = env_or e ''BUILDER_TRIVY_SEVERITY'' ''HIGH,CRITICAL'',
      bf_cosign = builder_flag e ''BUILDER_COSIGN_ENABLED'',
      bf_cosign_image = env_or e ''BUILDER_COSIGN_IMAGE'' ''gcr.io/projectsigstore/cosign:v2.4.1'',
      bf_cosign_secret = env_or e ''BUILDER_COSIGN_SECRET'' [],
      bf_key_path = env_or e ''BUILDER_COSIGN_KEY_PATH'' ''/keys/cosign.key'',
      bf_build_timeout = 30 * minute, bf_scan_timeout = 10 * minute, bf_sign_timeout = 5 * minute\<rparr>"

definition create_build_namespace :: "'k kube_api \<Rightarrow> string \<Rightarrow> 'k world \<Rightarrow> bool \<times> 'k world" where
  "create_build_namespace K name w =
     (case kube_call (k_create K (O_Namespace (new_meta name [] [] []))) w of
        (Inr _, w1) \<Rightarrow> (True, w1)
      | (Inl err, w1) \<Rightarrow> (err = Exists, w1))"

definition builder_main ::
  "environ \<Rightarrow> 'k kube_api \<Rightarrow> (gotime \<Rightarrow> nat) \<Rightarrow> (gotime \<times> wire) list \<Rightarrow> ('k world, unit) proc" where
  "builder_main e K lat msgs = do {
     ensure (bf_cosign (builder_config e) \<longrightarrow> bf_cosign_secret (builder_config e) \<noteq> []);
     acquire (telemetry_init e ''builder'') (R_Telemetry ''builder'');
     open_pool e;
     open_bus e;
     cluster \<leftarrow> kube_new;
     ensure cluster;
     ok \<leftarrow> work [] False (create_build_namespace K (bf_namespace (builder_config e)));
     ensure ok;
     subscribed \<leftarrow> bus_subscribe ''ailab-builder'' SubjectBuildRequested;
     ensure subscribed;
     each (\<lambda>(now, msg). work [pool_of e, bus_of e] ()
       (\<lambda>w. ((), snd (build_consumer K (builder_config e) lat now msg w)))) msgs;
     finish }"

section \<open>The controller\<close>

definition controller_quota :: "environ \<Rightarrow> quota_spec" where
  "controller_quota e =
     \<lparr>qs_cpu = env_or e ''CONTROLLER_TENANT_QUOTA_CPU'' ''8'',
      qs_memory = env_or e ''CONTROLLER_TENANT_QUOTA_MEMORY'' ''16Gi'',
      qs_pods = env_or e ''CONTROLLER_TENANT_QUOTA_PODS'' ''50''\<rparr>"

definition controller_limit :: "environ \<Rightarrow> limit_spec" where
  "controller_limit e =
     \<lparr>ls_default_cpu = env_or e ''CONTROLLER_TENANT_LIMIT_DEFAULT_CPU'' ''200m'',
      ls_default_memory = env_or e ''CONTROLLER_TENANT_LIMIT_DEFAULT_MEMORY'' ''256Mi'',
      ls_max_cpu = env_or e ''CONTROLLER_TENANT_LIMIT_MAX_CPU'' ''4'',
      ls_max_memory = env_or e ''CONTROLLER_TENANT_LIMIT_MAX_MEMORY'' ''8Gi''\<rparr>"

definition run_dispatch_start :: "('s, bool) proc" where
  "run_dispatch_start = bus_subscribe ''ailab-controller-run-requested'' SubjectRunRequested"

text \<open>Which of the two subscriptions were made; the second is tried after the first only.\<close>

definition deployment_dispatch_start :: "('s, bool \<times> bool) proc" where
  "deployment_dispatch_start = do {
     ok \<leftarrow> bus_subscribe ''ailab-controller-deployment-requested'' SubjectDeploymentRequested;
     if \<not> ok then State_Monad.return (False, False)
     else do {
       ok2 \<leftarrow> bus_subscribe ''ailab-controller-deployment-stopped'' SubjectDeploymentStopped;
       State_Monad.return (True, ok2) } }"

definition agent_run_setup :: "('s, unit) proc" where
  "agent_run_setup = require (Called ''SetupWithManager'' ''AgentRun owns Job'')"

definition agent_deployment_setup :: "('s, unit) proc" where
  "agent_deployment_setup = require (Called ''SetupWithManager'' ''AgentDeployment owns Deployment, Service'')"

datatype controller_event =
    Reconcile_Run gotime "string \<times> string"
  | Reconcile_Agent "string \<times> string"
  | Run_Requested wire
  | Deployment_Wanted wire
  | Deployment_Ended wire

definition controller_step ::
  "environ \<Rightarrow> 'k kube_api \<Rightarrow> 'k controller_lib \<Rightarrow> (json_obj \<Rightarrow> string) \<Rightarrow> bool \<Rightarrow> bool \<times> bool \<Rightarrow> controller_event
    \<Rightarrow> 'k world \<Rightarrow> 'k world" where
  "controller_step e K L render dispatching deploying ev w =
     (case ev of
        Reconcile_Run now req \<Rightarrow> snd (reconcile_run K True now req w)
      | Reconcile_Agent req \<Rightarrow> w\<lparr>w_kube := snd (reconcile_deployment L K req (w_kube w))\<rparr>
      | Run_Requested msg \<Rightarrow>
          if dispatching
          then snd (dispatch_run K (controller_quota e) (controller_limit e) render msg w) else w
      | Deployment_Wanted msg \<Rightarrow>
          if fst deploying
          then snd (dispatch_deployment K (controller_quota e) (controller_limit e) msg w) else w
      | Deployment_Ended msg \<Rightarrow> if snd deploying then snd (dispatch_stop K msg w) else w)"

definition controller_main ::
  "environ \<Rightarrow> 'k kube_api \<Rightarrow> 'k controller_lib \<Rightarrow> (json_obj \<Rightarrow> string) \<Rightarrow> controller_event list
    \<Rightarrow> ('k world, unit) proc" where
  "controller_main e K L render evs = do {
     require (Called ''AddToScheme'' ''ailab.uipath.com/v1alpha1'');
     acquire (telemetry_init e ''controller'') (R_Telemetry ''controller'');
     open_bus e;
     require (Called ''ctrl.GetConfigOrDie'' []);
     require (Called ''ctrl.NewManager'' (cc_metrics (load_controller e)));
     agent_run_setup;
     agent_deployment_setup;
     require (Called ''mgr.Start'' (if cc_leader (load_controller e) then ''ailab-controller'' else []));
     dispatching \<leftarrow> run_dispatch_start;
     deploying \<leftarrow> deployment_dispatch_start;
     each (\<lambda>ev. work [bus_of e] () (\<lambda>w. ((), controller_step e K L render dispatching deploying ev w))) evs;
     finish }"

section \<open>The cron scheduler\<close>

text \<open>An entry fires while it is registered with the cron library: \<open>entry\<close> reads its table.\<close>

datatype cron_event = Refresh_Tick | Cron_Fires gen int

definition cron_step ::
  "'c cron_api \<Rightarrow> (string \<Rightarrow> string) \<Rightarrow> ('c \<Rightarrow> int \<rightharpoonup> trigger) \<Rightarrow> cron_event
    \<Rightarrow> ('c \<times> registry) \<times> 'k world \<Rightarrow> ('c \<times> registry) \<times> 'k world" where
  "cron_step C hash entry ev s =
     (case ev of
        Refresh_Tick \<Rightarrow> snd (refresh C hash (fst s) (snd s))
      | Cron_Fires g i \<Rightarrow>
          (case entry (fst (fst s)) i of
             None \<Rightarrow> s
           | Some t \<Rightarrow> (fst s, snd (fire g t (snd s)))))"

definition triggers_main ::
  "environ \<Rightarrow> aead \<Rightarrow> 'c cron_api \<Rightarrow> (string \<Rightarrow> string) \<Rightarrow> ('c \<Rightarrow> int \<rightharpoonup> trigger) \<Rightarrow> cron_event list
    \<Rightarrow> (('c \<times> registry) \<times> 'k world, unit) proc" where
  "triggers_main e A C hash entry evs = do {
     acquire (telemetry_init e ''triggers'') (R_Telemetry ''triggers'');
     open_pool e;
     open_bus e;
     ensure (case new_from_hex A (ac_secrets_key (load_api e)) of Inl _ \<Rightarrow> False | Inr _ \<Rightarrow> True);
     defer_release R_Cron;
     work [pool_of e, R_Cron] () (\<lambda>s. ((), cron_step C hash entry Refresh_Tick s));
     defer_release (R_Ticker (30 * second));
     each (\<lambda>ev. work [pool_of e, bus_of e, R_Cron] () (\<lambda>s. ((), cron_step C hash entry ev s))) evs;
     finish }"

section \<open>The janitor\<close>

definition env_duration :: "(nat \<Rightarrow> nat \<Rightarrow> nat \<Rightarrow> nat) \<Rightarrow> environ \<Rightarrow> string \<Rightarrow> duration \<Rightarrow> duration" where
  "env_duration fr e key def =
     (if getenv e key = [] then def
      else (case parse_duration fr (getenv e key) of None \<Rightarrow> def | Some d \<Rightarrow> d))"

definition janitor_interval :: "(nat \<Rightarrow> nat \<Rightarrow> nat \<Rightarrow> nat) \<Rightarrow> environ \<Rightarrow> duration" where
  "janitor_interval fr e = env_duration fr e ''JANITOR_INTERVAL'' (30 * minute)"

definition janitor_for :: "(nat \<Rightarrow> nat \<Rightarrow> nat \<Rightarrow> nat) \<Rightarrow> environ \<Rightarrow> exporter option \<Rightarrow> janitor" where
  "janitor_for fr e x =
     \<lparr>jn_job_ttl = env_duration fr e ''JANITOR_JOB_TTL'' (24 * hour),
      jn_build_stuck = env_duration fr e ''JANITOR_BUILD_STUCK_TTL'' (6 * hour),
      jn_usage_ttl = env_duration fr e ''JANITOR_USAGE_TTL'' (90 * 24 * hour),
      jn_exporter = x,
      jn_interval = env_duration fr e ''JANITOR_AUDIT_EXPORT_INTERVAL'' (24 * hour),
      jn_last = 0\<rparr>"

definition janitor_exporter :: "environ \<Rightarrow> ('s, error + exporter option) proc" where
  "janitor_exporter e = do {
     aws \<leftarrow> (if getenv e ''AUDIT_EXPORT_BUCKET'' = [] then State_Monad.return True
            else attempt (Called ''awsconfig.LoadDefaultConfig'' (getenv e ''AWS_REGION'')));
     State_Monad.return (new_exporter (if aws then Inr () else Inl (ErrText ''aws''))
       \<lparr>xc_bucket = getenv e ''AUDIT_EXPORT_BUCKET'', xc_prefix = getenv e ''AUDIT_EXPORT_PREFIX'', xc_batch = 0\<rparr>) }"

text \<open>\<open>time.NewTicker\<close> panics unless its interval is positive.\<close>

definition new_ticker :: "duration \<Rightarrow> ('s, unit) proc" where
  "new_ticker d = (if d \<le> 0 then panic else defer_release (R_Ticker d))"

definition janitor_main ::
  "(nat \<Rightarrow> nat \<Rightarrow> nat \<Rightarrow> nat) \<Rightarrow> environ \<Rightarrow> 'k kube_api \<Rightarrow> (gotime \<Rightarrow> string)
    \<Rightarrow> (string \<Rightarrow> string \<Rightarrow> json list \<Rightarrow> error + unit) \<Rightarrow> (gen \<times> (nat \<Rightarrow> gotime)) \<Rightarrow> (gen \<times> (nat \<Rightarrow> gotime)) list
    \<Rightarrow> (janitor \<times> 'k world, unit) proc" where
  "janitor_main fr e K date put first ticks = do {
     open_pool e;
     cluster \<leftarrow> kube_new;
     ensure cluster;
     made \<leftarrow> janitor_exporter e;
     ensure (case made of Inl _ \<Rightarrow> False | Inr _ \<Rightarrow> True);
     work [] () (\<lambda>(_, w). ((), janitor_for fr e (case made of Inr x \<Rightarrow> x | Inl _ \<Rightarrow> None), w));
     work [pool_of e] () (\<lambda>(j, w). ((), janitor_tick K date put (fst first) (snd first) j w));
     new_ticker (janitor_interval fr e);
     each (\<lambda>(g, clock). work [pool_of e] () (\<lambda>(j, w). ((), janitor_tick K date put g clock j w))) ticks;
     finish }"

section \<open>The billing shipper\<close>

definition shipper_interval :: duration where "shipper_interval = 30 * second"

definition shipper_run ::
  "resource \<Rightarrow> (rat \<Rightarrow> json) \<Rightarrow> shipper \<Rightarrow> orb_client \<Rightarrow> (gotime \<times> (http_request \<Rightarrow> error + (nat \<times> string))) list
    \<Rightarrow> ('k world, unit) proc" where
  "shipper_run pool qt s orb ticks = do {
     new_ticker shipper_interval;
     each (\<lambda>(now, http). work [pool] () (\<lambda>w. ((), fst (snd (ship_tick qt s (orb_ship orb http) now w))))) ticks }"

definition billing_main ::
  "environ \<Rightarrow> (rat \<Rightarrow> json) \<Rightarrow> (gotime \<times> (http_request \<Rightarrow> error + (nat \<times> string))) list \<Rightarrow> ('k world, unit) proc" where
  "billing_main e qt ticks = do {
     ensure (getenv e ''ORB_API_KEY'' \<noteq> []);
     open_pool e;
     shipper_run (pool_of e) qt (new_shipper ''orb'') (new_orb (getenv e ''ORB_API_KEY'') (getenv e ''ORB_API_URL''))
       ticks;
     finish }"

section \<open>The gateway\<close>

definition gateway_proxy :: "environ \<Rightarrow> bool \<Rightarrow> bool" where
  "gateway_proxy e inside =
     (let v = env_or e ''GATEWAY_USE_K8S_PROXY'' ''auto'' in
      if v = ''true'' then True else if v = ''false'' then False else \<not> inside)"

definition gateway_for :: "environ \<Rightarrow> bool \<Rightarrow> url \<Rightarrow> gateway" where
  "gateway_for e inside host =
     \<lparr>gw_domain = env_or e ''GATEWAY_DOMAIN'' ''run.local'', gw_api_proxy = gateway_proxy e inside,
      gw_api_host = host\<rparr>"

definition gateway_main ::
  "environ \<Rightarrow> (bool \<Rightarrow> url option) \<Rightarrow> (json \<Rightarrow> int) \<Rightarrow> (forwarded \<Rightarrow> error + (nat \<times> string)) \<Rightarrow> request list
    \<Rightarrow> (cache, unit) proc" where
  "gateway_main e api_host to_int upstream rs = do {
     (ok, inside) \<leftarrow> load_kube_config;
     ensure ok;
     require (Called ''dynamic.NewForConfig'' []);
     require (Called ''rest.HTTPClientFor'' []);
     (case api_host inside of
        None \<Rightarrow> fatal
      | Some host \<Rightarrow> do {
          work [] () (\<lambda>_. ((), new_cache (5 * second)));
          require (Called ''ListenAndServe'' (env_or e ''GATEWAY_LISTEN_ADDR'' '':8083''));
          each (\<lambda>r. work [] ()
            (\<lambda>c. ((), snd (snd (serve_http (gateway_for e inside host) to_int upstream r c))))) rs;
          perform (Called ''srv.Shutdown'' []);
          finish }) }"

section \<open>Discipline\<close>

lemmas keeps_main =
  keeps_then keeps_acquire_then keeps_clients keeps_calls keeps_ensure keeps_return keeps_finish
  keeps_panic keeps_fatal keeps_require keeps_bus_subscribe keeps_each keeps_work

text \<open>A step that opens a resource for what follows.\<close>

lemma keeps_defer_then: "(\<And>x. keeps (r # rs) (f x) rs') \<Longrightarrow> keeps rs (State_Monad.bind (defer_release r) f) rs'"
  by (rule keeps_bind [OF keeps_defer_release])

lemma keeps_ticker_then:
  assumes "\<And>x. keeps (R_Ticker d # rs) (f x) rs'"
  shows "keeps rs (State_Monad.bind (new_ticker d) f) rs'"
proof (rule keeps_bind)
  show "keeps rs (new_ticker d) (\<lambda>_. R_Ticker d # rs)"
    by (simp add: new_ticker_def keeps_panic keeps_defer_release)
qed (rule assms)

lemma keeps_dispatch_starts:
  assumes "list_ex is_bus rs"
  shows "keeps rs run_dispatch_start (\<lambda>_. rs)" "keeps rs deployment_dispatch_start (\<lambda>_. rs)"
  using assms by (simp_all add: run_dispatch_start_def deployment_dispatch_start_def keeps_main keeps_if)

lemma builder_main_disciplined: "keeps [] (builder_main e K lat msgs) (\<lambda>_. rs)"
  by (simp add: builder_main_def split_beta keeps_main)

lemma controller_main_disciplined: "keeps [] (controller_main e K L render evs) (\<lambda>_. rs)"
  by (simp add: controller_main_def agent_run_setup_def agent_deployment_setup_def keeps_main keeps_dispatch_starts)

lemma triggers_main_disciplined: "keeps [] (triggers_main e A C hash entry evs) (\<lambda>_. rs)"
  by (simp add: triggers_main_def keeps_main keeps_defer_then)

lemma janitor_main_disciplined: "keeps [] (janitor_main fr e K date put first ticks) (\<lambda>_. rs)"
  by (simp add: janitor_main_def janitor_exporter_def split_beta keeps_main keeps_if keeps_ticker_then)

lemma billing_main_disciplined: "keeps [] (billing_main e qt ticks) (\<lambda>_. rs)"
  by (simp add: billing_main_def shipper_run_def split_beta keeps_main keeps_ticker_then)

lemma gateway_main_disciplined: "keeps [] (gateway_main e api_host to_int upstream rq) (\<lambda>_. rs)"
  by (simp add: gateway_main_def split_beta keeps_main split: option.split)

lemma mains_end:
  "ends (api_main e A S evs)" "ends (builder_main e K lat msgs)" "ends (controller_main e K L render cevs)"
  "ends (triggers_main e A C hash entry tevs)" "ends (janitor_main fr e K date put first ticks)"
  "ends (billing_main e qt bticks)" "ends (gateway_main e api_host to_int upstream rq)"
  unfolding api_main_def api_shutdown_def builder_main_def controller_main_def triggers_main_def janitor_main_def
    billing_main_def gateway_main_def
  by (simp_all add: ends_bind split_beta split: sum.split option.split)

section \<open>What the processes do to the database\<close>

lemmas state_keeps_main = state_keeps_bind state_keeps_if state_keeps_steps state_keeps_clients state_keeps_return
  state_keeps_acquire state_keeps_each

text \<open>A step of a process on a world alone, and on a world beside something else.\<close>

lemma state_keeps_world_work:
  assumes "\<And>w. repo_steps N d (w_db w) \<Longrightarrow> repo_steps N d (w_db (snd (f w)))"
  shows "state_keeps (\<lambda>w. repo_steps N d (w_db w)) (work rs x f)"
  using assms by (rule state_keeps_work)

lemma state_keeps_pair_work:
  assumes "\<And>a w. repo_steps N d (w_db w) \<Longrightarrow> repo_steps N d (w_db (snd (snd (f (a, w)))))"
  shows "state_keeps (\<lambda>s. repo_steps N d (w_db (snd s))) (work rs x f)"
  using assms by (intro state_keeps_work) (metis prod.collapse)

lemma create_build_namespace_db [simp]: "w_db (snd (create_build_namespace K n w)) = w_db w"
  by (simp add: create_build_namespace_def kube_call_def split: sum.split)

lemma builder_main_traces: "state_keeps (\<lambda>w. repo_steps N d (w_db w)) (builder_main e K lat msgs)"
  by (simp add: builder_main_def split_beta state_keeps_main state_keeps_world_work handle_build_traces)

lemma controller_step_db [simp]: "w_db (controller_step e K L render b c ev w) = w_db w"
  by (cases ev) (simp_all add: controller_step_def)

lemma controller_main_traces: "state_keeps (\<lambda>w. repo_steps N d (w_db w)) (controller_main e K L render evs)"
  by (simp add: controller_main_def agent_run_setup_def agent_deployment_setup_def run_dispatch_start_def
      deployment_dispatch_start_def state_keeps_main state_keeps_world_work)

fun cron_uuids :: "cron_event \<Rightarrow> string set" where
  "cron_uuids Refresh_Tick = {}"
| "cron_uuids (Cron_Fires g i) = {g_uuid g}"

lemma refresh_db [simp]: "w_db (snd (snd (refresh C hash s w))) = w_db w"
  by (simp add: refresh_def split_beta split: sum.split)

lemma cron_step_traces:
  assumes "cron_uuids ev \<subseteq> N" and "repo_steps N d (w_db (snd s))"
  shows "repo_steps N d (w_db (snd (cron_step C hash entry ev s)))"
  using assms runs_handlers_traces(3) by (cases ev) (auto simp: cron_step_def split: option.split)

lemma cron_work_traces:
  "cron_uuids ev \<subseteq> N \<Longrightarrow>
    state_keeps (\<lambda>s. repo_steps N d (w_db (snd s))) (work rs () (\<lambda>s. ((), cron_step C hash entry ev s)))"
  using cron_step_traces by (intro state_keeps_work) simp

lemma cron_each_traces:
  assumes "\<Union> (cron_uuids ` set evs) \<subseteq> N"
  shows "state_keeps (\<lambda>s. repo_steps N d (w_db (snd s)))
    (each (\<lambda>ev. work rs () (\<lambda>s. ((), cron_step C hash entry ev s))) evs)"
  using assms by (intro each_state_keeps cron_work_traces) blast

lemma triggers_main_traces:
  assumes "\<Union> (cron_uuids ` set evs) \<subseteq> N"
  shows "state_keeps (\<lambda>s. repo_steps N d (w_db (snd s))) (triggers_main e A C hash entry evs)"
  unfolding triggers_main_def
  by (intro state_keeps_bind state_keeps_acquire state_keeps_clients state_keeps_steps cron_work_traces
      cron_each_traces assms) simp

lemma janitor_main_traces:
  "state_keeps (\<lambda>s. repo_steps N d (w_db (snd s))) (janitor_main fr e K date put first ticks)"
  by (simp add: janitor_main_def janitor_exporter_def new_ticker_def split_beta state_keeps_main
      state_keeps_pair_work janitor_traces)

lemma billing_main_traces: "state_keeps (\<lambda>w. repo_steps N d (w_db w)) (billing_main e qt ticks)"
  by (simp add: billing_main_def shipper_run_def new_ticker_def split_beta state_keeps_main
      state_keeps_world_work worker_traces)

section \<open>Properties\<close>


text \<open>
  The janitor's interval is not checked: a zero or negative one, which is a legal duration,
  panics in \<open>time.NewTicker\<close> after the first tick, and so does every restart.
\<close>

lemma zero_interval_panics:
  "janitor_interval fr (e(''JANITOR_INTERVAL'' \<mapsto> ''0s'')) = 0"
  "d \<le> 0 \<Longrightarrow> ps_status p = P_Running \<Longrightarrow> ps_status (snd (run_state (new_ticker d) p)) = P_Panicked"
proof -
  have "parse_duration fr (show_nat 0 @ ''s'') = Some (int (0 * 1000000000))"
    by (rule parse_whole_duration) (simp_all add: duration_unit_def)
  moreover have "show_nat 0 = ''0''" by code_simp
  ultimately show "janitor_interval fr (e(''JANITOR_INTERVAL'' \<mapsto> ''0s'')) = 0"
    by (simp add: janitor_interval_def env_duration_def getenv_def)
  show "d \<le> 0 \<Longrightarrow> ps_status p = P_Running \<Longrightarrow> ps_status (snd (run_state (new_ticker d) p)) = P_Panicked"
    by (simp add: new_ticker_def panic_def leave_def)
qed

end
