(* ===== verification/Shortfalls.thy ===== *)
theory Shortfalls
  imports Cron_Scheduler Hub Deployment_Controller
begin

text \<open>
  What the handlers do not do although a comment or the purpose of the code asks for it: the
  event stream that misses the end of its run, the runs that get no secrets, the deployments
  that outlive their agent, and the environment whose order is not stable.
\<close>

section \<open>The event stream\<close>

text \<open>
  \<open>streamEvents\<close> (\<open>internal/runs/events_handler.go\<close>) in its two parts: reading the row, and
  subscribing and looking at the status that was read. Other goroutines run in between.
\<close>

definition stream_look :: "bool \<Rightarrow> bool \<Rightarrow> ctx \<Rightarrow> string \<Rightarrow> 'k world \<Rightarrow> (sse + run) \<times> 'k world" where
  "stream_look has_hub can_flush c run w =
     (if \<not> has_hub then (Inl (Sse_Error (http_error ''events unavailable: hub not configured'' 503)), w)
      else (case from_context c of
              None \<Rightarrow> (Inl (Sse_Error unauthorized), w)
            | Some i \<Rightarrow>
                (case db_read (runs_get (id_tenant i) run) w of
                   (Inl e, w1) \<Rightarrow>
                     (Inl (Sse_Error (if is_not_found e then http_error ''not found'' 404
                                      else http_error (err_text e) 500)), w1)
                 | (Inr r, w1) \<Rightarrow>
                     if \<not> can_flush then (Inl (Sse_Error (http_error ''streaming unsupported'' 500)), w1)
                     else (Inr r, w1))))"

definition stream_attach :: "string \<Rightarrow> run \<Rightarrow> hub \<Rightarrow> sse \<times> hub" where
  "stream_attach run r h =
     (case subscribe run h of (k, h1) \<Rightarrow>
        if terminal_status (rn_status r)
        then (Sse_Finished [(''completed'', terminal_summary r)], cancel_sub k h1)
        else (Sse_Live k, h1))"

text \<open>With nothing in between the two parts are \<open>stream_open\<close>.\<close>

lemma stream_open_parts:
  "stream_open has_hub can_flush c run (h, w) =
     (case stream_look has_hub can_flush c run w of
        (Inl x, w1) \<Rightarrow> (x, (h, w1))
      | (Inr r, w1) \<Rightarrow> (case stream_attach run r h of (x, h1) \<Rightarrow> (x, (h1, w1))))"
  by (simp add: stream_open_def stream_look_def stream_attach_def split_beta split: option.split sum.split)

text \<open>
  When the run completes between the two parts, the completed event is delivered before the
  subscription exists: the stream is live, its buffer holds nothing, and since a run completes
  once no event that would end it is to come.
\<close>

lemma completion_between_is_missed:
  assumes "stream_look has_hub can_flush c run w = (Inr r, w1)" and "\<not> terminal_status (rn_status r)"
    and "stream_attach run r (deliver_local run e h) = (x, h1)"
  shows "x = Sse_Live (hb_next h) \<and> map_of (hb_subs h1) (hb_next h) = Some \<lparr>sub_run = run, sub_buffer = []\<rparr>"
  using assms(2,3) by (auto simp: stream_attach_def subscribe_def deliver_local_def)

text \<open>Had the subscription come first, the event would be in its buffer.\<close>

lemma subscription_first_sees_it:
  "subscribe run h = (k, h1) \<Longrightarrow>
    map_of (hb_subs (deliver_local run e h1)) k = Some \<lparr>sub_run = run, sub_buffer = [e]\<rparr>"
  by (auto simp: subscribe_def deliver_local_def offer_def buffer_size_def)

section \<open>Runs without secrets\<close>

text \<open>
  Only a manual trigger projects the secrets of the manifest: what the webhook receiver
  (\<open>internal/triggers/handlers.go\<close>) and the scheduler (\<open>cmd/triggers/main.go\<close>) publish names no
  secret, whatever the manifest asks for.
\<close>

definition sends_no_secret :: "'k world \<Rightarrow> 'k world \<Rightarrow> bool" where
  "sends_no_secret w w' \<longleftrightarrow>
     w_sent w' = w_sent w \<or>
     (\<exists>q. rq_secret_ref q = [] \<and> w_sent w' = w_sent w @ [(SubjectRunRequested, marshal_run_requested q)])"

lemma publish_no_secret:
  "w_sent w' = w_sent w \<Longrightarrow>
    sends_no_secret w (snd (publish SubjectRunRequested (marshal_run_requested (run_event g t a r i [])) w'))"
  using publish_sent [of SubjectRunRequested "marshal_run_requested (run_event g t a r i [])" w']
  by (auto simp: sends_no_secret_def intro!: exI [of _ "run_event g t a r i []"] simp: run_event_def)

lemma webhook_runs_get_no_secrets:
  "sends_no_secret w (snd (webhook_handler hmac parse b g c agent name header bytes w))"
proof -
  have same: "w_sent w' = w_sent w'' \<Longrightarrow> sends_no_secret w w' \<longleftrightarrow> sends_no_secret w w''" for w' w'' :: "'a world"
    by (simp add: sends_no_secret_def)
  have "sends_no_secret w (audit_log g i a t r m w') \<longleftrightarrow> sends_no_secret w w'" for i a t r m and w' :: "'a world"
    by (rule same) simp
  then show ?thesis
    by (auto simp: webhook_handler_def split_beta publish_no_secret split: sum.split option.split)
      (simp_all add: sends_no_secret_def)
qed

lemma cron_runs_get_no_secrets: "sends_no_secret w (snd (fire g t w))"
  by (auto simp: fire_def split_beta publish_no_secret split: sum.split)
    (simp_all add: sends_no_secret_def)

section \<open>Deleting an agent\<close>

text \<open>
  \<open>deployment.stopped\<close> is documented as emitted when an agent is deleted, and the API document
  says that its deployments are stopped: the handler publishes nothing and leaves the cluster
  alone.
\<close>

lemma deleting_stops_nothing:
  "w_sent (snd (agents_delete_handler g c agent w)) = w_sent w"
  "w_kube (snd (agents_delete_handler g c agent w)) = w_kube w"
  by (simp_all add: agents_delete_handler_def split_beta split: option.split sum.split)

section \<open>The order of the environment\<close>

text \<open>
  The environment of an agent's container follows the order in which Go ranges over a map. Two
  reconciles that range differently write different Deployments, which restarts the pods.
\<close>

lemma range_order_shows:
  assumes "mutate_deployment L ad (O_Deployment d) = Inr (O_Deployment x)"
    and "mutate_deployment (L\<lparr>cl_order := order\<rparr>) ad (O_Deployment d) = Inr (O_Deployment y)"
    and "order (dsp_env (ad_spec ad)) \<noteq> cl_order L (dsp_env (ad_spec ad))"
  shows "x \<noteq> y"
proof -
  have "inj (\<lambda>(k, v). Env_Value k v)" by (auto simp: inj_on_def)
  then have "map (\<lambda>(k, v). Env_Value k v) (order (dsp_env (ad_spec ad))) \<noteq>
      map (\<lambda>(k, v). Env_Value k v) (cl_order L (dsp_env (ad_spec ad)))"
    using assms(3) by (simp add: inj_map_eq_map)
  moreover have "ct_env (hd (dp_containers x)) = env_from_map L (dsp_env (ad_spec ad))"
    using assms(1) by (auto simp: mutate_deployment_def set_deployment_def merge_map_def set_container_def Let_def
        split: sum.splits list.splits)
  moreover have "ct_env (hd (dp_containers y)) = env_from_map (L\<lparr>cl_order := order\<rparr>) (dsp_env (ad_spec ad))"
    using assms(2) by (auto simp: mutate_deployment_def set_deployment_def merge_map_def set_container_def Let_def
        split: sum.splits list.splits)
  ultimately show ?thesis by (auto simp: env_from_map_def)
qed

section \<open>Streams and the request timeout\<close>

text \<open>
  \<open>middleware.Timeout\<close> is mounted on every route of the API: the context of a request ends this
  long after its start.
\<close>

definition request_timeout :: duration where
  "request_timeout = 30 * second"

text \<open>
  The loop of the event stream with its clock: an event that comes while the context lives is
  handled, and the end of the context ends the loop.
\<close>

definition stream_within :: "gotime \<Rightarrow> (gotime \<times> run_event) list \<Rightarrow> frame list" where
  "stream_within begun evs =
     fst (stream_frames (map snd (takeWhile (\<lambda>(t, _). t < begun + request_timeout) evs)))"

text \<open>A stream shows the completion of a run only if it comes within the timeout.\<close>

lemma long_run_is_not_seen_to_end:
  assumes "\<And>t e. (t, e) \<in> set evs \<Longrightarrow> re_kind e = ''completed'' \<Longrightarrow> begun + request_timeout \<le> t"
  shows "''completed'' \<notin> fst ` set (stream_within begun evs)"
proof -
  have no: "''completed'' \<notin> fst ` set (fst (stream_frames es))" if "\<forall>e\<in>set es. re_kind e \<noteq> ''completed''" for es
    using that
  proof (induction es)
    case (Cons e es)
    then have "snd (stream_event e)" "''completed'' \<notin> fst ` set (fst (stream_event e))"
      by (auto simp: stream_event_def split: option.splits)
    with Cons show ?case by (cases "stream_event e") (auto simp: split_beta)
  qed simp
  show ?thesis
    unfolding stream_within_def by (rule no) (use assms in \<open>fastforce dest: set_takeWhileD\<close>)
qed

end
